(* ===== verification/Prelude.thy ===== *)
theory Prelude
  imports Complex_Main "HOL-Library.AList" "HOL-Library.List_Lexorder" "HOL-Library.Char_ord"
    "HOL-Library.Code_Target_Nat"
begin

text \<open>
  The Python values the components share, and the generic lemmas about them.

  \<^item> A Python \<open>dict\<close> keeps its keys in insertion order and the code iterates over it, so it is
    an association list with distinct keys (\<open>wf_dict\<close>): \<open>d[k] = v\<close> is \<open>AList.update\<close> (in place,
    or at the end for a new key), \<open>d.pop(k, None)\<close> is \<open>AList.delete\<close>, \<open>d.get(k, v)\<close> is
    \<open>dict_get\<close>.
  \<^item> A finite \<open>float\<close> is the rational number it denotes, and arithmetic on it is exact:
    binary64 rounding and overflow are not modelled. Where the code tests
    \<open>math.isfinite\<close> the value is a \<open>pyfloat\<close>, which has the infinities and NaN too.
  \<^item> A \<open>str\<close> is a \<open>string\<close> of ASCII characters; \<open>upper\<close>, \<open>lower\<close> and \<open>strip\<close> are the ASCII part
    of \<open>str.upper\<close>, \<open>str.lower\<close> and \<open>str.strip\<close>. The order on strings is Python's, the
    lexicographic one.
  \<^item> An exception is a value of \<open>py_error\<close>, and a call that may raise returns
    \<open>py_error + 'a\<close>; where the code mutates an object before it raises, the call returns the
    object beside the result.
  \<^item> A value of unknown type (\<open>Any\<close>, JSON metadata) is a \<open>pyval\<close>.
\<close>

named_theorems dict_simps "lookup, keys and sums of updated dictionaries"
named_theorems result_splits "case splits for results and options"

section \<open>Errors\<close>

datatype py_error =
    ValueError string
  | KeyError string
  | IndexError string
  | TypeError string
  | AttributeError string
  | ZeroDivisionError
  | ValidationError
  | PriceUnavailableError string
  | AccountFrozenError string
  | PendingOrderNotFoundError string
  | StrategyDataUnavailableError string
  | CashAllocationError string
  | InsufficientSleeveLotQuantity string
  | StrategyExecutionPlanError string
  | PaperStrategyExecutionError string
  | FileNotFoundError string
  | FileExistsError string
  | OSError string

type_synonym 'a result = "py_error + 'a"

lemmas result_case_splits [result_splits] = sum.splits option.splits if_splits

section \<open>Dictionaries\<close>

type_synonym ('k, 'v) dict = "('k \<times> 'v) list"

abbreviation wf_dict :: "('k, 'v) dict \<Rightarrow> bool" where
  "wf_dict d \<equiv> distinct (map fst d)"

definition dict_get :: "('k, 'v) dict \<Rightarrow> 'k \<Rightarrow> 'v \<Rightarrow> 'v" where
  "dict_get d k v = (case map_of d k of None \<Rightarrow> v | Some x \<Rightarrow> x)"

text \<open>\<open>{f(k, v): g(k, v) for k, v in \<dots>}\<close> and \<open>dict(pairs)\<close>: the last value of a key wins.\<close>

definition dict_of :: "('k \<times> 'v) list \<Rightarrow> ('k, 'v) dict" where
  "dict_of ps = foldl (\<lambda>d p. AList.update (fst p) (snd p) d) [] ps"

definition dict_total :: "('k, rat) dict \<Rightarrow> rat" where
  "dict_total d = sum_list (map snd d)"

lemma dict_get_update [dict_simps, simp]:
  "dict_get (AList.update k v d) k' x = (if k' = k then v else dict_get d k' x)"
  by (simp add: dict_get_def update_conv')

lemma dict_get_delete [dict_simps, simp]:
  "dict_get (AList.delete k d) k' x = (if k' = k then x else dict_get d k' x)"
  by (simp add: dict_get_def delete_conv')

lemma dict_get_Nil [simp]: "dict_get [] k x = x"
  by (simp add: dict_get_def)

lemma map_of_update [dict_simps, simp]:
  "map_of (AList.update k v d) k' = (if k' = k then Some v else map_of d k')"
  by (simp add: update_conv')

lemma map_of_delete [dict_simps, simp]:
  "map_of (AList.delete k d) k' = (if k' = k then None else map_of d k')"
  by (simp add: delete_conv')

lemma keys_update [dict_simps, simp]: "fst ` set (AList.update k v d) = insert k (fst ` set d)"
  by (induction d) auto

lemma keys_delete [dict_simps, simp]: "fst ` set (AList.delete k d) = fst ` set d - {k}"
  by (auto simp: AList.delete_eq image_iff)

lemma wf_dict_update [simp, intro]: "wf_dict d \<Longrightarrow> wf_dict (AList.update k v d)"
  by (rule distinct_update)

lemma wf_dict_delete [simp, intro]: "wf_dict d \<Longrightarrow> wf_dict (AList.delete k d)"
  by (rule distinct_delete)

lemma map_of_map_entry' [dict_simps, simp]:
  "map_of (AList.map_entry k f d) k' = (if k' = k then map_option f (map_of d k) else map_of d k')"
  by (simp add: map_of_map_entry split: option.splits)

lemma keys_map_entry [dict_simps, simp]: "map fst (AList.map_entry k f d) = map fst d"
  by (induction d) auto

lemma update_absent: "k \<notin> fst ` set d \<Longrightarrow> AList.update k v d = d @ [(k, v)]"
  by (induction d) auto

lemma delete_absent: "k \<notin> fst ` set d \<Longrightarrow> AList.delete k d = d"
  by (induction d) (auto simp: AList.delete_eq)

lemma map_of_absent: "k \<notin> fst ` set d \<Longrightarrow> map_of d k = None"
  by (induction d) auto

lemma set_update_subset: "set (AList.update k v d) \<subseteq> insert (k, v) (set d)"
  by (induction d) auto

lemma set_update_wf:
  "wf_dict d \<Longrightarrow> set (AList.update k v d) = insert (k, v) {p \<in> set d. fst p \<noteq> k}"
  by (induction d) (auto simp: image_iff)

lemma set_delete: "set (AList.delete k d) = {p \<in> set d. fst p \<noteq> k}"
  by (auto simp: AList.delete_eq)

text \<open>A sum over the entries of a dictionary, and what an update or a deletion does to it.\<close>

lemma sum_entries_update:
  fixes f :: "'k \<Rightarrow> 'v \<Rightarrow> rat"
  shows "wf_dict d \<Longrightarrow> (\<Sum>(k', x) \<leftarrow> AList.update k v d. f k' x) =
    (\<Sum>(k', x) \<leftarrow> d. f k' x) - (case map_of d k of None \<Rightarrow> 0 | Some x \<Rightarrow> f k x) + f k v"
proof (induction d)
  case Nil
  then show ?case by simp
next
  case (Cons p d)
  then show ?case
    by (cases p) (auto simp: map_of_absent split: option.splits)
qed

lemma sum_entries_delete:
  fixes f :: "'k \<Rightarrow> 'v \<Rightarrow> rat"
  shows "wf_dict d \<Longrightarrow> (\<Sum>(k', x) \<leftarrow> AList.delete k d. f k' x) =
    (\<Sum>(k', x) \<leftarrow> d. f k' x) - (case map_of d k of None \<Rightarrow> 0 | Some x \<Rightarrow> f k x)"
proof (induction d)
  case Nil
  then show ?case by (simp add: AList.delete_eq)
next
  case (Cons p d)
  then show ?case
    by (cases p) (auto simp: map_of_absent delete_absent split: option.splits)
qed

lemma dict_total_entries: "dict_total d = (\<Sum>(k, x) \<leftarrow> d. x)"
  unfolding dict_total_def by (rule arg_cong [where f = sum_list]) auto

lemma dict_total_Nil [simp]: "dict_total [] = 0"
  by (simp add: dict_total_def)

lemma dict_total_Cons [simp]: "dict_total ((k, x) # d) = x + dict_total d"
  by (simp add: dict_total_def)

lemma dict_total_append [simp]: "dict_total (d @ e) = dict_total d + dict_total e"
  by (simp add: dict_total_def)

lemma dict_total_update [dict_simps]:
  "wf_dict d \<Longrightarrow> dict_total (AList.update k v d) = dict_total d - dict_get d k 0 + v"
  by (simp add: dict_total_entries sum_entries_update dict_get_def split: option.splits)

lemma dict_total_delete [dict_simps]:
  "wf_dict d \<Longrightarrow> dict_total (AList.delete k d) = dict_total d - dict_get d k 0"
  by (simp add: dict_total_entries sum_entries_delete dict_get_def split: option.splits)

lemma dict_total_nonneg: "(\<And>k x. (k, x) \<in> set d \<Longrightarrow> 0 \<le> x) \<Longrightarrow> 0 \<le> dict_total d"
  unfolding dict_total_def by (rule sum_list_nonneg) auto

lemma dict_get_le_total:
  assumes "wf_dict d" and "\<And>k x. (k, x) \<in> set d \<Longrightarrow> 0 \<le> x"
  shows "dict_get d k 0 \<le> dict_total d"
proof -
  have "0 \<le> dict_total (AList.delete k d)"
    using assms(2) by (intro dict_total_nonneg) (auto simp: set_delete)
  then show ?thesis using assms(1) by (simp add: dict_total_delete)
qed

lemma dict_of_snoc: "dict_of (ps @ [p]) = AList.update (fst p) (snd p) (dict_of ps)"
  by (simp add: dict_of_def)

lemma wf_dict_of [simp, intro]: "wf_dict (dict_of ps)"
  by (induction ps rule: rev_induct) (simp_all add: dict_of_snoc, simp add: dict_of_def)

lemma map_of_dict_of: "map_of (dict_of ps) = map_of (rev ps)"
proof (induction ps rule: rev_induct)
  case Nil
  then show ?case by (simp add: dict_of_def)
next
  case (snoc p ps)
  then show ?case by (cases p) (auto simp: dict_of_snoc fun_eq_iff)
qed

lemma keys_dict_of [simp]: "fst ` set (dict_of ps) = fst ` set ps"
proof (induction ps rule: rev_induct)
  case Nil
  then show ?case by (simp add: dict_of_def)
next
  case (snoc p ps)
  then show ?case by (simp add: dict_of_snoc)
qed

text \<open>A dictionary rebuilt under keys that do not clash is the same dictionary, entry by entry.\<close>

lemma dict_of_distinct: "distinct (map fst ps) \<Longrightarrow> dict_of ps = ps"
proof (induction ps rule: rev_induct)
  case Nil
  then show ?case by (simp add: dict_of_def)
next
  case (snoc p ps)
  then show ?case by (simp add: dict_of_snoc update_absent image_iff split: prod.splits)
qed

text \<open>\<open>sorted(set(a) | set(b))\<close> over the keys of dictionaries.\<close>

definition sorted_keys :: "('k::linorder) list \<Rightarrow> 'k list" where
  "sorted_keys ks = sort (remdups ks)"

lemma set_sorted_keys [simp]: "set (sorted_keys ks) = set ks"
  by (simp add: sorted_keys_def)

lemma distinct_sorted_keys [simp]: "distinct (sorted_keys ks)"
  by (simp add: sorted_keys_def)

lemma sorted_sorted_keys [simp]: "sorted (sorted_keys ks)"
  by (simp add: sorted_keys_def)

section \<open>Floats\<close>

datatype pyfloat = Fin rat | PosInf | NegInf | NaN

fun isfinite :: "pyfloat \<Rightarrow> bool" where
  "isfinite (Fin x) = True"
| "isfinite _ = False"

text \<open>\<open>x <= 0\<close>: false for NaN, as every comparison with NaN is.\<close>

fun le_zero :: "pyfloat \<Rightarrow> bool" where
  "le_zero (Fin x) = (x \<le> 0)"
| "le_zero NegInf = True"
| "le_zero _ = False"

fun fin :: "pyfloat \<Rightarrow> rat" where
  "fin (Fin x) = x"
| "fin _ = 0"

lemma isfinite_iff: "isfinite x \<longleftrightarrow> (\<exists>r. x = Fin r)"
  by (cases x) auto

lemma usable_price_iff: "isfinite x \<and> \<not> le_zero x \<longleftrightarrow> (\<exists>r. x = Fin r \<and> 0 < r)"
  by (cases x) auto

text \<open>Sums and finite multiples, with the rules of infinities and NaN.\<close>

fun pf_add :: "pyfloat \<Rightarrow> pyfloat \<Rightarrow> pyfloat" where
  "pf_add (Fin x) (Fin y) = Fin (x + y)"
| "pf_add (Fin x) y = y"
| "pf_add x (Fin y) = x"
| "pf_add PosInf PosInf = PosInf"
| "pf_add NegInf NegInf = NegInf"
| "pf_add _ _ = NaN"

fun pf_scale :: "rat \<Rightarrow> pyfloat \<Rightarrow> pyfloat" where
  "pf_scale q (Fin x) = Fin (q * x)"
| "pf_scale q NaN = NaN"
| "pf_scale q PosInf = (if q = 0 then NaN else if 0 < q then PosInf else NegInf)"
| "pf_scale q NegInf = (if q = 0 then NaN else if 0 < q then NegInf else PosInf)"

definition pf_sum :: "pyfloat list \<Rightarrow> pyfloat" where
  "pf_sum xs = foldl pf_add (Fin 0) xs"

lemma pf_sum_Fin: "pf_sum (map (\<lambda>x. Fin (f x)) xs) = Fin (sum_list (map f xs))"
proof -
  have "foldl pf_add (Fin y) (map (\<lambda>x. Fin (f x)) xs) = Fin (y + sum_list (map f xs))" for y
    by (induction xs arbitrary: y) (simp_all add: add.assoc)
  then show ?thesis by (simp add: pf_sum_def)
qed

section \<open>Strings\<close>

definition upper_char :: "char \<Rightarrow> char" where
  "upper_char c = (let n = of_char c :: nat in if 97 \<le> n \<and> n \<le> 122 then char_of (n - 32) else c)"

definition lower_char :: "char \<Rightarrow> char" where
  "lower_char c = (let n = of_char c :: nat in if 65 \<le> n \<and> n \<le> 90 then char_of (n + 32) else c)"

definition upper :: "string \<Rightarrow> string" where
  "upper s = map upper_char s"

definition lower :: "string \<Rightarrow> string" where
  "lower s = map lower_char s"

definition is_space :: "char \<Rightarrow> bool" where
  "is_space c = (let n = of_char c :: nat in (9 \<le> n \<and> n \<le> 13) \<or> (28 \<le> n \<and> n \<le> 32))"

definition strip :: "string \<Rightarrow> string" where
  "strip s = rev (dropWhile is_space (rev (dropWhile is_space s)))"

definition starts_with :: "string \<Rightarrow> string \<Rightarrow> bool" where
  "starts_with p s = (take (length p) s = p)"

definition remove_prefix :: "string \<Rightarrow> string \<Rightarrow> string" where
  "remove_prefix p s = (if starts_with p s then drop (length p) s else s)"

text \<open>\<open>repr(s)\<close> of a string without quotes and control characters.\<close>

definition repr_str :: "string \<Rightarrow> string" where
  "repr_str s = [CHR 0x27] @ s @ [CHR 0x27]"

definition join :: "string \<Rightarrow> string list \<Rightarrow> string" where
  "join sep ss = (case ss of [] \<Rightarrow> [] | t # ts \<Rightarrow> t @ concat (map (\<lambda>u. sep @ u) ts))"

lemma upper_char_idem [simp]: "upper_char (upper_char c) = upper_char c"
proof -
  have "of_char (char_of (n - 32) :: char) = n - 32" if "n \<le> 122" for n :: nat
    using that by (simp add: of_char_of)
  then show ?thesis by (auto simp: upper_char_def Let_def)
qed

lemma upper_idem [simp]: "upper (upper s) = upper s"
  by (simp add: upper_def)

lemma upper_Nil_iff [simp]: "upper s = [] \<longleftrightarrow> s = []"
  by (simp add: upper_def)

lemma remove_prefix_append [simp]: "remove_prefix p (p @ s) = s"
  by (simp add: remove_prefix_def starts_with_def)

lemma starts_with_append [simp]: "starts_with p (p @ s)"
  by (simp add: starts_with_def)

text \<open>Decimal digits, and the \<open>%0wd\<close> and \<open>%.nf\<close> formats the log messages use.\<close>

fun nat_str :: "nat \<Rightarrow> string" where
  "nat_str n = (if n < 10 then [char_of (48 + n)] else nat_str (n div 10) @ [char_of (48 + n mod 10)])"

declare nat_str.simps [simp del]

definition zero_pad :: "nat \<Rightarrow> string \<Rightarrow> string" where
  "zero_pad w s = replicate (w - length s) (CHR ''0'') @ s"

definition round_half_even :: "rat \<Rightarrow> int" where
  "round_half_even x =
     (let f = \<lfloor>x\<rfloor>; r = x - of_int f
      in if r < 1 / 2 then f else if 1 / 2 < r then f + 1 else if even f then f else f + 1)"

definition fmt_fixed :: "nat \<Rightarrow> rat \<Rightarrow> string" where
  "fmt_fixed d x =
     (let n = nat (round_half_even (\<bar>x\<bar> * 10 ^ d))
      in (if x < 0 then ''-'' else []) @ nat_str (n div 10 ^ d)
         @ (if d = 0 then [] else ''.'' @ zero_pad d (nat_str (n mod 10 ^ d))))"

lemma round_half_even_near: "\<bar>of_int (round_half_even x) - x\<bar> \<le> 1 / 2"
proof -
  have "of_int \<lfloor>x\<rfloor> \<le> x" and "x < of_int \<lfloor>x\<rfloor> + 1"
    by linarith+
  then show ?thesis
    by (auto simp: round_half_even_def Let_def)
qed

text \<open>Reading the digits back: distinct numbers print differently, padded or not.\<close>

definition str_nat :: "string \<Rightarrow> nat" where
  "str_nat s = foldl (\<lambda>a c. 10 * a + (of_char c - 48)) 0 s"

lemma str_nat_nat_str [simp]: "str_nat (nat_str n) = n"
proof (induction n rule: nat_str.induct)
  case (1 n)
  have digit: "of_char (char_of (48 + d) :: char) = 48 + d" if "d < 10" for d :: nat
    using that by (simp add: of_char_of)
  show ?case
  proof (cases "n < 10")
    case True
    then show ?thesis by (subst nat_str.simps) (simp add: str_nat_def digit)
  next
    case False
    have "str_nat (nat_str n) = str_nat (nat_str (n div 10) @ [char_of (48 + n mod 10)])"
      using False by (subst nat_str.simps) simp
    also have "\<dots> = 10 * str_nat (nat_str (n div 10)) + n mod 10"
      by (simp add: str_nat_def digit)
    finally show ?thesis using 1 [OF False] by simp
  qed
qed

lemma str_nat_zero_pad [simp]: "str_nat (zero_pad w s) = str_nat s"
proof -
  have "foldl (\<lambda>a c. 10 * a + (of_char c - 48)) 0 (replicate k (CHR ''0'')) = (0 :: nat)" for k
    by (induction k) simp_all
  then show ?thesis by (simp add: zero_pad_def str_nat_def)
qed

lemma zero_pad_nat_str_inj: "zero_pad w (nat_str m) = zero_pad w (nat_str n) \<longleftrightarrow> m = n"
  by (metis str_nat_nat_str str_nat_zero_pad)

lemma nat_str_nonempty [simp]: "nat_str n \<noteq> []"
  by (subst nat_str.simps) simp

section \<open>Values of unknown type\<close>

datatype pyval =
    VNone
  | VBool bool
  | VInt int
  | VFloat pyfloat
  | VStr string
  | VList "pyval list"
  | VDict "(string \<times> pyval) list"

fun truthy :: "pyval \<Rightarrow> bool" where
  "truthy VNone = False"
| "truthy (VBool b) = b"
| "truthy (VInt n) = (n \<noteq> 0)"
| "truthy (VFloat x) = (x \<noteq> Fin 0)"
| "truthy (VStr s) = (s \<noteq> [])"
| "truthy (VList vs) = (vs \<noteq> [])"
| "truthy (VDict d) = (d \<noteq> [])"

text \<open>\<open>metadata.get(key)\<close>, and \<open>metadata.get(key) is True\<close>.\<close>

type_synonym metadata = "(string, pyval) dict"

definition meta_get :: "metadata \<Rightarrow> string \<Rightarrow> pyval" where
  "meta_get m k = dict_get m k VNone"

definition meta_true :: "metadata \<Rightarrow> string \<Rightarrow> bool" where
  "meta_true m k \<longleftrightarrow> meta_get m k = VBool True"

lemma meta_get_Nil [simp]: "meta_get [] k = VNone"
  by (simp add: meta_get_def)

lemma meta_get_update [simp]:
  "meta_get (AList.update k v m) k' = (if k' = k then v else meta_get m k')"
  by (simp add: meta_get_def)

text \<open>The number a value is in a comparison.\<close>

fun py_num :: "pyval \<Rightarrow> pyfloat option" where
  "py_num (VBool b) = Some (Fin (if b then 1 else 0))"
| "py_num (VInt n) = Some (Fin (of_int n))"
| "py_num (VFloat x) = Some x"
| "py_num _ = None"

text \<open>\<open>x == y\<close>: numbers by value, dicts as maps, and NaN equal to nothing.\<close>

function py_eq :: "pyval \<Rightarrow> pyval \<Rightarrow> bool" where
  "py_eq (VList xs) w = (case w of
      VList ys \<Rightarrow> length xs = length ys \<and> (\<forall>(x, y) \<in> set (zip xs ys). py_eq x y)
    | _ \<Rightarrow> False)"
| "py_eq (VDict d) w = (case w of
      VDict e \<Rightarrow> length d = length e \<and> (\<forall>(k, v) \<in> set d. case map_of e k of None \<Rightarrow> False | Some u \<Rightarrow> py_eq v u)
    | _ \<Rightarrow> False)"
| "py_eq VNone w = (w = VNone)"
| "py_eq (VStr s) w = (w = VStr s)"
| "py_eq (VBool b) w = (py_num w = py_num (VBool b))"
| "py_eq (VInt n) w = (py_num w = py_num (VInt n))"
| "py_eq (VFloat x) w = (x \<noteq> NaN \<and> py_num w = Some x)"
  by pat_completeness auto
termination
proof (relation "measure (\<lambda>(v, w). size v)", goal_cases)
  case 1
  then show ?case by simp
next
  case (2 xs w ys z x y)
  then have "x \<in> set xs" by (auto dest: set_zip_leftD)
  then show ?case
    using size_list_estimation' [of x xs "size x" size] by simp
next
  case (3 d w e z k v u)
  then have "(k, v) \<in> set d" by simp
  then show ?case
    using size_list_estimation' [of "(k, v)" d "size v" "size_prod (\<lambda>_. 0) size"] by simp
qed

text \<open>\<open>{**d, **e}\<close>.\<close>

definition dict_merge :: "('k, 'v) dict \<Rightarrow> ('k \<times> 'v) list \<Rightarrow> ('k, 'v) dict" where
  "dict_merge d e = foldl (\<lambda>d (k, v). AList.update k v d) d e"

text \<open>Sequencing: the first error ends the computation.\<close>

definition rbind :: "'a result \<Rightarrow> ('a \<Rightarrow> 'b result) \<Rightarrow> 'b result" where
  "rbind r f = (case r of Inl e \<Rightarrow> Inl e | Inr x \<Rightarrow> f x)"

lemma rbind_simps [simp]: "rbind (Inl e) f = Inl e" "rbind (Inr x) f = f x"
  by (simp_all add: rbind_def)

lemma rbind_Inr: "rbind r f = Inr y \<longleftrightarrow> (\<exists>x. r = Inr x \<and> f x = Inr y)"
  by (cases r) simp_all

fun map_result :: "('a \<Rightarrow> 'b result) \<Rightarrow> 'a list \<Rightarrow> 'b list result" where
  "map_result f [] = Inr []"
| "map_result f (x # xs) = rbind (f x) (\<lambda>y. rbind (map_result f xs) (\<lambda>ys. Inr (y # ys)))"

lemma map_result_inverse: "(\<And>x. x \<in> set xs \<Longrightarrow> f (g x) = Inr x) \<Longrightarrow> map_result f (map g xs) = Inr xs"
  by (induction xs) simp_all

section \<open>Runs of a state machine\<close>

text \<open>
  What every component with an invariant has: a step function over its events, and an invariant
  that every admissible event keeps. The run lemmas are proved here once; each component's theory
  interprets the locale on its own step function.
\<close>

locale invariant_machine =
  fixes step :: "'s \<Rightarrow> 'e \<Rightarrow> 's"
    and admissible :: "'e \<Rightarrow> bool"
    and inv :: "'s \<Rightarrow> bool"
  assumes step_inv: "inv s \<Longrightarrow> admissible e \<Longrightarrow> inv (step s e)"
begin

lemma run_inv: "inv s \<Longrightarrow> list_all admissible es \<Longrightarrow> inv (foldl step s es)"
  by (induction es arbitrary: s) (auto intro: step_inv)

end

text \<open>A machine that also never raises a quantity: equity, an open balance, a remaining size.\<close>

locale decreasing_machine = invariant_machine step admissible inv
  for step :: "'s \<Rightarrow> 'e \<Rightarrow> 's" and admissible :: "'e \<Rightarrow> bool" and inv :: "'s \<Rightarrow> bool" +
  fixes measured :: "'s \<Rightarrow> rat"
  assumes step_le: "inv s \<Longrightarrow> admissible e \<Longrightarrow> measured (step s e) \<le> measured s"
begin

lemma run_le: "inv s \<Longrightarrow> list_all admissible es \<Longrightarrow> measured (foldl step s es) \<le> measured s"
proof (induction es arbitrary: s)
  case Nil
  then show ?case by simp
next
  case (Cons e es)
  then have "measured (foldl step (step s e) es) \<le> measured (step s e)"
    by (auto intro: step_inv)
  also have "\<dots> \<le> measured s"
    using Cons.prems by (auto intro: step_le)
  finally show ?case by simp
qed

end

text \<open>A step function that implements another one through an abstraction of its state.\<close>

locale simulation = invariant_machine step admissible inv
  for step :: "'s \<Rightarrow> 'e \<Rightarrow> 's" and admissible :: "'e \<Rightarrow> bool" and inv :: "'s \<Rightarrow> bool" +
  fixes spec :: "'a \<Rightarrow> 'e \<Rightarrow> 'a" and abstraction :: "'s \<Rightarrow> 'a"
  assumes simulates: "inv s \<Longrightarrow> admissible e \<Longrightarrow> abstraction (step s e) = spec (abstraction s) e"
begin

lemma run_simulates:
  "inv s \<Longrightarrow> list_all admissible es \<Longrightarrow> abstraction (foldl step s es) = foldl spec (abstraction s) es"
  by (induction es arbitrary: s) (simp_all add: simulates step_inv)

end

end
