(* ===== verification/Kernel.thy ===== *)
theory Kernel
  imports Prelude "HOL-Library.Multiset" "HOL-Library.Sublist"
begin

text \<open>
  The shared trading kernel, \<open>src/quant_system/trading_kernel/\<close>: the sides and order legs
  (\<open>models.py\<close>), the cash and position arithmetic of a fill (\<open>accounting.py\<close>) and the
  rebalance planner with its weight caps (\<open>weights.py\<close>). The lemmas show that a fill
  conserves value up to its commission, that the caps hold after clamping, and how far
  from its target a planned rebalance can end.
\<close>

section \<open>Neutral models\<close>

datatype side = Buy | Sell

definition side_str :: "side \<Rightarrow> string" where
  "side_str s = (case s of Buy \<Rightarrow> ''buy'' | Sell \<Rightarrow> ''sell'')"

definition parse_side :: "string \<Rightarrow> side option" where
  "parse_side s = (if s = ''buy'' then Some Buy else if s = ''sell'' then Some Sell else None)"

lemma parse_side_str [simp]: "parse_side (side_str s) = Some s"
  by (cases s) (simp_all add: parse_side_def side_str_def)

lemma parse_side_Some: "parse_side t = Some s \<longleftrightarrow> t = side_str s"
  by (cases s) (auto simp: parse_side_def side_str_def)

text \<open>Sells are placed before buys; the order of the sides is the order of their sort keys.\<close>

instantiation side :: linorder
begin

definition less_eq_side :: "side \<Rightarrow> side \<Rightarrow> bool" where
  "less_eq_side a b = (a = Sell \<or> b = Buy)"

definition less_side :: "side \<Rightarrow> side \<Rightarrow> bool" where
  "less_side a b = (a = Sell \<and> b = Buy)"

instance
proof
  fix x y z :: side
  show "(x < y) = (x \<le> y \<and> \<not> y \<le> x)"
    by (cases x; cases y) (simp_all add: less_eq_side_def less_side_def)
  show "x \<le> x"
    by (cases x) (simp_all add: less_eq_side_def)
  show "x \<le> y \<Longrightarrow> y \<le> z \<Longrightarrow> x \<le> z"
    by (cases x; cases y) (auto simp: less_eq_side_def)
  show "x \<le> y \<Longrightarrow> y \<le> x \<Longrightarrow> x = y"
    by (cases x; cases y) (simp_all add: less_eq_side_def)
  show "x \<le> y \<or> y \<le> x"
    by (cases x; cases y) (simp_all add: less_eq_side_def)
qed

end

record order_intent =
  oi_symbol :: string
  oi_side :: side
  oi_quantity :: rat
  oi_index :: nat
  oi_price :: "rat option"
  oi_reason :: string

text \<open>
  What \<open>apply_fill_to_portfolio\<close> reads of a fill. The backtest and the paper broker extend
  it with their own fields.
\<close>

record fill =
  fill_symbol :: string
  fill_side :: side
  fill_quantity :: rat
  fill_gross :: rat
  fill_commission :: rat

section \<open>Accounting\<close>

definition position_dust :: rat where
  "position_dust = 1 / 10 ^ 10"

definition apply_fill_to_portfolio ::
    "(string, rat) dict \<Rightarrow> rat \<Rightarrow> 'a fill_scheme \<Rightarrow> (string, rat) dict \<times> rat" where
  "apply_fill_to_portfolio positions cash f =
     (let held = dict_of (map (\<lambda>(s, q). (upper s, q)) positions);
          symbol = upper (fill_symbol f);
          current = dict_get held symbol 0;
          (updated, cash') =
            (case fill_side f of
               Buy \<Rightarrow> (AList.update symbol (current + fill_quantity f) held,
                       cash - (fill_gross f + fill_commission f))
             | Sell \<Rightarrow> (AList.update symbol (current - fill_quantity f) held,
                        cash + (fill_gross f - fill_commission f)))
      in (if \<bar>dict_get updated symbol 0\<bar> < position_dust then AList.delete symbol updated
          else updated, cash'))"

definition roll_position_on_fill ::
    "side \<Rightarrow> rat \<Rightarrow> rat \<Rightarrow> rat \<Rightarrow> rat \<Rightarrow> rat \<Rightarrow> rat \<Rightarrow> rat \<times> rat \<times> rat \<times> rat" where
  "roll_position_on_fill sd position_quantity position_avg_cost quantity price gross commission =
     (case sd of
        Buy \<Rightarrow>
          let total_basis = position_quantity * position_avg_cost + (gross + commission);
              new_quantity = position_quantity + quantity;
              new_avg_cost = (if 0 < new_quantity then total_basis / new_quantity else 0)
          in (new_quantity, new_avg_cost, 0, - (gross + commission))
      | Sell \<Rightarrow>
          let realized_delta = quantity * (price - position_avg_cost) - commission
          in (position_quantity - quantity, position_avg_cost, realized_delta, gross - commission))"

text \<open>The mark value of a portfolio, \<open>sum(quantity * price)\<close>.\<close>

definition marked_value :: "(string \<Rightarrow> rat) \<Rightarrow> (string, rat) dict \<Rightarrow> rat" where
  "marked_value px d = (\<Sum>(s, q) \<leftarrow> d. q * px s)"

definition upper_keys :: "(string, 'v) dict \<Rightarrow> bool" where
  "upper_keys d \<longleftrightarrow> (\<forall>k \<in> fst ` set d. upper k = k)"

lemma upper_keys_update [simp]: "upper_keys d \<Longrightarrow> upper k = k \<Longrightarrow> upper_keys (AList.update k v d)"
  unfolding upper_keys_def keys_update by blast

lemma upper_keys_delete [simp]: "upper_keys d \<Longrightarrow> upper_keys (AList.delete k d)"
  unfolding upper_keys_def keys_delete by blast

lemma dict_of_upper_keys:
  assumes "wf_dict d" and "upper_keys d"
  shows "dict_of (map (\<lambda>(s, q). (upper s, q)) d) = d"
proof -
  have "map (\<lambda>(s, q). (upper s, q)) d = d"
    using assms(2) by (induction d) (auto simp: upper_keys_def)
  then show ?thesis using assms(1) by (simp add: dict_of_distinct)
qed

lemma marked_value_update:
  "wf_dict d \<Longrightarrow>
    marked_value px (AList.update k v d) = marked_value px d + (v - dict_get d k 0) * px k"
  by (simp add: marked_value_def sum_entries_update [where f = "\<lambda>s q. q * px s"] dict_get_def
      algebra_simps split: option.splits)

lemma marked_value_delete:
  "wf_dict d \<Longrightarrow> marked_value px (AList.delete k d) = marked_value px d - dict_get d k 0 * px k"
  by (simp add: marked_value_def sum_entries_delete [where f = "\<lambda>s q. q * px s"] dict_get_def
      split: option.splits)

definition signed_quantity :: "'a fill_scheme \<Rightarrow> rat" where
  "signed_quantity f = (case fill_side f of Buy \<Rightarrow> fill_quantity f | Sell \<Rightarrow> - fill_quantity f)"

lemma apply_fill_cases:
  assumes "wf_dict d" and "upper_keys d" and "apply_fill_to_portfolio d cash f = (d', cash')"
  defines "s \<equiv> upper (fill_symbol f)"
  defines "q \<equiv> dict_get d s 0 + signed_quantity f"
  shows "cash' = cash - (case fill_side f of Buy \<Rightarrow> fill_gross f | Sell \<Rightarrow> - fill_gross f)
           - fill_commission f"
    and "d' = (if \<bar>q\<bar> < position_dust then AList.delete s (AList.update s q d)
               else AList.update s q d)"
  using assms(3)
  by (auto simp: apply_fill_to_portfolio_def dict_of_upper_keys [OF assms(1,2)] Let_def
      s_def q_def signed_quantity_def split: side.splits if_splits)

lemma apply_fill_wf:
  assumes "wf_dict d" and "upper_keys d" and "apply_fill_to_portfolio d cash f = (d', cash')"
  shows "wf_dict d' \<and> upper_keys d'"
  using apply_fill_cases(2) [OF assms] assms(1,2) by simp

lemma apply_fill_position:
  assumes "wf_dict d" and "upper_keys d" and "apply_fill_to_portfolio d cash f = (d', cash')"
  defines "s \<equiv> upper (fill_symbol f)"
  defines "q \<equiv> dict_get d s 0 + signed_quantity f"
  shows "dict_get d' k 0 = (if k = s then (if \<bar>q\<bar> < position_dust then 0 else q) else dict_get d k 0)"
  using apply_fill_cases(2) [OF assms(1-3)] by (auto simp: s_def q_def)

text \<open>Equity after a fill, with the dust the pop throws away written out.\<close>

lemma apply_fill_equity:
  assumes "wf_dict d" and "upper_keys d" and "apply_fill_to_portfolio d cash f = (d', cash')"
  defines "s \<equiv> upper (fill_symbol f)"
  defines "q \<equiv> dict_get d s 0 + signed_quantity f"
  shows "cash' + marked_value px d' =
    cash + marked_value px d + signed_quantity f * px s
      - (case fill_side f of Buy \<Rightarrow> fill_gross f | Sell \<Rightarrow> - fill_gross f) - fill_commission f
      - (if \<bar>q\<bar> < position_dust then q * px s else 0)"
proof -
  note c = apply_fill_cases [OF assms(1-3), folded s_def, folded q_def]
  have upd: "marked_value px (AList.update s q d) = marked_value px d + signed_quantity f * px s"
    using assms(1) by (simp add: marked_value_update q_def)
  have del: "marked_value px (AList.delete s (AList.update s q d))
      = marked_value px d + signed_quantity f * px s - q * px s"
    using assms(1) upd by (simp add: marked_value_delete)
  show ?thesis using c upd del by simp
qed

section \<open>Weight caps\<close>

definition sector_of :: "(string, string) dict \<Rightarrow> string \<Rightarrow> string" where
  "sector_of sectors symbol = dict_get sectors symbol symbol"

definition add_to_sector ::
    "(string, string) dict \<Rightarrow> (string, rat) dict \<Rightarrow> string \<times> rat \<Rightarrow> (string, rat) dict" where
  "add_to_sector sectors totals sw =
     (let sector = sector_of sectors (fst sw)
      in AList.update sector (dict_get totals sector 0 + snd sw) totals)"

definition sector_totals :: "(string, string) dict \<Rightarrow> (string, rat) dict \<Rightarrow> (string, rat) dict" where
  "sector_totals sectors capped = foldl (add_to_sector sectors) [] capped"

definition scale_sector ::
    "(string, string) dict \<Rightarrow> rat \<Rightarrow> (string, rat) dict \<Rightarrow> string \<times> rat \<Rightarrow> (string, rat) dict" where
  "scale_sector sectors cap capped st =
     (let sector = fst st; weight = snd st
      in if cap < weight \<and> 0 < weight
         then map (\<lambda>(s, w). (s, if sector_of sectors s = sector then w * (cap / weight) else w)) capped
         else capped)"

definition apply_weight_constraints ::
    "(string, rat) dict \<Rightarrow> rat option \<Rightarrow> rat option \<Rightarrow> (string, string) dict option
      \<Rightarrow> (string, rat) dict" where
  "apply_weight_constraints target_map max_weight cap sector_map =
     (if max_weight = None \<and> cap = None then target_map
      else
        let capped = (case max_weight of None \<Rightarrow> target_map
                      | Some m \<Rightarrow> map (\<lambda>(s, w). (s, min w m)) target_map)
        in case cap of None \<Rightarrow> capped
           | Some c \<Rightarrow>
               let sectors = (case sector_map of None \<Rightarrow> [] | Some m \<Rightarrow> m)
               in foldl (scale_sector sectors c) capped (sector_totals sectors capped))"

text \<open>The weight a sector holds, read off the map directly.\<close>

definition sector_weight :: "(string, string) dict \<Rightarrow> (string, rat) dict \<Rightarrow> string \<Rightarrow> rat" where
  "sector_weight sectors d sector = (\<Sum>(s, w) \<leftarrow> d. if sector_of sectors s = sector then w else 0)"

lemma wf_sector_totals [simp]: "wf_dict (sector_totals sectors d)"
  unfolding sector_totals_def
  by (induction d rule: rev_induct) (simp_all add: add_to_sector_def Let_def)

lemma sector_totals_get: "dict_get (sector_totals sectors d) sector 0 = sector_weight sectors d sector"
  unfolding sector_totals_def sector_weight_def
  by (induction d rule: rev_induct) (auto simp: add_to_sector_def Let_def split: prod.splits)

lemma sector_totals_keys:
  "fst ` set (sector_totals sectors d) = (\<lambda>p. sector_of sectors (fst p)) ` set d"
  unfolding sector_totals_def
  by (induction d rule: rev_induct) (auto simp: add_to_sector_def Let_def)

lemma scale_sector_keys [simp]: "map fst (scale_sector sectors cap d st) = map fst d"
  by (auto simp: scale_sector_def Let_def)

lemma scale_sectors_keys: "map fst (foldl (scale_sector sectors cap) d sts) = map fst d"
  by (induction sts arbitrary: d) auto

lemma sector_weight_absent:
  "sector \<notin> (\<lambda>p. sector_of sectors (fst p)) ` set d \<Longrightarrow> sector_weight sectors d sector = 0"
  unfolding sector_weight_def by (induction d) auto

lemma sector_weight_scale:
  "sector_weight sectors (scale_sector sectors cap d st) sector =
    (if fst st = sector \<and> cap < snd st \<and> 0 < snd st
     then sector_weight sectors d sector * (cap / snd st) else sector_weight sectors d sector)"
proof -
  have "(\<Sum>(s, w) \<leftarrow> map (\<lambda>(s, w). (s, if sector_of sectors s = fst st then w * k else w)) d.
        if sector_of sectors s = sector then w else 0) =
      (if fst st = sector then sector_weight sectors d sector * k else sector_weight sectors d sector)"
    for k
    unfolding sector_weight_def by (induction d) (auto simp: algebra_simps)
  then show ?thesis
    by (auto simp: scale_sector_def Let_def sector_weight_def [of _ "map _ _"])
qed

text \<open>Each sector is scaled once, by the entry of the totals that names it.\<close>

lemma sector_weight_scale_all:
  assumes "wf_dict sts"
  shows "sector_weight sectors (foldl (scale_sector sectors cap) d sts) sector =
    (case map_of sts sector of
       None \<Rightarrow> sector_weight sectors d sector
     | Some t \<Rightarrow> if cap < t \<and> 0 < t then sector_weight sectors d sector * (cap / t)
                     else sector_weight sectors d sector)"
  using assms
proof (induction sts arbitrary: d)
  case Nil
  then show ?case by simp
next
  case (Cons st sts)
  then have "wf_dict sts" and "fst st = sector \<Longrightarrow> map_of sts sector = None"
    by (auto simp: map_of_absent)
  then show ?case
    by (cases st) (auto simp: Cons.IH sector_weight_scale split: option.splits)
qed

lemma sector_weight_capped:
  "sector_weight sectors (foldl (scale_sector sectors cap) d (sector_totals sectors d)) sector =
    (if cap < sector_weight sectors d sector \<and> 0 < sector_weight sectors d sector then cap
     else sector_weight sectors d sector)"
proof (cases "map_of (sector_totals sectors d) sector")
  case None
  then have "sector_weight sectors d sector = 0"
    using sector_totals_get [of sectors d sector] by (simp add: dict_get_def)
  then show ?thesis using None by (simp add: sector_weight_scale_all)
next
  case (Some t)
  then have "t = sector_weight sectors d sector"
    using sector_totals_get [of sectors d sector] by (simp add: dict_get_def)
  then show ?thesis using Some by (simp add: sector_weight_scale_all)
qed

text \<open>
  \<open>shrinks d d'\<close>: the same symbols in the same order, every weight between 0 and what it was.
  One scaling step shrinks, when the cap and the weights are not negative.
\<close>

definition shrinks :: "(string, rat) dict \<Rightarrow> (string, rat) dict \<Rightarrow> bool" where
  "shrinks d d' \<longleftrightarrow> list_all2 (\<lambda>p p'. fst p' = fst p \<and> 0 \<le> snd p' \<and> snd p' \<le> snd p) d d'"

lemma shrinks_refl: "\<forall>p \<in> set d. 0 \<le> snd p \<Longrightarrow> shrinks d d"
  by (auto simp: shrinks_def intro: list.rel_refl_strong)

lemma shrinks_trans: "shrinks a b \<Longrightarrow> shrinks b c \<Longrightarrow> shrinks a c"
  by (force simp: shrinks_def list_all2_conv_all_nth)

lemma shrinks_nonneg: "shrinks d d' \<Longrightarrow> \<forall>p \<in> set d'. 0 \<le> snd p"
  unfolding shrinks_def by (induction d d' rule: list_all2_induct) auto

lemma shrinks_get: "shrinks d d' \<Longrightarrow> 0 \<le> dict_get d' k 0 \<and> dict_get d' k 0 \<le> dict_get d k 0"
  unfolding shrinks_def dict_get_def by (induction d d' rule: list_all2_induct) auto

lemma shrinks_map:
  "(\<And>p. p \<in> set d \<Longrightarrow> fst (f p) = fst p \<and> 0 \<le> snd (f p) \<and> snd (f p) \<le> snd p) \<Longrightarrow> shrinks d (map f d)"
  unfolding shrinks_def by (induction d) auto

lemma scale_sector_shrinks:
  assumes "0 \<le> cap" and "\<forall>p \<in> set d. 0 \<le> snd p"
  shows "shrinks d (scale_sector sectors cap d st)"
proof (cases "cap < snd st \<and> 0 < snd st")
  case True
  then have "0 \<le> cap / snd st" and "cap / snd st \<le> 1"
    using assms(1) by (simp_all add: divide_le_eq)
  then have "0 \<le> w * (cap / snd st) \<and> w * (cap / snd st) \<le> w" if "0 \<le> w" for w
    using that mult_left_le [of "cap / snd st" w] mult_nonneg_nonneg [of w "cap / snd st"] by blast
  with True assms(2) show ?thesis
    by (auto simp: scale_sector_def Let_def intro!: shrinks_map)
next
  case False
  with assms(2) show ?thesis
    by (auto simp: scale_sector_def Let_def intro: shrinks_refl)
qed

lemma scale_sectors_shrinks:
  assumes "0 \<le> cap" and "\<forall>p \<in> set d. 0 \<le> snd p"
  shows "shrinks d (foldl (scale_sector sectors cap) d sts)"
  using assms(2)
proof (induction sts arbitrary: d)
  case Nil
  then show ?case by (simp add: shrinks_refl)
next
  case (Cons st sts)
  have one: "shrinks d (scale_sector sectors cap d st)"
    by (rule scale_sector_shrinks [OF assms(1) Cons.prems])
  with Cons.IH [OF shrinks_nonneg] show ?case
    by (auto intro: shrinks_trans)
qed

lemma apply_weight_constraints_shrinks:
  assumes "\<forall>p \<in> set d. 0 \<le> snd p" and "case m of None \<Rightarrow> True | Some x \<Rightarrow> 0 \<le> x"
    and "case c of None \<Rightarrow> True | Some x \<Rightarrow> 0 \<le> x"
  shows "shrinks d (apply_weight_constraints d m c sm)"
proof -
  let ?d = "case m of None \<Rightarrow> d | Some x \<Rightarrow> map (\<lambda>(s, w). (s, min w x)) d"
  have capped: "shrinks d ?d"
    using assms(1,2) by (auto intro!: shrinks_map shrinks_refl split: option.splits)
  then have "shrinks ?d (foldl (scale_sector sectors x) ?d sts)" if "c = Some x" for sectors x sts
    using assms(3) that by (auto intro!: scale_sectors_shrinks dest: shrinks_nonneg)
  with capped show ?thesis
    by (auto simp: apply_weight_constraints_def Let_def shrinks_refl assms(1)
        intro: shrinks_trans split: option.splits)
qed

lemma apply_weight_constraints_keys:
  "map fst (apply_weight_constraints d m c sm) = map fst d"
proof -
  have "map fst (map (\<lambda>(s, w). (s, min w x)) d) = map fst d" for x
    by auto
  then show ?thesis
    by (simp add: apply_weight_constraints_def scale_sectors_keys Let_def split: option.splits)
qed

lemma wf_apply_weight_constraints [simp]:
  "wf_dict (apply_weight_constraints d m c sm) \<longleftrightarrow> wf_dict d"
  by (simp add: apply_weight_constraints_keys)

section \<open>Rebalance planning\<close>

record plan_knobs =
  min_order_value :: rat
  whole_share :: bool
  max_weight_per_symbol :: "rat option"
  sector_cap :: "rat option"
  sector_map :: "(string, string) dict option"
  sells_first :: bool
  min_quantity :: rat

definition default_knobs :: plan_knobs where
  "default_knobs = \<lparr>min_order_value = 0, whole_share = False, max_weight_per_symbol = None,
     sector_cap = None, sector_map = None, sells_first = False, min_quantity = 0\<rparr>"

definition plan_leg ::
    "plan_knobs \<Rightarrow> rat \<Rightarrow> rat \<Rightarrow> rat \<Rightarrow> rat \<Rightarrow> nat \<Rightarrow> string \<Rightarrow> order_intent option" where
  "plan_leg kn equity price current_quantity weight index symbol =
     (let current_value = current_quantity * price;
          target_value = weight * equity;
          value_delta = target_value - current_value
      in if \<bar>value_delta\<bar> < min_order_value kn then None
         else
           let sd = (if 0 < value_delta then Buy else Sell);
               raw = \<bar>value_delta\<bar> / price;
               quantity = (if whole_share kn then of_int \<lfloor>raw\<rfloor> else raw)
           in if quantity * price < min_order_value kn then None
              else if quantity \<le> min_quantity kn then None
              else Some \<lparr>oi_symbol = symbol, oi_side = sd, oi_quantity = quantity, oi_index = index,
                          oi_price = Some price, oi_reason = ''rebalance_to_target_weight''\<rparr>)"

text \<open>The loop over the sorted symbols; \<open>leg\<close> is its body at one position and symbol.\<close>

fun plan_legs :: "(nat \<Rightarrow> string \<Rightarrow> order_intent option) \<Rightarrow> nat \<Rightarrow> string list \<Rightarrow> order_intent list" where
  "plan_legs leg index [] = []"
| "plan_legs leg index (s # ss) =
     (case leg index s of
        None \<Rightarrow> plan_legs leg (Suc index) ss
      | Some i \<Rightarrow> i # plan_legs leg (Suc index) ss)"

definition sell_key :: "order_intent \<Rightarrow> nat" where
  "sell_key i = (if oi_side i = Sell then 0 else 1)"

text \<open>\<open>{symbol.upper(): x for symbol, x in m.items()}\<close>.\<close>

definition upper_dict :: "(string, 'v) dict \<Rightarrow> (string, 'v) dict" where
  "upper_dict d = dict_of (map (\<lambda>(s, x). (upper s, x)) d)"

definition usable_price :: "(string, pyfloat) dict \<Rightarrow> string \<Rightarrow> bool" where
  "usable_price prices s =
     (case map_of prices s of None \<Rightarrow> False | Some p \<Rightarrow> \<not> le_zero p \<and> isfinite p)"

definition plan_rebalance ::
    "(string, rat) dict \<Rightarrow> (string, rat) dict \<Rightarrow> (string, pyfloat) dict \<Rightarrow> rat \<Rightarrow> plan_knobs
      \<Rightarrow> order_intent list result" where
  "plan_rebalance holdings target_weights prices equity kn =
     (let normalized_prices = upper_dict prices;
          target_map = apply_weight_constraints (upper_dict target_weights)
                         (max_weight_per_symbol kn) (sector_cap kn) (sector_map kn);
          normalized_holdings = upper_dict holdings;
          symbols = sorted_keys (map fst normalized_holdings @ map fst target_map);
          missing_prices = filter (\<lambda>s. \<not> usable_price normalized_prices s) symbols
      in if missing_prices \<noteq> []
         then Inl (ValueError (''missing order generation price for '' @ join '', '' missing_prices))
         else
           let intents = plan_legs
                 (\<lambda>index s. plan_leg kn equity (fin (dict_get normalized_prices s NaN))
                    (dict_get normalized_holdings s 0) (dict_get target_map s 0) index s)
                 1 symbols
           in Inr (if sells_first kn then sort_key sell_key intents else intents))"

subsection \<open>One leg\<close>

definition intent_delta :: "order_intent \<Rightarrow> rat" where
  "intent_delta i = (case oi_side i of Buy \<Rightarrow> oi_quantity i | Sell \<Rightarrow> - oi_quantity i)"

definition leg_delta :: "order_intent option \<Rightarrow> rat" where
  "leg_delta l = (case l of None \<Rightarrow> 0 | Some i \<Rightarrow> intent_delta i)"

lemma plan_leg_Some:
  assumes "plan_leg kn equity price held weight index s = Some i"
  shows "oi_symbol i = s" and "oi_index i = index" and "oi_price i = Some price"
    and "min_quantity kn < oi_quantity i" and "min_order_value kn \<le> oi_quantity i * price"
    and "oi_reason i = ''rebalance_to_target_weight''"
  using assms by (auto simp: plan_leg_def Let_def split: if_splits)

text \<open>How far from its target a symbol ends: nothing, unless a threshold drops the leg.\<close>

definition leg_slack :: "plan_knobs \<Rightarrow> rat \<Rightarrow> rat" where
  "leg_slack kn price = max (min_order_value kn) (min_quantity kn * price)
     + (if whole_share kn then price else 0)"

lemma floor_share:
  fixes v price :: rat
  assumes "0 < price" and "0 \<le> v"
  shows "of_int \<lfloor>v / price\<rfloor> * price \<le> v" and "v < of_int \<lfloor>v / price\<rfloor> * price + price"
    and "(0::rat) \<le> of_int \<lfloor>v / price\<rfloor>"
proof -
  have "of_int \<lfloor>v / price\<rfloor> \<le> v / price"
    by (rule of_int_floor_le)
  then show "of_int \<lfloor>v / price\<rfloor> * price \<le> v"
    using assms(1) by (simp only: pos_le_divide_eq)
  have "v / price < of_int \<lfloor>v / price\<rfloor> + 1"
    by linarith
  then show "v < of_int \<lfloor>v / price\<rfloor> * price + price"
    using assms(1) by (simp add: pos_divide_less_eq distrib_right)
  show "(0::rat) \<le> of_int \<lfloor>v / price\<rfloor>"
    using assms by simp
qed

lemma leg_delta_plan_leg:
  "leg_delta (plan_leg kn equity price held weight index s) =
    (let v = weight * equity - held * price;
         n = (if whole_share kn then of_int \<lfloor>\<bar>v\<bar> / price\<rfloor> else \<bar>v\<bar> / price)
     in if \<bar>v\<bar> < min_order_value kn then 0
        else if n * price < min_order_value kn then 0
        else if n \<le> min_quantity kn then 0
        else if 0 < v then n else - n)"
  unfolding plan_leg_def Let_def
  by (simp only: leg_delta_def intent_delta_def if_distrib [of leg_delta] option.case side.case
      if_split order_intent.simps) (auto simp: Let_def)

lemma plan_leg_accuracy:
  fixes weight equity held price :: rat and index :: nat and s :: string
  assumes price: "0 < price" and m: "0 \<le> min_order_value kn" and q: "0 \<le> min_quantity kn"
  defines "v \<equiv> weight * equity - held * price"
  defines "t \<equiv> leg_delta (plan_leg kn equity price held weight index s) * price"
  shows "\<bar>v - t\<bar> \<le> leg_slack kn price" and "\<bar>t\<bar> \<le> \<bar>v\<bar>" and "0 \<le> t * v"
proof -
  define n where "n = (if whole_share kn then of_int \<lfloor>\<bar>v\<bar> / price\<rfloor> else \<bar>v\<bar> / price)"
  define u where "u = leg_delta (plan_leg kn equity price held weight index s)"
  have n: "0 \<le> n" "n * price \<le> \<bar>v\<bar>" "\<bar>v\<bar> \<le> n * price + (if whole_share kn then price else 0)"
    using floor_share [OF price, of "\<bar>v\<bar>"] price by (simp_all add: n_def)
  have slack: "0 \<le> min_quantity kn * price" "0 \<le> leg_slack kn price"
    using price q m by (auto simp: leg_slack_def)
  have t: "t = u * price"
    by (simp only: t_def u_def)
  have "u = (if \<bar>v\<bar> < min_order_value kn then 0 else if n * price < min_order_value kn then 0
      else if n \<le> min_quantity kn then 0 else if 0 < v then n else - n)"
    by (simp only: u_def leg_delta_plan_leg Let_def n_def v_def)
  then consider (small) "\<bar>v\<bar> < min_order_value kn" "t = 0"
    | (below) "n * price < min_order_value kn" "t = 0"
    | (dust) "n \<le> min_quantity kn" "t = 0"
    | (buy) "0 < v" "t = n * price"
    | (sell) "v \<le> 0" "t = - (n * price)"
    unfolding t by (simp split: if_splits)
  then have "\<bar>v - t\<bar> \<le> leg_slack kn price \<and> \<bar>t\<bar> \<le> \<bar>v\<bar> \<and> 0 \<le> t * v"
  proof cases
    case dust
    then have "n * price \<le> min_quantity kn * price"
      using price by (simp add: mult_right_mono)
    also have "\<dots> \<le> leg_slack kn price - (if whole_share kn then price else 0)"
      by (simp add: leg_slack_def)
    finally have "\<bar>v\<bar> \<le> leg_slack kn price"
      using n(3) by linarith
    then show ?thesis using dust by simp
  next
    case buy
    have "0 \<le> n * price * v" using buy n price by simp
    then show ?thesis using n slack price m buy by (auto simp: leg_slack_def)
  next
    case sell
    have "n * price * v \<le> 0" using sell n price by (simp add: mult_nonneg_nonpos)
    then show ?thesis using n slack price m sell by (auto simp: leg_slack_def)
  qed (use n slack price in \<open>auto simp: leg_slack_def\<close>)
  then show "\<bar>v - t\<bar> \<le> leg_slack kn price" and "\<bar>t\<bar> \<le> \<bar>v\<bar>" and "0 \<le> t * v"
    by simp_all
qed

subsection \<open>The whole plan\<close>

lemma plan_legs_member:
  "i \<in> set (plan_legs leg n ss) \<Longrightarrow> \<exists>k < length ss. leg (n + k) (ss ! k) = Some i"
proof (induction leg n ss rule: plan_legs.induct)
  case (1 leg n)
  then show ?case by simp
next
  case (2 leg n s ss)
  show ?case
  proof (cases "leg n s = Some i")
    case True
    then show ?thesis by (intro exI [of _ 0]) simp
  next
    case False
    then have "i \<in> set (plan_legs leg (Suc n) ss)"
      using "2.prems" by (auto split: option.splits)
    then obtain k where "k < length ss" "leg (Suc n + k) (ss ! k) = Some i"
      using "2.IH" by (auto split: option.splits)
    then show ?thesis by (intro exI [of _ "Suc k"]) simp
  qed
qed

definition net_quantity :: "order_intent list \<Rightarrow> string \<Rightarrow> rat" where
  "net_quantity intents s = sum_list (map (\<lambda>i. if oi_symbol i = s then intent_delta i else 0) intents)"

lemma net_quantity_sort [simp]: "net_quantity (sort_key f intents) s = net_quantity intents s"
  by (simp only: net_quantity_def sum_mset_sum_list [symmetric] mset_map mset_sort)

lemma net_plan_legs_absent:
  assumes "\<And>k s i. leg k s = Some i \<Longrightarrow> oi_symbol i = s"
  shows "s \<notin> set ss \<Longrightarrow> net_quantity (plan_legs leg n ss) s = 0"
proof (induction ss arbitrary: n)
  case Nil
  then show ?case by (simp add: net_quantity_def)
next
  case (Cons t ss)
  show ?case
  proof (cases "leg n t")
    case None
    with Cons show ?thesis by simp
  next
    case (Some i)
    then have "oi_symbol i = t" by (rule assms)
    with Some Cons show ?thesis by (auto simp: net_quantity_def)
  qed
qed

lemma net_plan_legs:
  assumes leg: "\<And>k s i. leg k s = Some i \<Longrightarrow> oi_symbol i = s"
  shows "distinct ss \<Longrightarrow> j < length ss \<Longrightarrow>
    net_quantity (plan_legs leg n ss) (ss ! j) = leg_delta (leg (n + j) (ss ! j))"
proof (induction ss arbitrary: n j)
  case Nil
  then show ?case by simp
next
  case (Cons s ss)
  have split: "net_quantity (plan_legs leg n (s # ss)) t =
      (if s = t then leg_delta (leg n s) else 0) + net_quantity (plan_legs leg (Suc n) ss) t" for t
    using leg by (auto simp: net_quantity_def leg_delta_def split: option.splits)
  show ?case
  proof (cases j)
    case 0
    then show ?thesis using Cons.prems split net_plan_legs_absent [OF leg] by simp
  next
    case (Suc k)
    then have "s \<noteq> ss ! k" using Cons.prems by (auto simp: in_set_conv_nth)
    then show ?thesis using Suc Cons split by simp
  qed
qed

lemma plan_legs_keys:
  assumes "\<And>k s i. leg k s = Some i \<Longrightarrow> oi_symbol i = s"
  shows "subseq (map oi_symbol (plan_legs leg n ss)) ss"
proof (induction ss arbitrary: n)
  case Nil
  then show ?case by simp
next
  case (Cons t ss)
  show ?case
  proof (cases "leg n t")
    case None
    with Cons show ?thesis by (auto intro: list_emb_Cons)
  next
    case (Some i)
    then have "oi_symbol i = t" by (rule assms)
    with Some Cons show ?thesis by simp
  qed
qed

lemma usable_price_pos: "usable_price np s \<Longrightarrow> 0 < fin (dict_get np s x)"
  by (auto simp: usable_price_def dict_get_def isfinite_iff split: option.splits)

lemma sort_sells_first:
  shows "sorted (map oi_side (sort_key sell_key intents))"
    and "filter (\<lambda>i. oi_side i = sd) (sort_key sell_key intents) = filter (\<lambda>i. oi_side i = sd) intents"
proof -
  have le: "sell_key i \<le> sell_key j \<longleftrightarrow> oi_side i \<le> oi_side j" for i j
    by (cases "oi_side i"; cases "oi_side j") (simp_all add: sell_key_def less_eq_side_def)
  have "sorted_wrt (\<lambda>i j. sell_key i \<le> sell_key j) (sort_key sell_key intents)"
    using sorted_sort_key [of sell_key intents] by (simp add: sorted_map)
  then show "sorted (map oi_side (sort_key sell_key intents))"
    by (simp add: sorted_map le)
  have eq: "(\<lambda>i. oi_side i = sd) = (\<lambda>i. sell_key i = (if sd = Sell then 0 else 1))"
    by (cases sd) (auto simp: sell_key_def fun_eq_iff intro: side.exhaust)
  show "filter (\<lambda>i. oi_side i = sd) (sort_key sell_key intents) = filter (\<lambda>i. oi_side i = sd) intents"
    unfolding eq by (rule sort_key_stable)
qed

section \<open>Properties\<close>

text \<open>What the plan may trade: every symbol held or targeted, upper-cased.\<close>

definition plan_symbols :: "(string, rat) dict \<Rightarrow> (string, rat) dict \<Rightarrow> string list" where
  "plan_symbols holdings weights =
     sorted_keys (map fst (upper_dict holdings) @ map fst (upper_dict weights))"

text \<open>The weight the planner sizes a symbol with, after the caps.\<close>

definition planned_weight :: "plan_knobs \<Rightarrow> (string, rat) dict \<Rightarrow> string \<Rightarrow> rat" where
  "planned_weight kn weights s =
     dict_get (apply_weight_constraints (upper_dict weights) (max_weight_per_symbol kn)
       (sector_cap kn) (sector_map kn)) s 0"

lemma plan_rebalance_eq:
  "plan_rebalance holdings weights prices equity kn =
    (if filter (\<lambda>s. \<not> usable_price (upper_dict prices) s) (plan_symbols holdings weights) \<noteq> []
     then Inl (ValueError (''missing order generation price for '' @ join '', ''
       (filter (\<lambda>s. \<not> usable_price (upper_dict prices) s) (plan_symbols holdings weights))))
     else Inr (let intents = plan_legs (\<lambda>i s. plan_leg kn equity (fin (dict_get (upper_dict prices) s NaN))
                 (dict_get (upper_dict holdings) s 0) (planned_weight kn weights s) i s) 1
                 (plan_symbols holdings weights)
               in if sells_first kn then sort_key sell_key intents else intents))"
  by (simp only: plan_rebalance_def Let_def plan_symbols_def planned_weight_def
      apply_weight_constraints_keys)

lemma plan_rebalance_Inr:
  assumes "plan_rebalance holdings weights prices equity kn = Inr intents"
  defines "leg \<equiv> \<lambda>i s. plan_leg kn equity (fin (dict_get (upper_dict prices) s NaN))
      (dict_get (upper_dict holdings) s 0) (planned_weight kn weights s) i s"
  shows "\<forall>s \<in> set (plan_symbols holdings weights). usable_price (upper_dict prices) s"
    and "intents = (if sells_first kn
           then sort_key sell_key (plan_legs leg 1 (plan_symbols holdings weights))
           else plan_legs leg 1 (plan_symbols holdings weights))"
  using assms(1)
  by (simp_all add: plan_rebalance_eq leg_def filter_empty_conv Let_def split: if_splits)

lemma plan_leg_symbol: "plan_leg kn equity price held weight i s = Some x \<Longrightarrow> oi_symbol x = s"
  by (rule plan_leg_Some)

lemma net_quantity_plan:
  assumes "plan_rebalance holdings weights prices equity kn = Inr intents"
    and "s \<in> set (plan_symbols holdings weights)"
  obtains i where "net_quantity intents s = leg_delta (plan_leg kn equity
      (fin (dict_get (upper_dict prices) s NaN)) (dict_get (upper_dict holdings) s 0)
      (planned_weight kn weights s) i s)"
proof -
  let ?ss = "plan_symbols holdings weights"
  let ?leg = "\<lambda>i s. plan_leg kn equity (fin (dict_get (upper_dict prices) s NaN))
      (dict_get (upper_dict holdings) s 0) (planned_weight kn weights s) i s"
  obtain j where j: "j < length ?ss" "?ss ! j = s"
    using assms(2) by (auto simp: in_set_conv_nth)
  have "distinct ?ss"
    by (simp add: plan_symbols_def)
  then have "net_quantity (plan_legs ?leg 1 ?ss) (?ss ! j) = leg_delta (?leg (1 + j) (?ss ! j))"
    using j(1) by (intro net_plan_legs) (auto dest: plan_leg_symbol)
  then have "net_quantity intents s = leg_delta (?leg (1 + j) s)"
    using plan_rebalance_Inr(2) [OF assms(1)] j(2) by simp
  then show ?thesis by (rule that)
qed

text \<open>A plan is rejected exactly when some symbol that is held or targeted has no finite,
  strictly positive price.\<close>

theorem plan_needs_prices:
  "(\<exists>e. plan_rebalance holdings weights prices equity kn = Inl e) \<longleftrightarrow>
    (\<exists>s \<in> set (plan_symbols holdings weights). \<not> usable_price (upper_dict prices) s)"
  by (auto simp: plan_rebalance_eq filter_empty_conv)

text \<open>C24: After the planned legs every symbol is within the plan's slack of its target value: the
  larger of the two thresholds, plus one share's price when quantities are floored. A leg
  never moves a holding past its target or away from it.\<close>

theorem plan_reaches_target:
  assumes "plan_rebalance holdings weights prices equity kn = Inr intents"
    and "s \<in> set (plan_symbols holdings weights)"
    and "0 \<le> min_order_value kn" and "0 \<le> min_quantity kn"
  defines "price \<equiv> fin (dict_get (upper_dict prices) s NaN)"
  defines "gap \<equiv> planned_weight kn weights s * equity - dict_get (upper_dict holdings) s 0 * price"
  shows "\<bar>gap - net_quantity intents s * price\<bar> \<le> leg_slack kn price \<and>
    \<bar>net_quantity intents s * price\<bar> \<le> \<bar>gap\<bar> \<and> 0 \<le> net_quantity intents s * price * gap"
proof -
  have price: "0 < price"
    using plan_rebalance_Inr(1) [OF assms(1)] assms(2)
    by (auto simp: price_def intro: usable_price_pos)
  obtain i where "net_quantity intents s = leg_delta (plan_leg kn equity price
      (dict_get (upper_dict holdings) s 0) (planned_weight kn weights s) i s)"
    by (rule net_quantity_plan [OF assms(1,2), folded price_def])
  with plan_leg_accuracy [OF price assms(3,4)] show ?thesis
    by (simp add: gap_def)
qed

theorem plan_reaches_target_witness:
  "\<exists>intents. plan_rebalance [(''AAPL'', 10)] [(''MSFT'', 1 / 2)]
      [(''AAPL'', Fin 100), (''MSFT'', Fin 50)] 2000 default_knobs = Inr intents \<and>
    \<bar>1000 - net_quantity intents ''MSFT'' * 50\<bar> \<le> leg_slack default_knobs 50"
proof -
  let ?plan = "plan_rebalance [(''AAPL'', 10)] [(''MSFT'', 1 / 2)]
      [(''AAPL'', Fin 100), (''MSFT'', Fin 50)] 2000 default_knobs"
  have "isl ?plan = False" by code_simp
  then obtain intents where plan: "?plan = Inr intents" by (cases ?plan) auto
  have mem: "''MSFT'' \<in> set (plan_symbols [(''AAPL'', 10)] [(''MSFT'', 1 / 2)])" by code_simp
  have knobs: "0 \<le> min_order_value default_knobs" "0 \<le> min_quantity default_knobs"
    by (simp_all add: default_knobs_def)
  have "fin (dict_get (upper_dict [(''AAPL'', Fin 100), (''MSFT'', Fin 50)]) ''MSFT'' NaN) = 50"
    "planned_weight default_knobs [(''MSFT'', 1 / 2)] ''MSFT'' = 1 / 2"
    "dict_get (upper_dict [(''AAPL'', 10 :: rat)]) ''MSFT'' 0 = 0"
    by code_simp+
  with plan_reaches_target [OF plan mem knobs] plan show ?thesis by auto
qed

text \<open>A planned rebalance is complete: with no thresholds, no whole shares and the same
  equity, planning again from the holdings the legs lead to gives no order.\<close>

theorem replan_is_empty:
  assumes "plan_rebalance holdings weights prices equity kn = Inr intents"
    and "min_order_value kn = 0" and "min_quantity kn = 0" and "\<not> whole_share kn"
    and "set (plan_symbols holdings' weights) \<subseteq> set (plan_symbols holdings weights)"
    and "\<And>s. dict_get (upper_dict holdings') s 0 =
      dict_get (upper_dict holdings) s 0 + net_quantity intents s"
  shows "plan_rebalance holdings' weights prices equity kn = Inr []"
proof -
  let ?px = "\<lambda>s. fin (dict_get (upper_dict prices) s NaN)"
  have usable: "\<forall>s \<in> set (plan_symbols holdings' weights). usable_price (upper_dict prices) s"
    using plan_rebalance_Inr(1) [OF assms(1)] assms(5) by blast
  have none: "plan_leg kn equity (?px s) (dict_get (upper_dict holdings') s 0)
      (planned_weight kn weights s) i s = None" if "s \<in> set (plan_symbols holdings' weights)" for i s
  proof -
    have pos: "0 < ?px s" using usable that by (auto intro: usable_price_pos)
    have mem: "s \<in> set (plan_symbols holdings weights)" using that assms(5) by blast
    obtain j where "net_quantity intents s = leg_delta (plan_leg kn equity (?px s)
        (dict_get (upper_dict holdings) s 0) (planned_weight kn weights s) j s)"
      by (rule net_quantity_plan [OF assms(1) mem])
    then have "planned_weight kn weights s * equity - dict_get (upper_dict holdings) s 0 * ?px s
        = net_quantity intents s * ?px s"
      using plan_leg_accuracy(1) [OF pos, of kn "planned_weight kn weights s" equity
          "dict_get (upper_dict holdings) s 0" j s] assms(2-4)
      by (simp add: leg_slack_def)
    then show ?thesis
      by (simp add: plan_leg_def Let_def assms(2-4) assms(6) algebra_simps)
  qed
  have "plan_legs leg n ss = []" if "\<And>i s. s \<in> set ss \<Longrightarrow> leg i s = None"
    for leg :: "nat \<Rightarrow> string \<Rightarrow> order_intent option" and n ss
    using that by (induction ss arbitrary: n) auto
  then have "plan_legs (\<lambda>i s. plan_leg kn equity (?px s) (dict_get (upper_dict holdings') s 0)
      (planned_weight kn weights s) i s) 1 (plan_symbols holdings' weights) = []"
    using none by simp
  moreover have "filter (\<lambda>s. \<not> usable_price (upper_dict prices) s) (plan_symbols holdings' weights) = []"
    using usable by (simp add: filter_empty_conv)
  ultimately show ?thesis
    by (simp add: plan_rebalance_eq Let_def)
qed

theorem replan_is_empty_witness:
  "plan_rebalance [(''AAPL'', 0), (''MSFT'', 20)] [(''MSFT'', 1 / 2)]
    [(''AAPL'', Fin 100), (''MSFT'', Fin 50)] 2000 default_knobs = Inr []"
proof (rule replan_is_empty)
  show "plan_rebalance [(''AAPL'', 10)] [(''MSFT'', 1 / 2)]
      [(''AAPL'', Fin 100), (''MSFT'', Fin 50)] 2000 default_knobs =
    Inr [\<lparr>oi_symbol = ''AAPL'', oi_side = Sell, oi_quantity = 10, oi_index = 1, oi_price = Some 100,
           oi_reason = ''rebalance_to_target_weight''\<rparr>,
         \<lparr>oi_symbol = ''MSFT'', oi_side = Buy, oi_quantity = 20, oi_index = 2, oi_price = Some 50,
           oi_reason = ''rebalance_to_target_weight''\<rparr>]"
    by code_simp
  show "set (plan_symbols [(''AAPL'', 0), (''MSFT'', 20)] [(''MSFT'', 1 / 2)])
      \<subseteq> set (plan_symbols [(''AAPL'', 10)] [(''MSFT'', 1 / 2)])"
    by code_simp
  have upper: "upper_dict [(''AAPL'', 0 :: rat), (''MSFT'', 20)] = [(''AAPL'', 0), (''MSFT'', 20)]"
    "upper_dict [(''AAPL'', 10 :: rat)] = [(''AAPL'', 10)]"
    by code_simp+
  show "dict_get (upper_dict [(''AAPL'', 0), (''MSFT'', 20)]) s 0 =
      dict_get (upper_dict [(''AAPL'', 10)]) s 0 + net_quantity
        [\<lparr>oi_symbol = ''AAPL'', oi_side = Sell, oi_quantity = 10, oi_index = 1, oi_price = Some 100,
           oi_reason = ''rebalance_to_target_weight''\<rparr>,
         \<lparr>oi_symbol = ''MSFT'', oi_side = Buy, oi_quantity = 20, oi_index = 2, oi_price = Some 50,
           oi_reason = ''rebalance_to_target_weight''\<rparr>] s" for s
    unfolding upper by (simp add: dict_get_def net_quantity_def intent_delta_def)
qed (simp_all add: default_knobs_def)

text \<open>The caps hold after clamping: no sector carries more than the sector cap and no symbol
  more than the symbol cap, and no long-only weight is raised or turned short.\<close>

theorem weight_caps_hold:
  fixes sectors :: "(string, string) dict"
  assumes "0 \<le> c" and "0 \<le> m" and "\<forall>p \<in> set d. 0 \<le> snd p"
  defines "capped \<equiv> apply_weight_constraints d (Some m) (Some c) (Some sectors)"
  shows "sector_weight sectors capped sector \<le> c \<and> dict_get capped s 0 \<le> m \<and>
    0 \<le> dict_get capped s 0 \<and> dict_get capped s 0 \<le> dict_get d s 0"
proof -
  let ?d = "map (\<lambda>(s, w). (s, min w m)) d"
  have capped: "capped = foldl (scale_sector sectors c) ?d (sector_totals sectors ?d)"
    by (simp add: capped_def apply_weight_constraints_def Let_def)
  have "sector_weight sectors capped sector \<le> c"
    unfolding capped sector_weight_capped using assms(1) by auto
  moreover have "shrinks ?d capped"
    unfolding capped using assms by (intro scale_sectors_shrinks) auto
  then have "dict_get capped s 0 \<le> dict_get ?d s 0"
    using shrinks_get by blast
  moreover have "dict_get ?d s 0 \<le> m"
    using assms(2) by (induction d) (auto simp: dict_get_def)
  moreover have "shrinks d capped"
    unfolding capped_def using assms(1-3) by (intro apply_weight_constraints_shrinks) auto
  then have "0 \<le> dict_get capped s 0 \<and> dict_get capped s 0 \<le> dict_get d s 0"
    by (rule shrinks_get)
  ultimately show ?thesis by linarith
qed

theorem weight_caps_hold_witness:
  "sector_weight [(''A'', ''tech''), (''B'', ''tech'')]
     (apply_weight_constraints [(''A'', 1 / 2), (''B'', 1 / 3)] (Some (2 / 5)) (Some (3 / 5))
       (Some [(''A'', ''tech''), (''B'', ''tech'')])) ''tech'' \<le> 3 / 5"
  using weight_caps_hold [of "3 / 5" "2 / 5" "[(''A'', 1 / 2), (''B'', 1 / 3)]"
      "[(''A'', ''tech''), (''B'', ''tech'')]" "''tech''" "''A''"]
  by simp

text \<open>With \<open>sells_first\<close> every sell precedes every buy, and each side keeps the legs and the
  order of the plain plan.\<close>

theorem plan_sells_first:
  assumes "plan_rebalance holdings weights prices equity (kn\<lparr>sells_first := True\<rparr>) = Inr intents"
    and "plan_rebalance holdings weights prices equity (kn\<lparr>sells_first := False\<rparr>) = Inr plain"
  shows "sorted (map oi_side intents) \<and>
    filter (\<lambda>i. oi_side i = sd) intents = filter (\<lambda>i. oi_side i = sd) plain"
proof -
  have leg: "plan_leg (kn\<lparr>sells_first := b\<rparr>) = plan_leg kn" for b
    by (intro ext) (simp add: plan_leg_def Let_def)
  have "intents = sort_key sell_key plain"
    using plan_rebalance_Inr(2) [OF assms(1)] plan_rebalance_Inr(2) [OF assms(2)]
    by (simp add: leg planned_weight_def)
  then show ?thesis by (simp add: sort_sells_first)
qed

theorem plan_sells_first_witness:
  "\<exists>intents. plan_rebalance [(''MSFT'', 10)] [(''AAPL'', 1 / 2)]
      [(''AAPL'', Fin 100), (''MSFT'', Fin 50)] 1000 (default_knobs\<lparr>sells_first := True\<rparr>) = Inr intents \<and>
    sorted (map oi_side intents)"
proof -
  let ?plan = "\<lambda>b. plan_rebalance [(''MSFT'', 10)] [(''AAPL'', 1 / 2)]
      [(''AAPL'', Fin 100), (''MSFT'', Fin 50)] 1000 (default_knobs\<lparr>sells_first := b\<rparr>)"
  have "isl (?plan True) = False" "isl (?plan False) = False" by code_simp+
  then obtain intents plain where "?plan True = Inr intents" "?plan False = Inr plain"
    by (cases "?plan True"; cases "?plan False") auto
  with plan_sells_first [OF this] show ?thesis by auto
qed

text \<open>A fill at the mark price costs the portfolio its commission and nothing else: equity
  falls by exactly the commission, up to the value of the dust a popped position holds.\<close>

theorem fill_conserves_equity:
  assumes "wf_dict d" and "upper_keys d" and "apply_fill_to_portfolio d cash f = (d', cash')"
    and "fill_gross f = fill_quantity f * px (upper (fill_symbol f))"
  shows "\<bar>(cash' + marked_value px d') - (cash + marked_value px d - fill_commission f)\<bar>
    \<le> position_dust * \<bar>px (upper (fill_symbol f))\<bar>"
proof -
  define p where "p = px (upper (fill_symbol f))"
  define q where "q = dict_get d (upper (fill_symbol f)) 0 + signed_quantity f"
  have "(case fill_side f of Buy \<Rightarrow> fill_gross f | Sell \<Rightarrow> - fill_gross f) = signed_quantity f * p"
    by (simp add: assms(4) signed_quantity_def p_def split: side.split)
  then have "(cash' + marked_value px d') - (cash + marked_value px d - fill_commission f)
      = - (if \<bar>q\<bar> < position_dust then q * p else 0)"
    using apply_fill_equity [OF assms(1-3), of px] by (simp add: p_def q_def)
  moreover have "\<bar>if \<bar>q\<bar> < position_dust then q * p else 0\<bar> \<le> position_dust * \<bar>p\<bar>"
  proof (cases "\<bar>q\<bar> < position_dust")
    case True
    then have "\<bar>q\<bar> * \<bar>p\<bar> \<le> position_dust * \<bar>p\<bar>" by (intro mult_right_mono) auto
    with True show ?thesis by (simp only: abs_mult if_True)
  next
    case False
    then show ?thesis by (simp add: position_dust_def)
  qed
  ultimately show ?thesis by (simp add: p_def)
qed

theorem fill_conserves_equity_witness:
  "let f = \<lparr>fill_symbol = ''aapl'', fill_side = Buy, fill_quantity = 2, fill_gross = 200,
             fill_commission = 1\<rparr>;
       (d', cash') = apply_fill_to_portfolio [(''AAPL'', 3)] 1000 f
   in \<bar>(cash' + marked_value (\<lambda>_. 100) d') - (1000 + 300 - 1)\<bar> \<le> position_dust * 100"
proof -
  let ?f = "\<lparr>fill_symbol = ''aapl'', fill_side = Buy, fill_quantity = 2, fill_gross = 200,
             fill_commission = 1\<rparr> :: fill"
  have "upper_keys [(''AAPL'', 3 :: rat)]" by code_simp
  then show ?thesis
    using fill_conserves_equity [of "[(''AAPL'', 3)]" 1000 ?f
        "fst (apply_fill_to_portfolio [(''AAPL'', 3)] 1000 ?f)"
        "snd (apply_fill_to_portfolio [(''AAPL'', 3)] 1000 ?f)" "\<lambda>_. 100"]
    by (simp add: Let_def marked_value_def split_beta)
qed

text \<open>The average-cost roll keeps the books: on either side the cash moved plus the change of
  the position's cost basis is the profit realised.\<close>

theorem roll_keeps_books:
  assumes "roll_position_on_fill sd quantity avg_cost q price gross commission =
      (quantity', avg_cost', realized, cash_delta)"
    and "gross = q * price" and "sd = Buy \<Longrightarrow> 0 < quantity + q"
  shows "cash_delta + (quantity' * avg_cost' - quantity * avg_cost) = realized"
proof (cases sd)
  case Buy
  then have "0 < quantity + q" by (rule assms(3))
  then have "(quantity + q) * ((quantity * avg_cost + (gross + commission)) / (quantity + q))
      = quantity * avg_cost + (gross + commission)"
    by simp
  then show ?thesis
    using assms(1) Buy \<open>0 < quantity + q\<close> by (auto simp: roll_position_on_fill_def Let_def)
next
  case Sell
  then show ?thesis
    using assms(1,2) by (auto simp: roll_position_on_fill_def Let_def algebra_simps)
qed

theorem roll_keeps_books_witness:
  "roll_position_on_fill Buy 10 5 10 7 70 2 = (20, 61 / 10, 0, - 72) \<and> - 72 + (20 * (61 / 10) - 10 * 5) = (0 :: rat)"
proof -
  have "roll_position_on_fill Buy 10 5 10 7 70 2 = (20, 61 / 10, 0, - 72)"
    by (simp add: roll_position_on_fill_def)
  with roll_keeps_books [OF this] show ?thesis by simp
qed

end
