(* ===== verification/Risk.thy ===== *)
theory Risk
  imports Kernel
begin

text \<open>
  Order models (\<open>src/quant_system/execution/models.py\<close>) and the pre-trade risk engine
  (\<open>src/quant_system/risk/models.py\<close>, \<open>engine.py\<close>, \<open>defaults.py\<close>). A pydantic field constraint
  is a check of the function that builds the object: it gives \<open>ValidationError\<close>. The lemmas
  characterise when an order or a portfolio passes, rule by rule.
\<close>

section \<open>Order models\<close>

datatype order_status = Created | Submitted | PartiallyFilled | Filled | Cancelled | Rejected

record order_request =
  rq_timestamp :: string
  rq_symbol :: string
  rq_side :: side
  rq_quantity :: rat
  rq_limit :: "rat option"
  rq_reason :: string

definition positive_limit :: "rat option \<Rightarrow> bool" where
  "positive_limit l = (case l of None \<Rightarrow> True | Some p \<Rightarrow> 0 < p)"

definition new_order_request ::
    "string \<Rightarrow> string \<Rightarrow> side \<Rightarrow> rat \<Rightarrow> rat option \<Rightarrow> string \<Rightarrow> order_request result" where
  "new_order_request timestamp symbol sd quantity limit reason =
     (if 0 < quantity \<and> positive_limit limit
      then Inr \<lparr>rq_timestamp = timestamp, rq_symbol = symbol, rq_side = sd, rq_quantity = quantity,
                rq_limit = limit, rq_reason = reason\<rparr>
      else Inl ValidationError)"

definition normalized_symbol :: "order_request \<Rightarrow> string" where
  "normalized_symbol rq = strip (upper (rq_symbol rq))"

record managed_order =
  mo_id :: string
  mo_created_at :: string
  mo_symbol :: string
  mo_side :: side
  mo_quantity :: rat
  mo_limit :: "rat option"
  mo_status :: order_status
  mo_filled :: rat
  mo_reason :: string
  mo_rejected_reason :: string

definition new_managed_order ::
    "string \<Rightarrow> string \<Rightarrow> string \<Rightarrow> side \<Rightarrow> rat \<Rightarrow> rat option \<Rightarrow> string \<Rightarrow> managed_order result" where
  "new_managed_order order_id created_at symbol sd quantity limit reason =
     (if 0 < quantity \<and> positive_limit limit
      then Inr \<lparr>mo_id = order_id, mo_created_at = created_at, mo_symbol = symbol, mo_side = sd,
                mo_quantity = quantity, mo_limit = limit, mo_status = Created, mo_filled = 0,
                mo_reason = reason, mo_rejected_reason = []\<rparr>
      else Inl ValidationError)"

definition remaining_quantity :: "managed_order \<Rightarrow> rat" where
  "remaining_quantity o' = max (mo_quantity o' - mo_filled o') 0"

record order_event =
  ev_timestamp :: string
  ev_order_id :: string
  ev_symbol :: string
  ev_status :: order_status
  ev_message :: string

record execution_fill = fill +
  ef_id :: string
  ef_order_id :: string
  ef_timestamp :: string
  ef_price :: rat

definition new_execution_fill ::
    "string \<Rightarrow> string \<Rightarrow> string \<Rightarrow> string \<Rightarrow> side \<Rightarrow> rat \<Rightarrow> rat \<Rightarrow> rat \<Rightarrow> rat \<Rightarrow> execution_fill result" where
  "new_execution_fill fill_id order_id timestamp symbol sd quantity price gross commission =
     (if 0 < quantity \<and> 0 < price \<and> 0 \<le> gross \<and> 0 \<le> commission
      then Inr \<lparr>fill_symbol = symbol, fill_side = sd, fill_quantity = quantity, fill_gross = gross,
                fill_commission = commission, ef_id = fill_id, ef_order_id = order_id,
                ef_timestamp = timestamp, ef_price = price\<rparr>
      else Inl ValidationError)"

section \<open>Risk models\<close>

record risk_limits =
  rl_kill_switch :: bool
  rl_max_position_size :: rat
  rl_max_daily_loss :: rat
  rl_max_drawdown :: rat
  rl_max_order_value :: rat
  rl_allowed_symbols :: "string list"
  rl_blocked_symbols :: "string list"

definition default_risk_limits :: risk_limits where
  "default_risk_limits = \<lparr>rl_kill_switch = True, rl_max_position_size = 5 / 100,
     rl_max_daily_loss = 2 / 100, rl_max_drawdown = 10 / 100, rl_max_order_value = 10000,
     rl_allowed_symbols = [], rl_blocked_symbols = []\<rparr>"

definition normalized_symbols :: "string list \<Rightarrow> string list" where
  "normalized_symbols ss = remdups (map (\<lambda>s. strip (upper s)) ss)"

record risk_context =
  rc_cash :: rat
  rc_equity :: rat
  rc_peak_equity :: rat
  rc_daily_pnl :: rat
  rc_positions :: "(string, rat) dict"
  rc_latest_prices :: "(string, rat) dict"

definition new_risk_context ::
    "rat \<Rightarrow> rat \<Rightarrow> rat \<Rightarrow> rat \<Rightarrow> (string, rat) dict \<Rightarrow> (string, rat) dict \<Rightarrow> risk_context result" where
  "new_risk_context cash equity peak_equity daily_pnl positions prices =
     (if 0 \<le> equity \<and> 0 \<le> peak_equity
      then Inr \<lparr>rc_cash = cash, rc_equity = equity, rc_peak_equity = peak_equity,
                rc_daily_pnl = daily_pnl, rc_positions = positions, rc_latest_prices = prices\<rparr>
      else Inl ValidationError)"

definition context_from_portfolio ::
    "rat \<Rightarrow> (string, rat) dict \<Rightarrow> (string, rat) dict \<Rightarrow> rat \<Rightarrow> rat \<Rightarrow> rat \<Rightarrow> risk_context result" where
  "context_from_portfolio cash positions prices equity peak_equity daily_pnl =
     new_risk_context cash equity peak_equity daily_pnl (upper_dict positions) (upper_dict prices)"

definition rc_position :: "risk_context \<Rightarrow> string \<Rightarrow> rat" where
  "rc_position ctx symbol = dict_get (rc_positions ctx) (upper symbol) 0"

definition price_for :: "risk_context \<Rightarrow> string \<Rightarrow> rat option \<Rightarrow> rat option" where
  "price_for ctx symbol fallback =
     (case map_of (rc_latest_prices ctx) (upper symbol) of None \<Rightarrow> fallback | Some p \<Rightarrow> Some p)"

record risk_breach =
  rb_timestamp :: string
  rb_rule :: string
  rb_symbol :: string
  rb_message :: string
  rb_order_id :: "string option"

record risk_decision =
  rd_approved :: bool
  rd_breaches :: "risk_breach list"

definition decision_reason :: "risk_decision \<Rightarrow> string" where
  "decision_reason d = join ''; '' (map rb_message (rd_breaches d))"

definition decide :: "risk_breach list \<Rightarrow> risk_decision" where
  "decide bs = \<lparr>rd_approved = (bs = []), rd_breaches = bs\<rparr>"

section \<open>The risk engine\<close>

definition request_breach :: "order_request \<Rightarrow> string \<Rightarrow> string \<Rightarrow> risk_breach" where
  "request_breach rq rule message =
     \<lparr>rb_timestamp = rq_timestamp rq, rb_rule = rule, rb_symbol = normalized_symbol rq,
      rb_message = message, rb_order_id = None\<rparr>"

definition projected_quantity :: "order_request \<Rightarrow> risk_context \<Rightarrow> rat" where
  "projected_quantity rq ctx =
     (let current = rc_position ctx (rq_symbol rq)
      in case rq_side rq of Buy \<Rightarrow> current + rq_quantity rq | Sell \<Rightarrow> current - rq_quantity rq)"

definition breach_if :: "bool \<Rightarrow> risk_breach \<Rightarrow> risk_breach list" where
  "breach_if b x = (if b then [x] else [])"

definition check_order :: "risk_limits \<Rightarrow> order_request \<Rightarrow> risk_context \<Rightarrow> risk_decision" where
  "check_order lims rq ctx =
     (let symbol = normalized_symbol rq; breach = request_breach rq
      in case price_for ctx symbol (rq_limit rq) of
           None \<Rightarrow> \<lparr>rd_approved = False,
                    rd_breaches = [breach ''missing_price'' (''missing latest price for '' @ symbol)]\<rparr>
         | Some order_price \<Rightarrow>
             let allowed = normalized_symbols (rl_allowed_symbols lims);
                 order_value = rq_quantity rq * order_price;
                 projected_value = \<bar>projected_quantity rq ctx * order_price\<bar>;
                 max_position_value = rc_equity ctx * rl_max_position_size lims;
                 daily_loss_limit = rc_equity ctx * rl_max_daily_loss lims;
                 drawdown = 1 - rc_equity ctx / rc_peak_equity ctx
             in decide
                  (breach_if (rl_kill_switch lims) (breach ''kill_switch'' ''kill switch is enabled'')
                   @ breach_if (symbol \<in> set (normalized_symbols (rl_blocked_symbols lims)))
                       (breach ''blocked_symbols'' (symbol @ '' is blocked''))
                   @ breach_if (allowed \<noteq> [] \<and> symbol \<notin> set allowed)
                       (breach ''allowed_symbols'' (symbol @ '' is not in allowed symbols''))
                   @ breach_if (rl_max_order_value lims < order_value)
                       (breach ''max_order_value'' (''order value '' @ fmt_fixed 2 order_value
                          @ '' exceeds '' @ fmt_fixed 2 (rl_max_order_value lims)))
                   @ breach_if (max_position_value < projected_value)
                       (breach ''max_position_size'' (''projected position value ''
                          @ fmt_fixed 2 projected_value @ '' exceeds '' @ fmt_fixed 2 max_position_value))
                   @ breach_if (rc_daily_pnl ctx < 0 \<and> daily_loss_limit < \<bar>rc_daily_pnl ctx\<bar>)
                       (breach ''max_daily_loss'' (''daily loss '' @ fmt_fixed 2 (rc_daily_pnl ctx)
                          @ '' exceeds limit''))
                   @ breach_if (0 < rc_peak_equity ctx \<and> rl_max_drawdown lims < drawdown)
                       (breach ''max_drawdown'' (''drawdown '' @ fmt_fixed 4 drawdown @ '' exceeds ''
                          @ fmt_fixed 4 (rl_max_drawdown lims)))))"

definition portfolio_breach :: "string \<Rightarrow> string \<Rightarrow> string \<Rightarrow> string \<Rightarrow> risk_breach" where
  "portfolio_breach now rule symbol message =
     \<lparr>rb_timestamp = now, rb_rule = rule, rb_symbol = symbol, rb_message = message, rb_order_id = None\<rparr>"

definition position_breaches :: "string \<Rightarrow> rat \<Rightarrow> risk_context \<Rightarrow> risk_breach list" where
  "position_breaches now max_position_value ctx =
     concat (map (\<lambda>(symbol, quantity).
         case price_for ctx symbol None of
           None \<Rightarrow> []
         | Some price \<Rightarrow>
             let position_value = \<bar>quantity * price\<bar>
             in breach_if (max_position_value < position_value)
                  (portfolio_breach now ''max_position_size'' (upper symbol)
                    (''position value '' @ fmt_fixed 2 position_value @ '' exceeds ''
                     @ fmt_fixed 2 max_position_value)))
       (sort_key fst (rc_positions ctx)))"

definition check_portfolio :: "risk_limits \<Rightarrow> string \<Rightarrow> risk_context \<Rightarrow> risk_decision" where
  "check_portfolio lims now ctx =
     (let max_position_value = rc_equity ctx * rl_max_position_size lims;
          daily_loss_limit = rc_equity ctx * rl_max_daily_loss lims;
          drawdown = 1 - rc_equity ctx / rc_peak_equity ctx
      in decide
           ((if 0 < rc_equity ctx
             then position_breaches now max_position_value ctx
                  @ breach_if (rc_daily_pnl ctx < 0 \<and> daily_loss_limit < \<bar>rc_daily_pnl ctx\<bar>)
                      (portfolio_breach now ''max_daily_loss'' ''PORTFOLIO''
                        (''daily loss '' @ fmt_fixed 2 (rc_daily_pnl ctx) @ '' exceeds limit''))
             else [])
            @ breach_if (0 < rc_peak_equity ctx \<and> rl_max_drawdown lims < drawdown)
                (portfolio_breach now ''max_drawdown'' ''PORTFOLIO''
                  (''drawdown '' @ fmt_fixed 4 drawdown @ '' exceeds ''
                   @ fmt_fixed 4 (rl_max_drawdown lims)))))"

section \<open>When a check passes\<close>

lemma breach_if_Nil [simp]: "breach_if b x = [] \<longleftrightarrow> \<not> b"
  by (simp add: breach_if_def)

lemma decide_approved [simp]: "rd_approved (decide bs) \<longleftrightarrow> bs = []"
  by (simp add: decide_def)

lemma decide_breaches [simp]: "rd_breaches (decide bs) = bs"
  by (simp add: decide_def)

text \<open>The rule each order must satisfy, stated without the engine's list of breaches.\<close>

definition order_within_limits :: "risk_limits \<Rightarrow> order_request \<Rightarrow> risk_context \<Rightarrow> rat \<Rightarrow> bool" where
  "order_within_limits lims rq ctx price \<longleftrightarrow>
     \<not> rl_kill_switch lims
     \<and> normalized_symbol rq \<notin> (\<lambda>s. strip (upper s)) ` set (rl_blocked_symbols lims)
     \<and> (rl_allowed_symbols lims = []
        \<or> normalized_symbol rq \<in> (\<lambda>s. strip (upper s)) ` set (rl_allowed_symbols lims))
     \<and> rq_quantity rq * price \<le> rl_max_order_value lims
     \<and> \<bar>projected_quantity rq ctx * price\<bar> \<le> rc_equity ctx * rl_max_position_size lims
     \<and> - rc_daily_pnl ctx \<le> rc_equity ctx * rl_max_daily_loss lims
     \<and> (0 < rc_peak_equity ctx \<longrightarrow>
          rc_peak_equity ctx - rc_equity ctx \<le> rl_max_drawdown lims * rc_peak_equity ctx)"

lemma drawdown_within:
  fixes equity peak d :: rat
  assumes "0 < peak"
  shows "\<not> d < 1 - equity / peak \<longleftrightarrow> peak - equity \<le> d * peak"
proof -
  have "1 - equity / peak = (peak - equity) / peak"
    using assms by (simp add: diff_divide_distrib)
  then show ?thesis
    using assms by (simp add: not_less pos_divide_le_eq)
qed

lemma daily_loss_within:
  fixes pnl limit :: rat
  assumes "0 \<le> limit"
  shows "\<not> (pnl < 0 \<and> limit < \<bar>pnl\<bar>) \<longleftrightarrow> - pnl \<le> limit"
  using assms by auto

lemma check_order_missing_price:
  "price_for ctx (normalized_symbol rq) (rq_limit rq) = None \<Longrightarrow> \<not> rd_approved (check_order lims rq ctx)"
  by (simp add: check_order_def Let_def)

lemma check_order_approved:
  assumes "price_for ctx (normalized_symbol rq) (rq_limit rq) = Some price"
    and "0 \<le> rc_equity ctx * rl_max_daily_loss lims"
  shows "rd_approved (check_order lims rq ctx) \<longleftrightarrow> order_within_limits lims rq ctx price"
proof (cases "0 < rc_peak_equity ctx")
  case True
  then show ?thesis
    using assms(1) daily_loss_within [OF assms(2), of "rc_daily_pnl ctx"]
      drawdown_within [OF True, of "rl_max_drawdown lims" "rc_equity ctx"]
    by (auto simp: check_order_def Let_def order_within_limits_def normalized_symbols_def not_less)
next
  case False
  then show ?thesis
    using assms(1) daily_loss_within [OF assms(2), of "rc_daily_pnl ctx"]
    by (auto simp: check_order_def Let_def order_within_limits_def normalized_symbols_def not_less)
qed

lemma position_breaches_Nil:
  "position_breaches now m ctx = [] \<longleftrightarrow>
    (\<forall>(s, q) \<in> set (rc_positions ctx). case price_for ctx s None of None \<Rightarrow> True | Some p \<Rightarrow> \<bar>q * p\<bar> \<le> m)"
  unfolding position_breaches_def
  by (auto simp: Let_def not_less split: option.splits)

section \<open>Properties\<close>

text \<open>C25: An order is approved exactly when its symbol has a price and the order satisfies every
  limit at that price: kill switch, block list, allow list, order value, projected position,
  daily loss and drawdown.\<close>

theorem order_approved_iff:
  assumes "0 \<le> rc_equity ctx" and "0 \<le> rl_max_daily_loss lims"
  shows "rd_approved (check_order lims rq ctx) \<longleftrightarrow>
    (\<exists>price. price_for ctx (normalized_symbol rq) (rq_limit rq) = Some price \<and>
       order_within_limits lims rq ctx price)"
  using assms check_order_approved [of ctx rq _ lims] check_order_missing_price [of ctx rq lims]
  by (cases "price_for ctx (normalized_symbol rq) (rq_limit rq)") auto

definition example_request :: order_request where
  "example_request = \<lparr>rq_timestamp = ''t'', rq_symbol = ''AAPL'', rq_side = Buy, rq_quantity = 5,
     rq_limit = None, rq_reason = []\<rparr>"

definition example_context :: risk_context where
  "example_context = \<lparr>rc_cash = 50000, rc_equity = 100000, rc_peak_equity = 100000, rc_daily_pnl = 0,
     rc_positions = [(''AAPL'', 10)], rc_latest_prices = [(''AAPL'', 100)]\<rparr>"

theorem order_approved_iff_witness:
  "rd_approved (check_order (default_risk_limits\<lparr>rl_kill_switch := False\<rparr>) example_request
     example_context)"
proof -
  let ?l = "default_risk_limits\<lparr>rl_kill_switch := False\<rparr>"
  have "0 \<le> rc_equity example_context" "0 \<le> rl_max_daily_loss ?l"
    by (simp_all add: example_context_def default_risk_limits_def)
  note iff = order_approved_iff [OF this, of example_request]
  have "price_for example_context (normalized_symbol example_request) (rq_limit example_request) = Some 100"
    "order_within_limits ?l example_request example_context 100"
    by code_simp+
  then show ?thesis using iff by blast
qed

definition tighter :: "risk_limits \<Rightarrow> risk_limits \<Rightarrow> bool" where
  "tighter a b \<longleftrightarrow> (rl_kill_switch b \<longrightarrow> rl_kill_switch a)
     \<and> rl_max_position_size a \<le> rl_max_position_size b
     \<and> rl_max_daily_loss a \<le> rl_max_daily_loss b \<and> rl_max_drawdown a \<le> rl_max_drawdown b
     \<and> rl_max_order_value a \<le> rl_max_order_value b
     \<and> (rl_allowed_symbols b = [] \<or>
          rl_allowed_symbols a \<noteq> [] \<and> set (rl_allowed_symbols a) \<subseteq> set (rl_allowed_symbols b))
     \<and> set (rl_blocked_symbols b) \<subseteq> set (rl_blocked_symbols a)"

lemma within_limits_mono:
  assumes "tighter a b" and "0 \<le> rc_equity ctx" and "order_within_limits a rq ctx price"
  shows "order_within_limits b rq ctx price"
proof -
  have "rc_equity ctx * rl_max_position_size a \<le> rc_equity ctx * rl_max_position_size b"
    "rc_equity ctx * rl_max_daily_loss a \<le> rc_equity ctx * rl_max_daily_loss b"
    using assms(1,2) by (auto simp: tighter_def intro: mult_left_mono)
  moreover have "0 < rc_peak_equity ctx \<Longrightarrow>
      rl_max_drawdown a * rc_peak_equity ctx \<le> rl_max_drawdown b * rc_peak_equity ctx"
    using assms(1) by (auto simp: tighter_def intro: mult_right_mono)
  moreover note t = assms(1) [unfolded tighter_def] and w = assms(3) [unfolded order_within_limits_def]
  ultimately show ?thesis
    unfolding order_within_limits_def
  proof (intro conjI impI)
    show "rl_allowed_symbols b = [] \<or>
        normalized_symbol rq \<in> (\<lambda>s. strip (upper s)) ` set (rl_allowed_symbols b)"
      using t w by (blast intro: imageI)
    show "normalized_symbol rq \<notin> (\<lambda>s. strip (upper s)) ` set (rl_blocked_symbols b)"
      using t w by blast
    show "\<not> rl_kill_switch b"
      using t w by blast
  qed (use t w in linarith)+
qed

text \<open>Tightening the limits never lets an order through: whatever passes the tighter limits
  passes the looser ones.\<close>

theorem tighter_limits_reject_more:
  assumes "tighter a b" and "0 \<le> rc_equity ctx" and "0 \<le> rl_max_daily_loss a"
    and "rd_approved (check_order a rq ctx)"
  shows "rd_approved (check_order b rq ctx)"
proof -
  obtain price where p: "price_for ctx (normalized_symbol rq) (rq_limit rq) = Some price"
    using assms(4) check_order_missing_price [of ctx rq a] by fastforce
  have "0 \<le> rc_equity ctx * rl_max_daily_loss a" "0 \<le> rc_equity ctx * rl_max_daily_loss b"
    using assms(1-3) by (auto simp: tighter_def)
  then show ?thesis
    using assms(4) check_order_approved [OF p] within_limits_mono [OF assms(1,2)] by blast
qed

theorem tighter_limits_reject_more_witness:
  "rd_approved (check_order (default_risk_limits\<lparr>rl_kill_switch := False, rl_max_order_value := 20000\<rparr>)
     example_request example_context)"
proof (rule tighter_limits_reject_more)
  show "tighter (default_risk_limits\<lparr>rl_kill_switch := False\<rparr>)
      (default_risk_limits\<lparr>rl_kill_switch := False, rl_max_order_value := 20000\<rparr>)"
    by (simp add: tighter_def default_risk_limits_def)
  show "rd_approved (check_order (default_risk_limits\<lparr>rl_kill_switch := False\<rparr>) example_request
      example_context)"
    by code_simp
qed (simp_all add: example_context_def default_risk_limits_def)

text \<open>The position limit reads the holding under the request's symbol upper-cased but not
  stripped, while the price, the lists and the order use the stripped symbol: for a symbol
  written with surrounding spaces the projected position forgets what is already held.\<close>

theorem padded_symbol_forgets_holding:
  assumes "strip (upper (rq_symbol rq)) \<noteq> upper (rq_symbol rq)"
    and "\<forall>k \<in> fst ` set (rc_positions ctx). strip k = k"
  shows "projected_quantity rq ctx =
    (case rq_side rq of Buy \<Rightarrow> rq_quantity rq | Sell \<Rightarrow> - rq_quantity rq)"
proof -
  have "upper (rq_symbol rq) \<notin> fst ` set (rc_positions ctx)"
    using assms by auto
  then have "rc_position ctx (rq_symbol rq) = 0"
    by (simp add: rc_position_def dict_get_def map_of_absent)
  then show ?thesis
    by (simp add: projected_quantity_def split: side.split)
qed

theorem padded_symbol_forgets_holding_witness:
  "projected_quantity (example_request\<lparr>rq_symbol := '' AAPL''\<rparr>) example_context = 5 \<and>
   projected_quantity example_request example_context = 15"
proof -
  have "strip (upper (rq_symbol (example_request\<lparr>rq_symbol := '' AAPL''\<rparr>))) \<noteq>
      upper (rq_symbol (example_request\<lparr>rq_symbol := '' AAPL''\<rparr>))"
    "\<forall>k \<in> fst ` set (rc_positions example_context). strip k = k"
    by code_simp+
  from padded_symbol_forgets_holding [OF this] show ?thesis
    by (simp add: example_request_def, code_simp)
qed

text \<open>The post-trade check passes exactly when every priced position is within the position
  limit and the daily loss is within its limit (both only while equity is positive), and the
  drawdown from a positive peak is within its limit.\<close>

theorem portfolio_approved_iff:
  assumes "0 \<le> rl_max_daily_loss lims"
  shows "rd_approved (check_portfolio lims now ctx) \<longleftrightarrow>
    (0 < rc_equity ctx \<longrightarrow>
       (\<forall>(s, q) \<in> set (rc_positions ctx). case price_for ctx s None of None \<Rightarrow> True
          | Some p \<Rightarrow> \<bar>q * p\<bar> \<le> rc_equity ctx * rl_max_position_size lims) \<and>
       - rc_daily_pnl ctx \<le> rc_equity ctx * rl_max_daily_loss lims) \<and>
    (0 < rc_peak_equity ctx \<longrightarrow>
       rc_peak_equity ctx - rc_equity ctx \<le> rl_max_drawdown lims * rc_peak_equity ctx)"
proof -
  have loss: "(rc_daily_pnl ctx < 0 \<longrightarrow> \<not> rc_equity ctx * rl_max_daily_loss lims < \<bar>rc_daily_pnl ctx\<bar>)
      \<longleftrightarrow> - rc_daily_pnl ctx \<le> rc_equity ctx * rl_max_daily_loss lims" if "0 < rc_equity ctx"
    using daily_loss_within [of "rc_equity ctx * rl_max_daily_loss lims" "rc_daily_pnl ctx"] that assms
    by auto
  have draw: "(\<not> rl_max_drawdown lims < 1 - rc_equity ctx / rc_peak_equity ctx)
      \<longleftrightarrow> rc_peak_equity ctx - rc_equity ctx \<le> rl_max_drawdown lims * rc_peak_equity ctx"
    if "0 < rc_peak_equity ctx"
    by (rule drawdown_within [OF that])
  show ?thesis
    using loss draw by (simp add: check_portfolio_def Let_def position_breaches_Nil)
qed

theorem portfolio_approved_iff_witness:
  "\<not> rd_approved (check_portfolio default_risk_limits ''t''
     (example_context\<lparr>rc_latest_prices := [(''AAPL'', 1000)]\<rparr>))"
proof -
  have "0 \<le> rl_max_daily_loss default_risk_limits"
    by (simp add: default_risk_limits_def)
  from portfolio_approved_iff [OF this, of "''t''"
      "example_context\<lparr>rc_latest_prices := [(''AAPL'', 1000)]\<rparr>"]
  show ?thesis
    by (simp, simp add: example_context_def default_risk_limits_def price_for_def upper_def upper_char_def)
qed

end
