(* ===== verification/Broker.thy ===== *)
theory Broker
  imports Risk
begin

text \<open>
  The paper portfolio and the paper broker (\<open>src/quant_system/execution/portfolio.py\<close>,
  \<open>paper_broker.py\<close>). A \<open>ManagedOrder\<close> is one mutable object that the broker and the order
  manager both hold: it lives in an order heap keyed by its id, and the dictionaries
  \<open>open_orders\<close> and \<open>all_orders\<close> are their keys, in insertion order. The lemmas show that
  processing a tick keeps cash and positions from going negative, keeps every open order
  within its quantity, never raises, and never creates value.
\<close>

section \<open>Paper portfolio\<close>

record paper_portfolio =
  pp_initial_cash :: rat
  pp_cash :: rat
  pp_positions :: "(string, rat) dict"

definition new_paper_portfolio :: "rat \<Rightarrow> paper_portfolio result" where
  "new_paper_portfolio initial_cash =
     (if initial_cash < 0 then Inl (ValueError ''initial_cash must be non-negative'')
      else Inr \<lparr>pp_initial_cash = initial_cash, pp_cash = initial_cash, pp_positions = []\<rparr>)"

definition pp_position :: "paper_portfolio \<Rightarrow> string \<Rightarrow> rat" where
  "pp_position p symbol = dict_get (pp_positions p) (upper symbol) 0"

definition pp_market_value :: "paper_portfolio \<Rightarrow> (string, rat) dict \<Rightarrow> rat result" where
  "pp_market_value p prices =
     (let normalized = upper_dict prices;
          missing = sort (filter (\<lambda>s. map_of normalized s = None) (map fst (pp_positions p)))
      in if missing \<noteq> [] then Inl (ValueError (''missing mark prices: '' @ join '', '' missing))
         else Inr (\<Sum>(s, q) \<leftarrow> pp_positions p. q * dict_get normalized s 0))"

definition pp_equity :: "paper_portfolio \<Rightarrow> (string, rat) dict \<Rightarrow> rat result" where
  "pp_equity p prices =
     (case pp_market_value p prices of Inl e \<Rightarrow> Inl e | Inr v \<Rightarrow> Inr (pp_cash p + v))"

definition pp_apply_fill :: "paper_portfolio \<Rightarrow> 'a fill_scheme \<Rightarrow> paper_portfolio" where
  "pp_apply_fill p f =
     (let (positions, cash) = apply_fill_to_portfolio (pp_positions p) (pp_cash p) f
      in p\<lparr>pp_positions := positions, pp_cash := cash\<rparr>)"

section \<open>Paper broker\<close>

type_synonym order_heap = "(string, managed_order) dict"

record paper_broker =
  pb_portfolio :: paper_portfolio
  pb_max_fill_ratio :: rat
  pb_commission_bps :: rat
  pb_slippage_bps :: rat
  pb_open :: "string list"
  pb_all :: "string list"
  pb_submitted :: "string list"
  pb_fill_counter :: nat

definition new_paper_broker :: "paper_portfolio \<Rightarrow> rat \<Rightarrow> rat \<Rightarrow> rat \<Rightarrow> paper_broker result" where
  "new_paper_broker portfolio ratio commission_bps slippage_bps =
     (if ratio < 0 then Inl (ValueError ''max_fill_ratio_per_tick must be non-negative'')
      else Inr \<lparr>pb_portfolio = portfolio, pb_max_fill_ratio = ratio, pb_commission_bps = commission_bps,
                pb_slippage_bps = slippage_bps, pb_open = [], pb_all = [], pb_submitted = [],
                pb_fill_counter = 0\<rparr>)"

text \<open>\<open>d[key] = x\<close> on the keys of a dictionary whose values live in the heap.\<close>

definition add_key :: "'k \<Rightarrow> 'k list \<Rightarrow> 'k list" where
  "add_key k ks = (if k \<in> set ks then ks else ks @ [k])"

definition pb_submit_order :: "string \<Rightarrow> paper_broker \<Rightarrow> paper_broker" where
  "pb_submit_order order_id b =
     b\<lparr>pb_open := add_key order_id (pb_open b), pb_all := add_key order_id (pb_all b),
       pb_submitted := pb_submitted b @ [order_id]\<rparr>"

definition pb_cancel_order ::
    "string \<Rightarrow> paper_broker \<Rightarrow> order_heap \<Rightarrow> (paper_broker \<times> order_heap) result" where
  "pb_cancel_order order_id b h =
     (if order_id \<notin> set (pb_open b)
      then Inl (KeyError (''order '' @ repr_str order_id @ '' is not open''))
      else Inr (b\<lparr>pb_open := removeAll order_id (pb_open b)\<rparr>,
                AList.map_entry order_id (\<lambda>o'. o'\<lparr>mo_status := Cancelled\<rparr>) h))"

definition limit_allows_fill :: "managed_order \<Rightarrow> rat \<Rightarrow> bool" where
  "limit_allows_fill o' market_price =
     (case mo_limit o' of None \<Rightarrow> True
      | Some l \<Rightarrow> (case mo_side o' of Buy \<Rightarrow> market_price \<le> l | Sell \<Rightarrow> l \<le> market_price))"

definition apply_slippage :: "rat \<Rightarrow> rat \<Rightarrow> side \<Rightarrow> rat" where
  "apply_slippage slippage_bps price sd =
     (let slippage = slippage_bps / 10000
      in case sd of Buy \<Rightarrow> price * (1 + slippage) | Sell \<Rightarrow> price * (1 - slippage))"

definition executable_quantity :: "paper_broker \<Rightarrow> managed_order \<Rightarrow> rat \<Rightarrow> rat \<Rightarrow> rat" where
  "executable_quantity b o' requested market_price =
     (if requested \<le> 0 then 0
      else
        let fill_price = apply_slippage (pb_slippage_bps b) market_price (mo_side o')
        in case mo_side o' of
             Sell \<Rightarrow> min requested (max (pp_position (pb_portfolio b) (mo_symbol o')) 0)
           | Buy \<Rightarrow>
               let cash_per_share = fill_price * (1 + pb_commission_bps b / 10000)
               in if cash_per_share \<le> 0 then 0
                  else min requested (max (pp_cash (pb_portfolio b) / cash_per_share) 0))"

text \<open>The fill one open order gets from a tick: none, or the fill the broker builds.\<close>

definition fill_quantity_for :: "(string, rat) dict \<Rightarrow> paper_broker \<Rightarrow> managed_order \<Rightarrow> (rat \<times> rat) option" where
  "fill_quantity_for prices b o' =
     (case map_of prices (mo_symbol o') of
        None \<Rightarrow> None
      | Some price \<Rightarrow>
          if pb_max_fill_ratio b = 0 then None
          else if \<not> limit_allows_fill o' price then None
          else
            let requested = min (remaining_quantity o') (mo_quantity o' * min (pb_max_fill_ratio b) 1);
                quantity = executable_quantity b o' requested price
            in if quantity \<le> 0 then None else Some (price, quantity))"

definition build_fill :: "string \<Rightarrow> paper_broker \<Rightarrow> managed_order \<Rightarrow> rat \<Rightarrow> rat \<Rightarrow> execution_fill result" where
  "build_fill timestamp b o' price quantity =
     (let fill_price = apply_slippage (pb_slippage_bps b) price (mo_side o');
          gross = quantity * fill_price;
          commission = gross * pb_commission_bps b / 10000
      in new_execution_fill (''paper-fill-'' @ zero_pad 6 (nat_str (Suc (pb_fill_counter b))))
           (mo_id o') timestamp (mo_symbol o') (mo_side o') quantity fill_price gross commission)"

definition order_dust :: rat where
  "order_dust = 1 / 10 ^ 10"

definition fill_order :: "managed_order \<Rightarrow> rat \<Rightarrow> managed_order" where
  "fill_order o' quantity =
     (let o'' = o'\<lparr>mo_filled := mo_filled o' + quantity\<rparr>
      in o''\<lparr>mo_status := (if remaining_quantity o'' \<le> order_dust then Filled else PartiallyFilled)\<rparr>)"

definition settle_fill ::
    "paper_broker \<Rightarrow> order_heap \<Rightarrow> managed_order \<Rightarrow> execution_fill \<Rightarrow> paper_broker \<times> order_heap" where
  "settle_fill b h o' f =
     (let o'' = fill_order o' (fill_quantity f);
          b' = b\<lparr>pb_fill_counter := Suc (pb_fill_counter b),
                 pb_portfolio := pp_apply_fill (pb_portfolio b) f\<rparr>
      in (if mo_status o'' = Filled then b'\<lparr>pb_open := removeAll (mo_id o') (pb_open b')\<rparr> else b',
          AList.update (mo_id o') o'' h))"

text \<open>
  The loop of \<open>process_market_data\<close> over a snapshot of the open orders. A fill that fails
  validation raises, and what earlier orders did stays done.
\<close>

fun process_orders ::
    "string \<Rightarrow> (string, rat) dict \<Rightarrow> string list \<Rightarrow> paper_broker \<Rightarrow> order_heap
      \<Rightarrow> paper_broker \<times> order_heap \<times> execution_fill list result" where
  "process_orders timestamp prices [] b h = (b, h, Inr [])"
| "process_orders timestamp prices (i # ids) b h =
     (case map_of h i of
        None \<Rightarrow> process_orders timestamp prices ids b h
      | Some o' \<Rightarrow>
          (case fill_quantity_for prices b o' of
             None \<Rightarrow> process_orders timestamp prices ids b h
           | Some (price, quantity) \<Rightarrow>
               (case build_fill timestamp b o' price quantity of
                  Inl e \<Rightarrow> (b\<lparr>pb_fill_counter := Suc (pb_fill_counter b)\<rparr>, h, Inl e)
                | Inr f \<Rightarrow>
                    let (b', h') = settle_fill b h o' f;
                        (b'', h'', r) = process_orders timestamp prices ids b' h'
                    in (b'', h'', case r of Inl e \<Rightarrow> Inl e | Inr fs \<Rightarrow> Inr (f # fs)))))"

definition pb_process_market_data ::
    "string \<Rightarrow> (string, rat) dict \<Rightarrow> paper_broker \<Rightarrow> order_heap
      \<Rightarrow> paper_broker \<times> order_heap \<times> execution_fill list result" where
  "pb_process_market_data timestamp prices b h =
     process_orders timestamp (upper_dict prices) (pb_open b) b h"

section \<open>The broker's invariant\<close>

text \<open>The cost settings the application validates, and prices a market can quote.\<close>

definition costs_ok :: "paper_broker \<Rightarrow> bool" where
  "costs_ok b \<longleftrightarrow> 0 \<le> pb_max_fill_ratio b \<and> 0 \<le> pb_commission_bps b
     \<and> pb_commission_bps b \<le> 10000 \<and> 0 \<le> pb_slippage_bps b \<and> pb_slippage_bps b < 10000"

definition prices_ok :: "(string, rat) dict \<Rightarrow> bool" where
  "prices_ok prices \<longleftrightarrow> (\<forall>p \<in> snd ` set prices. 0 < p)"

definition portfolio_ok :: "paper_portfolio \<Rightarrow> bool" where
  "portfolio_ok p \<longleftrightarrow> 0 \<le> pp_cash p \<and> wf_dict (pp_positions p) \<and> upper_keys (pp_positions p)
     \<and> (\<forall>(s, q) \<in> set (pp_positions p). 0 \<le> q)"

definition open_order_ok :: "string \<Rightarrow> managed_order \<Rightarrow> bool" where
  "open_order_ok i o' \<longleftrightarrow> mo_id o' = i \<and> 0 < mo_quantity o' \<and> positive_limit (mo_limit o')
     \<and> 0 \<le> mo_filled o' \<and> mo_filled o' \<le> mo_quantity o'
     \<and> mo_status o' \<in> {Created, Submitted, PartiallyFilled}"

definition broker_ok :: "paper_broker \<Rightarrow> order_heap \<Rightarrow> bool" where
  "broker_ok b h \<longleftrightarrow> costs_ok b \<and> portfolio_ok (pb_portfolio b) \<and> distinct (pb_open b)
     \<and> (\<forall>i \<in> set (pb_open b). case map_of h i of None \<Rightarrow> False | Some o' \<Rightarrow> open_order_ok i o')"

lemma positions_nonneg_get:
  assumes "wf_dict d"
  shows "(\<forall>(s, q) \<in> set d. (0::rat) \<le> q) \<longleftrightarrow> (\<forall>s. 0 \<le> dict_get d s 0)"
proof
  show "\<forall>(s, q) \<in> set d. 0 \<le> q \<Longrightarrow> \<forall>s. 0 \<le> dict_get d s 0"
    by (auto simp: dict_get_def split: option.splits dest: map_of_SomeD)
next
  assume nonneg: "\<forall>s. 0 \<le> dict_get d s 0"
  have "0 \<le> q" if "(s, q) \<in> set d" for s q
    using nonneg [rule_format, of s] map_of_is_SomeI [OF assms that] by (simp add: dict_get_def)
  then show "\<forall>(s, q) \<in> set d. 0 \<le> q" by blast
qed

lemma portfolio_ok_get: "portfolio_ok p \<Longrightarrow> 0 \<le> pp_position p s"
  by (auto simp: portfolio_ok_def pp_position_def positions_nonneg_get)

lemma slippage_pos:
  assumes "0 < price" and "0 \<le> bps" and "bps < 10000"
  shows "0 < apply_slippage bps price sd"
  using assms by (cases sd) (auto simp: apply_slippage_def Let_def intro!: mult_pos_pos add_pos_nonneg)

text \<open>A buyer pays at least the market price, a seller gets at most it.\<close>

lemma slippage_adverse:
  assumes "0 < price" and "0 \<le> bps"
  shows "price \<le> apply_slippage bps price Buy" and "apply_slippage bps price Sell \<le> price"
  using assms by (simp_all add: apply_slippage_def Let_def)

lemma executable_quantity_bounds:
  assumes "0 < requested"
  shows "executable_quantity b o' requested price \<le> requested"
    and "mo_side o' = Sell \<Longrightarrow>
      executable_quantity b o' requested price \<le> max (pp_position (pb_portfolio b) (mo_symbol o')) 0"
  using assms by (auto simp: executable_quantity_def Let_def split: side.splits)

lemma executable_buy_affordable:
  fixes price :: rat
  assumes "mo_side o' = Buy" and "0 \<le> pp_cash (pb_portfolio b)"
  defines "per_share \<equiv> apply_slippage (pb_slippage_bps b) price Buy * (1 + pb_commission_bps b / 10000)"
  assumes "0 < per_share"
  shows "executable_quantity b o' requested price * per_share \<le> pp_cash (pb_portfolio b)"
proof -
  have "executable_quantity b o' requested price \<le> pp_cash (pb_portfolio b) / per_share"
    using assms by (auto simp: executable_quantity_def Let_def)
  then show ?thesis using assms(4) by (simp add: pos_le_divide_eq)
qed

subsection \<open>One fill\<close>

lemma fill_quantity_for_Some:
  assumes "fill_quantity_for prices b o' = Some (price, q)"
  shows "map_of prices (mo_symbol o') = Some price" and "limit_allows_fill o' price" and "0 < q"
    and "q \<le> remaining_quantity o'" and "q \<le> mo_quantity o' * min (pb_max_fill_ratio b) 1"
    and "q = executable_quantity b o' (min (remaining_quantity o')
           (mo_quantity o' * min (pb_max_fill_ratio b) 1)) price"
proof -
  let ?r = "min (remaining_quantity o') (mo_quantity o' * min (pb_max_fill_ratio b) 1)"
  have q: "q = executable_quantity b o' ?r price" "0 < q"
    and "map_of prices (mo_symbol o') = Some price" "limit_allows_fill o' price"
    using assms by (auto simp: fill_quantity_for_def Let_def split: option.splits if_splits)
  have "executable_quantity b o' ?r price = 0" if "?r \<le> 0"
    using that by (simp only: executable_quantity_def if_True)
  with q have "0 < ?r"
    by (metis less_irrefl not_less)
  with q have "q \<le> ?r"
    using executable_quantity_bounds(1) by blast
  then show "q \<le> remaining_quantity o'" "q \<le> mo_quantity o' * min (pb_max_fill_ratio b) 1"
    by simp_all
qed (use assms in \<open>auto simp: fill_quantity_for_def Let_def split: option.splits if_splits\<close>)

lemma build_fill_Inr:
  assumes "build_fill timestamp b o' price q = Inr f"
  shows "fill_symbol f = mo_symbol o'" and "fill_side f = mo_side o'" and "fill_quantity f = q"
    and "ef_price f = apply_slippage (pb_slippage_bps b) price (mo_side o')"
    and "fill_gross f = q * ef_price f"
    and "fill_commission f = fill_gross f * pb_commission_bps b / 10000"
    and "ef_order_id f = mo_id o'" and "ef_timestamp f = timestamp"
    and "0 < fill_quantity f" and "0 < ef_price f" and "0 \<le> fill_gross f" and "0 \<le> fill_commission f"
  using assms by (auto simp: build_fill_def new_execution_fill_def Let_def split: if_splits)

lemma build_fill_succeeds:
  assumes "costs_ok b" and "0 < price" and "0 < q"
  shows "\<exists>f. build_fill timestamp b o' price q = Inr f"
proof -
  have "0 < apply_slippage (pb_slippage_bps b) price (mo_side o')"
    using assms by (intro slippage_pos) (auto simp: costs_ok_def)
  then show ?thesis
    using assms by (simp add: build_fill_def new_execution_fill_def costs_ok_def Let_def)
qed

text \<open>Facts about one fill, from the invariant and the tick.\<close>

lemma fill_within_means:
  assumes b: "costs_ok b" "portfolio_ok (pb_portfolio b)"
    and q: "fill_quantity_for prices b o' = Some (price, q)" and "0 < price"
    and f: "build_fill timestamp b o' price q = Inr f"
  shows "fill_side f = Buy \<Longrightarrow> fill_gross f + fill_commission f \<le> pp_cash (pb_portfolio b)"
    and "fill_side f = Sell \<Longrightarrow> fill_quantity f \<le> pp_position (pb_portfolio b) (fill_symbol f)"
proof -
  let ?r = "min (remaining_quantity o') (mo_quantity o' * min (pb_max_fill_ratio b) 1)"
  note q' = fill_quantity_for_Some [OF q] and f' = build_fill_Inr [OF f]
  show "fill_side f = Buy \<Longrightarrow> fill_gross f + fill_commission f \<le> pp_cash (pb_portfolio b)"
  proof -
    assume buy: "fill_side f = Buy"
    let ?s = "apply_slippage (pb_slippage_bps b) price Buy * (1 + pb_commission_bps b / 10000)"
    have "0 < apply_slippage (pb_slippage_bps b) price Buy"
      using b(1) assms(4) by (intro slippage_pos) (auto simp: costs_ok_def)
    then have "0 < ?s"
      using b(1) by (auto simp: costs_ok_def intro!: mult_pos_pos add_pos_nonneg)
    moreover have "mo_side o' = Buy" "0 \<le> pp_cash (pb_portfolio b)"
      using buy f'(2) b(2) by (auto simp: portfolio_ok_def)
    ultimately have "q * ?s \<le> pp_cash (pb_portfolio b)"
      using executable_buy_affordable [of o' b price ?r] q'(6) by simp
    then show ?thesis
      using f'(4-6) buy f'(2) by (simp add: algebra_simps)
  qed
  show "fill_side f = Sell \<Longrightarrow> fill_quantity f \<le> pp_position (pb_portfolio b) (fill_symbol f)"
  proof -
    assume "fill_side f = Sell"
    then have "q \<le> max (pp_position (pb_portfolio b) (mo_symbol o')) 0"
      using executable_quantity_bounds(2) [of ?r o' b price] q'(3-6) f'(2) by auto
    with q'(3) show ?thesis using f'(1,3) by simp
  qed
qed

lemma pp_apply_fill_ok:
  assumes "portfolio_ok p" and "0 \<le> fill_quantity f" and "0 \<le> fill_gross f" and "0 \<le> fill_commission f"
    and "fill_side f = Buy \<Longrightarrow> fill_gross f + fill_commission f \<le> pp_cash p"
    and "fill_side f = Sell \<Longrightarrow> fill_commission f \<le> fill_gross f + pp_cash p"
    and "fill_side f = Sell \<Longrightarrow> fill_quantity f \<le> pp_position p (fill_symbol f)"
  shows "portfolio_ok (pp_apply_fill p f)"
proof -
  obtain d' c' where app: "apply_fill_to_portfolio (pp_positions p) (pp_cash p) f = (d', c')"
    by fastforce
  have wf: "wf_dict (pp_positions p)" "upper_keys (pp_positions p)"
    using assms(1) by (auto simp: portfolio_ok_def)
  have "0 \<le> dict_get d' s 0" for s
    using apply_fill_position [OF wf app, of s] assms(1,2,7) wf(1)
    by (auto simp: portfolio_ok_def positions_nonneg_get signed_quantity_def pp_position_def
        split: side.splits)
  moreover have "wf_dict d' \<and> upper_keys d'"
    by (rule apply_fill_wf [OF wf app])
  moreover have "0 \<le> c'"
    using apply_fill_cases(1) [OF wf app] assms(4-6) by (auto split: side.splits)
  ultimately show ?thesis
    using app by (simp add: pp_apply_fill_def portfolio_ok_def positions_nonneg_get)
qed

lemma pp_apply_fill_equity:
  assumes "portfolio_ok p" and "0 \<le> fill_commission f" and "0 \<le> px (upper (fill_symbol f))"
    and "fill_side f = Buy \<Longrightarrow> fill_quantity f * px (upper (fill_symbol f)) \<le> fill_gross f"
    and "fill_side f = Sell \<Longrightarrow> fill_gross f \<le> fill_quantity f * px (upper (fill_symbol f))"
    and "fill_side f = Sell \<Longrightarrow> fill_quantity f \<le> pp_position p (fill_symbol f)"
    and "0 \<le> fill_quantity f"
  shows "pp_cash (pp_apply_fill p f) + marked_value px (pp_positions (pp_apply_fill p f))
    \<le> pp_cash p + marked_value px (pp_positions p)"
proof -
  obtain d' c' where app: "apply_fill_to_portfolio (pp_positions p) (pp_cash p) f = (d', c')"
    by fastforce
  have wf: "wf_dict (pp_positions p)" "upper_keys (pp_positions p)"
    using assms(1) by (auto simp: portfolio_ok_def)
  define q where "q = dict_get (pp_positions p) (upper (fill_symbol f)) 0 + signed_quantity f"
  have "0 \<le> q"
    using assms(1,6,7) portfolio_ok_get [OF assms(1), of "fill_symbol f"]
    by (auto simp: q_def signed_quantity_def pp_position_def split: side.splits)
  then have "0 \<le> (if \<bar>q\<bar> < position_dust then q * px (upper (fill_symbol f)) else 0)"
    using assms(3) by simp
  moreover have "signed_quantity f * px (upper (fill_symbol f))
      \<le> (case fill_side f of Buy \<Rightarrow> fill_gross f | Sell \<Rightarrow> - fill_gross f)"
    using assms(4,5) by (auto simp: signed_quantity_def split: side.splits)
  ultimately have "c' + marked_value px d' \<le> pp_cash p + marked_value px (pp_positions p)"
    using apply_fill_equity [OF wf app, of px, folded q_def] assms(2) by linarith
  then show ?thesis
    using app by (simp add: pp_apply_fill_def)
qed


subsection \<open>One order, one tick\<close>

text \<open>What the tick relies on at the order it is looking at.\<close>

definition fillable ::
    "(string, rat) dict \<Rightarrow> paper_broker \<Rightarrow> order_heap \<Rightarrow> string \<Rightarrow> managed_order \<Rightarrow> rat \<Rightarrow> rat \<Rightarrow> bool" where
  "fillable prices b h i o' price q \<longleftrightarrow> broker_ok b h \<and> i \<in> set (pb_open b) \<and> map_of h i = Some o'
     \<and> fill_quantity_for prices b o' = Some (price, q) \<and> 0 < price \<and> upper (mo_symbol o') = mo_symbol o'"

lemma fillableD:
  assumes "fillable prices b h i o' price q"
  shows "costs_ok b" and "portfolio_ok (pb_portfolio b)" and "open_order_ok i o'"
    and "fill_quantity_for prices b o' = Some (price, q)" and "0 < price" and "0 < q"
    and "upper (mo_symbol o') = mo_symbol o'"
  using assms fill_quantity_for_Some(3) [of prices b o' price q]
  by (auto simp: fillable_def broker_ok_def split: option.splits)

lemma settled_portfolio:
  assumes "fillable prices b h i o' price q" and "build_fill timestamp b o' price q = Inr f"
  shows "portfolio_ok (pp_apply_fill (pb_portfolio b) f)"
proof (rule pp_apply_fill_ok)
  note f = build_fill_Inr [OF assms(2)] and fd = fillableD [OF assms(1)]
  show "portfolio_ok (pb_portfolio b)" by (rule fd)
  have "fill_gross f * pb_commission_bps b \<le> fill_gross f * 10000"
    using fd(1) f(11) by (intro mult_left_mono) (auto simp: costs_ok_def)
  then have "fill_commission f \<le> fill_gross f"
    using f(6) by simp
  then show "fill_side f = Sell \<Longrightarrow> fill_commission f \<le> fill_gross f + pp_cash (pb_portfolio b)"
    using fd(2) by (simp add: portfolio_ok_def)
qed (use build_fill_Inr(9-12) [OF assms(2)]
    fill_within_means [OF fillableD(1,2,4,5) [OF assms(1)] assms(2)] in auto)

lemma settled_equity:
  assumes "fillable prices b h i o' price q" and "build_fill timestamp b o' price q = Inr f"
    and "px (mo_symbol o') = price"
  shows "pp_cash (pp_apply_fill (pb_portfolio b) f) + marked_value px (pp_positions (pp_apply_fill (pb_portfolio b) f))
    \<le> pp_cash (pb_portfolio b) + marked_value px (pp_positions (pb_portfolio b))"
proof (rule pp_apply_fill_equity)
  note f = build_fill_Inr [OF assms(2)] and fd = fillableD [OF assms(1)]
  have px: "px (upper (fill_symbol f)) = price"
    using f(1) fd(7) assms(3) by simp
  have s: "0 \<le> pb_slippage_bps b" using fd(1) by (simp add: costs_ok_def)
  show "portfolio_ok (pb_portfolio b)" by (rule fd)
  show "0 \<le> px (upper (fill_symbol f))" using px fd(5) by simp
  show "fill_quantity f * px (upper (fill_symbol f)) \<le> fill_gross f" if "fill_side f = Buy"
    using slippage_adverse(1) [OF fd(5) s] f(2-5) that px fd(6) by (simp add: mult_left_mono)
  show "fill_gross f \<le> fill_quantity f * px (upper (fill_symbol f))" if "fill_side f = Sell"
    using slippage_adverse(2) [OF fd(5) s] f(2-5) that px fd(6) by (simp add: mult_left_mono)
qed (use build_fill_Inr(9-12) [OF assms(2)]
    fill_within_means(2) [OF fillableD(1,2,4,5) [OF assms(1)] assms(2)] in auto)

lemma settled_order:
  assumes "open_order_ok i o'" and "0 < q" and "q \<le> remaining_quantity o'"
  shows "mo_status (fill_order o' q) \<noteq> Filled \<Longrightarrow> open_order_ok i (fill_order o' q)"
    and "mo_filled (fill_order o' q) = mo_filled o' + q"
    and "mo_filled (fill_order o' q) \<le> mo_quantity o'"
  using assms by (auto simp: fill_order_def open_order_ok_def remaining_quantity_def Let_def)

lemma settle_fill_ok:
  assumes "fillable prices b h i o' price q" and "build_fill timestamp b o' price q = Inr f"
    and "settle_fill b h o' f = (b', h')"
  shows "broker_ok b' h'"
    and "set (pb_open b) - {i} \<subseteq> set (pb_open b')" and "set (pb_open b') \<subseteq> set (pb_open b)"
    and "pb_portfolio b' = pp_apply_fill (pb_portfolio b) f"
    and "h' = AList.update i (fill_order o' q) h"
    and "pb_max_fill_ratio b' = pb_max_fill_ratio b"
proof -
  note fd = fillableD [OF assms(1)]
  have id: "mo_id o' = i" using fd(3) by (simp add: open_order_ok_def)
  have fq: "fill_quantity f = q" by (rule build_fill_Inr(3) [OF assms(2)])
  note b' = assms(3) [unfolded settle_fill_def Let_def fq id]
  have order: "mo_status (fill_order o' q) \<noteq> Filled \<Longrightarrow> open_order_ok i (fill_order o' q)"
    using settled_order(1) [OF fd(3,6)] fill_quantity_for_Some(4) [OF fd(4)] by blast
  have ok: "broker_ok b h" using assms(1) by (simp add: fillable_def)
  show "pb_portfolio b' = pp_apply_fill (pb_portfolio b) f"
    using b' by (auto split: if_splits)
  show h': "h' = AList.update i (fill_order o' q) h"
    using b' by (auto split: if_splits)
  show "set (pb_open b) - {i} \<subseteq> set (pb_open b')" "set (pb_open b') \<subseteq> set (pb_open b)"
    "pb_max_fill_ratio b' = pb_max_fill_ratio b"
    using b' by (auto split: if_splits)
  have "portfolio_ok (pb_portfolio b')"
    using settled_portfolio [OF assms(1,2)] b' by (auto split: if_splits)
  moreover have "costs_ok b'"
    using ok b' by (auto simp: broker_ok_def costs_ok_def split: if_splits)
  moreover have "distinct (pb_open b')"
    using ok b' by (auto simp: broker_ok_def distinct_removeAll split: if_splits)
  moreover have "case map_of h' j of None \<Rightarrow> False | Some p \<Rightarrow> open_order_ok j p"
    if "j \<in> set (pb_open b')" for j
    using that ok b' order unfolding h'
    by (auto simp: broker_ok_def split: if_splits)
  ultimately show "broker_ok b' h'" by (simp add: broker_ok_def)
qed


subsection \<open>The whole tick\<close>

definition tick_prices :: "(string, rat) dict \<Rightarrow> bool" where
  "tick_prices prices \<longleftrightarrow> prices_ok prices \<and> upper_keys prices"

lemma tick_prices_upper: "prices_ok prices \<Longrightarrow> tick_prices (upper_dict prices)"
proof -
  assume ok: "prices_ok prices"
  have "p \<in> snd ` set prices" if "(k, p) \<in> set (upper_dict prices)" for k p
  proof -
    have "map_of (upper_dict prices) k = Some p"
      using that by (simp add: upper_dict_def)
    then show ?thesis
      by (force simp: upper_dict_def map_of_dict_of dest: map_of_SomeD)
  qed
  moreover have "upper_keys (upper_dict prices)"
    by (auto simp: upper_keys_def upper_dict_def)
  ultimately show "tick_prices (upper_dict prices)"
    using ok by (force simp: tick_prices_def prices_ok_def)
qed

lemma fillableI:
  assumes "tick_prices prices" and "broker_ok b h" and "i \<in> set (pb_open b)"
    and "map_of h i = Some o'" and "fill_quantity_for prices b o' = Some (price, q)"
  shows "fillable prices b h i o' price q"
proof -
  have "(mo_symbol o', price) \<in> set prices"
    using fill_quantity_for_Some(1) [OF assms(5)] by (rule map_of_SomeD)
  then have "0 < price" "upper (mo_symbol o') = mo_symbol o'"
    using assms(1) by (force simp: tick_prices_def prices_ok_def upper_keys_def)+
  then show ?thesis using assms by (simp add: fillable_def)
qed

text \<open>What a fill owes the order it fills: its identity, a market price within the limit, and a
  quantity within the remaining quantity and the tick's share of the order.\<close>

definition fill_honours :: "(string, rat) dict \<Rightarrow> rat \<Rightarrow> managed_order \<Rightarrow> execution_fill \<Rightarrow> bool" where
  "fill_honours prices ratio o' f \<longleftrightarrow>
     ef_order_id f = mo_id o' \<and> fill_symbol f = mo_symbol o' \<and> fill_side f = mo_side o'
     \<and> (case map_of prices (mo_symbol o') of None \<Rightarrow> False | Some p \<Rightarrow> limit_allows_fill o' p)
     \<and> 0 < fill_quantity f \<and> fill_quantity f \<le> remaining_quantity o'
     \<and> fill_quantity f \<le> mo_quantity o' * min ratio 1"

lemma built_fill_honours:
  assumes "fill_quantity_for prices b o' = Some (price, q)"
    and "build_fill timestamp b o' price q = Inr f"
  shows "fill_honours prices (pb_max_fill_ratio b) o' f"
  using fill_quantity_for_Some(1-5) [OF assms(1)] build_fill_Inr(1-3,7) [OF assms(2)]
  by (simp add: fill_honours_def)

definition broker_equity :: "(string \<Rightarrow> rat) \<Rightarrow> paper_broker \<Rightarrow> rat" where
  "broker_equity px b = pp_cash (pb_portfolio b) + marked_value px (pp_positions (pb_portfolio b))"

lemma process_orders_run:
  assumes "process_orders timestamp prices ids b h = (b', h', r)"
    and "tick_prices prices" and "broker_ok b h" and "distinct ids" and "set ids \<subseteq> set (pb_open b)"
    and "\<And>s p. map_of prices s = Some p \<Longrightarrow> px s = p"
  shows "broker_ok b' h' \<and> broker_equity px b' \<le> broker_equity px b
    \<and> (\<forall>i. i \<notin> set ids \<longrightarrow> map_of h' i = map_of h i)
    \<and> (\<exists>fs. r = Inr fs \<and> (\<forall>f \<in> set fs. ef_order_id f \<in> set ids \<and>
         (\<exists>o'. map_of h (ef_order_id f) = Some o' \<and> fill_honours prices (pb_max_fill_ratio b) o' f)))"
  using assms
proof (induction ids arbitrary: b h b' h' r)
  case Nil
  then show ?case by simp
next
  case (Cons i ids)
  obtain o' where o': "map_of h i = Some o'"
    using Cons.prems(3,5) by (auto simp: broker_ok_def split: option.splits)
  show ?case
  proof (cases "fill_quantity_for prices b o'")
    case None
    then show ?thesis
      using Cons.IH [of b h b' h' r] Cons.prems o' by auto
  next
    case (Some pq)
    then obtain price q where pq: "fill_quantity_for prices b o' = Some (price, q)"
      by (cases pq) auto
    have fillable: "fillable prices b h i o' price q"
      using Cons.prems o' pq by (intro fillableI) auto
    note fd = fillableD [OF fillable]
    obtain f where f: "build_fill timestamp b o' price q = Inr f"
      using build_fill_succeeds [OF fd(1,5,6)] by blast
    obtain b1 h1 where s: "settle_fill b h o' f = (b1, h1)" by fastforce
    obtain r1 where rec: "process_orders timestamp prices ids b1 h1 = (b', h', r1)"
      and r: "r = (case r1 of Inl e \<Rightarrow> Inl e | Inr fs \<Rightarrow> Inr (f # fs))"
      using Cons.prems(1) o' pq f s by (auto split: prod.splits)
    note step = settle_fill_ok [OF fillable f s]
    have "set ids \<subseteq> set (pb_open b1)"
      using step(2) Cons.prems(4,5) by auto
    then obtain fs where ih: "broker_ok b' h'" "broker_equity px b' \<le> broker_equity px b1"
        "\<forall>j. j \<notin> set ids \<longrightarrow> map_of h' j = map_of h1 j" "r1 = Inr fs"
      and fs: "\<forall>g \<in> set fs. ef_order_id g \<in> set ids \<and> (\<exists>o'. map_of h1 (ef_order_id g) = Some o' \<and>
        fill_honours prices (pb_max_fill_ratio b) o' g)"
      using Cons.IH [OF rec Cons.prems(2) step(1) _ _ Cons.prems(6)] Cons.prems(4) step(6) by auto
    have other: "map_of h1 j = map_of h j" if "j \<noteq> i" for j
      using that by (simp add: step(5))
    have "i \<notin> set ids" using Cons.prems(4) by simp
    then have fs': "\<forall>g \<in> set fs. ef_order_id g \<in> set ids \<and> (\<exists>o'. map_of h (ef_order_id g) = Some o' \<and>
        fill_honours prices (pb_max_fill_ratio b) o' g)"
      using fs other by metis
    have "broker_equity px b1 \<le> broker_equity px b"
      using settled_equity [OF fillable f, of px] Cons.prems(6) [OF fill_quantity_for_Some(1) [OF pq]]
        step(4) by (simp add: broker_equity_def)
    moreover have "fill_honours prices (pb_max_fill_ratio b) o' f"
      by (rule built_fill_honours [OF pq f])
    moreover have "ef_order_id f = i"
      using build_fill_Inr(7) [OF f] fd(3) by (simp add: open_order_ok_def)
    ultimately show ?thesis
      using ih fs' o' other r by simp
  qed
qed

section \<open>Properties\<close>

text \<open>A tick at positive prices never raises and keeps the broker's books sound: cash and
  positions stay non-negative, and every order left open is unfilled in part, within its quantity.\<close>

theorem tick_keeps_broker_ok:
  assumes "broker_ok b h" and "prices_ok prices"
    and "pb_process_market_data timestamp prices b h = (b', h', r)"
  shows "broker_ok b' h' \<and> \<not> isl r"
  using process_orders_run [OF assms(3) [unfolded pb_process_market_data_def] tick_prices_upper [OF assms(2)]
      assms(1), of "\<lambda>s. dict_get (upper_dict prices) s 0"] assms(1)
  by (auto simp: broker_ok_def dict_get_def)

definition example_broker :: paper_broker where
  "example_broker = \<lparr>pb_portfolio = \<lparr>pp_initial_cash = 1000, pp_cash = 1000, pp_positions = [(''MSFT'', 3)]\<rparr>,
     pb_max_fill_ratio = 1 / 2, pb_commission_bps = 10, pb_slippage_bps = 20,
     pb_open = [''o-1'', ''o-2''], pb_all = [''o-1'', ''o-2''], pb_submitted = [''o-1'', ''o-2''],
     pb_fill_counter = 0\<rparr>"

definition example_heap :: order_heap where
  "example_heap =
     [(''o-1'', \<lparr>mo_id = ''o-1'', mo_created_at = ''t'', mo_symbol = ''AAPL'', mo_side = Buy, mo_quantity = 4,
        mo_limit = Some 100, mo_status = Submitted, mo_filled = 0, mo_reason = [], mo_rejected_reason = []\<rparr>),
      (''o-2'', \<lparr>mo_id = ''o-2'', mo_created_at = ''t'', mo_symbol = ''MSFT'', mo_side = Sell, mo_quantity = 6,
        mo_limit = None, mo_status = Submitted, mo_filled = 0, mo_reason = [], mo_rejected_reason = []\<rparr>)]"

definition example_prices :: "(string, rat) dict" where
  "example_prices = [(''aapl'', 100), (''MSFT'', 50)]"

lemma example_broker_ok: "broker_ok example_broker example_heap"
  by (simp add: example_broker_def example_heap_def broker_ok_def costs_ok_def portfolio_ok_def
      upper_keys_def open_order_ok_def positive_limit_def upper_def upper_char_def)

lemma example_prices_ok: "prices_ok example_prices"
  by (simp add: example_prices_def prices_ok_def)

theorem tick_keeps_broker_ok_witness:
  "case pb_process_market_data ''t'' example_prices example_broker example_heap of
     (b', h', r) \<Rightarrow> broker_ok b' h' \<and> \<not> isl r"
  using tick_keeps_broker_ok [OF example_broker_ok example_prices_ok, of "''t''"]
  by (simp split: prod.split)

text \<open>A tick creates no value: at any marks that agree with the tick's prices, cash plus marked
  positions after the tick is at most what it was before.\<close>

theorem tick_creates_no_value:
  assumes "broker_ok b h" and "prices_ok prices"
    and "pb_process_market_data timestamp prices b h = (b', h', r)"
    and "\<And>s p. map_of (upper_dict prices) s = Some p \<Longrightarrow> px s = p"
  shows "broker_equity px b' \<le> broker_equity px b"
  using process_orders_run [OF assms(3) [unfolded pb_process_market_data_def] tick_prices_upper [OF assms(2)]
      assms(1)] assms(1,4)
  by (auto simp: broker_ok_def)

theorem tick_creates_no_value_witness:
  "broker_equity (\<lambda>s. dict_get (upper_dict example_prices) s 0)
      (fst (pb_process_market_data ''t'' example_prices example_broker example_heap))
    \<le> broker_equity (\<lambda>s. dict_get (upper_dict example_prices) s 0) example_broker"
proof (rule tick_creates_no_value [OF example_broker_ok example_prices_ok])
  show "pb_process_market_data ''t'' example_prices example_broker example_heap =
     (fst (pb_process_market_data ''t'' example_prices example_broker example_heap),
      fst (snd (pb_process_market_data ''t'' example_prices example_broker example_heap)),
      snd (snd (pb_process_market_data ''t'' example_prices example_broker example_heap)))"
    by simp
qed (simp add: dict_get_def)

text \<open>Every fill of a tick honours the order it fills: the market price of the tick is within the
  order's limit, and the quantity within what remains of it and the tick's share of it.\<close>

theorem tick_fills_honour_orders:
  assumes "broker_ok b h" and "prices_ok prices"
    and "pb_process_market_data timestamp prices b h = (b', h', Inr fs)" and "f \<in> set fs"
  shows "\<exists>o'. map_of h (ef_order_id f) = Some o' \<and> ef_order_id f \<in> set (pb_open b) \<and>
    fill_honours (upper_dict prices) (pb_max_fill_ratio b) o' f"
  using process_orders_run [OF assms(3) [unfolded pb_process_market_data_def] tick_prices_upper [OF assms(2)]
      assms(1), of "\<lambda>s. dict_get (upper_dict prices) s 0"] assms(1,4)
  by (auto simp: broker_ok_def dict_get_def)

theorem tick_fills_honour_orders_witness:
  "\<exists>b' h' f. pb_process_market_data ''t'' example_prices example_broker example_heap = (b', h', Inr f) \<and>
     f \<noteq> [] \<and> fill_quantity (hd f) \<le> 2"
proof -
  obtain b' h' r where run: "pb_process_market_data ''t'' example_prices example_broker example_heap = (b', h', r)"
    by (rule prod_cases3)
  have "case pb_process_market_data ''t'' example_prices example_broker example_heap of
      (_, _, r) \<Rightarrow> (case r of Inl _ \<Rightarrow> False | Inr fs \<Rightarrow> fs \<noteq> [] \<and> ef_order_id (hd fs) = ''o-1'')"
    by code_simp
  then obtain fs where fs: "r = Inr fs" "fs \<noteq> []" "ef_order_id (hd fs) = ''o-1''"
    using run by (auto split: sum.splits)
  with tick_fills_honour_orders [OF example_broker_ok example_prices_ok, of "''t''" b' h' fs "hd fs"] run
  have "fill_honours (upper_dict example_prices) (pb_max_fill_ratio example_broker)
      (the (map_of example_heap ''o-1'')) (hd fs)"
    by auto
  then have "fill_quantity (hd fs) \<le> 2"
    by (simp add: fill_honours_def example_heap_def example_broker_def)
  with run fs show ?thesis by auto
qed

text \<open>The limit is tested against the market price and slippage is added afterwards: a buy at
  its limit price with positive slippage fills above its limit.\<close>

theorem slipped_buy_breaks_limit:
  assumes "limit_allows_fill o' price" and "mo_side o' = Buy" and "mo_limit o' = Some price"
    and "0 < price" and "0 < pb_slippage_bps b" and "build_fill timestamp b o' price q = Inr f"
  shows "price < ef_price f"
  using build_fill_Inr(4) [OF assms(6)] assms(2,4,5)
  by (simp add: apply_slippage_def)

theorem slipped_buy_breaks_limit_witness:
  "\<exists>f. build_fill ''t'' example_broker (the (map_of example_heap ''o-1'')) 100 2 = Inr f \<and> 100 < ef_price f"
proof -
  let ?o = "the (map_of example_heap ''o-1'')"
  have "\<not> isl (build_fill ''t'' example_broker ?o 100 2)" by code_simp
  then obtain f where f: "build_fill ''t'' example_broker ?o 100 2 = Inr f"
    by (cases "build_fill ''t'' example_broker ?o 100 2") auto
  have "100 < ef_price f"
    by (rule slipped_buy_breaks_limit [OF _ _ _ _ _ f])
      (simp_all add: limit_allows_fill_def example_heap_def example_broker_def)
  with f show ?thesis by blast
qed

end
