(* ===== verification/OrderManager.thy ===== *)
theory OrderManager
  imports Broker
begin

text \<open>
  The order manager (\<open>src/quant_system/execution/order_manager.py\<close>) over any broker adapter
  (the protocol of \<open>broker.py\<close>). The adapter is a record of the methods the manager calls; the
  locale \<open>broker_laws\<close> states what it must promise, and the paper broker is interpreted in it.
  The lemmas show that a rejected order never reaches the broker, that order ids are fresh, that
  the manager's book tracks the broker's, and that a whole session keeps both sound.
\<close>

section \<open>Broker adapter\<close>

record 'b broker_adapter =
  ba_submit :: "string \<Rightarrow> 'b \<Rightarrow> 'b"
  ba_cancel :: "string \<Rightarrow> 'b \<Rightarrow> order_heap \<Rightarrow> ('b \<times> order_heap) result"
  ba_process :: "string \<Rightarrow> (string, rat) dict \<Rightarrow> 'b \<Rightarrow> order_heap
    \<Rightarrow> 'b \<times> order_heap \<times> execution_fill list result"
  ba_open :: "'b \<Rightarrow> string list"

section \<open>Order manager\<close>

record 'b order_manager =
  om_limits :: risk_limits
  om_broker :: 'b
  om_orders :: "string list"
  om_heap :: order_heap
  om_events :: "order_event list"
  om_trades :: "execution_fill list"
  om_breaches :: "risk_breach list"
  om_counter :: nat
  om_prefix :: string

text \<open>\<open>default_prefix\<close> is the fresh uuid prefix the constructor falls back to.\<close>

definition new_order_manager :: "risk_limits \<Rightarrow> 'b \<Rightarrow> string option \<Rightarrow> string \<Rightarrow> 'b order_manager" where
  "new_order_manager lims broker id_prefix default_prefix =
     \<lparr>om_limits = lims, om_broker = broker, om_orders = [], om_heap = [], om_events = [],
      om_trades = [], om_breaches = [], om_counter = 0,
      om_prefix = (case id_prefix of None \<Rightarrow> default_prefix
                   | Some p \<Rightarrow> if p = [] then default_prefix else p)\<rparr>"

definition order_id_of :: "string \<Rightarrow> nat \<Rightarrow> string" where
  "order_id_of id_prefix n = id_prefix @ ''-'' @ zero_pad 6 (nat_str n)"

definition om_log_event ::
    "managed_order \<Rightarrow> string \<Rightarrow> order_status \<Rightarrow> string \<Rightarrow> 'b order_manager \<Rightarrow> 'b order_manager" where
  "om_log_event o' timestamp status message om =
     om\<lparr>om_events := om_events om @
         [\<lparr>ev_timestamp = timestamp, ev_order_id = mo_id o', ev_symbol = mo_symbol o',
           ev_status = status, ev_message = message\<rparr>]\<rparr>"

definition om_create_and_submit ::
    "'b broker_adapter \<Rightarrow> order_request \<Rightarrow> risk_context \<Rightarrow> 'b order_manager
      \<Rightarrow> 'b order_manager \<times> managed_order result" where
  "om_create_and_submit ba rq ctx om =
     (let om = om\<lparr>om_counter := Suc (om_counter om)\<rparr>
      in case new_managed_order (order_id_of (om_prefix om) (om_counter om)) (rq_timestamp rq)
                (normalized_symbol rq) (rq_side rq) (rq_quantity rq) (rq_limit rq) (rq_reason rq) of
           Inl e \<Rightarrow> (om, Inl e)
         | Inr o' \<Rightarrow>
             let om = om\<lparr>om_orders := add_key (mo_id o') (om_orders om),
                         om_heap := AList.update (mo_id o') o' (om_heap om)\<rparr>;
                 om = om_log_event o' (rq_timestamp rq) Created ''order created'' om;
                 decision = check_order (om_limits om) rq ctx
             in if \<not> rd_approved decision
                then
                  let o' = o'\<lparr>mo_status := Rejected, mo_rejected_reason := decision_reason decision\<rparr>;
                      om = om\<lparr>om_breaches := om_breaches om
                                @ map (\<lambda>x. x\<lparr>rb_order_id := Some (mo_id o')\<rparr>) (rd_breaches decision),
                              om_heap := AList.update (mo_id o') o' (om_heap om)\<rparr>
                  in (om_log_event o' (rq_timestamp rq) Rejected (decision_reason decision) om, Inr o')
                else
                  let o' = o'\<lparr>mo_status := Submitted\<rparr>;
                      om = om\<lparr>om_heap := AList.update (mo_id o') o' (om_heap om),
                              om_broker := ba_submit ba (mo_id o') (om_broker om)\<rparr>
                  in (om_log_event o' (rq_timestamp rq) Submitted ''order submitted'' om, Inr o'))"

text \<open>The status each open order had, and the log of the orders whose status changed.\<close>

definition open_statuses :: "string list \<Rightarrow> order_heap \<Rightarrow> (string \<times> order_status) list" where
  "open_statuses ids h =
     concat (map (\<lambda>i. case map_of h i of None \<Rightarrow> [] | Some o' \<Rightarrow> [(i, mo_status o')]) ids)"

fun om_log_changes ::
    "string \<Rightarrow> (string \<times> order_status) list \<Rightarrow> 'b order_manager \<Rightarrow> 'b order_manager \<times> unit result" where
  "om_log_changes timestamp [] om = (om, Inr ())"
| "om_log_changes timestamp ((i, previous) # rest) om =
     (if i \<notin> set (om_orders om) then (om, Inl (KeyError i))
      else case map_of (om_heap om) i of
             None \<Rightarrow> (om, Inl (KeyError i))
           | Some o' \<Rightarrow>
               om_log_changes timestamp rest
                 (if mo_status o' \<noteq> previous
                  then om_log_event o' timestamp (mo_status o') ''broker status update'' om else om))"

definition om_process_market_data ::
    "'b broker_adapter \<Rightarrow> string \<Rightarrow> (string, rat) dict \<Rightarrow> 'b order_manager
      \<Rightarrow> 'b order_manager \<times> execution_fill list result" where
  "om_process_market_data ba timestamp prices om =
     (let before = open_statuses (ba_open ba (om_broker om)) (om_heap om);
          (broker, heap, r) = ba_process ba timestamp prices (om_broker om) (om_heap om);
          om = om\<lparr>om_broker := broker, om_heap := heap\<rparr>
      in case r of
           Inl e \<Rightarrow> (om, Inl e)
         | Inr fills \<Rightarrow>
             (case om_log_changes timestamp before (om\<lparr>om_trades := om_trades om @ fills\<rparr>) of
                (om, Inl e) \<Rightarrow> (om, Inl e)
              | (om, Inr _) \<Rightarrow> (om, Inr fills)))"

text \<open>\<open>now\<close> is the clock at the log entry.\<close>

definition om_cancel_order ::
    "'b broker_adapter \<Rightarrow> string \<Rightarrow> string \<Rightarrow> string \<Rightarrow> 'b order_manager
      \<Rightarrow> 'b order_manager \<times> managed_order result" where
  "om_cancel_order ba now order_id reason om =
     (case ba_cancel ba order_id (om_broker om) (om_heap om) of
        Inl e \<Rightarrow> (om, Inl e)
      | Inr (broker, heap) \<Rightarrow>
          (case map_of heap order_id of
             None \<Rightarrow> (om\<lparr>om_broker := broker, om_heap := heap\<rparr>, Inl (KeyError order_id))
           | Some o' \<Rightarrow>
               (om_log_event o' now Cancelled reason (om\<lparr>om_broker := broker, om_heap := heap\<rparr>), Inr o')))"

definition om_check_post_trade_risk ::
    "string \<Rightarrow> risk_context \<Rightarrow> 'b order_manager \<Rightarrow> 'b order_manager \<times> risk_breach list" where
  "om_check_post_trade_risk now ctx om =
     (let breaches = rd_breaches (check_portfolio (om_limits om) now ctx)
      in (om\<lparr>om_breaches := om_breaches om @ breaches\<rparr>, breaches))"


section \<open>What an adapter promises\<close>

text \<open>
  Submitting opens the order, cancelling closes it and marks it cancelled, and market data only
  closes orders and only touches the open ones.
\<close>

locale broker_laws =
  fixes ba :: "'b broker_adapter"
  assumes submit_open: "set (ba_open ba (ba_submit ba i b)) = insert i (set (ba_open ba b))"
    and cancel_open: "ba_cancel ba i b h = Inr (b', h') \<Longrightarrow>
      i \<in> set (ba_open ba b) \<and> set (ba_open ba b') = set (ba_open ba b) - {i}"
    and cancel_heap: "ba_cancel ba i b h = Inr (b', h') \<Longrightarrow>
      map_of h' j = (if j = i then map_option (mo_status_update (\<lambda>_. Cancelled)) (map_of h j) else map_of h j)"
    and process_open: "ba_process ba timestamp prices b h = (b', h', r) \<Longrightarrow>
      set (ba_open ba b') \<subseteq> set (ba_open ba b)"
    and process_heap: "ba_process ba timestamp prices b h = (b', h', r) \<Longrightarrow>
      fst ` set h \<subseteq> fst ` set h'"
begin

definition tracked :: "'b order_manager \<Rightarrow> bool" where
  "tracked om \<longleftrightarrow> set (ba_open ba (om_broker om)) \<subseteq> set (om_orders om)
     \<and> set (om_orders om) \<subseteq> fst ` set (om_heap om)"

lemma log_changes_Inr:
  assumes "set (map fst changes) \<subseteq> set (om_orders om)" and "set (om_orders om) \<subseteq> fst ` set (om_heap om)"
  shows "\<exists>om'. om_log_changes timestamp changes om = (om', Inr ())
    \<and> om_orders om' = om_orders om \<and> om_heap om' = om_heap om \<and> om_broker om' = om_broker om
    \<and> om_counter om' = om_counter om \<and> om_prefix om' = om_prefix om \<and> om_trades om' = om_trades om"
  using assms
proof (induction changes arbitrary: om)
  case Nil
  then show ?case by simp
next
  case (Cons c changes)
  obtain i st where c: "c = (i, st)" by fastforce
  then have "i \<in> set (om_orders om)" using Cons.prems(1) by simp
  moreover from this obtain o' where o': "map_of (om_heap om) i = Some o'"
    using Cons.prems(2) by (auto dest!: weak_map_of_SomeI)
  define om1 where "om1 = (if mo_status o' \<noteq> st
    then om_log_event o' timestamp (mo_status o') ''broker status update'' om else om)"
  have "om_orders om1 = om_orders om" "om_heap om1 = om_heap om" "om_broker om1 = om_broker om"
    "om_counter om1 = om_counter om" "om_prefix om1 = om_prefix om" "om_trades om1 = om_trades om"
    by (simp_all add: om1_def om_log_event_def)
  ultimately show ?case
    using Cons.IH [of om1] Cons.prems c o' by (simp add: om1_def [symmetric])
qed

lemma open_statuses_keys: "set (map fst (open_statuses ids h)) \<subseteq> set ids"
  by (auto simp: open_statuses_def split: option.splits)

text \<open>Market data reaches the adapter unchanged, and the manager adds no failure of its own.\<close>

lemma process_forwards:
  assumes "tracked om" and "ba_process ba timestamp prices (om_broker om) (om_heap om) = (b', h', r)"
  shows "\<exists>om'. om_process_market_data ba timestamp prices om = (om', r) \<and> tracked om'
    \<and> om_orders om' = om_orders om \<and> om_heap om' = h' \<and> om_broker om' = b'
    \<and> om_counter om' = om_counter om \<and> om_prefix om' = om_prefix om
    \<and> om_trades om' = om_trades om @ (case r of Inl _ \<Rightarrow> [] | Inr fills \<Rightarrow> fills)"
proof -
  have heap: "set (om_orders om) \<subseteq> fst ` set h'" and opened: "set (ba_open ba b') \<subseteq> set (om_orders om)"
    using assms(1) process_heap [OF assms(2)] process_open [OF assms(2)] by (auto simp: tracked_def)
  show ?thesis
  proof (cases r)
    case (Inl e)
    then show ?thesis
      using assms heap opened by (simp add: om_process_market_data_def tracked_def)
  next
    case (Inr fills)
    let ?om = "om\<lparr>om_broker := b', om_heap := h', om_trades := om_trades om @ fills\<rparr>"
    have "set (map fst (open_statuses (ba_open ba (om_broker om)) (om_heap om))) \<subseteq> set (om_orders ?om)"
      using open_statuses_keys assms(1) by (fastforce simp: tracked_def)
    from log_changes_Inr [OF this, of timestamp] heap Inr
    show ?thesis
      using assms(2) opened by (auto simp: om_process_market_data_def tracked_def)
  qed
qed

lemma create_tracked:
  assumes "tracked om" and "om_create_and_submit ba rq ctx om = (om', r)"
  shows "tracked om'"
  using assms submit_open
  by (auto simp: om_create_and_submit_def tracked_def om_log_event_def add_key_def Let_def
      split: sum.splits if_splits)

text \<open>A rejected order never reaches the adapter; an approved one is opened there.\<close>

lemma create_outcome:
  assumes "om_create_and_submit ba rq ctx om = (om', Inr o')"
  shows "mo_status o' = (if rd_approved (check_order (om_limits om) rq ctx) then Submitted else Rejected)"
    and "om_broker om' = (if rd_approved (check_order (om_limits om) rq ctx)
      then ba_submit ba (mo_id o') (om_broker om) else om_broker om)"
    and "mo_id o' = order_id_of (om_prefix om) (Suc (om_counter om))"
    and "map_of (om_heap om') (mo_id o') = Some o'"
    and "om_orders om' = add_key (mo_id o') (om_orders om)"
    and "\<And>j. j \<noteq> mo_id o' \<Longrightarrow> map_of (om_heap om') j = map_of (om_heap om) j"
    and "om_counter om' = Suc (om_counter om)" and "om_prefix om' = om_prefix om"
    and "0 < mo_quantity o' \<and> positive_limit (mo_limit o') \<and> mo_filled o' = 0"
    and "map ev_status (om_events om') = map ev_status (om_events om)
      @ [Created, if rd_approved (check_order (om_limits om) rq ctx) then Submitted else Rejected]"
  using assms
  by (auto simp: om_create_and_submit_def om_log_event_def new_managed_order_def Let_def
      split: sum.splits if_splits)

lemma cancel_outcome:
  assumes "tracked om" and "om_cancel_order ba now i reason om = (om', Inr o')"
  shows "tracked om' \<and> i \<notin> set (ba_open ba (om_broker om')) \<and> mo_status o' = Cancelled
    \<and> map_of (om_heap om') i = Some o'"
proof -
  obtain b' h' where c: "ba_cancel ba i (om_broker om) (om_heap om) = Inr (b', h')"
    and o': "map_of h' i = Some o'"
    and om': "om' = om_log_event o' now Cancelled reason (om\<lparr>om_broker := b', om_heap := h'\<rparr>)"
    using assms(2) by (auto simp: om_cancel_order_def split: sum.splits option.splits)
  note laws = cancel_open [OF c] cancel_heap [OF c]
  have "j \<in> fst ` set h'" if "j \<in> fst ` set (om_heap om)" for j
    using that laws(2) [of j] map_of_eq_None_iff [of _ j] by (metis option.map_disc_iff)
  then have "tracked om'"
    using assms(1) laws(1) unfolding tracked_def om' om_log_event_def by simp blast
  moreover have "mo_status o' = Cancelled"
    using laws(2) [of i] o' by (cases "map_of (om_heap om) i") auto
  ultimately show ?thesis
    using laws(1) o' by (simp add: om' om_log_event_def)
qed

end

section \<open>The paper broker as an adapter\<close>

definition paper_broker_adapter :: "paper_broker broker_adapter" where
  "paper_broker_adapter = \<lparr>ba_submit = pb_submit_order, ba_cancel = pb_cancel_order,
     ba_process = pb_process_market_data, ba_open = pb_open\<rparr>"

lemma process_orders_frame:
  assumes "process_orders timestamp prices ids b h = (b', h', r)"
  shows "set (pb_open b') \<subseteq> set (pb_open b) \<and> fst ` set h \<subseteq> fst ` set h'"
  using assms
proof (induction ids arbitrary: b h b' h' r)
  case Nil
  then show ?case by simp
next
  case (Cons i ids)
  have settle: "set (pb_open b1) \<subseteq> set (pb_open b0) \<and> fst ` set h0 \<subseteq> fst ` set h1"
    if "settle_fill b0 h0 o' f = (b1, h1)" for b0 h0 o' f b1 h1
  proof -
    have "set (pb_open b1) \<subseteq> set (pb_open b0)"
      and h1: "h1 = AList.update (mo_id o') (fill_order o' (fill_quantity f)) h0"
      using that by (auto simp: settle_fill_def Let_def split: if_splits)
    then show ?thesis by (simp only: h1 keys_update subset_insertI simp_thms)
  qed
  show ?case
  proof (cases "map_of h i")
    case None
    then show ?thesis using Cons by simp
  next
    case (Some o')
    show ?thesis
    proof (cases "fill_quantity_for prices b o'")
      case None
      then show ?thesis using Cons Some by simp
    next
      case (Some pq)
      obtain price q where pq: "pq = (price, q)" by fastforce
      show ?thesis
      proof (cases "build_fill timestamp b o' price q")
        case (Inl e)
        then show ?thesis using Cons.prems \<open>map_of h i = Some o'\<close> Some pq by auto
      next
        case (Inr f)
        obtain b1 h1 where st: "settle_fill b h o' f = (b1, h1)" by fastforce
        obtain r1 where "process_orders timestamp prices ids b1 h1 = (b', h', r1)"
          using Cons.prems \<open>map_of h i = Some o'\<close> Some pq Inr st by (auto split: prod.splits)
        from Cons.IH [OF this] settle [OF st] show ?thesis by blast
      qed
    qed
  qed
qed

interpretation paper: broker_laws paper_broker_adapter
proof unfold_locales
  fix i j b b' h h' timestamp prices r
  show "set (ba_open paper_broker_adapter (ba_submit paper_broker_adapter i b)) =
      insert i (set (ba_open paper_broker_adapter b))"
    by (auto simp: paper_broker_adapter_def pb_submit_order_def add_key_def)
  show "ba_cancel paper_broker_adapter i b h = Inr (b', h') \<Longrightarrow> i \<in> set (ba_open paper_broker_adapter b) \<and>
      set (ba_open paper_broker_adapter b') = set (ba_open paper_broker_adapter b) - {i}"
    and "ba_cancel paper_broker_adapter i b h = Inr (b', h') \<Longrightarrow> map_of h' j =
      (if j = i then map_option (mo_status_update (\<lambda>_. Cancelled)) (map_of h j) else map_of h j)"
    by (auto simp: paper_broker_adapter_def pb_cancel_order_def split: if_splits)
  show "ba_process paper_broker_adapter timestamp prices b h = (b', h', r) \<Longrightarrow>
      set (ba_open paper_broker_adapter b') \<subseteq> set (ba_open paper_broker_adapter b)"
    and "ba_process paper_broker_adapter timestamp prices b h = (b', h', r) \<Longrightarrow> fst ` set h \<subseteq> fst ` set h'"
    using process_orders_frame [of timestamp "upper_dict prices" "pb_open b" b h b' h' r]
    by (simp_all add: paper_broker_adapter_def pb_process_market_data_def)
qed


section \<open>A session over the paper broker\<close>

text \<open>The commands a client gives one order manager, in any order.\<close>

datatype om_command =
    Create order_request risk_context
  | Tick string "(string, rat) dict"
  | Cancel string string string
  | PostTrade string risk_context

definition om_step :: "paper_broker order_manager \<Rightarrow> om_command \<Rightarrow> paper_broker order_manager" where
  "om_step om c =
     (case c of
        Create rq ctx \<Rightarrow> fst (om_create_and_submit paper_broker_adapter rq ctx om)
      | Tick timestamp prices \<Rightarrow> fst (om_process_market_data paper_broker_adapter timestamp prices om)
      | Cancel now i reason \<Rightarrow> fst (om_cancel_order paper_broker_adapter now i reason om)
      | PostTrade now ctx \<Rightarrow> fst (om_check_post_trade_risk now ctx om))"

definition command_ok :: "om_command \<Rightarrow> bool" where
  "command_ok c = (case c of Tick timestamp prices \<Rightarrow> prices_ok prices | _ \<Rightarrow> True)"

definition ids_issued :: "'b order_manager \<Rightarrow> bool" where
  "ids_issued om \<longleftrightarrow>
     set (om_orders om) \<subseteq> order_id_of (om_prefix om) ` {1..om_counter om} \<and> distinct (om_orders om)"

definition manager_ok :: "paper_broker order_manager \<Rightarrow> bool" where
  "manager_ok om \<longleftrightarrow> paper.tracked om \<and> broker_ok (om_broker om) (om_heap om) \<and> ids_issued om"

lemma order_id_of_inj [simp]: "order_id_of p m = order_id_of p n \<longleftrightarrow> m = n"
  by (simp add: order_id_of_def zero_pad_nat_str_inj)

lemma fresh_order_id: "ids_issued om \<Longrightarrow> order_id_of (om_prefix om) (Suc (om_counter om)) \<notin> set (om_orders om)"
  by (auto simp: ids_issued_def)

lemma broker_ok_submit:
  assumes "broker_ok b h" and "map_of h i = Some o'" and "open_order_ok i o'"
  shows "broker_ok (pb_submit_order i b) h"
  using assms by (auto simp: broker_ok_def pb_submit_order_def add_key_def costs_ok_def)

lemma broker_ok_other:
  assumes "broker_ok b h" and "\<And>j. j \<in> set (pb_open b) \<Longrightarrow> map_of h' j = map_of h j"
  shows "broker_ok b h'"
  using assms by (simp add: broker_ok_def)

lemma create_failed:
  assumes "om_create_and_submit ba rq ctx om = (om', Inl e)"
  shows "om' = om\<lparr>om_counter := Suc (om_counter om)\<rparr>"
  using assms by (auto simp: om_create_and_submit_def Let_def split: sum.splits if_splits)

lemma paper_adapter_simps [simp]:
  "ba_open paper_broker_adapter = pb_open" "ba_submit paper_broker_adapter = pb_submit_order"
  "ba_cancel paper_broker_adapter = pb_cancel_order"
  "ba_process paper_broker_adapter = pb_process_market_data"
  by (simp_all add: paper_broker_adapter_def)

lemma manager_ok_create:
  assumes "manager_ok om" and "om_create_and_submit paper_broker_adapter rq ctx om = (om', r)"
  shows "manager_ok om'"
proof (cases r)
  case (Inl e)
  have "{1..om_counter om} \<subseteq> {1..Suc (om_counter om)}" by simp
  then show ?thesis
    using assms create_failed [of paper_broker_adapter rq ctx om om' e] Inl
    by (auto simp: manager_ok_def paper.tracked_def ids_issued_def)
next
  case (Inr o')
  note out = paper.create_outcome [OF assms(2) [unfolded Inr]]
  have issued: "ids_issued om" and tr: "paper.tracked om" and ok: "broker_ok (om_broker om) (om_heap om)"
    using assms(1) by (auto simp: manager_ok_def)
  have fresh: "mo_id o' \<notin> set (om_orders om)"
    using fresh_order_id [OF issued] out(3) by simp
  then have "mo_id o' \<notin> set (pb_open (om_broker om))"
    using tr by (auto simp: paper.tracked_def)
  then have "broker_ok (om_broker om) (om_heap om')"
    using broker_ok_other [OF ok] out(6) by metis
  then have "broker_ok (om_broker om') (om_heap om')"
    using broker_ok_submit [OF _ out(4)] out(1,2,9) by (auto simp: open_order_ok_def)
  moreover have "ids_issued om'"
    using issued fresh out(3,5,7,8) by (auto simp: ids_issued_def add_key_def)
  moreover have "paper.tracked om'"
    by (rule paper.create_tracked [OF tr assms(2)])
  ultimately show ?thesis by (simp add: manager_ok_def)
qed

lemma manager_ok_tick:
  assumes "manager_ok om" and "prices_ok prices"
    and "om_process_market_data paper_broker_adapter timestamp prices om = (om', r)"
  shows "manager_ok om' \<and> \<not> isl r"
    and "(\<And>s p. map_of (upper_dict prices) s = Some p \<Longrightarrow> px s = p) \<Longrightarrow>
      broker_equity px (om_broker om') \<le> broker_equity px (om_broker om)"
proof -
  obtain b' h' r' where b: "pb_process_market_data timestamp prices (om_broker om) (om_heap om) = (b', h', r')"
    by (rule prod_cases3)
  have ok: "broker_ok (om_broker om) (om_heap om)" "paper.tracked om"
    using assms(1) by (auto simp: manager_ok_def)
  have om': "om' = fst (om_process_market_data paper_broker_adapter timestamp prices om)"
    "r = snd (om_process_market_data paper_broker_adapter timestamp prices om)"
    using assms(3) by auto
  note fwd = paper.process_forwards [OF ok(2), of timestamp prices b' h' r', simplified, OF b]
  note run = process_orders_run [OF b [unfolded pb_process_market_data_def] tick_prices_upper [OF assms(2)] ok(1)]
  have d: "distinct (pb_open (om_broker om))" using ok(1) by (simp add: broker_ok_def)
  show "manager_ok om' \<and> \<not> isl r"
    using fwd run [OF d, of "\<lambda>s. dict_get (upper_dict prices) s 0"] assms(1) assms(3)
    by (auto simp: manager_ok_def ids_issued_def dict_get_def)
  show "broker_equity px (om_broker om') \<le> broker_equity px (om_broker om)"
    if "\<And>s p. map_of (upper_dict prices) s = Some p \<Longrightarrow> px s = p"
    using fwd run [OF d, of px] that assms(3) by auto
qed

lemma manager_ok_cancel:
  assumes "manager_ok om" and "om_cancel_order paper_broker_adapter now i reason om = (om', r)"
  shows "manager_ok om' \<and> broker_equity px (om_broker om') = broker_equity px (om_broker om)"
proof (cases "i \<in> set (pb_open (om_broker om))")
  case False
  then show ?thesis
    using assms by (auto simp: om_cancel_order_def pb_cancel_order_def)
next
  case True
  let ?h = "AList.map_entry i (\<lambda>o'. o'\<lparr>mo_status := Cancelled\<rparr>) (om_heap om)"
  let ?b = "om_broker om\<lparr>pb_open := removeAll i (pb_open (om_broker om))\<rparr>"
  have ok: "broker_ok (om_broker om) (om_heap om)" and tr: "paper.tracked om"
    using assms(1) by (auto simp: manager_ok_def)
  obtain o' where o': "map_of (om_heap om) i = Some o'"
    using ok True by (auto simp: broker_ok_def split: option.splits)
  have om': "om' = om_log_event (o'\<lparr>mo_status := Cancelled\<rparr>) now Cancelled reason
      (om\<lparr>om_broker := ?b, om_heap := ?h\<rparr>)" and r: "r = Inr (o'\<lparr>mo_status := Cancelled\<rparr>)"
    using assms(2) True o' by (simp_all add: om_cancel_order_def pb_cancel_order_def)
  have "broker_ok ?b ?h"
    using ok by (auto simp: broker_ok_def costs_ok_def distinct_removeAll)
  moreover have "paper.tracked om'"
    using paper.cancel_outcome [OF tr assms(2) [unfolded r]] by simp
  ultimately show ?thesis
    using assms(1) by (simp add: om' manager_ok_def ids_issued_def om_log_event_def broker_equity_def)
qed

text \<open>Every admissible command keeps the manager sound and, at fixed marks, creates no value.\<close>

definition command_at :: "(string \<Rightarrow> rat) \<Rightarrow> om_command \<Rightarrow> bool" where
  "command_at px c = (case c of
     Tick timestamp prices \<Rightarrow> prices_ok prices \<and> list_all (\<lambda>(s, p). p = px s) (upper_dict prices)
   | _ \<Rightarrow> True)"

lemma create_equity:
  assumes "om_create_and_submit paper_broker_adapter rq ctx om = (om', r)"
  shows "broker_equity px (om_broker om') = broker_equity px (om_broker om)"
proof (cases r)
  case (Inl e)
  then show ?thesis using create_failed [of paper_broker_adapter rq ctx om om' e] assms by simp
next
  case (Inr o')
  then show ?thesis
    using paper.create_outcome(2) [OF assms [unfolded Inr]]
    by (auto simp: broker_equity_def pb_submit_order_def split: if_splits)
qed

interpretation session: invariant_machine om_step command_ok manager_ok
proof unfold_locales
  fix om :: "paper_broker order_manager" and c
  assume om: "manager_ok om" and c: "command_ok c"
  show "manager_ok (om_step om c)"
  proof (cases c)
    case (Create rq ctx)
    with om show ?thesis
      using manager_ok_create [OF om] by (cases "om_create_and_submit paper_broker_adapter rq ctx om")
        (auto simp: om_step_def)
  next
    case (Tick timestamp prices)
    with c om show ?thesis
      using manager_ok_tick(1) [OF om, of prices timestamp]
      by (cases "om_process_market_data paper_broker_adapter timestamp prices om")
        (auto simp: om_step_def command_ok_def)
  next
    case (Cancel now i reason)
    with om show ?thesis
      using manager_ok_cancel [OF om] by (cases "om_cancel_order paper_broker_adapter now i reason om")
        (auto simp: om_step_def)
  next
    case (PostTrade now ctx)
    with om show ?thesis
      by (auto simp: om_step_def om_check_post_trade_risk_def manager_ok_def paper.tracked_def
          ids_issued_def Let_def)
  qed
qed

interpretation marked_session:
  decreasing_machine om_step "command_at px" manager_ok "\<lambda>om. broker_equity px (om_broker om)" for px
proof unfold_locales
  fix om :: "paper_broker order_manager" and c
  assume om: "manager_ok om" and c: "command_at px c"
  have "command_ok c"
    using c by (auto simp: command_at_def command_ok_def split: om_command.splits)
  with om show "manager_ok (om_step om c)" by (rule session.step_inv)
  show "broker_equity px (om_broker (om_step om c)) \<le> broker_equity px (om_broker om)"
  proof (cases c)
    case (Create rq ctx)
    then show ?thesis
      using create_equity [of rq ctx om] by (cases "om_create_and_submit paper_broker_adapter rq ctx om")
        (auto simp: om_step_def)
  next
    case (Tick timestamp prices)
    then have "prices_ok prices" "\<And>s p. map_of (upper_dict prices) s = Some p \<Longrightarrow> px s = p"
      using c by (auto simp: command_at_def list_all_iff dest: map_of_SomeD)
    then show ?thesis
      using manager_ok_tick(2) [OF om, of prices timestamp _ _ px] Tick
      by (cases "om_process_market_data paper_broker_adapter timestamp prices om")
        (auto simp: om_step_def)
  next
    case (Cancel now i reason)
    then show ?thesis
      using manager_ok_cancel [OF om, of now i reason _ _ px]
      by (cases "om_cancel_order paper_broker_adapter now i reason om") (auto simp: om_step_def)
  next
    case (PostTrade now ctx)
    then show ?thesis by (simp add: om_step_def om_check_post_trade_risk_def Let_def)
  qed
qed


lemma fresh_manager_ok:
  assumes "new_paper_portfolio cash = Inr p" and "new_paper_broker p ratio commission slippage = Inr b"
    and "costs_ok b"
  shows "manager_ok (new_order_manager lims b id_prefix default_prefix)"
  using assms
  by (auto simp: new_paper_portfolio_def new_paper_broker_def new_order_manager_def manager_ok_def
      paper.tracked_def broker_ok_def portfolio_ok_def upper_keys_def ids_issued_def split: if_splits)

section \<open>Properties\<close>

text \<open>C22: The risk gate is decisive: an order the limits reject is stored as rejected under a fresh id
  and leaves the broker exactly as it was; an order they pass is handed to the broker and open
  there; both are logged as created and then as what became of them.\<close>

theorem risk_gate_decides:
  assumes "manager_ok om" and "om_create_and_submit paper_broker_adapter rq ctx om = (om', Inr o')"
  shows "mo_id o' \<notin> set (om_orders om) \<and> map_of (om_heap om') (mo_id o') = Some o' \<and>
    (if rd_approved (check_order (om_limits om) rq ctx)
     then mo_status o' = Submitted \<and> mo_id o' \<in> set (pb_open (om_broker om'))
     else mo_status o' = Rejected \<and> om_broker om' = om_broker om) \<and>
    map ev_status (om_events om') = map ev_status (om_events om) @ [Created, mo_status o']"
  using paper.create_outcome [OF assms(2)] fresh_order_id [of om] assms(1)
  by (auto simp: manager_ok_def pb_submit_order_def add_key_def)

definition example_manager :: "paper_broker order_manager" where
  "example_manager = new_order_manager (default_risk_limits\<lparr>rl_kill_switch := False\<rparr>)
     \<lparr>pb_portfolio = \<lparr>pp_initial_cash = 1000, pp_cash = 1000, pp_positions = []\<rparr>,
      pb_max_fill_ratio = 1 / 2, pb_commission_bps = 10, pb_slippage_bps = 20, pb_open = [],
      pb_all = [], pb_submitted = [], pb_fill_counter = 0\<rparr> None ''paper-order-1''"

lemma example_manager_ok: "manager_ok example_manager"
  unfolding example_manager_def
  by (rule fresh_manager_ok [of 1000 _ "1 / 2" 10 20])
    (simp_all add: new_paper_portfolio_def new_paper_broker_def costs_ok_def)

theorem risk_gate_decides_witness:
  "\<exists>om' o'. om_create_and_submit paper_broker_adapter example_request example_context example_manager
      = (om', Inr o') \<and> mo_status o' = Submitted \<and> mo_id o' \<in> set (pb_open (om_broker om'))"
proof -
  let ?run = "om_create_and_submit paper_broker_adapter example_request example_context example_manager"
  have "\<not> isl (snd ?run)" by code_simp
  then obtain om' o' where run: "?run = (om', Inr o')"
    by (cases ?run) (auto simp: isl_def split: sum.splits intro: sum.exhaust_sel)
  have "rd_approved (check_order (om_limits example_manager) example_request example_context)"
    by code_simp
  with risk_gate_decides [OF example_manager_ok run] run show ?thesis by auto
qed

text \<open>C4: No sequence of orders, ticks at positive prices, cancellations and post-trade checks breaks a
  manager started on a fresh portfolio: cash and positions never go negative, every open order is
  known and within its quantity, and no two orders share an id.\<close>

theorem session_keeps_books:
  fixes lims :: risk_limits and id_prefix :: "string option" and default_prefix :: string
  assumes "new_paper_portfolio cash = Inr p" and "new_paper_broker p ratio commission slippage = Inr b"
    and "costs_ok b" and "list_all command_ok cs"
  defines "om \<equiv> foldl om_step (new_order_manager lims b id_prefix default_prefix) cs"
  shows "0 \<le> pp_cash (pb_portfolio (om_broker om)) \<and>
    (\<forall>s. 0 \<le> pp_position (pb_portfolio (om_broker om)) s) \<and>
    set (pb_open (om_broker om)) \<subseteq> set (om_orders om) \<and> distinct (om_orders om) \<and>
    broker_ok (om_broker om) (om_heap om)"
proof -
  have "manager_ok om"
    unfolding om_def by (intro session.run_inv fresh_manager_ok [OF assms(1-3)] assms(4))
  then show ?thesis
    using portfolio_ok_get by (auto simp: manager_ok_def broker_ok_def portfolio_ok_def
        paper.tracked_def ids_issued_def)
qed

definition example_commands :: "om_command list" where
  "example_commands =
     [Create example_request example_context, Tick ''t1'' [(''AAPL'', 100)],
      Cancel ''t2'' ''paper-order-1-000001'' ''user'', Tick ''t3'' [(''AAPL'', 100)]]"

theorem session_keeps_books_witness:
  "0 \<le> pp_cash (pb_portfolio (om_broker (foldl om_step example_manager example_commands)))"
proof -
  let ?b = "om_broker example_manager"
  have "new_paper_portfolio 1000 = Inr (pb_portfolio ?b)"
    and "new_paper_broker (pb_portfolio ?b) (1 / 2) 10 20 = Inr ?b" and "costs_ok ?b"
    and "list_all command_ok example_commands"
    by (simp_all add: example_manager_def new_order_manager_def new_paper_portfolio_def
        new_paper_broker_def costs_ok_def example_commands_def command_ok_def prices_ok_def)
  from session_keeps_books [OF this, of "default_risk_limits\<lparr>rl_kill_switch := False\<rparr>" None "''paper-order-1''"]
  show ?thesis by (simp add: example_manager_def new_order_manager_def)
qed

text \<open>No session makes money out of nothing: while the prices stay at fixed marks, cash plus
  marked positions never rises, whatever is ordered, filled and cancelled.\<close>

theorem session_creates_no_value:
  assumes "manager_ok om" and "list_all (command_at px) cs"
  shows "broker_equity px (om_broker (foldl om_step om cs)) \<le> broker_equity px (om_broker om)"
  by (rule marked_session.run_le [OF assms])

theorem session_creates_no_value_witness:
  "broker_equity (\<lambda>_. 100) (om_broker (foldl om_step example_manager example_commands)) \<le> 1000"
proof -
  have "list_all (command_at (\<lambda>_. 100)) example_commands"
    by code_simp
  from session_creates_no_value [OF example_manager_ok this] show ?thesis
    by (simp add: example_manager_def new_order_manager_def broker_equity_def marked_value_def)
qed

end
