(* ===== verification/Account.thy ===== *)
theory Account
  imports Risk
begin

text \<open>
  The persistent paper account (\<open>src/quant_system/execution/account.py\<close>): its positions with
  average cost and source attribution, the sleeve cash book, pending limit orders and the
  append-only ledger. The lemmas show that fills keep the account's books, that a sell of one
  source leaves the other sources alone, and that the ledger replays to the account's state.
\<close>

section \<open>Data\<close>

record account_position =
  ap_symbol :: string
  ap_quantity :: rat
  ap_avg_cost :: rat
  ap_sources :: "(string, rat) dict"

definition new_position :: "string \<Rightarrow> account_position" where
  "new_position symbol = \<lparr>ap_symbol = symbol, ap_quantity = 0, ap_avg_cost = 0, ap_sources = []\<rparr>"

definition ap_market_value :: "account_position \<Rightarrow> rat \<Rightarrow> rat" where
  "ap_market_value p price = ap_quantity p * price"

definition ap_unrealized_pnl :: "account_position \<Rightarrow> rat \<Rightarrow> rat" where
  "ap_unrealized_pnl p price = ap_quantity p * (price - ap_avg_cost p)"

definition source_breakdown :: "account_position \<Rightarrow> (string, rat) dict" where
  "source_breakdown p =
     (let tot = dict_total (ap_sources p)
      in if tot \<le> 0 then [] else map (\<lambda>(source, qty). (source, qty / tot)) (ap_sources p))"

record ledger_entry =
  le_id :: string
  le_timestamp :: string
  le_kind :: string
  le_source :: string
  le_symbol :: "string option"
  le_side :: "string option"
  le_quantity :: "rat option"
  le_price :: "rat option"
  le_gross :: "rat option"
  le_commission :: rat
  le_price_kind :: "string option"
  le_realized_delta :: rat
  le_cash_after :: rat
  le_note :: string

text \<open>The keyword defaults of \<open>_append_ledger\<close>; it fills in the id, the time and the cash.\<close>

definition ledger_draft :: "string \<Rightarrow> string \<Rightarrow> string \<Rightarrow> ledger_entry" where
  "ledger_draft kind source note =
     \<lparr>le_id = [], le_timestamp = [], le_kind = kind, le_source = source, le_symbol = None,
      le_side = None, le_quantity = None, le_price = None, le_gross = None, le_commission = 0,
      le_price_kind = None, le_realized_delta = 0, le_cash_after = 0, le_note = note\<rparr>"

record pending_order =
  po_id :: string
  po_created_at :: string
  po_symbol :: string
  po_side :: string
  po_quantity :: rat
  po_limit :: rat
  po_reserved_cash :: rat
  po_reserved_quantity :: rat
  po_source :: string
  po_reason :: string
  po_last_price :: "rat option"
  po_last_price_kind :: "string option"
  po_last_checked_at :: "string option"

record paper_account =
  pa_id :: string
  pa_currency :: string
  pa_initial_cash :: rat
  pa_cash :: rat
  pa_sleeve_cash :: "(string, rat) dict"
  pa_realized_pnl :: rat
  pa_kill_switch :: bool
  pa_positions :: "(string, account_position) dict"
  pa_pending :: "pending_order list"
  pa_ledger :: "ledger_entry list"
  pa_created_at :: string
  pa_updated_at :: string

text \<open>The uuid and the clock an account sees, as the values at its n-th ledger entry.\<close>

record environment =
  env_entry_id :: "nat \<Rightarrow> string"
  env_order_id :: "nat \<Rightarrow> string"
  env_now :: "nat \<Rightarrow> string"

section \<open>Ledger\<close>

definition append_ledger :: "environment \<Rightarrow> ledger_entry \<Rightarrow> paper_account \<Rightarrow> paper_account" where
  "append_ledger env entry a =
     (let n = length (pa_ledger a);
          entry = entry\<lparr>le_id := env_entry_id env n, le_timestamp := env_now env n,
                        le_cash_after := pa_cash a\<rparr>
      in a\<lparr>pa_ledger := pa_ledger a @ [entry], pa_updated_at := le_timestamp entry\<rparr>)"

definition record_event ::
    "environment \<Rightarrow> string \<Rightarrow> string \<Rightarrow> string option \<Rightarrow> string option \<Rightarrow> rat option \<Rightarrow> rat option
      \<Rightarrow> string option \<Rightarrow> string \<Rightarrow> paper_account \<Rightarrow> paper_account" where
  "record_event env kind source symbol sd quantity price price_kind note a =
     append_ledger env
       ((ledger_draft kind source note)\<lparr>le_symbol := symbol, le_side := sd, le_quantity := quantity,
          le_price := price, le_price_kind := price_kind\<rparr>) a"

section \<open>Construction\<close>

definition allocated_cash :: "(string, rat) dict \<Rightarrow> rat" where
  "allocated_cash sleeves = (\<Sum>(sleeve_id, cash) \<leftarrow> sleeves. if sleeve_id \<noteq> ''manual'' then cash else 0)"

text \<open>The validator every construction and load of an account runs.\<close>

definition ensure_manual_sleeve_cash :: "paper_account \<Rightarrow> paper_account" where
  "ensure_manual_sleeve_cash a =
     (if pa_sleeve_cash a = [] then a\<lparr>pa_sleeve_cash := [(''manual'', pa_cash a)]\<rparr>
      else a\<lparr>pa_sleeve_cash := AList.update ''manual''
               (max (pa_cash a - allocated_cash (pa_sleeve_cash a)) 0) (pa_sleeve_cash a)\<rparr>)"

definition open_new :: "environment \<Rightarrow> string \<Rightarrow> rat \<Rightarrow> string \<Rightarrow> string \<Rightarrow> paper_account result" where
  "open_new env account_id initial_cash base_currency now =
     (if initial_cash < 0 then Inl (ValueError ''initial_cash must be non-negative'')
      else Inr (append_ledger env
        (ledger_draft ''deposit'' ''system''
           (''open account with '' @ fmt_fixed 2 initial_cash @ '' '' @ base_currency))
        (ensure_manual_sleeve_cash
          \<lparr>pa_id = account_id, pa_currency = base_currency, pa_initial_cash = initial_cash,
           pa_cash = initial_cash, pa_sleeve_cash = [(''manual'', initial_cash)], pa_realized_pnl = 0,
           pa_kill_switch = False, pa_positions = [], pa_pending = [], pa_ledger = [],
           pa_created_at = now, pa_updated_at = now\<rparr>)))"

section \<open>Read views\<close>

definition position_quantity :: "paper_account \<Rightarrow> string \<Rightarrow> rat" where
  "position_quantity a symbol =
     (case map_of (pa_positions a) (upper symbol) of None \<Rightarrow> 0 | Some p \<Rightarrow> ap_quantity p)"

definition market_value :: "paper_account \<Rightarrow> (string, rat) dict \<Rightarrow> rat" where
  "market_value a prices =
     (let normalized = upper_dict prices
      in \<Sum>(symbol, p) \<leftarrow> pa_positions a. ap_market_value p (dict_get normalized symbol (ap_avg_cost p)))"

definition equity :: "paper_account \<Rightarrow> (string, rat) dict \<Rightarrow> rat" where
  "equity a prices = pa_cash a + market_value a prices"

definition unrealized_pnl :: "paper_account \<Rightarrow> (string, rat) dict \<Rightarrow> rat" where
  "unrealized_pnl a prices =
     (let normalized = upper_dict prices
      in \<Sum>(symbol, p) \<leftarrow> pa_positions a. ap_unrealized_pnl p (dict_get normalized symbol (ap_avg_cost p)))"

definition excluded :: "string option \<Rightarrow> pending_order \<Rightarrow> bool" where
  "excluded exclude o' \<longleftrightarrow> exclude = Some (po_id o')"

definition reserved_cash :: "paper_account \<Rightarrow> string option \<Rightarrow> rat" where
  "reserved_cash a exclude =
     (\<Sum>o' \<leftarrow> filter (\<lambda>o'. \<not> excluded exclude o') (pa_pending a). max (po_reserved_cash o') 0)"

definition available_cash :: "paper_account \<Rightarrow> string option \<Rightarrow> rat" where
  "available_cash a exclude = max (pa_cash a - reserved_cash a exclude) 0"

definition manual_available_cash :: "paper_account \<Rightarrow> string option \<Rightarrow> rat" where
  "manual_available_cash a exclude =
     (let reserved = (\<Sum>o' \<leftarrow> filter (\<lambda>o'. po_source o' = ''manual'' \<and> \<not> excluded exclude o') (pa_pending a).
                        max (po_reserved_cash o') 0)
      in max (dict_get (pa_sleeve_cash a) ''manual'' (pa_cash a) - reserved) 0)"

definition manual_available_quantity :: "paper_account \<Rightarrow> string \<Rightarrow> string option \<Rightarrow> rat" where
  "manual_available_quantity a symbol exclude =
     (case map_of (pa_positions a) (upper symbol) of
        None \<Rightarrow> 0
      | Some p \<Rightarrow>
          let owned = (if ap_sources p \<noteq> [] then dict_get (ap_sources p) ''manual'' 0 else ap_quantity p);
              reserved = (\<Sum>o' \<leftarrow> filter (\<lambda>o'. po_source o' = ''manual'' \<and> \<not> excluded exclude o'
                             \<and> upper (po_symbol o') = upper symbol) (pa_pending a).
                            max (po_reserved_quantity o') 0)
          in max (owned - reserved) 0)"

definition reserved_quantity :: "paper_account \<Rightarrow> string \<Rightarrow> string option \<Rightarrow> rat" where
  "reserved_quantity a symbol exclude =
     (\<Sum>o' \<leftarrow> filter (\<lambda>o'. \<not> excluded exclude o' \<and> upper (po_symbol o') = upper symbol) (pa_pending a).
        max (po_reserved_quantity o') 0)"

definition available_quantity :: "paper_account \<Rightarrow> string \<Rightarrow> string option \<Rightarrow> rat" where
  "available_quantity a symbol exclude =
     max (position_quantity a symbol - reserved_quantity a symbol exclude) 0"

section \<open>Fills\<close>

definition account_dust :: rat where
  "account_dust = 1 / 10 ^ 9"

lemma account_dust_pos: "0 < account_dust"
  by (simp add: account_dust_def)

definition cash_belongs_to_manual :: "paper_account \<Rightarrow> string \<Rightarrow> string \<Rightarrow> bool" where
  "cash_belongs_to_manual a source kind =
     (if kind = ''sleeve_execution_fill'' then False
      else if starts_with ''strategy:'' source
      then map_of (pa_sleeve_cash a) (remove_prefix ''strategy:'' source) = None
      else True)"

definition sync_manual_sleeve_cash :: "rat \<Rightarrow> string \<Rightarrow> string \<Rightarrow> paper_account \<Rightarrow> paper_account" where
  "sync_manual_sleeve_cash cash_delta source kind a =
     (if \<not> cash_belongs_to_manual a source kind then a
      else
        let manual_cash = dict_get (pa_sleeve_cash a) ''manual'' 0 + cash_delta
        in a\<lparr>pa_sleeve_cash := AList.update ''manual''
               (if \<bar>manual_cash\<bar> < account_dust then 0 else manual_cash) (pa_sleeve_cash a)\<rparr>)"

text \<open>One owner's share of a pro-rata sell.\<close>

definition reduce_owner :: "rat \<Rightarrow> rat \<Rightarrow> (string, rat) dict \<Rightarrow> string \<Rightarrow> (string, rat) dict" where
  "reduce_owner tot sold sources owner =
     (let held = dict_get sources owner 0;
          left = held - min held (held / tot * sold)
      in if left \<le> account_dust then AList.delete owner sources else AList.update owner left sources)"

text \<open>
  \<open>position\<close> already carries its new quantity. With an exact source that is not attributed the
  code raises \<open>KeyError\<close>.
\<close>

definition reduce_source_quantity ::
    "account_position \<Rightarrow> rat \<Rightarrow> string \<Rightarrow> bool \<Rightarrow> account_position result" where
  "reduce_source_quantity position sold source exact =
     (let cleared = (\<lambda>sources. position\<lparr>ap_sources :=
                       (if ap_quantity position \<le> account_dust then [] else sources)\<rparr>)
      in if ap_sources position = [] then Inr position
         else if exact then
           (case map_of (ap_sources position) source of
              None \<Rightarrow> Inl (KeyError source)
            | Some held \<Rightarrow>
                let left = held - sold
                in Inr (cleared (if left \<le> account_dust then AList.delete source (ap_sources position)
                                 else AList.update source left (ap_sources position))))
         else
           let tot = dict_total (ap_sources position)
           in if tot \<le> 0 then Inr position
              else Inr (cleared (foldl (reduce_owner tot sold) (ap_sources position)
                                   (map fst (ap_sources position)))))"

text \<open>
  A position already in the dictionary is the object the code mutates, so what was done to it
  before a \<open>KeyError\<close> stays done; a new one is only stored at the end.
\<close>

definition apply_fill ::
    "environment \<Rightarrow> execution_fill \<Rightarrow> string \<Rightarrow> string option \<Rightarrow> string \<Rightarrow> paper_account
      \<Rightarrow> paper_account \<times> unit result" where
  "apply_fill env f source price_kind kind a =
     (let symbol = upper (fill_symbol f);
          position = (case map_of (pa_positions a) symbol of None \<Rightarrow> new_position symbol | Some p \<Rightarrow> p);
          exact = (source = ''manual'' \<or> kind = ''sleeve_execution_fill'')
      in if fill_side f = Sell \<and> exact \<and> ap_sources position \<noteq> []
            \<and> dict_get (ap_sources position) source 0 + account_dust < fill_quantity f
         then (a, Inl (ValueError ''fill exceeds source-owned position quantity''))
         else
           let (new_quantity, new_avg_cost, realized_delta, cash_delta) =
                 roll_position_on_fill (fill_side f) (ap_quantity position) (ap_avg_cost position)
                   (fill_quantity f) (ef_price f) (fill_gross f) (fill_commission f);
               rolled = position\<lparr>ap_avg_cost := new_avg_cost, ap_quantity := new_quantity\<rparr>;
               a = sync_manual_sleeve_cash cash_delta source kind (a\<lparr>pa_cash := pa_cash a + cash_delta\<rparr>);
               attributed = (case fill_side f of
                   Buy \<Rightarrow> Inr (rolled\<lparr>ap_sources := AList.update source
                            (dict_get (ap_sources rolled) source 0 + fill_quantity f) (ap_sources rolled)\<rparr>)
                 | Sell \<Rightarrow> reduce_source_quantity rolled (fill_quantity f) source exact);
               a = (case fill_side f of Buy \<Rightarrow> a
                    | Sell \<Rightarrow> a\<lparr>pa_realized_pnl := pa_realized_pnl a + realized_delta\<rparr>)
           in case attributed of
                Inl e \<Rightarrow> (a\<lparr>pa_positions := AList.map_entry symbol (\<lambda>_. rolled) (pa_positions a)\<rparr>, Inl e)
              | Inr position' \<Rightarrow>
                  let a = a\<lparr>pa_positions :=
                            (if \<bar>ap_quantity position'\<bar> < account_dust
                             then AList.delete symbol (pa_positions a)
                             else AList.update symbol position' (pa_positions a))\<rparr>
                  in (append_ledger env
                        ((ledger_draft kind source (ef_order_id f))
                           \<lparr>le_symbol := Some symbol, le_side := Some (side_str (fill_side f)),
                            le_quantity := Some (fill_quantity f), le_price := Some (ef_price f),
                            le_gross := Some (fill_gross f), le_commission := fill_commission f,
                            le_price_kind := price_kind, le_realized_delta := realized_delta\<rparr>) a,
                      Inr ()))"


section \<open>What a fill does\<close>

definition position_of :: "paper_account \<Rightarrow> string \<Rightarrow> account_position" where
  "position_of a symbol =
     (case map_of (pa_positions a) symbol of None \<Rightarrow> new_position symbol | Some p \<Rightarrow> p)"

definition exact_source :: "string \<Rightarrow> string \<Rightarrow> bool" where
  "exact_source source kind \<longleftrightarrow> source = ''manual'' \<or> kind = ''sleeve_execution_fill''"

definition owns :: "paper_account \<Rightarrow> string \<Rightarrow> string \<Rightarrow> rat" where
  "owns a symbol source = dict_get (ap_sources (position_of a symbol)) source 0"

lemma append_ledger_simps [simp]:
  "pa_cash (append_ledger env e a) = pa_cash a"
  "pa_positions (append_ledger env e a) = pa_positions a"
  "pa_sleeve_cash (append_ledger env e a) = pa_sleeve_cash a"
  "pa_realized_pnl (append_ledger env e a) = pa_realized_pnl a"
  "pa_pending (append_ledger env e a) = pa_pending a"
  "pa_kill_switch (append_ledger env e a) = pa_kill_switch a"
  "pa_initial_cash (append_ledger env e a) = pa_initial_cash a"
  "pa_ledger (append_ledger env e a) = pa_ledger a @ [e\<lparr>le_id := env_entry_id env (length (pa_ledger a)),
     le_timestamp := env_now env (length (pa_ledger a)), le_cash_after := pa_cash a\<rparr>]"
  by (simp_all add: append_ledger_def Let_def)

lemma record_event_simps [simp]:
  "pa_cash (record_event env kind source symbol sd q price pk note a) = pa_cash a"
  "pa_positions (record_event env kind source symbol sd q price pk note a) = pa_positions a"
  "pa_sleeve_cash (record_event env kind source symbol sd q price pk note a) = pa_sleeve_cash a"
  "pa_realized_pnl (record_event env kind source symbol sd q price pk note a) = pa_realized_pnl a"
  "pa_pending (record_event env kind source symbol sd q price pk note a) = pa_pending a"
  "pa_kill_switch (record_event env kind source symbol sd q price pk note a) = pa_kill_switch a"
  "pa_initial_cash (record_event env kind source symbol sd q price pk note a) = pa_initial_cash a"
  by (simp_all add: record_event_def)

lemma sync_simps [simp]:
  "pa_cash (sync_manual_sleeve_cash d source kind a) = pa_cash a"
  "pa_positions (sync_manual_sleeve_cash d source kind a) = pa_positions a"
  "pa_realized_pnl (sync_manual_sleeve_cash d source kind a) = pa_realized_pnl a"
  "pa_ledger (sync_manual_sleeve_cash d source kind a) = pa_ledger a"
  "pa_pending (sync_manual_sleeve_cash d source kind a) = pa_pending a"
  "pa_kill_switch (sync_manual_sleeve_cash d source kind a) = pa_kill_switch a"
  "pa_initial_cash (sync_manual_sleeve_cash d source kind a) = pa_initial_cash a"
  by (simp_all add: sync_manual_sleeve_cash_def Let_def)

lemma reduce_source_fields:
  assumes "reduce_source_quantity p sold source exact = Inr p'"
  shows "ap_quantity p' = ap_quantity p" and "ap_avg_cost p' = ap_avg_cost p"
  using assms by (auto simp: reduce_source_quantity_def Let_def split: if_splits option.splits)

definition cash_delta :: "execution_fill \<Rightarrow> rat" where
  "cash_delta f = (case fill_side f of Buy \<Rightarrow> - (fill_gross f + fill_commission f)
                   | Sell \<Rightarrow> fill_gross f - fill_commission f)"

definition realized_delta :: "paper_account \<Rightarrow> execution_fill \<Rightarrow> rat" where
  "realized_delta a f = (case fill_side f of Buy \<Rightarrow> 0
     | Sell \<Rightarrow> fill_quantity f * (ef_price f - ap_avg_cost (position_of a (upper (fill_symbol f))))
              - fill_commission f)"

definition rolled_position :: "paper_account \<Rightarrow> execution_fill \<Rightarrow> account_position" where
  "rolled_position a f =
     (let p = position_of a (upper (fill_symbol f));
          (q, c, _, _) = roll_position_on_fill (fill_side f) (ap_quantity p) (ap_avg_cost p)
                   (fill_quantity f) (ef_price f) (fill_gross f) (fill_commission f)
      in p\<lparr>ap_avg_cost := c, ap_quantity := q\<rparr>)"

lemma reduce_source_Inl:
  assumes "reduce_source_quantity p sold source exact = Inl e"
  shows "exact \<and> ap_sources p \<noteq> [] \<and> dict_get (ap_sources p) source 0 = 0"
  using assms
  by (auto simp: reduce_source_quantity_def Let_def dict_get_def split: if_splits option.splits)

definition oversells_source :: "paper_account \<Rightarrow> execution_fill \<Rightarrow> string \<Rightarrow> string \<Rightarrow> bool" where
  "oversells_source a f source kind \<longleftrightarrow> fill_side f = Sell \<and> exact_source source kind
     \<and> ap_sources (position_of a (upper (fill_symbol f))) \<noteq> []
     \<and> owns a (upper (fill_symbol f)) source + account_dust < fill_quantity f"

definition attributed_position ::
    "paper_account \<Rightarrow> execution_fill \<Rightarrow> string \<Rightarrow> string \<Rightarrow> account_position result" where
  "attributed_position a f source kind = (case fill_side f of
       Buy \<Rightarrow> Inr ((rolled_position a f)\<lparr>ap_sources := AList.update source
                (owns a (upper (fill_symbol f)) source + fill_quantity f)
                (ap_sources (position_of a (upper (fill_symbol f))))\<rparr>)
     | Sell \<Rightarrow> reduce_source_quantity (rolled_position a f) (fill_quantity f) source
                (exact_source source kind))"

definition cash_settled :: "paper_account \<Rightarrow> execution_fill \<Rightarrow> string \<Rightarrow> string \<Rightarrow> paper_account" where
  "cash_settled a f source kind =
     (sync_manual_sleeve_cash (cash_delta f) source kind (a\<lparr>pa_cash := pa_cash a + cash_delta f\<rparr>))
       \<lparr>pa_realized_pnl := pa_realized_pnl a + realized_delta a f\<rparr>"

lemma rolled_fields [simp]:
  "ap_sources (rolled_position a f) = ap_sources (position_of a (upper (fill_symbol f)))"
  "ap_symbol (rolled_position a f) = ap_symbol (position_of a (upper (fill_symbol f)))"
  by (simp_all add: rolled_position_def Let_def split: prod.split)

lemma roll_eq:
  "roll_position_on_fill (fill_side f) (ap_quantity (position_of a (upper (fill_symbol f))))
     (ap_avg_cost (position_of a (upper (fill_symbol f)))) (fill_quantity f) (ef_price f)
     (fill_gross f) (fill_commission f) =
   (ap_quantity (rolled_position a f), ap_avg_cost (rolled_position a f), realized_delta a f, cash_delta f)"
  by (simp add: roll_position_on_fill_def rolled_position_def realized_delta_def cash_delta_def Let_def
      split: side.split)

lemma rolled_position_eq:
  "position_of a (upper (fill_symbol f))\<lparr>ap_avg_cost := ap_avg_cost (rolled_position a f),
     ap_quantity := ap_quantity (rolled_position a f)\<rparr> = rolled_position a f"
  by (simp add: rolled_position_def Let_def split: prod.split)

lemma apply_fill_eq:
  "apply_fill env f source pk kind a =
     (if oversells_source a f source kind
      then (a, Inl (ValueError ''fill exceeds source-owned position quantity''))
      else case attributed_position a f source kind of
        Inl e \<Rightarrow> ((cash_settled a f source kind)\<lparr>pa_positions :=
            AList.map_entry (upper (fill_symbol f)) (\<lambda>_. rolled_position a f) (pa_positions a)\<rparr>, Inl e)
      | Inr p \<Rightarrow>
          (append_ledger env
            ((ledger_draft kind source (ef_order_id f))
               \<lparr>le_symbol := Some (upper (fill_symbol f)), le_side := Some (side_str (fill_side f)),
                le_quantity := Some (fill_quantity f), le_price := Some (ef_price f),
                le_gross := Some (fill_gross f), le_commission := fill_commission f,
                le_price_kind := pk, le_realized_delta := realized_delta a f\<rparr>)
            ((cash_settled a f source kind)\<lparr>pa_positions :=
               (if \<bar>ap_quantity p\<bar> < account_dust then AList.delete (upper (fill_symbol f)) (pa_positions a)
                else AList.update (upper (fill_symbol f)) p (pa_positions a))\<rparr>), Inr ()))"
proof -
  have buy: "fill_side f = Buy \<Longrightarrow> x\<lparr>pa_realized_pnl := pa_realized_pnl a + realized_delta a f\<rparr> = x"
    if "pa_realized_pnl x = pa_realized_pnl a" for x :: paper_account
    using that by (simp add: realized_delta_def)
  show ?thesis
  proof (cases "fill_side f")
    case Buy
    then show ?thesis
      using buy [of "sync_manual_sleeve_cash (cash_delta f) source kind (a\<lparr>pa_cash := pa_cash a + cash_delta f\<rparr>)"]
        roll_eq [of f a]
      by (simp add: apply_fill_def position_of_def [symmetric] rolled_position_eq oversells_source_def
          attributed_position_def cash_settled_def owns_def Let_def)
  next
    case Sell
    then show ?thesis
      using roll_eq [of f a]
      by (simp add: apply_fill_def position_of_def [symmetric] rolled_position_eq oversells_source_def
          attributed_position_def cash_settled_def owns_def exact_source_def Let_def split: sum.split)
  qed
qed

text \<open>
  A fill is refused with nothing changed, or it is applied; the one exception is a sell of dust from a
  source that owns nothing of an attributed position, which raises \<open>KeyError\<close> half way.
\<close>

lemma apply_fill_refused_exact:
  assumes "apply_fill env f source pk kind a = (a', Inl e)"
    and "fill_side f = Sell \<Longrightarrow> exact_source source kind \<Longrightarrow> account_dust < fill_quantity f"
  shows "a' = a \<and> oversells_source a f source kind"
proof (cases "oversells_source a f source kind")
  case True
  then show ?thesis using assms(1) by (simp add: apply_fill_eq)
next
  case False
  then obtain e where "attributed_position a f source kind = Inl e"
    using assms(1) by (auto simp: apply_fill_eq split: sum.splits)
  then show ?thesis
    using False assms(2)
    by (auto simp: attributed_position_def oversells_source_def owns_def
        split: side.splits dest!: reduce_source_Inl)
qed

lemma apply_fill_refused:
  assumes "apply_fill env f source pk kind a = (a', Inl e)" and "account_dust < fill_quantity f"
  shows "a' = a \<and> oversells_source a f source kind"
  using assms by (rule apply_fill_refused_exact)

lemma cash_settled_simps [simp]:
  "pa_cash (cash_settled a f source kind) = pa_cash a + cash_delta f"
  "pa_realized_pnl (cash_settled a f source kind) = pa_realized_pnl a + realized_delta a f"
  "pa_positions (cash_settled a f source kind) = pa_positions a"
  "pa_ledger (cash_settled a f source kind) = pa_ledger a"
  "pa_pending (cash_settled a f source kind) = pa_pending a"
  "pa_kill_switch (cash_settled a f source kind) = pa_kill_switch a"
  "pa_initial_cash (cash_settled a f source kind) = pa_initial_cash a"
  by (simp_all add: cash_settled_def)

lemma apply_fill_applied:
  assumes "apply_fill env f source pk kind a = (a', Inr u)"
  shows "\<not> oversells_source a f source kind"
    and "pa_cash a' = pa_cash a + cash_delta f"
    and "pa_realized_pnl a' = pa_realized_pnl a + realized_delta a f"
    and "pa_initial_cash a' = pa_initial_cash a"
    and "pa_pending a' = pa_pending a" and "pa_kill_switch a' = pa_kill_switch a"
    and "pa_sleeve_cash a' = pa_sleeve_cash (cash_settled a f source kind)"
    and "\<exists>p. attributed_position a f source kind = Inr p \<and>
        pa_positions a' = (if \<bar>ap_quantity p\<bar> < account_dust then AList.delete (upper (fill_symbol f)) (pa_positions a)
                            else AList.update (upper (fill_symbol f)) p (pa_positions a))"
    and "\<exists>e. pa_ledger a' = pa_ledger a @ [e] \<and> le_cash_after e = pa_cash a'
        \<and> le_realized_delta e = realized_delta a f \<and> le_side e = Some (side_str (fill_side f))
        \<and> le_gross e = Some (fill_gross f) \<and> le_commission e = fill_commission f"
  using assms unfolding apply_fill_eq by (auto split: if_splits sum.splits)

lemma attributed_fields:
  assumes "attributed_position a f source kind = Inr p"
  shows "ap_quantity p = ap_quantity (rolled_position a f)" and "ap_avg_cost p = ap_avg_cost (rolled_position a f)"
  using assms by (auto simp: attributed_position_def split: side.splits dest: reduce_source_fields)


section \<open>The account's books\<close>

text \<open>Cash plus what the positions cost, less what was realised: the equity put in.\<close>

definition cost_basis :: "(string, account_position) dict \<Rightarrow> rat" where
  "cost_basis d = (\<Sum>(s, p) \<leftarrow> d. ap_quantity p * ap_avg_cost p)"

definition account_book :: "paper_account \<Rightarrow> rat" where
  "account_book a = pa_cash a + cost_basis (pa_positions a) - pa_realized_pnl a"

lemma position_of_basis:
  "(case map_of (pa_positions a) s of None \<Rightarrow> 0 | Some p \<Rightarrow> ap_quantity p * ap_avg_cost p)
    = ap_quantity (position_of a s) * ap_avg_cost (position_of a s)"
  by (simp add: position_of_def new_position_def split: option.split)

lemma cost_basis_update:
  "wf_dict (pa_positions a) \<Longrightarrow> cost_basis (AList.update s p (pa_positions a)) = cost_basis (pa_positions a)
    - ap_quantity (position_of a s) * ap_avg_cost (position_of a s) + ap_quantity p * ap_avg_cost p"
  unfolding cost_basis_def
  by (subst sum_entries_update) (simp_all add: position_of_basis)

lemma cost_basis_delete:
  "wf_dict (pa_positions a) \<Longrightarrow> cost_basis (AList.delete s (pa_positions a)) = cost_basis (pa_positions a)
    - ap_quantity (position_of a s) * ap_avg_cost (position_of a s)"
  unfolding cost_basis_def
  by (subst sum_entries_delete) (simp_all add: position_of_basis)

lemma rolled_books:
  assumes "fill_gross f = fill_quantity f * ef_price f"
    and "fill_side f = Buy \<Longrightarrow> 0 < ap_quantity (position_of a (upper (fill_symbol f))) + fill_quantity f"
  shows "cash_delta f + (ap_quantity (rolled_position a f) * ap_avg_cost (rolled_position a f)
      - ap_quantity (position_of a (upper (fill_symbol f))) * ap_avg_cost (position_of a (upper (fill_symbol f))))
    = realized_delta a f"
proof (cases "fill_side f")
  case Buy
  let ?p = "position_of a (upper (fill_symbol f))"
  have "0 < ap_quantity ?p + fill_quantity f" using Buy by (rule assms(2))
  then have "(ap_quantity ?p + fill_quantity f) * ((ap_quantity ?p * ap_avg_cost ?p
      + (fill_gross f + fill_commission f)) / (ap_quantity ?p + fill_quantity f))
      = ap_quantity ?p * ap_avg_cost ?p + (fill_gross f + fill_commission f)"
    by simp
  with Buy \<open>0 < ap_quantity ?p + fill_quantity f\<close> show ?thesis
    by (simp add: rolled_position_def roll_position_on_fill_def cash_delta_def realized_delta_def Let_def)
next
  case Sell
  then show ?thesis
    using assms(1)
    by (simp add: rolled_position_def roll_position_on_fill_def cash_delta_def realized_delta_def Let_def
        algebra_simps)
qed

lemma rolled_quantity:
  "ap_quantity (rolled_position a f) =
    ap_quantity (position_of a (upper (fill_symbol f))) + signed_quantity f"
  by (simp add: rolled_position_def roll_position_on_fill_def signed_quantity_def Let_def split: side.split)

lemma apply_fill_books:
  assumes "apply_fill env f source pk kind a = (a', Inr u)" and "wf_dict (pa_positions a)"
    and "fill_gross f = fill_quantity f * ef_price f"
    and "fill_side f = Buy \<Longrightarrow> 0 < ap_quantity (position_of a (upper (fill_symbol f))) + fill_quantity f"
  shows "account_book a' = account_book a
    - (if \<bar>ap_quantity (rolled_position a f)\<bar> < account_dust
       then ap_quantity (rolled_position a f) * ap_avg_cost (rolled_position a f) else 0)"
proof -
  note ap = apply_fill_applied [OF assms(1)]
  obtain p where p: "attributed_position a f source kind = Inr p"
    and pos: "pa_positions a' = (if \<bar>ap_quantity p\<bar> < account_dust
      then AList.delete (upper (fill_symbol f)) (pa_positions a)
      else AList.update (upper (fill_symbol f)) p (pa_positions a))"
    using ap(8) by blast
  have "cost_basis (pa_positions a') = cost_basis (pa_positions a)
      - ap_quantity (position_of a (upper (fill_symbol f))) * ap_avg_cost (position_of a (upper (fill_symbol f)))
      + (if \<bar>ap_quantity (rolled_position a f)\<bar> < account_dust then 0
         else ap_quantity (rolled_position a f) * ap_avg_cost (rolled_position a f))"
    using pos cost_basis_update [OF assms(2)] cost_basis_delete [OF assms(2)] attributed_fields [OF p]
    by simp
  then show ?thesis
    using rolled_books [OF assms(3,4)] ap(2,3) by (simp add: account_book_def)
qed

section \<open>Replaying the ledger\<close>

text \<open>What one ledger entry says happened to cash.\<close>

definition entry_cash_flow :: "ledger_entry \<Rightarrow> rat" where
  "entry_cash_flow e = (case le_gross e of
      None \<Rightarrow> 0
    | Some g \<Rightarrow> if le_side e = Some ''buy'' then - (g + le_commission e)
                else if le_side e = Some ''sell'' then g - le_commission e else 0)"

definition ledger_replays :: "paper_account \<Rightarrow> bool" where
  "ledger_replays a \<longleftrightarrow>
     pa_cash a = pa_initial_cash a + sum_list (map entry_cash_flow (pa_ledger a))
     \<and> pa_realized_pnl a = sum_list (map le_realized_delta (pa_ledger a))
     \<and> pa_ledger a \<noteq> [] \<and> le_cash_after (last (pa_ledger a)) = pa_cash a"

datatype account_event =
    FillEvent execution_fill string "string option" string
  | NoteEvent string string "string option" "string option" "rat option" "rat option" "string option" string

definition account_step :: "environment \<Rightarrow> paper_account \<Rightarrow> account_event \<Rightarrow> paper_account" where
  "account_step env a e = (case e of
     FillEvent f source pk kind \<Rightarrow> fst (apply_fill env f source pk kind a)
   | NoteEvent kind source symbol sd q price pk note \<Rightarrow>
       record_event env kind source symbol sd q price pk note a)"

text \<open>Every event but the sell of at most \<open>1e-9\<close> shares by the manual book or a sleeve.\<close>

definition not_dust_sell :: "account_event \<Rightarrow> bool" where
  "not_dust_sell e = (case e of
     FillEvent f source _ kind \<Rightarrow>
       fill_side f = Sell \<and> exact_source source kind \<longrightarrow> account_dust < fill_quantity f
   | NoteEvent _ _ _ _ _ _ _ _ \<Rightarrow> True)"

lemma side_str_simps [simp]: "side_str Buy = ''buy''" "side_str Sell = ''sell''"
  by (simp_all add: side_str_def)

lemma record_event_ledger:
  "\<exists>e. pa_ledger (record_event env kind source symbol sd q price pk note a) = pa_ledger a @ [e]
    \<and> le_gross e = None \<and> le_realized_delta e = 0 \<and> le_cash_after e = pa_cash a"
  by (simp add: record_event_def ledger_draft_def)

lemma ledger_replays_step:
  assumes "ledger_replays a" and "not_dust_sell e"
  shows "ledger_replays (account_step env a e)"
proof (cases e)
  case (FillEvent f source pk kind)
  obtain a' r where run: "apply_fill env f source pk kind a = (a', r)" by fastforce
  have step: "account_step env a e = a'"
    using run FillEvent by (simp add: account_step_def)
  show ?thesis
  proof (cases r)
    case (Inl e')
    then show ?thesis
      using apply_fill_refused_exact [of env f source pk kind a a' e'] run assms FillEvent step
      by (simp add: not_dust_sell_def)
  next
    case (Inr u)
    note ap = apply_fill_applied [OF run [unfolded Inr]]
    obtain e' where "pa_ledger a' = pa_ledger a @ [e']" "le_cash_after e' = pa_cash a'"
      "le_realized_delta e' = realized_delta a f" "entry_cash_flow e' = cash_delta f"
      using ap(9) by (auto simp: entry_cash_flow_def cash_delta_def split: side.splits)
    then show ?thesis
      using assms(1) ap(2-4) step by (simp add: ledger_replays_def)
  qed
next
  case (NoteEvent kind source symbol sd q price pk msg)
  then show ?thesis
    using assms(1) record_event_ledger [of env kind source symbol sd q price pk msg a]
    by (auto simp: account_step_def ledger_replays_def entry_cash_flow_def)
qed

interpretation account_log: invariant_machine "account_step env" not_dust_sell ledger_replays for env
  by unfold_locales (rule ledger_replays_step)

lemma ensure_sleeve_simps [simp]:
  "pa_cash (ensure_manual_sleeve_cash a) = pa_cash a"
  "pa_initial_cash (ensure_manual_sleeve_cash a) = pa_initial_cash a"
  "pa_realized_pnl (ensure_manual_sleeve_cash a) = pa_realized_pnl a"
  "pa_positions (ensure_manual_sleeve_cash a) = pa_positions a"
  "pa_ledger (ensure_manual_sleeve_cash a) = pa_ledger a"
  by (simp_all add: ensure_manual_sleeve_cash_def)

lemma open_new_replays: "open_new env i cash cur now = Inr a \<Longrightarrow> ledger_replays a"
  by (auto simp: open_new_def ledger_replays_def entry_cash_flow_def ledger_draft_def split: if_splits)

section \<open>Sleeve cash\<close>

lemma dict_total_allocated:
  "wf_dict d \<Longrightarrow> dict_total d = allocated_cash d + dict_get d ''manual'' 0"
proof (induction d)
  case Nil
  then show ?case by (simp add: allocated_cash_def)
next
  case (Cons kv d)
  obtain k v where kv: "kv = (k, v)" by fastforce
  then have "k \<notin> fst ` set d" "wf_dict d" using Cons.prems by auto
  with Cons.IH kv show ?case
    by (auto simp: allocated_cash_def dict_get_def map_of_absent)
qed

lemma allocated_cash_update_manual [simp]:
  "wf_dict d \<Longrightarrow> allocated_cash (AList.update ''manual'' v d) = allocated_cash d"
  unfolding allocated_cash_def
  by (subst sum_entries_update) (simp_all split: option.split)

lemma sync_total:
  assumes "wf_dict (pa_sleeve_cash a)" and "cash_belongs_to_manual a source kind"
  shows "\<bar>dict_total (pa_sleeve_cash (sync_manual_sleeve_cash d source kind a))
    - (dict_total (pa_sleeve_cash a) + d)\<bar> < account_dust"
proof -
  let ?m = "dict_get (pa_sleeve_cash a) ''manual'' 0 + d"
  have "dict_total (pa_sleeve_cash (sync_manual_sleeve_cash d source kind a))
      - (dict_total (pa_sleeve_cash a) + d) = (if \<bar>?m\<bar> < account_dust then - ?m else 0)"
    using assms by (simp add: sync_manual_sleeve_cash_def Let_def dict_total_update)
  moreover have "\<bar>if \<bar>?m\<bar> < account_dust then - ?m else 0\<bar> < account_dust"
    using account_dust_pos
    by (cases "\<bar>?m\<bar> < account_dust") (simp_all only: if_True if_False abs_minus_cancel abs_zero)
  ultimately show ?thesis by (simp only:)
qed

lemma cash_belongs_cash [simp]: "cash_belongs_to_manual (a\<lparr>pa_cash := c\<rparr>) source kind = cash_belongs_to_manual a source kind"
  by (simp add: cash_belongs_to_manual_def)

lemma reduce_exact_others:
  assumes "reduce_source_quantity p sold source True = Inr p'" and "account_dust < ap_quantity p"
    and "s \<noteq> source"
  shows "dict_get (ap_sources p') s 0 = dict_get (ap_sources p) s 0"
  using assms by (auto simp: reduce_source_quantity_def Let_def split: if_splits option.splits)

text \<open>What a source owns of a position after an exact sell.\<close>

lemma reduce_exact_share:
  assumes "reduce_source_quantity p sold source True = Inr p'"
  shows "dict_get (ap_sources p') s 0 =
    (if account_dust < ap_quantity p
     then if ap_sources p \<noteq> [] \<and> s = source
       then if dict_get (ap_sources p) source 0 - sold \<le> account_dust then 0
            else dict_get (ap_sources p) source 0 - sold
       else dict_get (ap_sources p) s 0
     else if ap_sources p = [] then dict_get (ap_sources p) s 0 else 0)"
  using assms
  by (auto simp: reduce_source_quantity_def Let_def dict_get_def not_le split: if_splits option.splits)

section \<open>Properties\<close>

text \<open>A fill keeps the account's books: cash plus the cost basis of the positions minus realised
  profit is unchanged, up to the basis of a position popped as dust.\<close>

theorem fill_keeps_account_books:
  assumes "apply_fill env f source pk kind a = (a', Inr u)" and "wf_dict (pa_positions a)"
    and "fill_gross f = fill_quantity f * ef_price f"
    and "fill_side f = Buy \<Longrightarrow>
      account_dust \<le> ap_quantity (position_of a (upper (fill_symbol f))) + fill_quantity f"
  shows "\<bar>account_book a' - account_book a\<bar>
    \<le> account_dust * \<bar>ap_avg_cost (position_of a (upper (fill_symbol f)))\<bar>"
proof -
  let ?p = "position_of a (upper (fill_symbol f))" and ?r = "rolled_position a f"
  have pos: "0 < account_dust" by (simp add: account_dust_def)
  have book: "account_book a' = account_book a
      - (if \<bar>ap_quantity ?r\<bar> < account_dust then ap_quantity ?r * ap_avg_cost ?r else 0)"
    using assms(4) pos by (intro apply_fill_books [OF assms(1-3)]) force
  show ?thesis
  proof (cases "\<bar>ap_quantity ?r\<bar> < account_dust")
    case False
    then show ?thesis using book pos by simp
  next
    case True
    then have "fill_side f = Sell"
      using assms(4) rolled_quantity [of a f] by (cases "fill_side f") (auto simp: signed_quantity_def)
    then have "ap_avg_cost ?r = ap_avg_cost ?p"
      by (simp add: rolled_position_def roll_position_on_fill_def Let_def)
    moreover have "\<bar>ap_quantity ?r\<bar> * \<bar>ap_avg_cost ?p\<bar> \<le> account_dust * \<bar>ap_avg_cost ?p\<bar>"
      using True by (intro mult_right_mono) auto
    ultimately show ?thesis using book True by (simp add: abs_mult)
  qed
qed

definition example_env :: environment where
  "example_env = \<lparr>env_entry_id = (\<lambda>n. ''ledger-'' @ nat_str n),
     env_order_id = (\<lambda>n. ''paper-order-'' @ nat_str n), env_now = nat_str\<rparr>"

definition example_account :: paper_account where
  "example_account = \<lparr>pa_id = ''default'', pa_currency = ''USD'', pa_initial_cash = 1000, pa_cash = 400,
     pa_sleeve_cash = [(''manual'', 300), (''s1'', 100)], pa_realized_pnl = 0, pa_kill_switch = False,
     pa_positions = [(''AAPL'', \<lparr>ap_symbol = ''AAPL'', ap_quantity = 6, ap_avg_cost = 100,
        ap_sources = [(''manual'', 4), (''strategy:s1'', 2)]\<rparr>)],
     pa_pending = [], pa_ledger = [], pa_created_at = [], pa_updated_at = []\<rparr>"

definition example_sell :: execution_fill where
  "example_sell = \<lparr>fill_symbol = ''AAPL'', fill_side = Sell, fill_quantity = 3, fill_gross = 330,
     fill_commission = 1, ef_id = ''f'', ef_order_id = ''o'', ef_timestamp = ''t'', ef_price = 110\<rparr>"

lemma example_sell_applied:
  "\<exists>a'. apply_fill example_env example_sell ''manual'' None ''fill'' example_account = (a', Inr ())"
proof -
  have "\<not> isl (snd (apply_fill example_env example_sell ''manual'' None ''fill'' example_account))"
    by code_simp
  then show ?thesis
    by (cases "apply_fill example_env example_sell ''manual'' None ''fill'' example_account")
      (auto simp: isl_def split: sum.splits intro: sum.exhaust_sel)
qed

lemma example_upper: "upper ''AAPL'' = ''AAPL''"
  by code_simp

lemma example_sell_symbol: "fill_symbol example_sell = ''AAPL''"
  by (simp add: example_sell_def)

lemma example_position:
  "position_of example_account ''AAPL'' =
    \<lparr>ap_symbol = ''AAPL'', ap_quantity = 6, ap_avg_cost = 100,
     ap_sources = [(''manual'', 4), (''strategy:s1'', 2)]\<rparr>"
  by (simp add: example_account_def position_of_def)

theorem fill_keeps_account_books_witness:
  "\<exists>a'. apply_fill example_env example_sell ''manual'' None ''fill'' example_account = (a', Inr ()) \<and>
     \<bar>account_book a' - 1000\<bar> \<le> account_dust * 100"
proof -
  obtain a' where run: "apply_fill example_env example_sell ''manual'' None ''fill'' example_account = (a', Inr ())"
    using example_sell_applied by blast
  have "account_book example_account = 1000"
    by (simp add: account_book_def cost_basis_def example_account_def)
  moreover have "wf_dict (pa_positions example_account)"
    by (simp add: example_account_def)
  ultimately show ?thesis
    using fill_keeps_account_books [OF run] run
    by (simp add: example_position example_sell_symbol example_upper) (simp add: example_sell_def)
qed

text \<open>C5: The ledger is the source of truth: after any sequence of notes and fills (applied or refused, of
  any source) on a new account, cash is the initial cash plus the cash flows of the ledger entries, the
  realised profit is the sum of theirs, and the last entry shows the current cash. The one kind of fill
  excluded is a manual or sleeve sell of at most \<open>1e-9\<close> shares, which can pass the ownership test of a
  source that owns nothing and then raise \<open>KeyError\<close> after the cash moved (\<open>dust_sell_escapes_ledger\<close>).\<close>

theorem ledger_is_source_of_truth:
  assumes "open_new env i cash cur now = Inr a0" and "list_all not_dust_sell es"
  shows "ledger_replays (foldl (account_step env) a0 es)"
  by (rule account_log.run_inv [OF open_new_replays [OF assms(1)] assms(2)])

theorem ledger_is_source_of_truth_witness:
  "\<exists>a0. open_new example_env ''default'' 1000 ''USD'' ''t'' = Inr a0 \<and>
     ledger_replays (foldl (account_step example_env) a0
       [FillEvent (example_sell\<lparr>fill_side := Buy\<rparr>) ''manual'' None ''fill'',
        FillEvent example_sell ''strategy:s1'' None ''sleeve_execution_fill'',
        FillEvent example_sell ''manual'' None ''fill''])"
proof -
  have "\<not> isl (open_new example_env ''default'' 1000 ''USD'' ''t'')"
    by (simp add: open_new_def)
  then obtain a0 where a0: "open_new example_env ''default'' 1000 ''USD'' ''t'' = Inr a0"
    by (cases "open_new example_env ''default'' 1000 ''USD'' ''t''") auto
  have "list_all not_dust_sell
      [FillEvent (example_sell\<lparr>fill_side := Buy\<rparr>) ''manual'' None ''fill'',
       FillEvent example_sell ''strategy:s1'' None ''sleeve_execution_fill'',
       FillEvent example_sell ''manual'' None ''fill'']"
    by (simp add: not_dust_sell_def account_dust_def example_sell_def)
  from ledger_is_source_of_truth [OF a0 this] a0 show ?thesis by blast
qed

text \<open>A sell of dust escapes the ledger: the manual book owns nothing of a position attributed to a
  sleeve, yet its sell of \<open>1e-9\<close> shares passes the ownership test (\<open>owned + 1e-9\<close>), moves the cash and the
  realised profit, and then raises \<open>KeyError\<close> with no ledger entry.\<close>

definition dust_sell :: execution_fill where
  "dust_sell = \<lparr>fill_symbol = ''AAPL'', fill_side = Sell, fill_quantity = account_dust,
     fill_gross = 110 * account_dust, fill_commission = 1, ef_id = ''f'', ef_order_id = ''o'',
     ef_timestamp = ''t'', ef_price = 110\<rparr>"

definition sleeve_only_account :: paper_account where
  "sleeve_only_account = example_account\<lparr>pa_positions := [(''AAPL'', \<lparr>ap_symbol = ''AAPL'',
     ap_quantity = 6, ap_avg_cost = 100, ap_sources = [(''strategy:s1'', 6)]\<rparr>)]\<rparr>"

lemma dust_sell_escapes_ledger:
  "case apply_fill example_env dust_sell ''manual'' None ''fill'' sleeve_only_account of
     (a', r) \<Rightarrow> r = Inl (KeyError ''manual'') \<and> pa_cash a' < pa_cash sleeve_only_account
       \<and> pa_realized_pnl a' < pa_realized_pnl sleeve_only_account \<and> pa_ledger a' = pa_ledger sleeve_only_account"
  by code_simp

text \<open>C23: A manual or sleeve sell takes from its own source only. Of an attributed position it sells no
  more than that source owns (the code allows \<open>1e-9\<close> more). While more than \<open>1e-9\<close> of the position is left,
  the source keeps what it owned less the fill (nothing when that is at most \<open>1e-9\<close>) and every other source
  keeps exactly its quantity; once the position is closed nobody owns any of it. No other position
  changes.\<close>

theorem exact_sell_isolates_sources:
  assumes "apply_fill env f source pk kind a = (a', Inr u)" and "fill_side f = Sell"
    and "exact_source source kind" and "symbol = upper (fill_symbol f)"
    and "left_over = ap_quantity (position_of a symbol) - fill_quantity f"
    and "kept = owns a symbol source - fill_quantity f"
  shows "(ap_sources (position_of a symbol) \<noteq> [] \<longrightarrow> fill_quantity f \<le> owns a symbol source + account_dust)
    \<and> (account_dust < left_over \<longrightarrow> owns a' symbol s =
        (if ap_sources (position_of a symbol) \<noteq> [] \<and> s = source
         then if kept \<le> account_dust then 0 else kept else owns a symbol s))
    \<and> (left_over \<le> account_dust \<longrightarrow> owns a' symbol s = 0)
    \<and> (t \<noteq> symbol \<longrightarrow> position_of a' t = position_of a t)"
proof -
  note ap = apply_fill_applied [OF assms(1)]
  obtain p where p: "attributed_position a f source kind = Inr p"
    and pos: "pa_positions a' = (if \<bar>ap_quantity p\<bar> < account_dust
      then AList.delete symbol (pa_positions a) else AList.update symbol p (pa_positions a))"
    using ap(8) assms(4) by blast
  have quantity: "ap_quantity (rolled_position a f) = left_over"
    using assms(2,4,5) by (simp add: rolled_quantity signed_quantity_def)
  then have left_over: "ap_quantity p = left_over"
    using attributed_fields(1) [OF p] by simp
  have red: "reduce_source_quantity (rolled_position a f) (fill_quantity f) source True = Inr p"
    using p assms(2,3) by (simp add: attributed_position_def)
  have own: "dict_get (ap_sources p) s 0 =
      (if account_dust < left_over
       then if ap_sources (position_of a symbol) \<noteq> [] \<and> s = source
         then if kept \<le> account_dust then 0 else kept else owns a symbol s
       else 0)"
    using reduce_exact_share [OF red, of s] assms(4,6) quantity by (simp add: owns_def)
  have small: "\<not> account_dust < left_over" if "\<bar>left_over\<bar> < account_dust"
    using that by linarith
  have "owns a' symbol s = (if \<bar>left_over\<bar> < account_dust then 0 else dict_get (ap_sources p) s 0)"
    using pos left_over by (simp add: owns_def position_of_def new_position_def)
  then have "owns a' symbol s = dict_get (ap_sources p) s 0"
    using small own by (cases "\<bar>left_over\<bar> < account_dust") simp_all
  then have share: "(account_dust < left_over \<longrightarrow> owns a' symbol s =
        (if ap_sources (position_of a symbol) \<noteq> [] \<and> s = source
         then if kept \<le> account_dust then 0 else kept else owns a symbol s))
      \<and> (left_over \<le> account_dust \<longrightarrow> owns a' symbol s = 0)"
    using own by (simp add: not_less [symmetric])
  have "ap_sources (position_of a symbol) \<noteq> [] \<longrightarrow> fill_quantity f \<le> owns a symbol source + account_dust"
    using ap(1) assms(2-4) by (auto simp: oversells_source_def not_less)
  moreover have "t \<noteq> symbol \<longrightarrow> position_of a' t = position_of a t"
    using pos by (simp add: position_of_def)
  ultimately show ?thesis using share by blast
qed

theorem exact_sell_isolates_sources_witness:
  "\<exists>a'. apply_fill example_env example_sell ''manual'' None ''fill'' example_account = (a', Inr ()) \<and>
     owns a' ''AAPL'' ''strategy:s1'' = 2 \<and> owns a' ''AAPL'' ''manual'' = 1"
proof -
  obtain a' where run: "apply_fill example_env example_sell ''manual'' None ''fill'' example_account = (a', Inr ())"
    using example_sell_applied by blast
  have sell: "fill_side example_sell = Sell" "exact_source ''manual'' ''fill''" "fill_quantity example_sell = 3"
      "''AAPL'' = upper (fill_symbol example_sell)"
    using example_upper by (simp_all add: example_sell_def exact_source_def)
  have left_over: "(3::rat) = ap_quantity (position_of example_account ''AAPL'') - fill_quantity example_sell"
    by (simp add: example_position sell(3))
  have kept: "(1::rat) = owns example_account ''AAPL'' ''manual'' - fill_quantity example_sell"
    by (simp add: example_position owns_def sell(3) dict_get_def)
  note isolated = exact_sell_isolates_sources [OF run sell(1,2,4) left_over kept]
  have "account_dust < 3" "\<not> 1 \<le> account_dust" by (simp_all add: account_dust_def)
  then show ?thesis
    using isolated [of "''strategy:s1''"] isolated [of "''manual''"] run
    by (simp add: example_position owns_def dict_get_def)
qed

text \<open>A fill whose cash belongs to the manual book moves the sleeve book by what it moves cash,
  so their difference stays put; a sleeve's own fill leaves the sleeve book to the sleeve service.\<close>

theorem fill_keeps_sleeve_books:
  assumes "apply_fill env f source pk kind a = (a', Inr u)" and "wf_dict (pa_sleeve_cash a)"
  shows "if cash_belongs_to_manual a source kind
    then \<bar>(dict_total (pa_sleeve_cash a') - pa_cash a') - (dict_total (pa_sleeve_cash a) - pa_cash a)\<bar> < account_dust
    else pa_sleeve_cash a' = pa_sleeve_cash a"
proof (cases "cash_belongs_to_manual a source kind")
  case True
  let ?a = "a\<lparr>pa_cash := pa_cash a + cash_delta f\<rparr>"
  have "\<bar>dict_total (pa_sleeve_cash a') - (dict_total (pa_sleeve_cash a) + cash_delta f)\<bar> < account_dust"
    using sync_total [of ?a source kind "cash_delta f"] True assms(2)
    by (simp add: apply_fill_applied(7) [OF assms(1)] cash_settled_def)
  then show ?thesis
    using True apply_fill_applied(2) [OF assms(1)] by (simp add: algebra_simps)
next
  case False
  then show ?thesis
    by (simp add: apply_fill_applied(7) [OF assms(1)] cash_settled_def sync_manual_sleeve_cash_def)
qed

theorem fill_keeps_sleeve_books_witness:
  "\<exists>a'. apply_fill example_env example_sell ''manual'' None ''fill'' example_account = (a', Inr ()) \<and>
     \<bar>dict_total (pa_sleeve_cash a') - pa_cash a'\<bar> < account_dust"
proof -
  obtain a' where run: "apply_fill example_env example_sell ''manual'' None ''fill'' example_account = (a', Inr ())"
    using example_sell_applied by blast
  have "wf_dict (pa_sleeve_cash example_account)" "cash_belongs_to_manual example_account ''manual'' ''fill''"
    by (simp add: example_account_def) code_simp
  with fill_keeps_sleeve_books [OF run] run show ?thesis
    by (simp, simp add: example_account_def)
qed

lemma ensure_sleeve_total:
  assumes "wf_dict (pa_sleeve_cash a)" and "0 \<le> pa_cash a"
  shows "dict_total (pa_sleeve_cash (ensure_manual_sleeve_cash a)) =
    max (pa_cash a) (allocated_cash (pa_sleeve_cash a))"
proof (cases "pa_sleeve_cash a = []")
  case True
  then show ?thesis using assms(2) by (simp add: ensure_manual_sleeve_cash_def allocated_cash_def)
next
  case False
  then show ?thesis
    using assms(1) dict_total_allocated [OF assms(1)]
    by (auto simp: ensure_manual_sleeve_cash_def dict_total_update)
qed

text \<open>Loading an account rebuilds its manual cash: afterwards the sleeve book sums to the account's
  cash, or to what the sleeves hold where that is more than the account has.\<close>

theorem loaded_sleeve_cash_sums:
  assumes "wf_dict (pa_sleeve_cash a)" and "0 \<le> pa_cash a"
  shows "dict_total (pa_sleeve_cash (ensure_manual_sleeve_cash a)) =
    max (pa_cash a) (allocated_cash (pa_sleeve_cash a))"
  using assms by (rule ensure_sleeve_total)

theorem loaded_sleeve_cash_sums_witness:
  "dict_total (pa_sleeve_cash (ensure_manual_sleeve_cash (example_account\<lparr>pa_cash := 50\<rparr>))) = 100"
proof -
  have "wf_dict (pa_sleeve_cash (example_account\<lparr>pa_cash := 50\<rparr>))" "0 \<le> pa_cash (example_account\<lparr>pa_cash := 50\<rparr>)"
    by (simp_all add: example_account_def)
  from loaded_sleeve_cash_sums [OF this] show ?thesis
    by (simp, simp add: example_account_def allocated_cash_def)
qed

end
