(* ===== verification/AccountService.thy ===== *)
theory AccountService
  imports OrderManager Account
begin

text \<open>
  The paper account service (\<open>src/quant_system/execution/account_service.py\<close>): manual orders,
  pending limit orders and strategy rebalances on a persistent account. Every order runs through
  the paper broker on a view of what its source may spend. The price feed, the historical range,
  the calendar and the strategy's target weights are arguments. The lemmas show that an order
  spends no more than its source's free cash and shares, and that a rebalance is committed whole
  or not at all.
\<close>

section \<open>Data\<close>

record cost_settings =
  cs_commission_bps :: rat
  cs_slippage_bps :: rat

record quote =
  q_symbol :: string
  q_price :: rat
  q_price_kind :: string

record order_outcome =
  oo_status :: string
  oo_symbol :: string
  oo_side :: string
  oo_requested :: rat
  oo_filled :: rat
  oo_price :: rat
  oo_price_kind :: string
  oo_reason :: string
  oo_order_id :: "string option"

record rebalance_outcome =
  ro_strategy_id :: string
  ro_as_of :: "string option"
  ro_target_weights :: "(string, rat) dict"
  ro_orders :: "order_outcome list"
  ro_aborted :: bool
  ro_note :: string

text \<open>The arguments of one order, as the service hands them to \<open>_execute_single\<close>.\<close>

record order_args =
  oa_symbol :: string
  oa_side :: side
  oa_quantity :: rat
  oa_price :: rat
  oa_price_kind :: string
  oa_limit :: "rat option"
  oa_source :: string
  oa_reason :: string
  oa_kind :: string
  oa_order_id :: "string option"
  oa_exclude :: "string option"

section \<open>Helpers\<close>

definition resolve_quantity :: "rat option \<Rightarrow> rat option \<Rightarrow> rat \<Rightarrow> rat result" where
  "resolve_quantity quantity notional price =
     (case (quantity, notional) of
        (Some _, Some _) \<Rightarrow> Inl (ValueError ''provide either quantity or notional, not both'')
      | (Some q, None) \<Rightarrow> if q \<le> 0 then Inl (ValueError ''quantity must be positive'') else Inr q
      | (None, Some n) \<Rightarrow>
          if n \<le> 0 then Inl (ValueError ''notional must be positive'')
          else if price \<le> 0 then Inl (PriceUnavailableError ''cannot size a notional order without a price'')
          else Inr (n / price)
      | (None, None) \<Rightarrow> Inl (ValueError ''either quantity or notional is required''))"

definition svc_available_cash :: "paper_account \<Rightarrow> string \<Rightarrow> string option \<Rightarrow> rat" where
  "svc_available_cash a source exclude =
     (if source \<noteq> ''manual'' then available_cash a exclude else manual_available_cash a exclude)"

definition svc_available_quantity :: "paper_account \<Rightarrow> string \<Rightarrow> string \<Rightarrow> string option \<Rightarrow> rat" where
  "svc_available_quantity a symbol source exclude =
     (if source \<noteq> ''manual'' then available_quantity a symbol exclude
      else manual_available_quantity a symbol exclude)"

definition portfolio_view :: "paper_account \<Rightarrow> string \<Rightarrow> string option \<Rightarrow> paper_portfolio result" where
  "portfolio_view a source exclude =
     (case new_paper_portfolio (svc_available_cash a source exclude) of
        Inl e \<Rightarrow> Inl e
      | Inr p \<Rightarrow> Inr (p\<lparr>pp_positions :=
          map (\<lambda>(symbol, position). (symbol, svc_available_quantity a symbol source exclude))
            (filter (\<lambda>(symbol, position). 0 < ap_quantity position) (pa_positions a))\<rparr>))"

definition limit_blocks_fill :: "side \<Rightarrow> rat \<Rightarrow> rat \<Rightarrow> bool" where
  "limit_blocks_fill sd price limit_price =
     (case sd of Buy \<Rightarrow> limit_price < price | Sell \<Rightarrow> price < limit_price)"

definition svc_reserved_cash :: "cost_settings \<Rightarrow> side \<Rightarrow> rat \<Rightarrow> rat option \<Rightarrow> rat" where
  "svc_reserved_cash costs sd quantity limit_price =
     (case (sd, limit_price) of
        (Buy, Some l) \<Rightarrow> quantity * l * (1 + (cs_commission_bps costs + cs_slippage_bps costs) / 10000)
      | _ \<Rightarrow> 0)"

definition svc_reserved_quantity :: "side \<Rightarrow> rat \<Rightarrow> rat" where
  "svc_reserved_quantity sd quantity = (if sd = Sell then quantity else 0)"

section \<open>One order\<close>

definition order_note :: "environment \<Rightarrow> order_args \<Rightarrow> string \<Rightarrow> string \<Rightarrow> paper_account \<Rightarrow> paper_account" where
  "order_note env oa kind text a =
     record_event env kind (oa_source oa) (Some (oa_symbol oa)) (Some (side_str (oa_side oa)))
       (Some (oa_quantity oa)) (Some (oa_price oa)) (Some (oa_price_kind oa)) text a"

definition outcome_of :: "order_args \<Rightarrow> string \<Rightarrow> rat \<Rightarrow> rat \<Rightarrow> string \<Rightarrow> string option \<Rightarrow> order_outcome" where
  "outcome_of oa status requested filled reason order_id =
     \<lparr>oo_status = status, oo_symbol = oa_symbol oa, oo_side = side_str (oa_side oa),
      oo_requested = requested, oo_filled = filled, oo_price = oa_price oa,
      oo_price_kind = oa_price_kind oa, oo_reason = reason, oo_order_id = order_id\<rparr>"

text \<open>The broker run of one order: a fresh broker on the view, one order, one tick.\<close>

definition broker_fills ::
    "cost_settings \<Rightarrow> string \<Rightarrow> string \<Rightarrow> order_args \<Rightarrow> paper_portfolio \<Rightarrow> execution_fill list result" where
  "broker_fills costs now order_id oa portfolio =
     (case new_paper_broker portfolio 1 (cs_commission_bps costs) (cs_slippage_bps costs) of
        Inl e \<Rightarrow> Inl e
      | Inr b \<Rightarrow>
          (case new_managed_order order_id now (upper (oa_symbol oa)) (oa_side oa) (oa_quantity oa)
                  (oa_limit oa) (oa_reason oa) of
             Inl e \<Rightarrow> Inl e
           | Inr o' \<Rightarrow> snd (snd (pb_process_market_data now [(oa_symbol oa, oa_price oa)]
                              (pb_submit_order order_id b) [(order_id, o')]))))"

fun apply_fills ::
    "environment \<Rightarrow> order_args \<Rightarrow> execution_fill list \<Rightarrow> paper_account \<Rightarrow> paper_account \<times> unit result" where
  "apply_fills env oa [] a = (a, Inr ())"
| "apply_fills env oa (f # fs) a =
     (case apply_fill env f (oa_source oa) (Some (oa_price_kind oa)) (oa_kind oa) a of
        (a, Inl e) \<Rightarrow> (a, Inl e)
      | (a, Inr _) \<Rightarrow> apply_fills env oa fs a)"

text \<open>A limit order the price does not reach is queued when its reserve fits.\<close>

definition queue_order ::
    "cost_settings \<Rightarrow> environment \<Rightarrow> string \<Rightarrow> string \<Rightarrow> order_args \<Rightarrow> rat \<Rightarrow> paper_account
      \<Rightarrow> paper_account \<times> string \<times> string" where
  "queue_order costs env now order_id oa limit_price a =
     (let cash = svc_reserved_cash costs (oa_side oa) (oa_quantity oa) (Some limit_price);
          quantity = svc_reserved_quantity (oa_side oa) (oa_quantity oa)
      in if svc_available_cash a (oa_source oa) None + account_dust < cash
         then (order_note env oa ''order_unfilled'' ''insufficient cash'' a, ''unfilled'', ''insufficient cash'')
         else if svc_available_quantity a (oa_symbol oa) (oa_source oa) None + account_dust < quantity
         then (order_note env oa ''order_unfilled'' ''no position available to sell'' a, ''unfilled'',
               ''no position available to sell'')
         else
           let pending = \<lparr>po_id = order_id, po_created_at = now, po_symbol = upper (oa_symbol oa),
                 po_side = side_str (oa_side oa), po_quantity = oa_quantity oa, po_limit = limit_price,
                 po_reserved_cash = cash, po_reserved_quantity = quantity, po_source = oa_source oa,
                 po_reason = oa_reason oa, po_last_price = Some (oa_price oa),
                 po_last_price_kind = Some (oa_price_kind oa), po_last_checked_at = Some now\<rparr>;
               reason = ''current price '' @ fmt_fixed 4 (oa_price oa)
                 @ '' does not satisfy limit price '' @ fmt_fixed 4 limit_price
                 @ ''; paper limit order queued''
           in (order_note env oa ''order_pending'' reason (a\<lparr>pa_pending := pa_pending a @ [pending]\<rparr>),
               ''pending'', reason))"

definition settle_outcome ::
    "cost_settings \<Rightarrow> environment \<Rightarrow> string \<Rightarrow> string \<Rightarrow> order_args \<Rightarrow> rat \<Rightarrow> paper_account
      \<Rightarrow> paper_account \<times> string \<times> string" where
  "settle_outcome costs env now order_id oa filled a =
     (if filled \<le> 0 then
        (case oa_limit oa of
           Some l \<Rightarrow>
             if limit_blocks_fill (oa_side oa) (oa_price oa) l \<and> oa_source oa = ''manual''
             then queue_order costs env now order_id oa l a
             else let reason = (case oa_side oa of Buy \<Rightarrow> ''insufficient cash''
                                | Sell \<Rightarrow> ''no position available to sell'')
                  in (order_note env oa ''order_unfilled'' reason a, ''unfilled'', reason)
         | None \<Rightarrow>
             let reason = (case oa_side oa of Buy \<Rightarrow> ''insufficient cash''
                           | Sell \<Rightarrow> ''no position available to sell'')
             in (order_note env oa ''order_unfilled'' reason a, ''unfilled'', reason))
      else if filled + account_dust < oa_quantity oa then
        let reason = ''filled '' @ fmt_fixed 4 filled @ '' of '' @ fmt_fixed 4 (oa_quantity oa)
              @ ''; limited by '' @ (case oa_side oa of Buy \<Rightarrow> ''available cash'' | Sell \<Rightarrow> ''available position'')
        in (order_note env oa ''order_partially_filled'' reason a, ''partially_filled'', reason)
      else (a, ''filled'', []))"

text \<open>\<open>x or y\<close> on an optional price and an optional string.\<close>

definition price_or :: "rat option \<Rightarrow> rat \<Rightarrow> rat" where
  "price_or x y = (case x of None \<Rightarrow> y | Some r \<Rightarrow> if r = 0 then y else r)"

definition str_or :: "string option \<Rightarrow> string \<Rightarrow> string" where
  "str_or x y = (case x of None \<Rightarrow> y | Some s \<Rightarrow> if s = [] then y else s)"

text \<open>The ids and times one call draws.\<close>

definition draw_now :: "environment \<Rightarrow> paper_account \<Rightarrow> string" where
  "draw_now env a = env_now env (length (pa_ledger a))"

definition draw_order_id :: "environment \<Rightarrow> order_args \<Rightarrow> paper_account \<Rightarrow> string" where
  "draw_order_id env oa a = str_or (oa_order_id oa) (env_order_id env (length (pa_ledger a)))"

definition execute_single ::
    "cost_settings \<Rightarrow> environment \<Rightarrow> order_args \<Rightarrow> paper_account \<Rightarrow> paper_account \<times> order_outcome result" where
  "execute_single costs env oa a =
     (let now = draw_now env a; order_id = draw_order_id env oa a
      in if oa_quantity oa \<le> 0
         then (a, Inr (outcome_of oa ''skipped'' 0 0 ''non-positive quantity'' None))
         else if pa_kill_switch a
         then (order_note env oa ''order_rejected'' ''kill switch is enabled'' a,
               Inr (outcome_of oa ''rejected'' (oa_quantity oa) 0 ''kill switch is enabled'' None))
         else
           (case portfolio_view a (oa_source oa) (oa_exclude oa) of
              Inl e \<Rightarrow> (a, Inl e)
            | Inr portfolio \<Rightarrow>
                (case broker_fills costs now order_id oa portfolio of
                   Inl e \<Rightarrow> (a, Inl e)
                 | Inr fills \<Rightarrow>
                     (case apply_fills env oa fills a of
                        (a, Inl e) \<Rightarrow> (a, Inl e)
                      | (a, Inr _) \<Rightarrow>
                          let filled = sum_list (map fill_quantity fills);
                              (a, status, reason) = settle_outcome costs env now order_id oa filled a
                          in (a, Inr (outcome_of oa status (oa_quantity oa) filled reason (Some order_id)))))))"


section \<open>Manual orders\<close>

definition place_manual_order ::
    "cost_settings \<Rightarrow> environment \<Rightarrow> (string \<Rightarrow> quote result) \<Rightarrow> string \<Rightarrow> string \<Rightarrow> rat option \<Rightarrow> rat option
      \<Rightarrow> rat option \<Rightarrow> paper_account \<Rightarrow> paper_account \<times> order_outcome result" where
  "place_manual_order costs env get_price symbol sd quantity notional limit_price a =
     (if pa_kill_switch a
      then (a, Inl (AccountFrozenError ''account is frozen (kill switch on); no new orders''))
      else case parse_side (lower sd) of
        None \<Rightarrow> (a, Inl (ValueError (repr_str (lower sd) @ '' is not a valid OrderSide'')))
      | Some order_side \<Rightarrow>
          (case get_price symbol of
             Inl e \<Rightarrow> (a, Inl e)
           | Inr qt \<Rightarrow>
               (case resolve_quantity quantity notional (q_price qt) of
                  Inl e \<Rightarrow> (a, Inl e)
                | Inr q \<Rightarrow>
                    execute_single costs env
                      \<lparr>oa_symbol = q_symbol qt, oa_side = order_side, oa_quantity = q,
                       oa_price = q_price qt, oa_price_kind = q_price_kind qt, oa_limit = limit_price,
                       oa_source = ''manual'', oa_reason = ''manual_order'', oa_kind = ''fill'',
                       oa_order_id = None, oa_exclude = None\<rparr> a)))"

fun find_pending :: "string \<Rightarrow> pending_order list \<Rightarrow> (nat \<times> pending_order) option" where
  "find_pending order_id [] = None"
| "find_pending order_id (p # ps) =
     (if po_id p = order_id then Some (0, p)
      else map_option (\<lambda>(n, q). (Suc n, q)) (find_pending order_id ps))"

definition remove_nth :: "nat \<Rightarrow> 'a list \<Rightarrow> 'a list" where
  "remove_nth n xs = take n xs @ drop (Suc n) xs"

definition cancel_pending_order ::
    "environment \<Rightarrow> string \<Rightarrow> paper_account \<Rightarrow> paper_account \<times> order_outcome result" where
  "cancel_pending_order env order_id a =
     (case find_pending order_id (pa_pending a) of
        None \<Rightarrow> (a, Inl (PendingOrderNotFoundError (''pending paper order not found: '' @ order_id)))
      | Some (index, pending) \<Rightarrow>
          let a = a\<lparr>pa_pending := remove_nth index (pa_pending a)\<rparr>;
              price = price_or (po_last_price pending) (po_limit pending);
              price_kind = str_or (po_last_price_kind pending) ''limit_order''
          in (record_event env ''order_cancelled'' (po_source pending) (Some (po_symbol pending))
                (Some (po_side pending)) (Some (po_quantity pending)) (Some price) (Some price_kind)
                (po_id pending @ '': pending paper limit order cancelled'') a,
              Inr \<lparr>oo_status = ''cancelled'', oo_symbol = po_symbol pending, oo_side = po_side pending,
                   oo_requested = po_quantity pending, oo_filled = 0, oo_price = price,
                   oo_price_kind = price_kind, oo_reason = ''cancelled by user'',
                   oo_order_id = Some (po_id pending)\<rparr>))"

section \<open>Pending orders\<close>

text \<open>
  The market data a check reads: the quote of the n-th lookup, the price range of a symbol over
  a window of days (none where the source has none or fails), and the calendar: the UTC day of a
  timestamp where it parses, and the date of a day.
\<close>

record price_range =
  pr_low :: pyfloat
  pr_high :: pyfloat
  pr_price_kind :: "string option"

record market =
  mk_price :: "nat \<Rightarrow> string \<Rightarrow> quote result"
  mk_range :: "string \<Rightarrow> string \<Rightarrow> string \<Rightarrow> price_range option"
  mk_day :: "string \<Rightarrow> int option"
  mk_date :: "int \<Rightarrow> string"

definition historical_range_window ::
    "market \<Rightarrow> pending_order \<Rightarrow> string option \<Rightarrow> int \<Rightarrow> (string \<times> string) option" where
  "historical_range_window mk pending previous_checked_at checked_day =
     (case mk_day mk (str_or previous_checked_at (po_created_at pending)) of
        None \<Rightarrow> None
      | Some anchor \<Rightarrow>
          let start_date = anchor + 1; end_date = checked_day - 1
          in if end_date < start_date then None else Some (mk_date mk start_date, mk_date mk end_date))"

definition historical_range_touch ::
    "market \<Rightarrow> pending_order \<Rightarrow> side \<Rightarrow> string option \<Rightarrow> int \<Rightarrow> price_range option" where
  "historical_range_touch mk pending sd previous_checked_at checked_day =
     (case historical_range_window mk pending previous_checked_at checked_day of
        None \<Rightarrow> None
      | Some (start, finish) \<Rightarrow>
          (case mk_range mk (po_symbol pending) start finish of
             None \<Rightarrow> None
           | Some r \<Rightarrow>
               if \<not> (isfinite (pr_low r) \<and> isfinite (pr_high r)) then None
               else if sd = Buy \<and> fin (pr_low r) \<le> po_limit pending then Some r
               else if sd = Sell \<and> po_limit pending \<le> fin (pr_high r) then Some r
               else None))"

definition pending_args :: "pending_order \<Rightarrow> string \<Rightarrow> side \<Rightarrow> rat \<Rightarrow> string \<Rightarrow> order_args" where
  "pending_args pending symbol sd price price_kind =
     \<lparr>oa_symbol = symbol, oa_side = sd, oa_quantity = po_quantity pending, oa_price = price,
      oa_price_kind = price_kind, oa_limit = Some (po_limit pending), oa_source = po_source pending,
      oa_reason = po_reason pending, oa_kind = ''fill'', oa_order_id = Some (po_id pending),
      oa_exclude = Some (po_id pending)\<rparr>"

text \<open>
  One turn of the loop: the order is marked as checked in place, then executed or kept. The result
  is the outcome and whether the order remains pending.
\<close>

definition check_pending ::
    "cost_settings \<Rightarrow> environment \<Rightarrow> market \<Rightarrow> string \<Rightarrow> int \<Rightarrow> nat \<Rightarrow> pending_order \<Rightarrow> paper_account
      \<Rightarrow> paper_account \<times> (order_outcome \<times> bool) result" where
  "check_pending costs env mk checked_at checked_day index pending a =
     (case mk_price mk index (po_symbol pending) of
        Inl e \<Rightarrow> (a, Inl e)
      | Inr qt \<Rightarrow>
          let checked = pending\<lparr>po_last_price := Some (q_price qt),
                          po_last_price_kind := Some (q_price_kind qt), po_last_checked_at := Some checked_at\<rparr>;
              a = a\<lparr>pa_pending := (pa_pending a)[index := checked]\<rparr>
          in (case parse_side (po_side pending) of
                None \<Rightarrow> (a, Inl (ValueError (repr_str (po_side pending) @ '' is not a valid OrderSide'')))
              | Some sd \<Rightarrow>
                  if limit_blocks_fill sd (q_price qt) (po_limit pending)
                  then (case historical_range_touch mk checked sd (po_last_checked_at pending) checked_day of
                          Some r \<Rightarrow>
                            (case execute_single costs env
                                    (pending_args checked (q_symbol qt) sd (po_limit pending)
                                      (case pr_price_kind r of None \<Rightarrow> ''historical_range'' | Some k \<Rightarrow> k)) a of
                               (a, Inl e) \<Rightarrow> (a, Inl e)
                             | (a, Inr out) \<Rightarrow> (a, Inr (out, False)))
                        | None \<Rightarrow>
                            (a, Inr (\<lparr>oo_status = ''pending'', oo_symbol = po_symbol pending,
                                oo_side = po_side pending, oo_requested = po_quantity pending, oo_filled = 0,
                                oo_price = q_price qt, oo_price_kind = q_price_kind qt,
                                oo_reason = ''current price '' @ fmt_fixed 4 (q_price qt)
                                  @ '' still does not satisfy limit price '' @ fmt_fixed 4 (po_limit pending),
                                oo_order_id = Some (po_id pending)\<rparr>, True)))
                  else (case execute_single costs env
                               (pending_args checked (q_symbol qt) sd (q_price qt) (q_price_kind qt)) a of
                          (a, Inl e) \<Rightarrow> (a, Inl e)
                        | (a, Inr out) \<Rightarrow> (a, Inr (out, False)))))"

text \<open>
  The loop: the orders that remain are the checked objects. \<open>pending_orders\<close> itself is replaced
  only after the loop, so while it runs the orders already executed are still on the account.
\<close>

fun check_pendings ::
    "cost_settings \<Rightarrow> environment \<Rightarrow> market \<Rightarrow> string \<Rightarrow> int \<Rightarrow> nat \<Rightarrow> pending_order list \<Rightarrow> paper_account
      \<Rightarrow> paper_account \<times> (order_outcome list \<times> pending_order list) result" where
  "check_pendings costs env mk checked_at checked_day index [] a = (a, Inr ([], []))"
| "check_pendings costs env mk checked_at checked_day index (p # ps) a =
     (case check_pending costs env mk checked_at checked_day index p a of
        (a, Inl e) \<Rightarrow> (a, Inl e)
      | (a, Inr (out, remains)) \<Rightarrow>
          let kept = (if remains then [pa_pending a ! index] else [])
          in (case check_pendings costs env mk checked_at checked_day (Suc index) ps a of
                (a, Inl e) \<Rightarrow> (a, Inl e)
              | (a, Inr (outs, rest)) \<Rightarrow> (a, Inr (out # outs, kept @ rest))))"

definition process_pending_orders ::
    "cost_settings \<Rightarrow> environment \<Rightarrow> market \<Rightarrow> string \<Rightarrow> int \<Rightarrow> paper_account
      \<Rightarrow> paper_account \<times> order_outcome list result" where
  "process_pending_orders costs env mk checked_at checked_day a =
     (if pa_kill_switch a
      then (a, Inl (AccountFrozenError
             ''account is frozen (kill switch on); no pending orders processed''))
      else case check_pendings costs env mk checked_at checked_day 0 (pa_pending a) a of
             (a, Inl e) \<Rightarrow> (a, Inl e)
           | (a, Inr (outcomes, remaining)) \<Rightarrow> (a\<lparr>pa_pending := remaining\<rparr>, Inr outcomes))"

section \<open>Strategy rebalance\<close>

definition rebalance_requests ::
    "paper_account \<Rightarrow> (string, rat) dict \<Rightarrow> (string, rat) dict \<Rightarrow> rat \<Rightarrow> rat
      \<Rightarrow> (string \<times> side \<times> rat) list result" where
  "rebalance_requests a target_weights prices eq buy_cost_factor =
     (let symbols = sorted_keys (map fst (pa_positions a) @ map fst target_weights);
          missing = filter (\<lambda>s. case map_of prices s of None \<Rightarrow> True | Some p \<Rightarrow> p \<le> 0) symbols
      in if missing \<noteq> []
         then Inl (PriceUnavailableError (''missing rebalance prices for: '' @ join '', '' missing))
         else case plan_rebalance (map (\<lambda>s. (s, position_quantity a s)) symbols) target_weights
                     (map (\<lambda>(s, p). (s, Fin p)) prices) eq
                     (default_knobs\<lparr>sells_first := True, min_quantity := account_dust\<rparr>) of
                Inl e \<Rightarrow> Inl e
              | Inr intents \<Rightarrow>
                  Inr (map (\<lambda>i. (oi_symbol i, oi_side i,
                              if oi_side i = Sell then oi_quantity i else oi_quantity i * buy_cost_factor))
                         intents))"

definition leg_args :: "string \<Rightarrow> (string, quote) dict \<Rightarrow> string \<times> side \<times> rat \<Rightarrow> order_args result" where
  "leg_args strategy_id quotes leg =
     (let (symbol, sd, quantity) = leg
      in case map_of quotes symbol of
           None \<Rightarrow> Inl (KeyError symbol)
         | Some qt \<Rightarrow>
             Inr \<lparr>oa_symbol = symbol, oa_side = sd, oa_quantity = quantity, oa_price = q_price qt,
                  oa_price_kind = q_price_kind qt, oa_limit = None,
                  oa_source = ''strategy:'' @ strategy_id, oa_reason = ''strategy_rebalance'',
                  oa_kind = ''rebalance_fill'', oa_order_id = None, oa_exclude = None\<rparr>)"

fun execute_legs ::
    "cost_settings \<Rightarrow> environment \<Rightarrow> string \<Rightarrow> (string, quote) dict \<Rightarrow> (string \<times> side \<times> rat) list
      \<Rightarrow> paper_account \<Rightarrow> paper_account \<times> order_outcome list result" where
  "execute_legs costs env strategy_id quotes [] a = (a, Inr [])"
| "execute_legs costs env strategy_id quotes (leg # legs) a =
     (case leg_args strategy_id quotes leg of
        Inl e \<Rightarrow> (a, Inl e)
      | Inr oa \<Rightarrow>
          (case execute_single costs env oa a of
             (a, Inl e) \<Rightarrow> (a, Inl e)
           | (a, Inr out) \<Rightarrow>
               (case execute_legs costs env strategy_id quotes legs a of
                  (a, Inl e) \<Rightarrow> (a, Inl e)
                | (a, Inr outs) \<Rightarrow> (a, Inr (out # outs)))))"

definition leg_failed :: "order_outcome \<Rightarrow> bool" where
  "leg_failed out \<longleftrightarrow> oo_status out \<noteq> ''filled'' \<and> oo_status out \<noteq> ''skipped''"

definition failure_detail :: "order_outcome list \<Rightarrow> string" where
  "failure_detail failed =
     join ''; '' (map (\<lambda>out. oo_symbol out @ '' '' @ oo_side out @ '' '' @ oo_status out
       @ (if oo_reason out \<noteq> [] then '' ('' @ oo_reason out @ '')'' else [])) failed)"

definition targets_note :: "string \<Rightarrow> (string, rat) dict \<Rightarrow> string" where
  "targets_note strategy_id target_weights =
     ''rebalance to '' @ strategy_id @ ''; targets=''
       @ join '','' (map (\<lambda>(s, w). s @ '':'' @ fmt_fixed 3 w) (sort_key fst target_weights))"

text \<open>
  \<open>targets\<close> is what \<open>_compute_target_weights\<close> returns or raises, \<open>get_prices\<close> the price source,
  \<open>trial_env\<close> and \<open>env\<close> the uuids and clock of the dry run and of the commit.
\<close>

definition rebalance_to_strategy ::
    "cost_settings \<Rightarrow> environment \<Rightarrow> environment \<Rightarrow> ((string, rat) dict \<times> string option) result
      \<Rightarrow> (string list \<Rightarrow> (string, quote) dict) \<Rightarrow> string \<Rightarrow> paper_account
      \<Rightarrow> paper_account \<times> rebalance_outcome result" where
  "rebalance_to_strategy costs trial_env env targets get_prices strategy_id a =
     (if pa_kill_switch a
      then (a, Inl (AccountFrozenError ''account is frozen (kill switch on); no rebalance''))
      else case targets of
        Inl e \<Rightarrow> (a, Inl e)
      | Inr (target_weights, as_of) \<Rightarrow>
          let done = (\<lambda>orders aborted txt. Inr \<lparr>ro_strategy_id = strategy_id, ro_as_of = as_of,
                ro_target_weights = target_weights, ro_orders = orders, ro_aborted = aborted, ro_note = txt\<rparr>);
              relevant = sorted_keys (map fst target_weights @ map fst (pa_positions a));
              quotes = get_prices relevant;
              missing = filter (\<lambda>s. map_of quotes s = None) relevant;
              prices = map (\<lambda>(s, qt). (s, q_price qt)) quotes;
              buy_cost_factor = 1 / (1 + (cs_commission_bps costs + cs_slippage_bps costs + 1) / 10000)
          in if target_weights = []
             then (a, done [] False ''strategy produced no target weights for the latest signal'')
             else if missing \<noteq> []
             then (a, Inl (PriceUnavailableError (''missing rebalance prices for: '' @ join '', '' missing)))
             else case rebalance_requests a target_weights prices (equity a prices) buy_cost_factor of
               Inl e \<Rightarrow> (a, Inl e)
             | Inr requests \<Rightarrow>
                 if requests = [] then (a, done [] False ''already at target; no orders needed'')
                 else case execute_legs costs trial_env strategy_id quotes requests a of
                   (_, Inl e) \<Rightarrow> (a, Inl e)
                 | (_, Inr trial_outcomes) \<Rightarrow>
                     let failed = filter leg_failed trial_outcomes; detail = failure_detail failed
                     in if failed \<noteq> []
                        then (record_event env ''rebalance_aborted'' (''strategy:'' @ strategy_id) None None
                                None None None (''rebalance aborted, no orders applied: '' @ detail) a,
                              done trial_outcomes True (''aborted before any fill: '' @ detail))
                        else case execute_legs costs env strategy_id quotes requests a of
                          (a, Inl e) \<Rightarrow> (a, Inl e)
                        | (a, Inr outcomes) \<Rightarrow>
                            (record_event env ''rebalance_fill'' (''strategy:'' @ strategy_id) None None
                               None None None (targets_note strategy_id target_weights) a,
                             done outcomes False []))"


section \<open>The broker run of one order\<close>

definition fresh_broker :: "cost_settings \<Rightarrow> string \<Rightarrow> paper_portfolio \<Rightarrow> paper_broker" where
  "fresh_broker costs order_id p = pb_submit_order order_id
     \<lparr>pb_portfolio = p, pb_max_fill_ratio = 1, pb_commission_bps = cs_commission_bps costs,
      pb_slippage_bps = cs_slippage_bps costs, pb_open = [], pb_all = [], pb_submitted = [],
      pb_fill_counter = 0\<rparr>"

definition submitted_order :: "string \<Rightarrow> string \<Rightarrow> order_args \<Rightarrow> managed_order" where
  "submitted_order now order_id oa =
     \<lparr>mo_id = order_id, mo_created_at = now, mo_symbol = upper (oa_symbol oa), mo_side = oa_side oa,
      mo_quantity = oa_quantity oa, mo_limit = oa_limit oa, mo_status = Created, mo_filled = 0,
      mo_reason = oa_reason oa, mo_rejected_reason = []\<rparr>"

lemma upper_dict_single: "upper_dict [(s, x)] = [(upper s, x)]"
  by (simp add: upper_dict_def dict_of_def)

lemma fresh_broker_simps [simp]:
  "pb_portfolio (fresh_broker costs i p) = p" "pb_max_fill_ratio (fresh_broker costs i p) = 1"
  "pb_commission_bps (fresh_broker costs i p) = cs_commission_bps costs"
  "pb_slippage_bps (fresh_broker costs i p) = cs_slippage_bps costs"
  "pb_open (fresh_broker costs i p) = [i]" "pb_fill_counter (fresh_broker costs i p) = 0"
  by (simp_all add: fresh_broker_def pb_submit_order_def add_key_def)

lemma submitted_order_simps [simp]:
  "mo_id (submitted_order now i oa) = i" "mo_symbol (submitted_order now i oa) = upper (oa_symbol oa)"
  "mo_side (submitted_order now i oa) = oa_side oa" "mo_quantity (submitted_order now i oa) = oa_quantity oa"
  "mo_limit (submitted_order now i oa) = oa_limit oa" "mo_filled (submitted_order now i oa) = 0"
  by (simp_all add: submitted_order_def)

lemma broker_fills_eq:
  assumes "0 < oa_quantity oa" and "positive_limit (oa_limit oa)"
  shows "broker_fills costs now i oa p =
    (case fill_quantity_for [(upper (oa_symbol oa), oa_price oa)] (fresh_broker costs i p) (submitted_order now i oa) of
       None \<Rightarrow> Inr []
     | Some (price, q) \<Rightarrow>
         (case build_fill now (fresh_broker costs i p) (submitted_order now i oa) price q of
            Inl e \<Rightarrow> Inl e | Inr f \<Rightarrow> Inr [f]))"
proof -
  have "broker_fills costs now i oa p = snd (snd (process_orders now [(upper (oa_symbol oa), oa_price oa)] [i]
      (fresh_broker costs i p) [(i, submitted_order now i oa)]))"
    using assms by (simp add: broker_fills_def new_paper_broker_def new_managed_order_def
        pb_process_market_data_def fresh_broker_def [symmetric] submitted_order_def [symmetric]
        upper_dict_single)
  then show ?thesis
    by (simp split: option.split sum.split prod.split)
qed

text \<open>Only the id and the time of an order reach the fill, nothing else of them.\<close>

definition fill_core :: "execution_fill \<Rightarrow> execution_fill" where
  "fill_core f = f\<lparr>ef_order_id := [], ef_timestamp := []\<rparr>"

lemma executable_quantity_core:
  "executable_quantity (fresh_broker costs i p) (submitted_order now i oa) r x =
   executable_quantity (fresh_broker costs i' p) (submitted_order now' i' oa) r x"
  by (cases "oa_side oa") (simp_all add: executable_quantity_def Let_def)

lemma fill_quantity_for_core:
  "fill_quantity_for prices (fresh_broker costs i p) (submitted_order now i oa) =
   fill_quantity_for prices (fresh_broker costs i' p) (submitted_order now' i' oa)"
  using executable_quantity_core [of costs i p now oa _ _ i' now']
  by (simp add: fill_quantity_for_def limit_allows_fill_def remaining_quantity_def Let_def
      split: option.split)

lemma build_fill_core:
  "map_sum id fill_core (build_fill now (fresh_broker costs i p) (submitted_order now i oa) price q) =
   map_sum id fill_core (build_fill now' (fresh_broker costs i' p) (submitted_order now' i' oa) price q)"
  by (simp add: build_fill_def new_execution_fill_def fill_core_def Let_def)

lemma broker_fills_core:
  assumes "0 < oa_quantity oa" and "positive_limit (oa_limit oa)"
  shows "map_sum id (map fill_core) (broker_fills costs now i oa p) =
    map_sum id (map fill_core) (broker_fills costs now' i' oa p)"
proof -
  let ?q = "fill_quantity_for [(upper (oa_symbol oa), oa_price oa)] (fresh_broker costs i p) (submitted_order now i oa)"
  note eq = broker_fills_eq [OF assms]
  show ?thesis
  proof (cases ?q)
    case None
    then show ?thesis
      using fill_quantity_for_core [of _ costs i p now oa i' now'] by (simp add: eq)
  next
    case (Some pq)
    then obtain price q where pq: "?q = Some (price, q)" by (cases pq) auto
    have "?q = fill_quantity_for [(upper (oa_symbol oa), oa_price oa)] (fresh_broker costs i' p)
        (submitted_order now' i' oa)"
      by (rule fill_quantity_for_core)
    with pq build_fill_core [of now costs i p oa price q now' i'] show ?thesis
      by (auto simp: eq split: sum.splits)
  qed
qed

definition valid_costs :: "cost_settings \<Rightarrow> bool" where
  "valid_costs costs \<longleftrightarrow> 0 \<le> cs_commission_bps costs \<and> cs_commission_bps costs \<le> 10000
     \<and> 0 \<le> cs_slippage_bps costs \<and> cs_slippage_bps costs < 10000"

text \<open>What a source may spend bounds what its order fills.\<close>

lemma broker_fills_bounds:
  assumes "valid_costs costs" and "portfolio_ok p" and "0 < oa_price oa"
    and "0 < oa_quantity oa" and "positive_limit (oa_limit oa)"
  shows "\<exists>fs. broker_fills costs now i oa p = Inr fs \<and> (fs = [] \<or> (\<exists>f. fs = [f]
    \<and> fill_symbol f = upper (oa_symbol oa) \<and> fill_side f = oa_side oa
    \<and> 0 < fill_quantity f \<and> fill_quantity f \<le> oa_quantity oa
    \<and> ef_price f = apply_slippage (cs_slippage_bps costs) (oa_price oa) (oa_side oa)
    \<and> fill_gross f = fill_quantity f * ef_price f \<and> 0 \<le> fill_gross f \<and> 0 \<le> fill_commission f
    \<and> fill_commission f \<le> fill_gross f
    \<and> limit_allows_fill (submitted_order now i oa) (oa_price oa)
    \<and> (oa_side oa = Buy \<longrightarrow> fill_gross f + fill_commission f \<le> pp_cash p)
    \<and> (oa_side oa = Sell \<longrightarrow> fill_quantity f \<le> pp_position p (upper (oa_symbol oa)))))"
proof -
  let ?b = "fresh_broker costs i p" and ?o = "submitted_order now i oa"
  have costs: "costs_ok ?b" using assms(1) by (simp add: costs_ok_def valid_costs_def)
  have pf: "portfolio_ok (pb_portfolio ?b)" using assms(2) by simp
  show ?thesis
  proof (cases "fill_quantity_for [(upper (oa_symbol oa), oa_price oa)] ?b ?o")
    case None
    then show ?thesis using broker_fills_eq [OF assms(4,5)] by simp
  next
    case (Some pq)
    then obtain price q where pq: "fill_quantity_for [(upper (oa_symbol oa), oa_price oa)] ?b ?o = Some (price, q)"
      by (cases pq) auto
    note q = fill_quantity_for_Some [OF pq]
    have price: "price = oa_price oa" using q(1) by simp
    obtain f where f: "build_fill now ?b ?o price q = Inr f"
      using build_fill_succeeds [OF costs, of price q] assms(3) price q(3) by auto
    note bf = build_fill_Inr [OF f] and means = fill_within_means [OF costs pf pq _ f]
    have "fill_gross f * cs_commission_bps costs \<le> fill_gross f * 10000"
      using assms(1) bf(11) by (intro mult_left_mono) (auto simp: valid_costs_def)
    then have "fill_commission f \<le> fill_gross f" using bf(6) by simp
    moreover have "broker_fills costs now i oa p = Inr [f]"
      using pq f broker_fills_eq [OF assms(4,5), of costs now i p] by simp
    moreover have "fill_symbol f = upper (oa_symbol oa)" "fill_side f = oa_side oa"
      "0 < fill_quantity f" "fill_quantity f \<le> oa_quantity oa"
      "ef_price f = apply_slippage (cs_slippage_bps costs) (oa_price oa) (oa_side oa)"
      "fill_gross f = fill_quantity f * ef_price f" "0 \<le> fill_gross f" "0 \<le> fill_commission f"
      "limit_allows_fill ?o (oa_price oa)"
      using bf(1-5) bf(9,11,12) q(2,4) assms(4) price by (simp_all add: remaining_quantity_def)
    moreover have "oa_side oa = Buy \<longrightarrow> fill_gross f + fill_commission f \<le> pp_cash p"
      "oa_side oa = Sell \<longrightarrow> fill_quantity f \<le> pp_position p (upper (oa_symbol oa))"
      using means bf(1,2) price assms(3) by simp_all
    ultimately show ?thesis by blast
  qed
qed

section \<open>The account an order leaves\<close>

definition account_wf :: "paper_account \<Rightarrow> bool" where
  "account_wf a \<longleftrightarrow> wf_dict (pa_positions a) \<and> upper_keys (pa_positions a)"

lemma svc_available_nonneg:
  "0 \<le> svc_available_cash a source exclude" "0 \<le> svc_available_quantity a symbol source exclude"
  by (auto simp: svc_available_cash_def available_cash_def manual_available_cash_def
      svc_available_quantity_def available_quantity_def manual_available_quantity_def Let_def
      split: option.splits)

lemma view_positions:
  "map_of (map (\<lambda>(s, p). (s, g s)) (filter (\<lambda>(s, p). P p) d)) s =
    (if s \<in> fst ` set (filter (\<lambda>(s, p). P p) d) then Some (g s) else None)"
  by (induction d) auto

lemma portfolio_view_ok:
  assumes "account_wf a"
  shows "\<exists>p. portfolio_view a source exclude = Inr p \<and> portfolio_ok p
    \<and> pp_cash p = svc_available_cash a source exclude
    \<and> (\<forall>s. pp_position p s \<le> svc_available_quantity a (upper s) source exclude)"
proof -
  have cash: "\<not> svc_available_cash a source exclude < 0"
    using svc_available_nonneg(1) [of a source exclude] by simp
  have "wf_dict (map (\<lambda>(s, p). (s, h s)) (filter (\<lambda>(s, p). P p) d))" if "wf_dict d"
    for d :: "(string, account_position) dict" and P and h :: "string \<Rightarrow> rat"
  proof -
    have "map fst (map (\<lambda>(s, p). (s, h s)) xs) = map fst xs" for xs :: "(string, account_position) dict"
      by (induction xs) auto
    then show ?thesis using that by (simp only: distinct_map_filter)
  qed
  with assms cash show ?thesis
    using svc_available_nonneg(2)
    by (auto simp: portfolio_view_def new_paper_portfolio_def portfolio_ok_def account_wf_def
        pp_position_def dict_get_def view_positions upper_keys_def)
qed


lemma apply_fills_single:
  assumes "apply_fill env f (oa_source oa) (Some (oa_price_kind oa)) (oa_kind oa) a = (a', Inr ())"
  shows "apply_fills env oa [f] a = (a', Inr ())"
  using assms by simp

text \<open>A sell within what the source's view offers is never refused by the account.\<close>

lemma view_sell_accepted:
  assumes "oa_kind oa \<noteq> ''sleeve_execution_fill''"
    and "fill_side f = Sell \<Longrightarrow>
      fill_quantity f \<le> svc_available_quantity a (upper (fill_symbol f)) (oa_source oa) exclude"
    and "0 < fill_quantity f" and "upper_keys (pa_positions a)"
  shows "\<exists>a'. apply_fill env f (oa_source oa) pk (oa_kind oa) a = (a', Inr ())"
proof -
  have owned: "manual_available_quantity a (upper (fill_symbol f)) exclude
      \<le> max (owns a (upper (fill_symbol f)) ''manual'') 0"
    if held: "ap_sources (position_of a (upper (fill_symbol f))) \<noteq> []"
  proof -
    obtain p where p: "map_of (pa_positions a) (upper (fill_symbol f)) = Some p" "ap_sources p \<noteq> []"
      using held by (auto simp: position_of_def new_position_def split: option.splits)
    let ?r = "\<Sum>o' \<leftarrow> filter (\<lambda>o'. po_source o' = ''manual'' \<and> \<not> excluded exclude o'
      \<and> upper (po_symbol o') = upper (fill_symbol f)) (pa_pending a). max (po_reserved_quantity o') 0"
    have "0 \<le> ?r" by (rule sum_list_nonneg) auto
    then have "max (owns a (upper (fill_symbol f)) ''manual'' - ?r) 0
        \<le> max (owns a (upper (fill_symbol f)) ''manual'') 0"
      by (intro max.mono) simp_all
    moreover have "manual_available_quantity a (upper (fill_symbol f)) exclude
        = max (owns a (upper (fill_symbol f)) ''manual'' - ?r) 0"
      using p by (simp add: manual_available_quantity_def owns_def position_of_def Let_def)
    ultimately show ?thesis by (simp only:)
  qed
  have "\<not> oversells_source a f (oa_source oa) (oa_kind oa)"
    using assms(1-3) owned account_dust_pos
    by (force simp: oversells_source_def exact_source_def svc_available_quantity_def)
  moreover have "\<exists>p. attributed_position a f (oa_source oa) (oa_kind oa) = Inr p"
  proof (cases "attributed_position a f (oa_source oa) (oa_kind oa)")
    case (Inl e)
    then have "fill_side f = Sell" "oa_source oa = ''manual''"
      "ap_sources (position_of a (upper (fill_symbol f))) \<noteq> []"
      "owns a (upper (fill_symbol f)) ''manual'' = 0"
      using assms(1) by (auto simp: attributed_position_def exact_source_def owns_def
          split: side.splits dest!: reduce_source_Inl)
    with owned assms(2,3) show ?thesis by (simp add: svc_available_quantity_def)
  qed simp
  ultimately show ?thesis by (auto simp: apply_fill_eq)
qed


lemma order_note_simps [simp]:
  "pa_cash (order_note env oa kind txt a) = pa_cash a"
  "pa_positions (order_note env oa kind txt a) = pa_positions a"
  "pa_sleeve_cash (order_note env oa kind txt a) = pa_sleeve_cash a"
  "pa_realized_pnl (order_note env oa kind txt a) = pa_realized_pnl a"
  "pa_pending (order_note env oa kind txt a) = pa_pending a"
  "pa_kill_switch (order_note env oa kind txt a) = pa_kill_switch a"
  "pa_initial_cash (order_note env oa kind txt a) = pa_initial_cash a"
  by (simp_all add: order_note_def)

lemma settle_outcome_fields:
  assumes "settle_outcome costs env now i oa filled a = (a', status, reason)"
  shows "pa_cash a' = pa_cash a" and "pa_positions a' = pa_positions a"
    and "pa_sleeve_cash a' = pa_sleeve_cash a" and "pa_realized_pnl a' = pa_realized_pnl a"
    and "pa_kill_switch a' = pa_kill_switch a"
    and "0 < filled \<Longrightarrow> pa_pending a' = pa_pending a"
  using assms
  by (auto simp: settle_outcome_def queue_order_def Let_def split: if_splits option.splits)

definition order_ready :: "cost_settings \<Rightarrow> order_args \<Rightarrow> paper_account \<Rightarrow> bool" where
  "order_ready costs oa a \<longleftrightarrow> valid_costs costs \<and> account_wf a \<and> 0 < oa_price oa
     \<and> positive_limit (oa_limit oa) \<and> oa_kind oa \<noteq> ''sleeve_execution_fill''"

lemma execute_single_runs:
  assumes "order_ready costs oa a" and "0 < oa_quantity oa" and "\<not> pa_kill_switch a"
  shows "\<exists>p fs a1 a2 status reason. portfolio_view a (oa_source oa) (oa_exclude oa) = Inr p
    \<and> broker_fills costs (draw_now env a) (draw_order_id env oa a) oa p = Inr fs
    \<and> apply_fills env oa fs a = (a1, Inr ())
    \<and> settle_outcome costs env (draw_now env a) (draw_order_id env oa a) oa (sum_list (map fill_quantity fs)) a1
        = (a2, status, reason)
    \<and> execute_single costs env oa a = (a2, Inr (outcome_of oa status (oa_quantity oa)
        (sum_list (map fill_quantity fs)) reason (Some (draw_order_id env oa a))))
    \<and> (fs = [] \<and> a1 = a \<or> (\<exists>f. fs = [f] \<and> apply_fill env f (oa_source oa) (Some (oa_price_kind oa)) (oa_kind oa) a = (a1, Inr ())
         \<and> fill_symbol f = upper (oa_symbol oa) \<and> fill_side f = oa_side oa
         \<and> 0 < fill_quantity f \<and> fill_quantity f \<le> oa_quantity oa
         \<and> fill_gross f = fill_quantity f * ef_price f \<and> 0 \<le> fill_gross f \<and> 0 \<le> fill_commission f
         \<and> fill_commission f \<le> fill_gross f
         \<and> limit_allows_fill (submitted_order (draw_now env a) (draw_order_id env oa a) oa) (oa_price oa)
         \<and> (oa_side oa = Buy \<longrightarrow> fill_gross f + fill_commission f \<le> svc_available_cash a (oa_source oa) (oa_exclude oa))
         \<and> (oa_side oa = Sell \<longrightarrow> fill_quantity f \<le>
              svc_available_quantity a (upper (oa_symbol oa)) (oa_source oa) (oa_exclude oa))))"
proof -
  let ?now = "draw_now env a" and ?i = "draw_order_id env oa a"
  have r: "valid_costs costs" "account_wf a" "0 < oa_price oa" "positive_limit (oa_limit oa)"
    "oa_kind oa \<noteq> ''sleeve_execution_fill''"
    using assms(1) by (auto simp: order_ready_def)
  obtain p where p: "portfolio_view a (oa_source oa) (oa_exclude oa) = Inr p" "portfolio_ok p"
    "pp_cash p = svc_available_cash a (oa_source oa) (oa_exclude oa)"
    "\<forall>s. pp_position p s \<le> svc_available_quantity a (upper s) (oa_source oa) (oa_exclude oa)"
    using portfolio_view_ok [OF r(2)] by blast
  have exec: "execute_single costs env oa a = (case apply_fills env oa fs a of
      (a1, Inl e) \<Rightarrow> (a1, Inl e)
    | (a1, Inr _) \<Rightarrow>
        let (a2, status, reason) = settle_outcome costs env ?now ?i oa (sum_list (map fill_quantity fs)) a1
        in (a2, Inr (outcome_of oa status (oa_quantity oa) (sum_list (map fill_quantity fs)) reason (Some ?i))))"
    if "broker_fills costs ?now ?i oa p = Inr fs" for fs
    unfolding execute_single_def Let_def
    using that assms(2,3) p(1) by simp
  obtain fs where fs: "broker_fills costs ?now ?i oa p = Inr fs"
    and cases: "fs = [] \<or> (\<exists>f. fs = [f]
    \<and> fill_symbol f = upper (oa_symbol oa) \<and> fill_side f = oa_side oa
    \<and> 0 < fill_quantity f \<and> fill_quantity f \<le> oa_quantity oa
    \<and> ef_price f = apply_slippage (cs_slippage_bps costs) (oa_price oa) (oa_side oa)
    \<and> fill_gross f = fill_quantity f * ef_price f \<and> 0 \<le> fill_gross f \<and> 0 \<le> fill_commission f
    \<and> fill_commission f \<le> fill_gross f
    \<and> limit_allows_fill (submitted_order ?now ?i oa) (oa_price oa)
    \<and> (oa_side oa = Buy \<longrightarrow> fill_gross f + fill_commission f \<le> pp_cash p)
    \<and> (oa_side oa = Sell \<longrightarrow> fill_quantity f \<le> pp_position p (upper (oa_symbol oa))))"
    using broker_fills_bounds [OF r(1) p(2) r(3) assms(2) r(4), of ?now ?i] by blast
  show ?thesis
  proof (cases fs)
    case Nil
    obtain a2 st re where "settle_outcome costs env ?now ?i oa 0 a = (a2, st, re)"
      by (rule prod_cases3)
    then show ?thesis using p(1) fs exec [OF fs] Nil by simp
  next
    case (Cons f fs')
    with cases have f: "fs = [f]" "fill_symbol f = upper (oa_symbol oa)" "fill_side f = oa_side oa"
      "0 < fill_quantity f" "fill_quantity f \<le> oa_quantity oa"
      "fill_gross f = fill_quantity f * ef_price f" "0 \<le> fill_gross f" "0 \<le> fill_commission f"
      "fill_commission f \<le> fill_gross f" "limit_allows_fill (submitted_order ?now ?i oa) (oa_price oa)"
      "oa_side oa = Buy \<longrightarrow> fill_gross f + fill_commission f \<le> svc_available_cash a (oa_source oa) (oa_exclude oa)"
      "oa_side oa = Sell \<longrightarrow> fill_quantity f \<le> pp_position p (upper (oa_symbol oa))"
      using p(3) by auto
    have "pp_position p (upper (oa_symbol oa)) \<le>
        svc_available_quantity a (upper (oa_symbol oa)) (oa_source oa) (oa_exclude oa)"
      using p(4) by (metis upper_idem)
    then have sell: "oa_side oa = Sell \<longrightarrow> fill_quantity f \<le>
        svc_available_quantity a (upper (oa_symbol oa)) (oa_source oa) (oa_exclude oa)"
      using f(12) by force
    then obtain a1 where a1: "apply_fill env f (oa_source oa) (Some (oa_price_kind oa)) (oa_kind oa) a = (a1, Inr ())"
      using view_sell_accepted [OF r(5), of f a "oa_exclude oa" env "Some (oa_price_kind oa)"] f(2-4) r(2)
      by (auto simp: account_wf_def)
    obtain a2 st re where "settle_outcome costs env ?now ?i oa (fill_quantity f) a1 = (a2, st, re)"
      by (rule prod_cases3)
    then show ?thesis
      using p(1) fs exec [OF fs] f sell a1 by simp
  qed
qed


section \<open>A dry run predicts the commit\<close>

text \<open>An account without its ledger, and an outcome without its order id.\<close>

definition account_core :: "paper_account \<Rightarrow> paper_account" where
  "account_core a = a\<lparr>pa_ledger := [], pa_updated_at := []\<rparr>"

definition outcome_core :: "order_outcome \<Rightarrow> order_outcome" where
  "outcome_core out = out\<lparr>oo_order_id := None\<rparr>"

lemma account_core_obtain:
  assumes "account_core a = account_core b"
  obtains l u where "b = a\<lparr>pa_ledger := l, pa_updated_at := u\<rparr>"
  using assms by (cases a; cases b) (auto simp: account_core_def)

lemma fill_core_obtain:
  assumes "fill_core f = fill_core g"
  obtains i t where "g = f\<lparr>ef_order_id := i, ef_timestamp := t\<rparr>"
  using assms by (cases f; cases g) (auto simp: fill_core_def)

lemma account_core_notes [simp]:
  "account_core (append_ledger env e a) = account_core a"
  "account_core (record_event env kind source symbol sd q price pk txt a) = account_core a"
  "account_core (order_note env oa kind txt a) = account_core a"
  by (simp_all add: account_core_def append_ledger_def record_event_def order_note_def Let_def)

lemma account_core_fields:
  assumes "account_core a = account_core b"
  shows "pa_cash a = pa_cash b" and "pa_positions a = pa_positions b" and "pa_pending a = pa_pending b"
    and "pa_sleeve_cash a = pa_sleeve_cash b" and "pa_kill_switch a = pa_kill_switch b"
    and "pa_realized_pnl a = pa_realized_pnl b"
proof -
  obtain l u where "b = a\<lparr>pa_ledger := l, pa_updated_at := u\<rparr>"
    using assms by (rule account_core_obtain)
  then show "pa_cash a = pa_cash b" and "pa_positions a = pa_positions b" and "pa_pending a = pa_pending b"
    and "pa_sleeve_cash a = pa_sleeve_cash b" and "pa_kill_switch a = pa_kill_switch b"
    and "pa_realized_pnl a = pa_realized_pnl b"
    by simp_all
qed

lemma portfolio_view_core:
  assumes "account_core a = account_core b"
  shows "portfolio_view a source exclude = portfolio_view b source exclude"
proof -
  note same = account_core_fields(1-4) [OF assms]
  have "svc_available_cash a source exclude = svc_available_cash b source exclude"
    by (simp add: svc_available_cash_def available_cash_def manual_available_cash_def reserved_cash_def same)
  moreover have "svc_available_quantity a s source exclude = svc_available_quantity b s source exclude" for s
    by (simp add: svc_available_quantity_def available_quantity_def manual_available_quantity_def
        reserved_quantity_def position_quantity_def same cong: option.case_cong)
  ultimately show ?thesis by (simp only: portfolio_view_def same)
qed

lemma apply_fill_core:
  assumes "account_core a = account_core b" and "fill_core f = fill_core g"
  shows "account_core (fst (apply_fill env f source pk kind a)) = account_core (fst (apply_fill env' g source pk kind b))
    \<and> snd (apply_fill env f source pk kind a) = snd (apply_fill env' g source pk kind b)"
proof -
  obtain l u where b: "b = a\<lparr>pa_ledger := l, pa_updated_at := u\<rparr>"
    using assms(1) by (rule account_core_obtain)
  obtain i t where g: "g = f\<lparr>ef_order_id := i, ef_timestamp := t\<rparr>"
    using assms(2) by (rule fill_core_obtain)
  have pos: "position_of b s = position_of a s" for s
    by (simp add: b position_of_def)
  have same: "oversells_source b g source kind = oversells_source a f source kind"
    "rolled_position b g = rolled_position a f" "realized_delta b g = realized_delta a f"
    "cash_delta g = cash_delta f"
    by (simp_all add: oversells_source_def owns_def pos g rolled_position_def realized_delta_def cash_delta_def
        split: side.split)
  then have attr: "attributed_position b g source kind = attributed_position a f source kind"
    by (simp add: attributed_position_def owns_def pos g split: side.split)
  have "cash_settled b g source kind = cash_settled a f source kind\<lparr>pa_ledger := l, pa_updated_at := u\<rparr>"
  proof -
    have "cash_belongs_to_manual b source kind = cash_belongs_to_manual a source kind"
      by (simp add: b cash_belongs_to_manual_def)
    then show ?thesis
      by (simp add: cash_settled_def same sync_manual_sleeve_cash_def Let_def) (simp add: b)
  qed
  then have core: "account_core (cash_settled b g source kind\<lparr>pa_positions := d\<rparr>)
      = account_core (cash_settled a f source kind\<lparr>pa_positions := d\<rparr>)" for d
    by (simp add: account_core_def)
  have sym: "fill_symbol g = fill_symbol f" "pa_positions b = pa_positions a" by (simp_all add: g b)
  show ?thesis
    by (cases "attributed_position a f source kind") (simp_all add: apply_fill_eq same attr core sym assms(1))
qed

lemma apply_fills_core:
  assumes "account_core a = account_core b" and "map fill_core fs = map fill_core gs"
  shows "account_core (fst (apply_fills env oa fs a)) = account_core (fst (apply_fills env' oa gs b))
    \<and> snd (apply_fills env oa fs a) = snd (apply_fills env' oa gs b)"
  using assms
proof (induction fs arbitrary: gs a b)
  case Nil
  then show ?case by simp
next
  case (Cons f fs)
  then obtain g gs' where gs: "gs = g # gs'" "fill_core f = fill_core g" "map fill_core fs = map fill_core gs'"
    by (cases gs) auto
  obtain a1 r1 b1 r2 where
    f: "apply_fill env f (oa_source oa) (Some (oa_price_kind oa)) (oa_kind oa) a = (a1, r1)"
    and g: "apply_fill env' g (oa_source oa) (Some (oa_price_kind oa)) (oa_kind oa) b = (b1, r2)"
    by fastforce
  have "account_core a1 = account_core b1" "r1 = r2"
    using apply_fill_core [OF Cons.prems(1) gs(2), of env "oa_source oa" "Some (oa_price_kind oa)" "oa_kind oa" env']
      f g by simp_all
  with Cons.IH [OF _ gs(3)] show ?case
    by (cases r2) (simp_all add: gs(1) f g)
qed

lemma settle_outcome_core:
  assumes "account_core a = account_core b" and "oa_limit oa = None"
  shows "account_core (fst (settle_outcome costs env now i oa filled a))
      = account_core (fst (settle_outcome costs env' now' i' oa filled b))
    \<and> snd (settle_outcome costs env now i oa filled a) = snd (settle_outcome costs env' now' i' oa filled b)"
  using assms by (simp add: settle_outcome_def Let_def)

lemma fill_quantity_core: "map fill_core fs = map fill_core gs \<Longrightarrow> map fill_quantity fs = map fill_quantity gs"
proof (induction fs arbitrary: gs)
  case (Cons f fs)
  obtain g gs' where gs: "gs = g # gs'" "fill_core f = fill_core g" "map fill_core fs = map fill_core gs'"
    using Cons.prems by (cases gs) auto
  have "fill_quantity f = fill_quantity g"
    using gs(2) by (cases f; cases g) (simp add: fill_core_def)
  then show ?case using Cons.IH [OF gs(3)] gs(1) by simp
qed simp

lemma execute_single_core:
  assumes "account_core a = account_core b" and "oa_limit oa = None"
  shows "account_core (fst (execute_single costs env oa a)) = account_core (fst (execute_single costs env' oa b))
    \<and> map_sum id outcome_core (snd (execute_single costs env oa a))
      = map_sum id outcome_core (snd (execute_single costs env' oa b))"
proof (cases "oa_quantity oa \<le> 0 \<or> pa_kill_switch a")
  case True
  then show ?thesis
    using assms account_core_fields(5) [OF assms(1)]
    by (auto simp: execute_single_def outcome_core_def outcome_of_def Let_def)
next
  case False
  let ?now = "draw_now env a" and ?i = "draw_order_id env oa a"
  let ?now' = "draw_now env' b" and ?i' = "draw_order_id env' oa b"
  have kill: "\<not> pa_kill_switch b" using False account_core_fields(5) [OF assms(1)] by simp
  note view = portfolio_view_core [OF assms(1), of "oa_source oa" "oa_exclude oa"]
  show ?thesis
  proof (cases "portfolio_view b (oa_source oa) (oa_exclude oa)")
    case (Inl e)
    then show ?thesis using False kill view assms(1) by (simp add: execute_single_def Let_def)
  next
    case (Inr p)
    have bf: "map_sum id (map fill_core) (broker_fills costs ?now ?i oa p) =
        map_sum id (map fill_core) (broker_fills costs ?now' ?i' oa p)"
      using False assms(2) by (intro broker_fills_core) (auto simp: positive_limit_def)
    show ?thesis
    proof (cases "broker_fills costs ?now ?i oa p")
      case (Inl e)
      then have "broker_fills costs ?now' ?i' oa p = Inl e"
        using bf by (cases "broker_fills costs ?now' ?i' oa p") auto
      with Inl Inr False kill view assms(1) show ?thesis by (simp add: execute_single_def Let_def)
    next
      case (Inr fs)
      then obtain gs where gs: "broker_fills costs ?now' ?i' oa p = Inr gs" "map fill_core fs = map fill_core gs"
        using bf by (cases "broker_fills costs ?now' ?i' oa p") auto
      obtain a1 r1 b1 r2 where
        f: "apply_fills env oa fs a = (a1, r1)" and g: "apply_fills env' oa gs b = (b1, r2)"
        by fastforce
      have core: "account_core a1 = account_core b1" "r1 = r2"
        using apply_fills_core [OF assms(1) gs(2), of env oa env'] f g by simp_all
      let ?q = "sum_list (map fill_quantity gs)"
      obtain a2 st re b2 st' re' where
        sa: "settle_outcome costs env ?now ?i oa ?q a1 = (a2, st, re)"
        and sb: "settle_outcome costs env' ?now' ?i' oa ?q b1 = (b2, st', re')"
        by (metis prod_cases3)
      have "account_core a2 = account_core b2" "st = st'" "re = re'"
        using settle_outcome_core [OF core(1) assms(2), of costs env ?now ?i ?q env' ?now' ?i'] sa sb by simp_all
      then show ?thesis
        using Inr gs f g core sa sb False kill view \<open>portfolio_view b (oa_source oa) (oa_exclude oa) = Inr p\<close>
          fill_quantity_core [OF gs(2)]
        unfolding execute_single_def Let_def
        by (cases r2) (simp_all add: outcome_core_def outcome_of_def)
    qed
  qed
qed

lemma execute_legs_core:
  assumes "account_core a = account_core b"
  shows "account_core (fst (execute_legs costs env sid quotes legs a))
      = account_core (fst (execute_legs costs env' sid quotes legs b))
    \<and> map_sum id (map outcome_core) (snd (execute_legs costs env sid quotes legs a))
      = map_sum id (map outcome_core) (snd (execute_legs costs env' sid quotes legs b))"
  using assms
proof (induction legs arbitrary: a b)
  case Nil
  then show ?case by simp
next
  case (Cons leg legs)
  show ?case
  proof (cases "leg_args sid quotes leg")
    case (Inl e)
    with Cons.prems show ?thesis by simp
  next
    case (Inr oa)
    have "oa_limit oa = None"
      using Inr by (auto simp: leg_args_def split: prod.splits option.splits)
    note core = execute_single_core [OF Cons.prems this, of costs env env']
    obtain a1 r1 b1 r2 where
      x: "execute_single costs env oa a = (a1, r1)" and y: "execute_single costs env' oa b = (b1, r2)"
      by fastforce
    have c: "account_core a1 = account_core b1" "map_sum id outcome_core r1 = map_sum id outcome_core r2"
      using core x y by (simp_all add: id_def)
    obtain a2 r3 b2 r4 where
      x': "execute_legs costs env sid quotes legs a1 = (a2, r3)"
      and y': "execute_legs costs env' sid quotes legs b1 = (b2, r4)"
      by fastforce
    have c': "account_core a2 = account_core b2"
      "map_sum id (map outcome_core) r3 = map_sum id (map outcome_core) r4"
      using Cons.IH [OF c(1)] x' y' by (simp_all add: id_def)
    show ?thesis
    proof (cases r1)
      case (Inl e)
      then have "r2 = Inl e" using c(2) by (cases r2) auto
      with Inl c(1) show ?thesis by (simp add: \<open>leg_args sid quotes leg = Inr oa\<close> x y)
    next
      case (Inr out)
      then obtain out' where out': "r2 = Inr out'" "outcome_core out = outcome_core out'"
        using c(2) by (cases r2) auto
      show ?thesis
      proof (cases r3)
        case (Inl e)
        then have "r4 = Inl e" using c'(2) by (cases r4) auto
        with Inl Inr out' c'(1) show ?thesis by (simp add: \<open>leg_args sid quotes leg = Inr oa\<close> x y x' y')
      next
        case Inr': (Inr outs)
        then obtain outs' where "r4 = Inr outs'" "map outcome_core outs = map outcome_core outs'"
          using c'(2) by (cases r4) auto
        with Inr Inr' out' c'(1) show ?thesis by (simp add: \<open>leg_args sid quotes leg = Inr oa\<close> x y x' y')
      qed
    qed
  qed
qed


lemma position_of_quantity: "ap_quantity (position_of a (upper s)) = position_quantity a s"
  by (simp add: position_of_def position_quantity_def new_position_def split: option.split)

lemma fill_position_quantity:
  assumes "apply_fill env f source pk kind a = (a', Inr u)"
  defines "q \<equiv> position_quantity a (fill_symbol f) + signed_quantity f"
  shows "position_quantity a' s = (if upper s = upper (fill_symbol f)
    then (if \<bar>q\<bar> < account_dust then 0 else q) else position_quantity a s)"
proof -
  obtain p where p: "attributed_position a f source kind = Inr p"
    and pos: "pa_positions a' = (if \<bar>ap_quantity p\<bar> < account_dust
      then AList.delete (upper (fill_symbol f)) (pa_positions a)
      else AList.update (upper (fill_symbol f)) p (pa_positions a))"
    using apply_fill_applied(8) [OF assms(1)] by blast
  have "ap_quantity p = q"
    using attributed_fields(1) [OF p] by (simp add: rolled_quantity position_of_quantity q_def)
  then show ?thesis
    using pos by (simp add: position_quantity_def)
qed

lemma execute_single_refused:
  assumes "oa_quantity oa \<le> 0 \<or> pa_kill_switch a" and "execute_single costs env oa a = (a', r)"
  shows "account_core a' = account_core a \<and> (\<exists>out. r = Inr out \<and> oo_filled out = 0)"
proof (cases "oa_quantity oa \<le> 0")
  case True
  with assms(2) show ?thesis by (auto simp: execute_single_def Let_def outcome_of_def)
next
  case False
  with assms show ?thesis by (auto simp: execute_single_def Let_def outcome_of_def)
qed

lemma quantity_room: "0 \<le> account_dust + svc_available_quantity a s source exclude"
  using svc_available_nonneg(2) [of a s source exclude] account_dust_pos by linarith

lemma outcome_core_status: "map oo_status (map outcome_core outs) = map oo_status outs"
  by (simp add: outcome_core_def)

lemma position_quantity_same: "pa_positions b = pa_positions a \<Longrightarrow> position_quantity b s = position_quantity a s"
  by (simp add: position_quantity_def)

section \<open>Properties\<close>

text \<open>C18: An order never spends beyond its source: at a positive price and valid costs it never raises,
  fills at most what was asked, spends at most the source's free cash (its cash less what other
  pending orders reserve), sells at most the source's free shares, and touches no other symbol.\<close>

theorem order_within_means:
  assumes "order_ready costs oa a" and "execute_single costs env oa a = (a', r)"
  shows "\<exists>out. r = Inr out \<and> 0 \<le> oo_filled out \<and> oo_filled out \<le> max (oa_quantity oa) 0 \<and>
    pa_cash a - pa_cash a' \<le> svc_available_cash a (oa_source oa) (oa_exclude oa) \<and>
    (if upper s = upper (oa_symbol oa)
     then position_quantity a s - position_quantity a' s \<le> account_dust +
       (if oa_side oa = Sell
        then svc_available_quantity a (upper (oa_symbol oa)) (oa_source oa) (oa_exclude oa) else 0)
     else position_quantity a' s = position_quantity a s)"
proof (cases "oa_quantity oa \<le> 0 \<or> pa_kill_switch a")
  case True
  have room: "0 \<le> svc_available_cash a (oa_source oa) (oa_exclude oa)" "0 \<le> account_dust"
    "0 \<le> account_dust + svc_available_quantity a (upper (oa_symbol oa)) (oa_source oa) (oa_exclude oa)"
    by (rule svc_available_nonneg, rule less_imp_le [OF account_dust_pos], rule quantity_room)
  obtain out where out: "account_core a' = account_core a" "r = Inr out" "oo_filled out = 0"
    using execute_single_refused [OF True assms(2)] by blast
  have "pa_cash a' = pa_cash a" "position_quantity a' s = position_quantity a s"
    by (rule account_core_fields(1) [OF out(1)], rule position_quantity_same [OF account_core_fields(2) [OF out(1)]])
  then show ?thesis
    using out(2,3) room by simp
next
  case False
  let ?c = "svc_available_cash a (oa_source oa) (oa_exclude oa)"
  let ?v = "svc_available_quantity a (upper (oa_symbol oa)) (oa_source oa) (oa_exclude oa)"
  obtain fs a1 a2 st re where
    st: "settle_outcome costs env (draw_now env a) (draw_order_id env oa a) oa (sum_list (map fill_quantity fs)) a1
        = (a2, st, re)"
    and run: "execute_single costs env oa a = (a2, Inr (outcome_of oa st (oa_quantity oa)
        (sum_list (map fill_quantity fs)) re (Some (draw_order_id env oa a))))"
    and cases: "fs = [] \<and> a1 = a \<or> (\<exists>f. fs = [f]
         \<and> apply_fill env f (oa_source oa) (Some (oa_price_kind oa)) (oa_kind oa) a = (a1, Inr ())
         \<and> fill_symbol f = upper (oa_symbol oa) \<and> fill_side f = oa_side oa
         \<and> 0 < fill_quantity f \<and> fill_quantity f \<le> oa_quantity oa \<and> 0 \<le> fill_gross f
         \<and> fill_commission f \<le> fill_gross f \<and> 0 \<le> fill_commission f
         \<and> (oa_side oa = Buy \<longrightarrow> fill_gross f + fill_commission f \<le> ?c)
         \<and> (oa_side oa = Sell \<longrightarrow> fill_quantity f \<le> ?v))"
    using execute_single_runs [OF assms(1), of env] False by fastforce
  note same = settle_outcome_fields(1,2) [OF st]
  have a': "a' = a2" "pa_cash a' = pa_cash a1" "position_quantity a' s = position_quantity a1 s"
    using run assms(2) same by (simp_all add: position_quantity_def)
  from cases show ?thesis
  proof
    assume none: "fs = [] \<and> a1 = a"
    have "0 \<le> ?c" "0 \<le> account_dust" "0 \<le> account_dust + ?v"
      by (rule svc_available_nonneg, rule less_imp_le [OF account_dust_pos], rule quantity_room)
    then show ?thesis
      using none run assms(2) a' False by (simp add: outcome_of_def)
  next
    assume "\<exists>f. fs = [f] \<and> apply_fill env f (oa_source oa) (Some (oa_price_kind oa)) (oa_kind oa) a = (a1, Inr ())
         \<and> fill_symbol f = upper (oa_symbol oa) \<and> fill_side f = oa_side oa
         \<and> 0 < fill_quantity f \<and> fill_quantity f \<le> oa_quantity oa \<and> 0 \<le> fill_gross f
         \<and> fill_commission f \<le> fill_gross f \<and> 0 \<le> fill_commission f
         \<and> (oa_side oa = Buy \<longrightarrow> fill_gross f + fill_commission f \<le> ?c)
         \<and> (oa_side oa = Sell \<longrightarrow> fill_quantity f \<le> ?v)"
    then obtain f where fs: "fs = [f]"
      and ap: "apply_fill env f (oa_source oa) (Some (oa_price_kind oa)) (oa_kind oa) a = (a1, Inr ())"
      and f: "fill_symbol f = upper (oa_symbol oa)" "fill_side f = oa_side oa" "0 < fill_quantity f"
        "fill_quantity f \<le> oa_quantity oa" "fill_commission f \<le> fill_gross f"
        "oa_side oa = Buy \<longrightarrow> fill_gross f + fill_commission f \<le> ?c"
        "oa_side oa = Sell \<longrightarrow> fill_quantity f \<le> ?v"
      by blast
    have "pa_cash a - pa_cash a1 \<le> ?c"
      using apply_fill_applied(2) [OF ap] f(2,5,6) svc_available_nonneg(1) [of a "oa_source oa" "oa_exclude oa"]
      by (cases "oa_side oa") (auto simp: cash_delta_def)
    moreover have "if upper s = upper (oa_symbol oa)
       then position_quantity a s - position_quantity a1 s \<le> account_dust + (if oa_side oa = Sell then ?v else 0)
       else position_quantity a1 s = position_quantity a s"
    proof (cases "upper s = upper (oa_symbol oa)")
      case True
      define q where "q = position_quantity a s + signed_quantity f"
      have "position_quantity a (fill_symbol f) = position_quantity a s"
        using True f(1) by (simp add: position_quantity_def)
      then have "position_quantity a1 s = (if \<bar>q\<bar> < account_dust then 0 else q)"
        using fill_position_quantity [OF ap, of s] True f(1) by (simp add: q_def)
      moreover have "q \<le> account_dust" if "\<bar>q\<bar> < account_dust"
        using that by linarith
      moreover have "- signed_quantity f \<le> (if oa_side oa = Sell then ?v else 0)"
        using f(2,3,7) by (cases "oa_side oa") (auto simp: signed_quantity_def)
      ultimately show ?thesis
        using True account_dust_pos by (auto simp: q_def split: if_splits)
    next
      case False
      then show ?thesis using fill_position_quantity [OF ap, of s] f(1) by simp
    qed
    ultimately show ?thesis
      using run assms(2) a' fs f(3,4) by (auto simp: outcome_of_def)
  qed
qed

definition example_costs :: cost_settings where
  "example_costs = \<lparr>cs_commission_bps = 5, cs_slippage_bps = 10\<rparr>"

definition example_order :: order_args where
  "example_order = \<lparr>oa_symbol = ''AAPL'', oa_side = Sell, oa_quantity = 9, oa_price = 110,
     oa_price_kind = ''last_close'', oa_limit = None, oa_source = ''manual'', oa_reason = ''manual_order'',
     oa_kind = ''fill'', oa_order_id = None, oa_exclude = None\<rparr>"

lemma example_order_ready: "order_ready example_costs example_order example_account"
  by (simp add: order_ready_def valid_costs_def example_costs_def example_order_def account_wf_def
      example_account_def positive_limit_def upper_keys_def example_upper)

theorem order_within_means_witness:
  "position_quantity example_account ''AAPL''
     - position_quantity (fst (execute_single example_costs example_env example_order example_account)) ''AAPL''
   \<le> account_dust + 4"
proof -
  obtain a' r where run: "execute_single example_costs example_env example_order example_account = (a', r)"
    by fastforce
  have "svc_available_quantity example_account (upper (oa_symbol example_order)) (oa_source example_order)
      (oa_exclude example_order) = 4" "oa_side example_order = Sell" "oa_symbol example_order = ''AAPL''"
    by (code_simp, simp_all add: example_order_def)
  with order_within_means [OF example_order_ready run, of "''AAPL''"] run show ?thesis by auto
qed

text \<open>The commit of a rebalance does what its dry run did.\<close>

lemma execute_legs_commit:
  assumes "execute_legs costs trial_env sid quotes legs a = (a1, Inr trial)"
  shows "\<exists>a2 outs. execute_legs costs env sid quotes legs a = (a2, Inr outs)
    \<and> account_core a2 = account_core a1 \<and> map outcome_core outs = map outcome_core trial"
proof -
  obtain a2 r2 where e: "execute_legs costs env sid quotes legs a = (a2, r2)" by fastforce
  then show ?thesis
    using execute_legs_core [of a a costs env sid quotes legs trial_env] assms
    by (cases r2) auto
qed

lemma passed_legs:
  assumes "filter leg_failed trial = []" and "map outcome_core outs = map outcome_core trial"
  shows "list_all (\<lambda>o'. oo_status o' = ''filled'' \<or> oo_status o' = ''skipped'') outs"
proof -
  have "map oo_status outs = map oo_status trial"
    using assms(2) by (metis outcome_core_status)
  moreover have "list_all (\<lambda>s. s = ''filled'' \<or> s = ''skipped'') (map oo_status trial)"
    using assms(1) by (auto simp: filter_empty_conv leg_failed_def list_all_iff)
  ultimately have "list_all (\<lambda>s. s = ''filled'' \<or> s = ''skipped'') (map oo_status outs)"
    by (simp only:)
  then show ?thesis by (simp add: list.pred_map comp_def)
qed

text \<open>The quotes a rebalance reads, and the legs it plans from them.\<close>

definition rebalance_quotes ::
    "(string list \<Rightarrow> (string, quote) dict) \<Rightarrow> (string, rat) dict \<Rightarrow> paper_account \<Rightarrow> (string, quote) dict" where
  "rebalance_quotes get_prices weights a = get_prices (sorted_keys (map fst weights @ map fst (pa_positions a)))"

definition planned_legs ::
    "cost_settings \<Rightarrow> (string, quote) dict \<Rightarrow> (string, rat) dict \<Rightarrow> paper_account
      \<Rightarrow> (string \<times> side \<times> rat) list result" where
  "planned_legs costs quotes weights a =
     (let prices = map (\<lambda>(s, qt). (s, q_price qt)) quotes
      in rebalance_requests a weights prices (equity a prices)
           (1 / (1 + (cs_commission_bps costs + cs_slippage_bps costs + 1) / 10000)))"

text \<open>The ways a rebalance ends.\<close>

lemma rebalance_ends:
  assumes "rebalance_to_strategy costs trial_env env targets get_prices strategy_id a = (a', r)"
  shows "(\<exists>e. r = Inl e \<and> a' = a)
    \<or> (\<exists>out. r = Inr out \<and> \<not> ro_aborted out \<and> ro_orders out = [] \<and> a' = a)
    \<or> (\<exists>out msg. r = Inr out \<and> ro_aborted out
         \<and> a' = record_event env ''rebalance_aborted'' (''strategy:'' @ strategy_id) None None None None None msg a)
    \<or> (\<exists>out quotes legs a1 trial a2. r = Inr out \<and> \<not> ro_aborted out
         \<and> quotes = rebalance_quotes get_prices (ro_target_weights out) a
         \<and> planned_legs costs quotes (ro_target_weights out) a = Inr legs \<and> legs \<noteq> []
         \<and> execute_legs costs trial_env strategy_id quotes legs a = (a1, Inr trial)
         \<and> filter leg_failed trial = []
         \<and> execute_legs costs env strategy_id quotes legs a = (a2, Inr (ro_orders out))
         \<and> a' = record_event env ''rebalance_fill'' (''strategy:'' @ strategy_id) None None None None None
              (targets_note strategy_id (ro_target_weights out)) a2)"
proof (cases targets)
  case (Inl e)
  then show ?thesis using assms by (auto simp: rebalance_to_strategy_def split: if_splits)
next
  case (Inr tg)
  obtain w as_of where tg: "tg = (w, as_of)" by fastforce
  define quotes where "quotes = rebalance_quotes get_prices w a"
  note unfolded = assms [unfolded rebalance_to_strategy_def Inr tg, simplified Let_def sum.case prod.case,
      folded rebalance_quotes_def, folded quotes_def]
  show ?thesis
  proof (cases "planned_legs costs quotes w a")
    case (Inl e)
    then show ?thesis using unfolded by (auto simp: planned_legs_def Let_def split: if_splits)
  next
    case legs: (Inr legs)
    note unfolded = unfolded [folded legs [unfolded planned_legs_def Let_def]]
    obtain a1 t where dry: "execute_legs costs trial_env strategy_id quotes legs a = (a1, t)" by fastforce
    show ?thesis
    proof (cases t)
      case (Inl e)
      then show ?thesis using unfolded legs dry by (auto simp: planned_legs_def Let_def split: if_splits)
    next
      case (Inr trial)
      obtain a2 outs where run: "execute_legs costs env strategy_id quotes legs a = (a2, Inr outs)"
        using execute_legs_commit [OF dry [unfolded Inr], of env] by blast
      show ?thesis
        using unfolded legs dry Inr run quotes_def
        by (auto simp: planned_legs_def Let_def split: if_splits)
    qed
  qed
qed

text \<open>C7: A rebalance is all or nothing. An error leaves the account as it was; an abort adds one ledger entry
  and changes nothing else; otherwise nothing was to be done and nothing changed, or every leg planned from
  the quotes was executed on the account itself (each reported filled, or skipped as empty) and one ledger
  entry records it. Committing never fails after a dry run that passed: whatever ids and times the two draw,
  the legs that ran through on the copy run through on the account, with the same books and outcomes.\<close>

theorem rebalance_all_or_nothing:
  assumes "rebalance_to_strategy costs trial_env env targets get_prices strategy_id a = (a', r)"
  shows "(case r of
      Inl e \<Rightarrow> a' = a
    | Inr out \<Rightarrow>
        if ro_aborted out
        then \<exists>msg. a' = record_event env ''rebalance_aborted'' (''strategy:'' @ strategy_id)
               None None None None None msg a
        else (ro_orders out = [] \<and> a' = a) \<or>
          (let quotes = rebalance_quotes get_prices (ro_target_weights out) a
           in \<exists>legs a1 trial a2.
             planned_legs costs quotes (ro_target_weights out) a = Inr legs \<and> legs \<noteq> []
             \<and> execute_legs costs trial_env strategy_id quotes legs a = (a1, Inr trial)
             \<and> execute_legs costs env strategy_id quotes legs a = (a2, Inr (ro_orders out))
             \<and> account_core a2 = account_core a1
             \<and> a' = record_event env ''rebalance_fill'' (''strategy:'' @ strategy_id) None None None None None
                  (targets_note strategy_id (ro_target_weights out)) a2
             \<and> list_all (\<lambda>o'. oo_status o' = ''filled'' \<or> oo_status o' = ''skipped'') (ro_orders out)))
    \<and> (\<forall>quotes legs a1 trial. execute_legs costs trial_env strategy_id quotes legs a = (a1, Inr trial) \<longrightarrow>
         (\<exists>a2 outs. execute_legs costs env strategy_id quotes legs a = (a2, Inr outs)
           \<and> account_core a2 = account_core a1 \<and> map outcome_core outs = map outcome_core trial))"
proof -
  consider (err) e where "r = Inl e" "a' = a"
    | (idle) out where "r = Inr out" "\<not> ro_aborted out" "ro_orders out = []" "a' = a"
    | (aborted) out msg where "r = Inr out" "ro_aborted out"
        "a' = record_event env ''rebalance_aborted'' (''strategy:'' @ strategy_id) None None None None None msg a"
    | (committed) out quotes legs a1 trial a2 where "r = Inr out" "\<not> ro_aborted out"
        "quotes = rebalance_quotes get_prices (ro_target_weights out) a"
        "planned_legs costs quotes (ro_target_weights out) a = Inr legs" "legs \<noteq> []"
        "execute_legs costs trial_env strategy_id quotes legs a = (a1, Inr trial)" "filter leg_failed trial = []"
        "execute_legs costs env strategy_id quotes legs a = (a2, Inr (ro_orders out))"
        "a' = record_event env ''rebalance_fill'' (''strategy:'' @ strategy_id) None None None None None
           (targets_note strategy_id (ro_target_weights out)) a2"
    using rebalance_ends [OF assms] by blast
  then show ?thesis
  proof cases
    case committed
    obtain same: "account_core a2 = account_core a1" "map outcome_core (ro_orders out) = map outcome_core trial"
      using execute_legs_commit [OF committed(6), of env] committed(8) by auto
    with committed passed_legs [OF committed(7) same(2)] show ?thesis
      using execute_legs_commit by (simp add: Let_def)
  qed (use execute_legs_commit in \<open>auto\<close>)
qed


definition example_rebalance :: "paper_account \<times> rebalance_outcome result" where
  "example_rebalance = rebalance_to_strategy example_costs example_env
     (example_env\<lparr>env_order_id := \<lambda>n. ''commit-'' @ nat_str n\<rparr>) (Inr ([(''AAPL'', 1 / 4), (''MSFT'', 1 / 4)], None))
     (map (\<lambda>s. (s, \<lparr>q_symbol = s, q_price = 100, q_price_kind = ''last_close''\<rparr>))) ''top_n'' example_account"

theorem rebalance_all_or_nothing_witness:
  "\<exists>a' out a2 legs. example_rebalance = (a', Inr out) \<and> \<not> ro_aborted out \<and> length (ro_orders out) = 2 \<and>
     execute_legs example_costs (example_env\<lparr>env_order_id := \<lambda>n. ''commit-'' @ nat_str n\<rparr>) ''top_n''
       (rebalance_quotes (map (\<lambda>s. (s, \<lparr>q_symbol = s, q_price = 100, q_price_kind = ''last_close''\<rparr>)))
          (ro_target_weights out) example_account) legs example_account = (a2, Inr (ro_orders out)) \<and>
     account_core a' = account_core a2 \<and>
     list_all (\<lambda>o'. oo_status o' = ''filled'' \<or> oo_status o' = ''skipped'') (ro_orders out)"
proof -
  obtain a' r where run: "example_rebalance = (a', r)" by fastforce
  have "case snd example_rebalance of Inl _ \<Rightarrow> False
    | Inr out \<Rightarrow> \<not> ro_aborted out \<and> length (ro_orders out) = 2"
    by code_simp
  then have "case r of Inl _ \<Rightarrow> False | Inr out \<Rightarrow> \<not> ro_aborted out \<and> length (ro_orders out) = 2"
    by (simp only: run snd_conv)
  then obtain out where out: "r = Inr out" "\<not> ro_aborted out" "length (ro_orders out) = 2"
    by (auto split: sum.splits)
  then have "ro_orders out \<noteq> []" by auto
  with rebalance_all_or_nothing [OF run [unfolded example_rebalance_def]] out obtain legs a2 where
    "execute_legs example_costs (example_env\<lparr>env_order_id := \<lambda>n. ''commit-'' @ nat_str n\<rparr>) ''top_n''
       (rebalance_quotes (map (\<lambda>s. (s, \<lparr>q_symbol = s, q_price = 100, q_price_kind = ''last_close''\<rparr>)))
          (ro_target_weights out) example_account) legs example_account = (a2, Inr (ro_orders out))"
    and "account_core a' = account_core a2"
    and "list_all (\<lambda>o'. oo_status o' = ''filled'' \<or> oo_status o' = ''skipped'') (ro_orders out)"
    by (auto simp: Let_def)
  with run out show ?thesis by blast
qed

lemma find_pending_Some:
  "find_pending i ps = Some (n, p) \<Longrightarrow> n < length ps \<and> ps ! n = p \<and> po_id p = i
    \<and> ps = take n ps @ p # drop (Suc n) ps \<and> (\<forall>q \<in> set (take n ps). po_id q \<noteq> i)"
  by (induction ps arbitrary: n) (auto split: if_splits)

lemma find_pending_None: "find_pending i ps = None \<longleftrightarrow> i \<notin> po_id ` set ps"
  by (induction ps) auto

lemma reserved_cash_remove:
  "find_pending i (pa_pending a) = Some (n, p) \<Longrightarrow>
    reserved_cash (a\<lparr>pa_pending := remove_nth n (pa_pending a)\<rparr>) None = reserved_cash a None - max (po_reserved_cash p) 0"
proof -
  assume "find_pending i (pa_pending a) = Some (n, p)"
  then have split: "pa_pending a = take n (pa_pending a) @ p # drop (Suc n) (pa_pending a)"
    using find_pending_Some by blast
  have all: "reserved_cash b None = (\<Sum>o' \<leftarrow> pa_pending b. max (po_reserved_cash o') 0)" for b
    by (simp add: reserved_cash_def excluded_def)
  have "(\<Sum>o' \<leftarrow> pa_pending a. max (po_reserved_cash o') 0) =
      (\<Sum>o' \<leftarrow> take n (pa_pending a) @ p # drop (Suc n) (pa_pending a). max (po_reserved_cash o') 0)"
    by (rule arg_cong [OF split])
  then show ?thesis
    unfolding all by (simp add: remove_nth_def)
qed

text \<open>Cancelling takes the first pending order with that id off the book and moves nothing else: no
  cash, no shares, and the cash the other orders reserve stays reserved; an unknown id changes nothing.\<close>

theorem cancel_removes_one_order:
  assumes "cancel_pending_order env i a = (a', r)"
  shows "case find_pending i (pa_pending a) of
      None \<Rightarrow> a' = a \<and> isl r \<and> i \<notin> po_id ` set (pa_pending a)
    | Some (n, p) \<Rightarrow> pa_pending a' = remove_nth n (pa_pending a) \<and> po_id p = i \<and> p = pa_pending a ! n \<and>
        account_core (a'\<lparr>pa_pending := pa_pending a\<rparr>) = account_core a \<and>
        reserved_cash a' None = reserved_cash a None - max (po_reserved_cash p) 0"
proof (cases "find_pending i (pa_pending a)")
  case None
  have "i \<notin> po_id ` set (pa_pending a)"
    using None find_pending_None by blast
  moreover have "a' = a \<and> isl r"
    using assms None by (auto simp: cancel_pending_order_def)
  ultimately show ?thesis using None by simp
next
  case (Some np)
  obtain n p where np: "np = (n, p)" by fastforce
  let ?a = "a\<lparr>pa_pending := remove_nth n (pa_pending a)\<rparr>"
  obtain l u where a': "a' = ?a\<lparr>pa_ledger := l, pa_updated_at := u\<rparr>"
    using assms Some np
    by (auto simp: cancel_pending_order_def Let_def record_event_def append_ledger_def)
  have "reserved_cash a' None = reserved_cash ?a None"
    by (simp add: a' reserved_cash_def)
  then show ?thesis
    using reserved_cash_remove [of i a n p] find_pending_Some [of i "pa_pending a" n p] Some np
    by (simp add: a' account_core_def)
qed

definition example_pending :: "string \<Rightarrow> pending_order" where
  "example_pending i = \<lparr>po_id = i, po_created_at = ''t0'', po_symbol = ''AAPL'', po_side = ''buy'',
     po_quantity = 5, po_limit = 100, po_reserved_cash = 500, po_reserved_quantity = 0,
     po_source = ''manual'', po_reason = ''manual_order'', po_last_price = Some 110,
     po_last_price_kind = Some ''last_close'', po_last_checked_at = Some ''t0''\<rparr>"

definition waiting_account :: paper_account where
  "waiting_account = \<lparr>pa_id = ''default'', pa_currency = ''USD'', pa_initial_cash = 1000, pa_cash = 1000,
     pa_sleeve_cash = [(''manual'', 1000)], pa_realized_pnl = 0, pa_kill_switch = False,
     pa_positions = [], pa_pending = [example_pending ''o1'', example_pending ''o2''], pa_ledger = [],
     pa_created_at = [], pa_updated_at = []\<rparr>"

theorem cancel_removes_one_order_witness:
  "reserved_cash (fst (cancel_pending_order example_env ''o2'' waiting_account)) None = 500"
proof -
  obtain a' r where run: "cancel_pending_order example_env ''o2'' waiting_account = (a', r)" by fastforce
  have "find_pending ''o2'' (pa_pending waiting_account) = Some (1, example_pending ''o2'')"
    "reserved_cash waiting_account None = 1000"
    by (simp_all add: waiting_account_def example_pending_def reserved_cash_def excluded_def)
  with cancel_removes_one_order [OF run] run show ?thesis
    by (simp add: example_pending_def)
qed

definition example_market :: "rat \<Rightarrow> market" where
  "example_market price = \<lparr>mk_price = \<lambda>n s. Inr \<lparr>q_symbol = s, q_price = price, q_price_kind = ''last_close''\<rparr>,
     mk_range = \<lambda>_ _ _. None, mk_day = \<lambda>_. None, mk_date = \<lambda>_. []\<rparr>"

text \<open>While a batch of pending orders is processed, an order that has just filled stays on the
  account and keeps reserving its cash: with 1000 cash and two buys of 500, each fully reserved and
  both at their limit, the first fills and the second is dropped for lack of cash that is there.\<close>

theorem filled_pending_still_reserves:
  "let (a', r) = process_pending_orders \<lparr>cs_commission_bps = 0, cs_slippage_bps = 0\<rparr> example_env
         (example_market 100) ''t1'' 0 waiting_account
   in pa_cash a' = 500 \<and> pa_pending a' = [] \<and>
      map_sum id (map (\<lambda>out. (oo_status out, oo_filled out, oo_reason out))) r =
        Inr [(''filled'', 5, []), (''unfilled'', 0, ''insufficient cash'')]"
  by code_simp

text \<open>C26: A frozen account does not trade: manual orders, the processing of pending orders and
  rebalances are refused with the account unchanged, whatever the market and the strategy say.\<close>

theorem frozen_account_never_trades:
  assumes "pa_kill_switch a"
  shows "(\<exists>e. place_manual_order costs env get_price symbol sd quantity notional limit_price a
        = (a, Inl (AccountFrozenError e))) \<and>
    (\<exists>e. process_pending_orders costs env mk checked_at checked_day a = (a, Inl (AccountFrozenError e))) \<and>
    (\<exists>e. rebalance_to_strategy costs trial_env env targets get_prices strategy_id a
        = (a, Inl (AccountFrozenError e)))"
  using assms by (simp add: place_manual_order_def process_pending_orders_def rebalance_to_strategy_def)

theorem frozen_account_never_trades_witness:
  "\<exists>e. process_pending_orders example_costs example_env (example_market 100) ''t1'' 0
     (waiting_account\<lparr>pa_kill_switch := True\<rparr>) = (waiting_account\<lparr>pa_kill_switch := True\<rparr>, Inl (AccountFrozenError e))"
  using frozen_account_never_trades [of "waiting_account\<lparr>pa_kill_switch := True\<rparr>"] by simp

end
