(* ===== verification/Policy.thy ===== *)
theory Policy
  imports Prelude
begin

text \<open>
  The admission policy for autonomous paper orders
  (\<open>src/quant_system/execution/paper_execution_policy.py\<close>). A batch carries raw values, as the
  code checks their type and finiteness itself; the digest of a document is an argument. The
  lemmas characterise the admitted batches order by order, and bound the exposure one leaves.
\<close>

section \<open>Conversions\<close>

text \<open>
  What \<open>float(...)\<close> reads from a string and what \<open>str(...)\<close> prints for a value that is not one are
  the interpreter's.
\<close>

record runtime =
  rt_float :: "string \<Rightarrow> pyfloat option"
  rt_str :: "pyval \<Rightarrow> string"

definition py_float :: "runtime \<Rightarrow> pyval \<Rightarrow> pyfloat option" where
  "py_float rt v = (case v of
      VBool b \<Rightarrow> Some (Fin (if b then 1 else 0))
    | VInt n \<Rightarrow> Some (Fin (of_int n))
    | VFloat x \<Rightarrow> Some x
    | VStr s \<Rightarrow> rt_float rt s
    | _ \<Rightarrow> None)"

definition py_str :: "runtime \<Rightarrow> pyval \<Rightarrow> string" where
  "py_str rt v = (case v of VStr s \<Rightarrow> s | _ \<Rightarrow> rt_str rt v)"

definition float_or_nan :: "runtime \<Rightarrow> pyval \<Rightarrow> pyfloat" where
  "float_or_nan rt v = (case py_float rt v of None \<Rightarrow> NaN | Some x \<Rightarrow> x)"

section \<open>Limits, batches and decisions\<close>

record execution_limits =
  el_max_sleeve_cash :: rat
  el_max_sleeve_nav_fraction :: rat
  el_max_total_nav_fraction :: rat
  el_max_daily_promotions :: int
  el_max_daily_demotions :: int
  el_max_daily_loss :: rat
  el_max_drawdown :: rat
  el_max_sleeve_symbol_fraction :: rat
  el_max_aggregate_symbol_nav_fraction :: rat
  el_max_order_value :: rat

definition default_execution_limits :: execution_limits where
  "default_execution_limits = \<lparr>el_max_sleeve_cash = 10000, el_max_sleeve_nav_fraction = 1 / 100,
     el_max_total_nav_fraction = 10 / 100, el_max_daily_promotions = 1, el_max_daily_demotions = 5,
     el_max_daily_loss = 2 / 100, el_max_drawdown = 10 / 100, el_max_sleeve_symbol_fraction = 40 / 100,
     el_max_aggregate_symbol_nav_fraction = 5 / 100, el_max_order_value = 10000\<rparr>"

record execution_batch =
  eb_source :: string
  eb_workspace_id :: pyval
  eb_account_id :: pyval
  eb_sleeve_id :: pyval
  eb_orders :: "metadata list"
  eb_sleeve_equity :: pyval
  eb_nav :: pyval
  eb_aggregate :: "(string, pyval) dict"
  eb_emergency_stop :: pyval
  eb_execution_enabled :: pyval
  eb_mandate_active :: pyval
  eb_mandate_execution_allowed :: pyval
  eb_hung_observation :: pyval

record execution_decision =
  ed_source :: string
  ed_allowed :: bool
  ed_blockers :: "string list"
  ed_projected :: "(string, rat) dict"
  ed_policy_digest :: string
  ed_input_digest :: string
  ed_input_document :: metadata
  ed_decision_digest :: string

definition decision_contract :: string where
  "decision_contract = ''hqa.paper_execution_policy_decision/v1''"

definition policy_version :: string where
  "policy_version = ''paper-execution-policy/v3''"

definition str_list :: "string list \<Rightarrow> pyval" where
  "str_list ss = VList (map VStr ss)"

definition rat_dict :: "(string, rat) dict \<Rightarrow> pyval" where
  "rat_dict d = VDict (map (\<lambda>(k, x). (k, VFloat (Fin x))) d)"

definition decision_to_dict :: "execution_decision \<Rightarrow> metadata" where
  "decision_to_dict d =
     [(''contract'', VStr decision_contract), (''source'', VStr (ed_source d)),
      (''allowed'', VBool (ed_allowed d)), (''blockers'', str_list (ed_blockers d)),
      (''projected_symbol_values'', rat_dict (ed_projected d)),
      (''policy_digest'', VStr (ed_policy_digest d)), (''input_digest'', VStr (ed_input_digest d)),
      (''input_document'', VDict (ed_input_document d)), (''decision_digest'', VStr (ed_decision_digest d))]"

definition policy_digest_of :: "(pyval \<Rightarrow> string) \<Rightarrow> execution_limits \<Rightarrow> string" where
  "policy_digest_of digest lims = digest (VDict
     [(''contract'', VStr decision_contract), (''policy_version'', VStr policy_version),
      (''limits'', VDict
        [(''max_sleeve_cash'', VFloat (Fin (el_max_sleeve_cash lims))),
         (''max_sleeve_nav_fraction'', VFloat (Fin (el_max_sleeve_nav_fraction lims))),
         (''max_total_nav_fraction'', VFloat (Fin (el_max_total_nav_fraction lims))),
         (''max_daily_promotions'', VInt (el_max_daily_promotions lims)),
         (''max_daily_demotions'', VInt (el_max_daily_demotions lims)),
         (''max_daily_loss'', VFloat (Fin (el_max_daily_loss lims))),
         (''max_drawdown'', VFloat (Fin (el_max_drawdown lims))),
         (''max_sleeve_symbol_fraction'', VFloat (Fin (el_max_sleeve_symbol_fraction lims))),
         (''max_aggregate_symbol_nav_fraction'', VFloat (Fin (el_max_aggregate_symbol_nav_fraction lims))),
         (''max_order_value'', VFloat (Fin (el_max_order_value lims)))])])"

section \<open>Evaluation\<close>

definition append_once :: "string list \<Rightarrow> string \<Rightarrow> string list" where
  "append_once blockers code = (if code \<in> set blockers then blockers else blockers @ [code])"

definition block_if :: "bool \<Rightarrow> string \<Rightarrow> string list \<Rightarrow> string list" where
  "block_if b code blockers = (if b then append_once blockers code else blockers)"

definition invalid_id :: "pyval \<Rightarrow> bool" where
  "invalid_id v = (case v of VStr s \<Rightarrow> strip s = [] | _ \<Rightarrow> True)"

definition positive_float :: "pyfloat \<Rightarrow> bool" where
  "positive_float x \<longleftrightarrow> isfinite x \<and> \<not> le_zero x"

definition batch_source :: "execution_batch \<Rightarrow> string" where
  "batch_source batch = lower (strip (eb_source batch))"

text \<open>The blockers that do not depend on the orders.\<close>

definition gate_blockers :: "runtime \<Rightarrow> execution_batch \<Rightarrow> string list" where
  "gate_blockers rt batch =
     (let source = batch_source batch;
          observed = eb_hung_observation batch = VBool True;
          bs = block_if (source \<noteq> ''d33'' \<and> source \<noteq> ''d34'') ''unsupported_automation_source'' [];
          bs = block_if (eb_emergency_stop batch = VBool True) ''emergency_stop_active'' bs;
          bs = block_if (\<not> observed \<and> eb_execution_enabled batch \<noteq> VBool True) ''paper_execution_disabled'' bs;
          bs = block_if (\<not> observed \<and> source = ''d34'' \<and> eb_mandate_active batch \<noteq> VBool True)
                 ''d34_mandate_inactive'' bs;
          bs = block_if (\<not> observed \<and> source = ''d34'' \<and> eb_mandate_execution_allowed batch \<noteq> VBool True)
                 ''d34_mandate_paper_execution_not_allowed'' bs;
          bs = block_if (invalid_id (eb_workspace_id batch)) ''invalid_workspace_id'' bs;
          bs = block_if (invalid_id (eb_account_id batch)) ''invalid_account_id'' bs;
          bs = block_if (invalid_id (eb_sleeve_id batch)) ''invalid_sleeve_id'' bs;
          bs = block_if (\<not> positive_float (float_or_nan rt (eb_sleeve_equity batch))) ''invalid_sleeve_equity'' bs
      in block_if (\<not> positive_float (float_or_nan rt (eb_nav batch))) ''invalid_nav'' bs)"

text \<open>The aggregate book: the valid entries under their normalised symbols, and whether all were.\<close>

definition normal_symbol :: "string \<Rightarrow> string" where
  "normal_symbol s = strip (upper s)"

definition add_aggregate ::
    "runtime \<Rightarrow> (string, rat) dict \<times> bool \<Rightarrow> string \<times> pyval \<Rightarrow> (string, rat) dict \<times> bool" where
  "add_aggregate rt acc entry =
     (let (projected, valid) = acc; (raw_symbol, raw_value) = entry; symbol = normal_symbol raw_symbol
      in case py_float rt raw_value of
           None \<Rightarrow> (projected, False)
         | Some x \<Rightarrow>
             if symbol = [] \<or> \<not> isfinite x then (projected, False)
             else (AList.update symbol (fin x) projected, valid))"

definition aggregate_book :: "runtime \<Rightarrow> execution_batch \<Rightarrow> (string, rat) dict \<times> bool" where
  "aggregate_book rt batch = foldl (add_aggregate rt) ([], True) (eb_aggregate batch)"

text \<open>One order of the batch: its symbol and notional change, where both are valid.\<close>

definition read_order :: "runtime \<Rightarrow> metadata \<Rightarrow> (string \<times> rat) option" where
  "read_order rt order =
     (let symbol = normal_symbol (py_str rt (dict_get order ''symbol'' (VStr [])))
      in case map_of order ''notional_delta'' of
           None \<Rightarrow> None
         | Some v \<Rightarrow>
             (case py_float rt v of
                None \<Rightarrow> None
              | Some x \<Rightarrow> if symbol = [] \<or> \<not> isfinite x then None else Some (symbol, fin x)))"

definition policy_eps :: rat where
  "policy_eps = 1 / 10 ^ 9"

type_synonym order_state = "string list \<times> (string \<times> rat) list \<times> (string, rat) dict"

definition add_order ::
    "runtime \<Rightarrow> execution_limits \<Rightarrow> string \<Rightarrow> pyfloat \<Rightarrow> pyfloat \<Rightarrow> order_state \<Rightarrow> metadata \<Rightarrow> order_state" where
  "add_order rt lims source sleeve_equity nav st order =
     (let (blockers, normalized, projected) = st
      in case read_order rt order of
           None \<Rightarrow> (append_once blockers ''invalid_order_notional'', normalized, projected)
         | Some (symbol, delta) \<Rightarrow>
             let total_value = dict_get projected symbol 0 + delta;
                 bs = block_if (el_max_order_value lims + policy_eps < \<bar>delta\<bar>) ''order_value_limit'' blockers;
                 bs = block_if (source \<noteq> ''d34'' \<and> positive_float sleeve_equity
                        \<and> fin sleeve_equity * el_max_sleeve_symbol_fraction lims + policy_eps < \<bar>delta\<bar>)
                        ''sleeve_symbol_limit'' bs;
                 bs = block_if (positive_float nav
                        \<and> fin nav * el_max_aggregate_symbol_nav_fraction lims + policy_eps < \<bar>total_value\<bar>)
                        ''aggregate_symbol_limit'' bs
             in (bs, normalized @ [(symbol, delta)], AList.update symbol total_value projected))"

text \<open>\<open>dict(sorted(pairs))\<close>: pairs are sorted by symbol and then by value.\<close>

definition document_aggregate :: "runtime \<Rightarrow> execution_batch \<Rightarrow> (string, rat) dict" where
  "document_aggregate rt batch =
     dict_of (sort_key fst (sort_key snd
       (concat (map (\<lambda>(key, v). case v of
            VBool b \<Rightarrow> if strip key = [] then [] else [(normal_symbol key, if b then 1 else 0)]
          | VInt n \<Rightarrow> if strip key = [] then [] else [(normal_symbol key, of_int n)]
          | VFloat x \<Rightarrow> if strip key = [] \<or> \<not> isfinite x then [] else [(normal_symbol key, fin x)]
          | _ \<Rightarrow> []) (eb_aggregate batch)))))"

definition float_or_none :: "pyfloat \<Rightarrow> pyval" where
  "float_or_none x = (if isfinite x then VFloat x else VNone)"

definition input_document ::
    "runtime \<Rightarrow> string \<Rightarrow> execution_batch \<Rightarrow> (string \<times> rat) list \<Rightarrow> metadata" where
  "input_document rt policy_digest batch normalized =
     [(''contract'', VStr decision_contract), (''source'', VStr (batch_source batch)),
      (''workspace_id'', eb_workspace_id batch), (''account_id'', eb_account_id batch),
      (''sleeve_id'', eb_sleeve_id batch),
      (''orders'', VList (map (\<lambda>(symbol, delta).
         VDict [(''symbol'', VStr symbol), (''notional_delta'', VFloat (Fin delta))]) normalized)),
      (''sleeve_equity'', float_or_none (float_or_nan rt (eb_sleeve_equity batch))),
      (''nav'', float_or_none (float_or_nan rt (eb_nav batch))),
      (''aggregate_symbol_values'', rat_dict (document_aggregate rt batch)),
      (''emergency_stop'', eb_emergency_stop batch),
      (''paper_execution_enabled'', eb_execution_enabled batch),
      (''mandate_active'', eb_mandate_active batch),
      (''mandate_paper_execution_allowed'', eb_mandate_execution_allowed batch),
      (''hung_observation'', eb_hung_observation batch), (''policy_digest'', VStr policy_digest)]"

definition evaluate_batch ::
    "runtime \<Rightarrow> (pyval \<Rightarrow> string) \<Rightarrow> execution_limits \<Rightarrow> execution_batch \<Rightarrow> execution_decision" where
  "evaluate_batch rt digest lims batch =
     (let (book, valid) = aggregate_book rt batch;
          bs = block_if (\<not> valid) ''invalid_aggregate_symbol_values'' (gate_blockers rt batch);
          (blockers, normalized, projected) =
            foldl (add_order rt lims (batch_source batch) (float_or_nan rt (eb_sleeve_equity batch))
                    (float_or_nan rt (eb_nav batch))) (bs, [], book) (eb_orders batch);
          projected = sort_key fst projected;
          policy_digest = policy_digest_of digest lims;
          document = input_document rt policy_digest batch normalized
      in \<lparr>ed_source = batch_source batch, ed_allowed = (blockers = []), ed_blockers = blockers,
          ed_projected = projected, ed_policy_digest = policy_digest,
          ed_input_digest = digest (VDict document), ed_input_document = document,
          ed_decision_digest = digest (VDict (document @ [(''blockers'', str_list blockers),
             (''projected_symbol_values'', rat_dict projected)]))\<rparr>)"

section \<open>What an admitted batch satisfies\<close>

lemma append_once_nonempty [simp]: "append_once bs code \<noteq> []"
  by (auto simp: append_once_def)

lemma block_if_Nil [simp]: "block_if b code bs = [] \<longleftrightarrow> \<not> b \<and> bs = []"
  by (simp add: block_if_def)

text \<open>The order-independent conditions, as the policy's readers would state them.\<close>

definition gate_open :: "runtime \<Rightarrow> execution_batch \<Rightarrow> bool" where
  "gate_open rt batch \<longleftrightarrow>
     batch_source batch \<in> {''d33'', ''d34''} \<and> eb_emergency_stop batch \<noteq> VBool True
     \<and> (eb_hung_observation batch = VBool True \<or>
          eb_execution_enabled batch = VBool True
          \<and> (batch_source batch = ''d33'' \<or>
               eb_mandate_active batch = VBool True \<and> eb_mandate_execution_allowed batch = VBool True))
     \<and> \<not> invalid_id (eb_workspace_id batch) \<and> \<not> invalid_id (eb_account_id batch)
     \<and> \<not> invalid_id (eb_sleeve_id batch)
     \<and> positive_float (float_or_nan rt (eb_sleeve_equity batch)) \<and> positive_float (float_or_nan rt (eb_nav batch))"

lemma gate_blockers_Nil: "gate_blockers rt batch = [] \<longleftrightarrow> gate_open rt batch"
  by (auto simp: gate_blockers_def gate_open_def Let_def)

text \<open>The orders that pass, from the book they start on.\<close>

fun orders_within ::
    "runtime \<Rightarrow> execution_limits \<Rightarrow> string \<Rightarrow> rat \<Rightarrow> rat \<Rightarrow> (string \<Rightarrow> rat) \<Rightarrow> metadata list \<Rightarrow> bool" where
  "orders_within rt lims source equity nav book [] = True"
| "orders_within rt lims source equity nav book (order # orders) =
     (case read_order rt order of
        None \<Rightarrow> False
      | Some (symbol, delta) \<Rightarrow>
          \<bar>delta\<bar> \<le> el_max_order_value lims + policy_eps
          \<and> (source = ''d34'' \<or> \<bar>delta\<bar> \<le> equity * el_max_sleeve_symbol_fraction lims + policy_eps)
          \<and> \<bar>book symbol + delta\<bar> \<le> nav * el_max_aggregate_symbol_nav_fraction lims + policy_eps
          \<and> orders_within rt lims source equity nav (book(symbol := book symbol + delta)) orders)"

lemma add_order_keeps_blockers:
  "fst (add_order rt lims source eq nav (bs, n, p) order) = [] \<Longrightarrow> bs = []"
  by (auto simp: add_order_def Let_def split: option.splits)

lemma add_orders_keep_blockers:
  "fst (foldl (add_order rt lims source eq nav) st orders) = [] \<Longrightarrow> fst st = []"
proof (induction orders arbitrary: st)
  case Nil
  then show ?case by simp
next
  case (Cons order orders)
  then have "fst (add_order rt lims source eq nav st order) = []" by simp
  then show ?case
    by (cases st) (auto dest: add_order_keeps_blockers)
qed

lemma add_orders_Nil:
  assumes "positive_float eq" and "positive_float nav"
  shows "fst (foldl (add_order rt lims source eq nav) (bs, n, p) orders) = [] \<longleftrightarrow>
    bs = [] \<and> orders_within rt lims source (fin eq) (fin nav) (\<lambda>s. dict_get p s 0) orders"
proof (induction orders arbitrary: bs n p)
  case Nil
  then show ?case by simp
next
  case (Cons order orders)
  show ?case
  proof (cases "read_order rt order")
    case None
    have "fst (foldl (add_order rt lims source eq nav) (bs, n, p) (order # orders)) \<noteq> []"
      using add_orders_keep_blockers [of rt lims source eq nav "add_order rt lims source eq nav (bs, n, p) order" orders]
      by (auto simp: add_order_def None)
    then show ?thesis by (simp add: None)
  next
    case (Some sd)
    obtain symbol delta where sd: "sd = (symbol, delta)" by fastforce
    define bs' where "bs' = fst (add_order rt lims source eq nav (bs, n, p) order)"
    have book: "(\<lambda>s. dict_get (AList.update symbol (dict_get p symbol 0 + delta) p) s 0)
        = (\<lambda>s. dict_get p s 0)(symbol := dict_get p symbol 0 + delta)"
      by (auto simp: fun_eq_iff)
    have "add_order rt lims source eq nav (bs, n, p) order =
        (bs', n @ [(symbol, delta)], AList.update symbol (dict_get p symbol 0 + delta) p)"
      by (simp add: add_order_def Some sd Let_def bs'_def)
    moreover have "bs' = [] \<longleftrightarrow> bs = [] \<and> \<bar>delta\<bar> \<le> el_max_order_value lims + policy_eps
        \<and> (source = ''d34'' \<or> \<bar>delta\<bar> \<le> fin eq * el_max_sleeve_symbol_fraction lims + policy_eps)
        \<and> \<bar>dict_get p symbol 0 + delta\<bar> \<le> fin nav * el_max_aggregate_symbol_nav_fraction lims + policy_eps"
      using assms by (auto simp: bs'_def add_order_def Some sd Let_def not_less)
    ultimately show ?thesis
      using Cons.IH [of bs' "n @ [(symbol, delta)]" "AList.update symbol (dict_get p symbol 0 + delta) p", unfolded book]
      by (simp add: Some sd fun_upd_def)
  qed
qed

lemma evaluate_blockers:
  "ed_blockers (evaluate_batch rt digest lims batch) =
    fst (foldl (add_order rt lims (batch_source batch) (float_or_nan rt (eb_sleeve_equity batch))
           (float_or_nan rt (eb_nav batch)))
      (block_if (\<not> snd (aggregate_book rt batch)) ''invalid_aggregate_symbol_values'' (gate_blockers rt batch),
       [], fst (aggregate_book rt batch)) (eb_orders batch))"
  "ed_allowed (evaluate_batch rt digest lims batch) \<longleftrightarrow> ed_blockers (evaluate_batch rt digest lims batch) = []"
  by (simp_all add: evaluate_batch_def Let_def split_beta)

text \<open>Exposure after a run of orders: the last order of a symbol is checked against its final total.\<close>

definition net_delta :: "runtime \<Rightarrow> metadata list \<Rightarrow> string \<Rightarrow> rat" where
  "net_delta rt orders symbol =
     (\<Sum>order \<leftarrow> orders. case read_order rt order of None \<Rightarrow> 0 | Some (s, d) \<Rightarrow> if s = symbol then d else 0)"

lemma orders_within_exposure:
  assumes "orders_within rt lims source eq nav book orders"
    and "\<exists>order \<in> set orders. \<exists>d. read_order rt order = Some (symbol, d)"
  shows "\<bar>book symbol + net_delta rt orders symbol\<bar> \<le> nav * el_max_aggregate_symbol_nav_fraction lims + policy_eps"
  using assms
proof (induction orders arbitrary: book)
  case Nil
  then show ?case by simp
next
  case (Cons order orders)
  obtain s d where sd: "read_order rt order = Some (s, d)"
    using Cons.prems(1) by (auto split: option.splits)
  note within = Cons.prems(1) [unfolded orders_within.simps, simplified sd option.case prod.case]
  show ?case
  proof (cases "\<exists>order \<in> set orders. \<exists>d. read_order rt order = Some (symbol, d)")
    case True
    then have "\<bar>(book(s := book s + d)) symbol + net_delta rt orders symbol\<bar>
        \<le> nav * el_max_aggregate_symbol_nav_fraction lims + policy_eps"
      using Cons.IH within by blast
    then show ?thesis by (cases "s = symbol") (simp_all add: net_delta_def sd algebra_simps)
  next
    case False
    then have rest: "net_delta rt orders symbol = 0"
      unfolding net_delta_def by (induction orders) (auto split: option.splits)
    have "s = symbol" using Cons.prems(2) False sd by auto
    with within rest show ?thesis by (simp add: net_delta_def sd)
  qed
qed

section \<open>Properties\<close>

text \<open>C19: A batch is admitted exactly when its gate is open (source, emergency stop, enablement and
  mandate, ids, positive equity and nav), the aggregate book is valid, and every order in turn is
  within the order, sleeve and aggregate limits on the book the earlier orders leave.\<close>

theorem batch_allowed_iff:
  "ed_allowed (evaluate_batch rt digest lims batch) \<longleftrightarrow>
    gate_open rt batch \<and> snd (aggregate_book rt batch) \<and>
    orders_within rt lims (batch_source batch) (fin (float_or_nan rt (eb_sleeve_equity batch)))
      (fin (float_or_nan rt (eb_nav batch))) (\<lambda>s. dict_get (fst (aggregate_book rt batch)) s 0) (eb_orders batch)"
proof (cases "gate_open rt batch")
  case True
  then have "positive_float (float_or_nan rt (eb_sleeve_equity batch))" "positive_float (float_or_nan rt (eb_nav batch))"
    by (auto simp: gate_open_def)
  from add_orders_Nil [OF this] True show ?thesis
    by (simp add: evaluate_blockers gate_blockers_Nil)
next
  case False
  then have "fst (block_if (\<not> snd (aggregate_book rt batch)) ''invalid_aggregate_symbol_values''
      (gate_blockers rt batch), [] :: (string \<times> rat) list, fst (aggregate_book rt batch)) \<noteq> []"
    by (simp add: gate_blockers_Nil)
  then show ?thesis
    using False add_orders_keep_blockers unfolding evaluate_blockers by blast
qed

text \<open>An admitted batch bounds the exposure it leaves: for every symbol it trades, the aggregate
  position plus all its orders in that symbol is within the per-symbol share of nav.\<close>

theorem admitted_exposure_bounded:
  assumes "ed_allowed (evaluate_batch rt digest lims batch)"
    and "order \<in> set (eb_orders batch)" and "read_order rt order = Some (symbol, d)"
  shows "\<bar>dict_get (fst (aggregate_book rt batch)) symbol 0 + net_delta rt (eb_orders batch) symbol\<bar>
    \<le> fin (float_or_nan rt (eb_nav batch)) * el_max_aggregate_symbol_nav_fraction lims + policy_eps"
proof -
  have allowed: "ed_blockers (evaluate_batch rt digest lims batch) = []"
    using assms(1) by (simp add: evaluate_blockers(2))
  have "gate_open rt batch"
  proof (rule ccontr)
    assume "\<not> gate_open rt batch"
    then have "fst (block_if (\<not> snd (aggregate_book rt batch)) ''invalid_aggregate_symbol_values''
        (gate_blockers rt batch), [] :: (string \<times> rat) list, fst (aggregate_book rt batch)) \<noteq> []"
      by (simp add: gate_blockers_Nil)
    then show False using allowed add_orders_keep_blockers unfolding evaluate_blockers by blast
  qed
  then have "positive_float (float_or_nan rt (eb_sleeve_equity batch))" "positive_float (float_or_nan rt (eb_nav batch))"
    by (auto simp: gate_open_def)
  from add_orders_Nil [OF this] allowed
  have "orders_within rt lims (batch_source batch) (fin (float_or_nan rt (eb_sleeve_equity batch)))
      (fin (float_or_nan rt (eb_nav batch))) (\<lambda>s. dict_get (fst (aggregate_book rt batch)) s 0) (eb_orders batch)"
    by (simp add: evaluate_blockers)
  from orders_within_exposure [OF this, of symbol] assms(2,3) show ?thesis by blast
qed

definition example_runtime :: runtime where
  "example_runtime = \<lparr>rt_float = (\<lambda>_. None), rt_str = (\<lambda>_. [])\<rparr>"

definition example_batch :: execution_batch where
  "example_batch = \<lparr>eb_source = '' D33 '', eb_workspace_id = VStr ''w'', eb_account_id = VStr ''default'',
     eb_sleeve_id = VStr ''s1'',
     eb_orders = [[(''symbol'', VStr ''aapl''), (''notional_delta'', VInt 300)],
                  [(''symbol'', VStr ''AAPL''), (''notional_delta'', VFloat (Fin 100))]],
     eb_sleeve_equity = VFloat (Fin 1000), eb_nav = VFloat (Fin 100000),
     eb_aggregate = [(''AAPL'', VFloat (Fin 4500))], eb_emergency_stop = VBool False,
     eb_execution_enabled = VBool True, eb_mandate_active = VNone, eb_mandate_execution_allowed = VNone,
     eb_hung_observation = VBool False\<rparr>"

theorem admitted_exposure_bounded_witness:
  "\<bar>dict_get (fst (aggregate_book example_runtime example_batch)) ''AAPL'' 0
     + net_delta example_runtime (eb_orders example_batch) ''AAPL''\<bar> \<le> 5000 + policy_eps"
proof -
  have "ed_allowed (evaluate_batch example_runtime (\<lambda>_. []) default_execution_limits example_batch)"
    by code_simp
  moreover have "[(''symbol'', VStr ''aapl''), (''notional_delta'', VInt 300)] \<in> set (eb_orders example_batch)"
    by (simp add: example_batch_def)
  moreover have "read_order example_runtime [(''symbol'', VStr ''aapl''), (''notional_delta'', VInt 300)]
      = Some (''AAPL'', 300)"
    by code_simp
  ultimately show ?thesis
    using admitted_exposure_bounded [of example_runtime "\<lambda>_. []" default_execution_limits example_batch
        "[(''symbol'', VStr ''aapl''), (''notional_delta'', VInt 300)]" "''AAPL''" 300]
    by (simp add: default_execution_limits_def) (simp add: example_batch_def float_or_nan_def py_float_def)
qed

end
