(* ===== verification/Definition.thy ===== *)
theory Definition
  imports Kernel
begin

text \<open>
  The paper adapters of a frozen strategy definition
  (\<open>src/quant_system/research/definition_paper.py\<close>): admission of a definition, the config columns
  it determines and the sizing of a rebalance at the session open. The validation of the recipe
  itself (\<open>research/strategy_definition.py\<close>: digests of source files, compiled expressions) is the
  argument \<open>validate\<close>. The lemmas show that the sizing spends no more than the cash at hand.
\<close>

section \<open>Definitions\<close>

record strategy_factor =
  sf_factor_id :: string
  sf_lookback :: int
  sf_weight :: rat

text \<open>
  The fields the paper code reads; \<open>sd_formula\<close> is the eligibility window of the formula, and
  \<open>sd_dump\<close> the JSON form of the whole model.
\<close>

record strategy_definition =
  sd_symbols :: "string list"
  sd_provider :: string
  sd_execution_price :: string
  sd_rebalance :: string
  sd_top_n :: int
  sd_max_weight_per_symbol :: rat
  sd_commission_bps :: rat
  sd_slippage_bps :: rat
  sd_min_order_value :: rat
  sd_whole_share_orders :: bool
  sd_formula :: "int option"
  sd_factors :: "strategy_factor list"
  sd_content_digest :: string
  sd_dump :: pyval

definition paper_definition :: "(pyval \<Rightarrow> strategy_definition result) \<Rightarrow> pyval \<Rightarrow> strategy_definition result" where
  "paper_definition validate raw =
     (case raw of
        VDict d \<Rightarrow>
          if \<not> truthy (meta_get d ''content_digest'') \<or> \<not> truthy (meta_get d ''source_fingerprints'')
          then Inl (ValueError ''strategy_definition_binding_required'')
          else (case validate raw of
                  Inl e \<Rightarrow> Inl e
                | Inr df \<Rightarrow> if sd_whole_share_orders df
                           then Inl (ValueError ''strategy_whole_share_paper_unsupported'') else Inr df)
      | _ \<Rightarrow> Inl (ValueError ''strategy_definition_binding_required''))"

definition load_candidate_definition ::
    "(pyval \<Rightarrow> strategy_definition result) \<Rightarrow> pyval \<Rightarrow> string \<Rightarrow> string list \<Rightarrow> string option
      \<Rightarrow> strategy_definition result" where
  "load_candidate_definition validate raw factor_id universe expected_digest =
     (case paper_definition validate raw of
        Inl e \<Rightarrow> Inl e
      | Inr df \<Rightarrow>
          if factor_id \<noteq> ''definition_'' @ take 24 (sd_content_digest df)
          then Inl (ValueError ''strategy_definition_factor_identity_mismatch'')
          else if universe \<noteq> sd_symbols df then Inl (ValueError ''strategy_definition_universe_mismatch'')
          else if expected_digest \<noteq> None \<and> expected_digest \<noteq> Some (sd_content_digest df)
          then Inl (ValueError ''strategy_definition_digest_mismatch'')
          else Inr df)"

definition definition_lookback :: "strategy_definition \<Rightarrow> int" where
  "definition_lookback df =
     (case sd_formula df of
        Some window \<Rightarrow> max 1 window
      | None \<Rightarrow> if sd_factors df = [] then 252 else Max (set (map sf_lookback (sd_factors df))))"

definition definition_config_fields :: "strategy_definition \<Rightarrow> metadata" where
  "definition_config_fields df =
     (let identifier = ''definition_'' @ take 24 (sd_content_digest df);
          factor_ids = (if sd_factors df = [] then [identifier] else map sf_factor_id (sd_factors df));
          weights = (if sd_factors df = [] then [(identifier, 1)]
                     else dict_of (map (\<lambda>f. (sf_factor_id f, sf_weight f)) (sd_factors df)))
      in [(''strategy_id'', VStr ''strategy_definition''),
          (''symbols'', VList (map VStr (sd_symbols df))), (''factor_ids'', VList (map VStr factor_ids)),
          (''weights'', VDict (map (\<lambda>(k, w). (k, VFloat (Fin w))) weights)),
          (''lookback'', VInt (definition_lookback df)), (''top_n'', VInt (sd_top_n df)),
          (''rebalance_frequency'', VStr (sd_rebalance df)),
          (''max_weight_per_symbol'', VFloat (Fin (sd_max_weight_per_symbol df))),
          (''min_order_value'', VFloat (Fin (sd_min_order_value df))),
          (''data_provider'', VStr (sd_provider df)), (''execution_timing'', VStr (sd_execution_price df)),
          (''strategy_definition'', sd_dump df)])"

definition require_paper_costs :: "strategy_definition \<Rightarrow> rat \<Rightarrow> rat \<Rightarrow> unit result" where
  "require_paper_costs df commission_bps slippage_bps =
     (if commission_bps \<noteq> sd_commission_bps df \<or> slippage_bps \<noteq> sd_slippage_bps df
      then Inl (ValueError ''strategy_definition_execution_cost_mismatch'') else Inr ())"

section \<open>Sizing at the session open\<close>

text \<open>What one unit costs to buy and brings when sold, slippage and commission included.\<close>

definition unit_cost :: "strategy_definition \<Rightarrow> rat \<Rightarrow> rat" where
  "unit_cost df price = price * (1 + sd_slippage_bps df / 10000) * (1 + sd_commission_bps df / 10000)"

definition unit_proceeds :: "strategy_definition \<Rightarrow> rat \<Rightarrow> rat" where
  "unit_proceeds df price = price * (1 - sd_slippage_bps df / 10000) * (1 - sd_commission_bps df / 10000)"

definition intent_price :: "order_intent \<Rightarrow> rat" where
  "intent_price i = (case oi_price i of None \<Rightarrow> 0 | Some p \<Rightarrow> p)"

definition sized_quantity :: "strategy_definition \<Rightarrow> (string, rat) dict \<Rightarrow> rat \<Rightarrow> order_intent \<Rightarrow> rat" where
  "sized_quantity df holdings available i =
     (case oi_side i of
        Sell \<Rightarrow> min (oi_quantity i) (dict_get holdings (oi_symbol i) 0)
      | Buy \<Rightarrow> min (oi_quantity i) (max 0 available / unit_cost df (intent_price i)))"

definition available_after :: "strategy_definition \<Rightarrow> rat \<Rightarrow> order_intent \<Rightarrow> rat \<Rightarrow> rat" where
  "available_after df available i quantity =
     (case oi_side i of
        Sell \<Rightarrow> available + quantity * unit_proceeds df (intent_price i)
      | Buy \<Rightarrow> available - quantity * unit_cost df (intent_price i))"

definition definition_order ::
    "(string, rat) dict \<Rightarrow> (string, rat) dict \<Rightarrow> rat \<Rightarrow> string \<Rightarrow> order_intent \<Rightarrow> rat \<Rightarrow> metadata" where
  "definition_order holdings targets equity account_id i quantity =
     (let num = (\<lambda>x. VFloat (Fin x)); price = intent_price i; weight = dict_get targets (oi_symbol i) 0
      in [(''symbol'', VStr (oi_symbol i)), (''side'', VStr (side_str (oi_side i))),
          (''target_weight'', num weight),
          (''current_value'', num (dict_get holdings (oi_symbol i) 0 * price)),
          (''target_value'', num (equity * weight)),
          (''notional_delta'', num (quantity * price * (if oi_side i = Buy then 1 else - 1))),
          (''reference_price'', num price), (''estimated_quantity'', num quantity),
          (''reason'', VStr ''advisory_only_no_execution''), (''account_id'', VStr account_id)])"

text \<open>The loop over the intents: the available cash is carried, and dust is not ordered.\<close>

fun size_intents ::
    "strategy_definition \<Rightarrow> (string, rat) dict \<Rightarrow> rat \<Rightarrow> order_intent list \<Rightarrow> (order_intent \<times> rat) list" where
  "size_intents df holdings available [] = []"
| "size_intents df holdings available (i # intents) =
     (let quantity = sized_quantity df holdings available i;
          rest = size_intents df holdings (available_after df available i quantity) intents
      in if quantity \<le> 1 / 10 ^ 9 then rest else (i, quantity) # rest)"

definition definition_orders ::
    "strategy_definition \<Rightarrow> (string, rat) dict \<Rightarrow> rat \<Rightarrow> (string, rat) dict option \<Rightarrow> (string, rat) dict
      \<Rightarrow> string \<Rightarrow> metadata list result" where
  "definition_orders df holdings cash targets prices account_id =
     (case targets of
        None \<Rightarrow> Inr []
      | Some targets \<Rightarrow>
          (case find (\<lambda>(symbol, quantity). map_of prices symbol = None) holdings of
             Some (symbol, quantity) \<Rightarrow> Inl (KeyError symbol)
           | None \<Rightarrow>
               let equity = cash + (\<Sum>(symbol, quantity) \<leftarrow> holdings. quantity * dict_get prices symbol 0)
               in (case plan_rebalance holdings targets (map (\<lambda>(s, p). (s, Fin p)) prices) equity
                          (default_knobs\<lparr>min_order_value := sd_min_order_value df,
                             max_weight_per_symbol := Some (sd_max_weight_per_symbol df), sells_first := True\<rparr>) of
                     Inl e \<Rightarrow> Inl e
                   | Inr intents \<Rightarrow>
                       Inr (map (\<lambda>(i, quantity). definition_order holdings targets equity account_id i quantity)
                              (size_intents df holdings cash intents)))))"

section \<open>The sizing stays within the cash\<close>

text \<open>The cash effect of one order, as the open executes it: the proceeds of a sell, minus the cost of a buy.\<close>

definition sized_flow :: "strategy_definition \<Rightarrow> order_intent \<times> rat \<Rightarrow> rat" where
  "sized_flow df iq = (case oi_side (fst iq) of
       Sell \<Rightarrow> snd iq * unit_proceeds df (intent_price (fst iq))
     | Buy \<Rightarrow> - (snd iq * unit_cost df (intent_price (fst iq))))"

definition fair_costs :: "strategy_definition \<Rightarrow> bool" where
  "fair_costs df \<longleftrightarrow> 0 \<le> sd_slippage_bps df \<and> sd_slippage_bps df \<le> 10000
     \<and> 0 \<le> sd_commission_bps df \<and> sd_commission_bps df \<le> 10000"

lemma unit_bounds:
  assumes "fair_costs df" "0 \<le> price"
  shows "0 \<le> unit_cost df price" and "0 \<le> unit_proceeds df price" and "unit_proceeds df price \<le> price"
proof -
  have slip: "0 \<le> 1 - sd_slippage_bps df / 10000" "1 - sd_slippage_bps df / 10000 \<le> 1"
    and com: "0 \<le> 1 - sd_commission_bps df / 10000" "1 - sd_commission_bps df / 10000 \<le> 1"
    and up: "0 \<le> 1 + sd_slippage_bps df / 10000" "0 \<le> 1 + sd_commission_bps df / 10000"
    using assms(1) by (simp_all add: fair_costs_def)
  show "0 \<le> unit_cost df price"
    using up assms(2) by (simp add: unit_cost_def)
  show "0 \<le> unit_proceeds df price"
    using slip com assms(2) by (simp add: unit_proceeds_def)
  have "price * (1 - sd_slippage_bps df / 10000) \<le> price * 1"
    using slip assms(2) by (intro mult_left_mono)
  moreover have "price * (1 - sd_slippage_bps df / 10000) * (1 - sd_commission_bps df / 10000)
      \<le> price * (1 - sd_slippage_bps df / 10000) * 1"
    using com slip assms(2) by (intro mult_left_mono) simp_all
  ultimately show "unit_proceeds df price \<le> price"
    by (simp add: unit_proceeds_def)
qed

lemma affordable:
  fixes cost available quantity :: rat
  assumes "0 \<le> cost" "0 \<le> available"
  shows "min quantity (max 0 available / cost) * cost \<le> available"
proof (cases "cost = 0")
  case True
  then show ?thesis using assms by simp
next
  case False
  have "min quantity (max 0 available / cost) * cost \<le> (available / cost) * cost"
    using assms by (intro mult_right_mono) simp_all
  with False show ?thesis by simp
qed

lemma size_intents_flow:
  assumes costs: "fair_costs df" and held: "\<And>s. 0 \<le> dict_get holdings s 0"
  shows "0 \<le> available \<Longrightarrow> \<forall>i \<in> set intents. 0 \<le> oi_quantity i \<and> 0 \<le> intent_price i \<Longrightarrow>
    0 \<le> available + sum_list (map (sized_flow df) (size_intents df holdings available intents))
        + sum_list (map intent_price intents) / 10 ^ 9"
proof (induction intents arbitrary: available)
  case Nil
  then show ?case by simp
next
  case (Cons i intents)
  let ?q = "sized_quantity df holdings available i"
  let ?after = "available_after df available i ?q"
  have i: "0 \<le> oi_quantity i" "0 \<le> intent_price i"
    using Cons.prems by auto
  note bounds = unit_bounds [OF costs i(2)]
  have q: "0 \<le> ?q"
    using i bounds(1) held by (auto simp: sized_quantity_def split: side.split)
  have spent: "oi_side i = Buy \<Longrightarrow> ?q * unit_cost df (intent_price i) \<le> available"
    using affordable [OF bounds(1) Cons.prems(1)] by (simp add: sized_quantity_def)
  have after: "0 \<le> ?after"
    using spent q bounds(2) Cons.prems(1) by (auto simp: available_after_def split: side.split)
  have IH: "0 \<le> ?after + sum_list (map (sized_flow df) (size_intents df holdings ?after intents))
        + sum_list (map intent_price intents) / 10 ^ 9"
    using Cons.IH [OF after] Cons.prems(2) by simp
  show ?case
  proof (cases "?q \<le> 1 / 10 ^ 9")
    case False
    have flow: "sized_flow df (i, ?q) = ?after - available"
      by (simp add: sized_flow_def available_after_def split: side.split)
    have "0 \<le> intent_price i / 10 ^ 9"
      using i(2) by simp
    with False IH show ?thesis
      by (simp add: Let_def flow add_divide_distrib)
  next
    case True
    have "?after - available \<le> intent_price i / 10 ^ 9"
    proof (cases "oi_side i")
      case Buy
      then have "?after \<le> available"
        using q bounds(1) by (simp add: available_after_def)
      with i(2) show ?thesis by (simp add: add_increasing2)
    next
      case Sell
      have "?q * unit_proceeds df (intent_price i) \<le> (1 / 10 ^ 9) * intent_price i"
        using True q bounds by (intro mult_mono) simp_all
      with Sell show ?thesis by (simp add: available_after_def)
    qed
    with True IH show ?thesis
      by (simp add: Let_def add_divide_distrib)
  qed
qed

lemma size_intents_member:
  "(i, q) \<in> set (size_intents df holdings available intents) \<Longrightarrow>
    i \<in> set intents \<and> 1 / 10 ^ 9 < q \<and> q \<le> oi_quantity i
    \<and> (oi_side i = Sell \<longrightarrow> q \<le> dict_get holdings (oi_symbol i) 0)"
proof (induction intents arbitrary: available)
  case Nil
  then show ?case by simp
next
  case (Cons j intents)
  show ?case
  proof (cases "(i, q) \<in> set (size_intents df holdings
      (available_after df available j (sized_quantity df holdings available j)) intents)")
    case True
    with Cons.IH show ?thesis by auto
  next
    case False
    with Cons.prems have "i = j" "q = sized_quantity df holdings available j" "\<not> q \<le> 1 / 10 ^ 9"
      by (auto simp: Let_def split: if_splits)
    then show ?thesis
      by (auto simp: sized_quantity_def split: side.splits)
  qed
qed

lemma sum_list_sort_key:
  fixes g :: "'a \<Rightarrow> rat"
  shows "sum_list (map g (sort_key f xs)) = sum_list (map g xs)"
  by (simp only: sum_mset_sum_list [symmetric] mset_map mset_sort)

lemma plan_legs_prices:
  assumes leg: "\<And>k s i. s \<in> set ss \<Longrightarrow> leg k s = Some i \<Longrightarrow> intent_price i = price s"
    and pos: "\<And>s. s \<in> set ss \<Longrightarrow> 0 \<le> price s"
  shows "sum_list (map intent_price (plan_legs leg n ss)) \<le> sum_list (map price ss)"
  using assms
proof (induction ss arbitrary: n)
  case Nil
  then show ?case by simp
next
  case (Cons s ss)
  have "sum_list (map intent_price (plan_legs leg (Suc n) ss)) \<le> sum_list (map price ss)"
    using Cons.prems by (intro Cons.IH) auto
  moreover have "0 \<le> price s"
    using Cons.prems(2) by simp
  ultimately show ?case
    using Cons.prems(1) [of s] by (auto split: option.splits)
qed

text \<open>What an order, as the JSON object the sizing returns, does to the cash.\<close>

definition order_num :: "metadata \<Rightarrow> string \<Rightarrow> rat" where
  "order_num order key = (case meta_get order key of VFloat (Fin x) \<Rightarrow> x | _ \<Rightarrow> 0)"

definition order_flow :: "strategy_definition \<Rightarrow> metadata \<Rightarrow> rat" where
  "order_flow df order =
     (if meta_get order ''side'' = VStr ''sell''
      then order_num order ''estimated_quantity'' * unit_proceeds df (order_num order ''reference_price'')
      else - (order_num order ''estimated_quantity'' * unit_cost df (order_num order ''reference_price'')))"

definition open_price :: "(string, rat) dict \<Rightarrow> string \<Rightarrow> rat" where
  "open_price prices s = fin (dict_get (upper_dict (map (\<lambda>(s, p). (s, Fin p)) prices)) s NaN)"

lemma definition_order_fields:
  "meta_get (definition_order holdings targets eq acct i q) ''symbol'' = VStr (oi_symbol i)"
  "meta_get (definition_order holdings targets eq acct i q) ''side'' = VStr (side_str (oi_side i))"
  "order_num (definition_order holdings targets eq acct i q) ''estimated_quantity'' = q"
  "order_num (definition_order holdings targets eq acct i q) ''reference_price'' = intent_price i"
  by (simp_all add: definition_order_def Let_def meta_get_def dict_get_def order_num_def)

lemma order_flow_definition_order:
  "order_flow df (definition_order holdings targets eq acct i q) = sized_flow df (i, q)"
  by (cases "oi_side i") (simp_all add: order_flow_def sized_flow_def definition_order_fields side_str_def)

lemma definition_orders_Inr:
  assumes "definition_orders df holdings cash (Some targets) prices acct = Inr orders"
  obtains intents eq where
    "plan_rebalance holdings targets (map (\<lambda>(s, p). (s, Fin p)) prices) eq
       (default_knobs\<lparr>min_order_value := sd_min_order_value df,
          max_weight_per_symbol := Some (sd_max_weight_per_symbol df), sells_first := True\<rparr>) = Inr intents"
    and "orders = map (\<lambda>(i, q). definition_order holdings targets eq acct i q) (size_intents df holdings cash intents)"
  using assms by (auto simp: definition_orders_def Let_def split: option.splits sum.splits)

lemma planned_intents:
  assumes plan: "plan_rebalance holdings targets prices eq kn = Inr intents" and kn: "min_quantity kn = 0"
  shows "\<forall>i \<in> set intents. 0 \<le> oi_quantity i \<and> 0 \<le> intent_price i"
    and "sum_list (map intent_price intents)
      \<le> (\<Sum>s \<leftarrow> plan_symbols holdings targets. fin (dict_get (upper_dict prices) s NaN))"
proof -
  let ?ss = "plan_symbols holdings targets"
  let ?price = "\<lambda>s. fin (dict_get (upper_dict prices) s NaN)"
  let ?leg = "\<lambda>i s. plan_leg kn eq (?price s) (dict_get (upper_dict holdings) s 0) (planned_weight kn targets s) i s"
  let ?legs = "plan_legs ?leg 1 ?ss"
  have intents: "intents = (if sells_first kn then sort_key sell_key ?legs else ?legs)"
    and usable: "\<forall>s \<in> set ?ss. usable_price (upper_dict prices) s"
    using plan_rebalance_Inr [OF plan] by simp_all
  have pos: "0 \<le> ?price s" if "s \<in> set ?ss" for s
    using usable that usable_price_pos by (auto intro: less_imp_le)
  have price: "intent_price i = ?price s" if "?leg k s = Some i" for k s i
    using plan_leg_Some(3) [OF that] by (simp add: intent_price_def)
  have "\<forall>i \<in> set ?legs. 0 \<le> oi_quantity i \<and> 0 \<le> intent_price i"
  proof
    fix i assume "i \<in> set ?legs"
    then obtain k where k: "k < length ?ss" "?leg (1 + k) (?ss ! k) = Some i"
      using plan_legs_member by blast
    have "0 < oi_quantity i"
      using plan_leg_Some(4) [OF k(2)] kn by simp
    moreover have "0 \<le> intent_price i"
      using price [OF k(2)] pos [of "?ss ! k"] k(1) by simp
    ultimately show "0 \<le> oi_quantity i \<and> 0 \<le> intent_price i"
      by simp
  qed
  then show "\<forall>i \<in> set intents. 0 \<le> oi_quantity i \<and> 0 \<le> intent_price i"
    by (simp add: intents)
  have "sum_list (map intent_price ?legs) \<le> sum_list (map ?price ?ss)"
    using price pos by (intro plan_legs_prices)
  then show "sum_list (map intent_price intents) \<le> (\<Sum>s \<leftarrow> ?ss. ?price s)"
    by (simp add: intents sum_list_sort_key)
qed

section \<open>Properties\<close>

lemma open_orders_are_funded_parts:
  assumes "definition_orders df holdings cash (Some targets) prices account_id = Inr orders"
    and "fair_costs df" and "0 \<le> cash" and "\<forall>(s, q) \<in> set holdings. 0 \<le> q"
  shows "0 \<le> cash + sum_list (map (order_flow df) orders)
        + (\<Sum>s \<leftarrow> plan_symbols holdings targets. open_price prices s) / 10 ^ 9"
    and "\<forall>order \<in> set orders. 1 / 10 ^ 9 < order_num order ''estimated_quantity''
        \<and> (\<forall>symbol. meta_get order ''symbol'' = VStr symbol \<and> meta_get order ''side'' = VStr ''sell'' \<longrightarrow>
             order_num order ''estimated_quantity'' \<le> dict_get holdings symbol 0)"
proof -
  obtain intents eq where plan: "plan_rebalance holdings targets (map (\<lambda>(s, p). (s, Fin p)) prices) eq
       (default_knobs\<lparr>min_order_value := sd_min_order_value df,
          max_weight_per_symbol := Some (sd_max_weight_per_symbol df), sells_first := True\<rparr>) = Inr intents"
    and orders: "orders = map (\<lambda>(i, q). definition_order holdings targets eq account_id i q)
        (size_intents df holdings cash intents)"
    using assms(1) by (rule definition_orders_Inr)
  have held: "0 \<le> dict_get holdings s 0" for s
    using assms(4) by (auto simp: dict_get_def split: option.split dest: map_of_SomeD)
  have flows: "map (order_flow df) orders = map (sized_flow df) (size_intents df holdings cash intents)"
    by (auto simp: orders order_flow_definition_order)
  have legs: "\<forall>i \<in> set intents. 0 \<le> oi_quantity i \<and> 0 \<le> intent_price i"
    and sums: "sum_list (map intent_price intents) \<le> (\<Sum>s \<leftarrow> plan_symbols holdings targets. open_price prices s)"
    using planned_intents [OF plan] by (simp_all add: default_knobs_def open_price_def)
  show "0 \<le> cash + sum_list (map (order_flow df) orders)
        + (\<Sum>s \<leftarrow> plan_symbols holdings targets. open_price prices s) / 10 ^ 9"
    using size_intents_flow [where intents = intents, OF assms(2) held assms(3) legs]
      divide_right_mono [OF sums, of "10 ^ 9"] flows by simp
  show "\<forall>order \<in> set orders. 1 / 10 ^ 9 < order_num order ''estimated_quantity''
        \<and> (\<forall>symbol. meta_get order ''symbol'' = VStr symbol \<and> meta_get order ''side'' = VStr ''sell'' \<longrightarrow>
             order_num order ''estimated_quantity'' \<le> dict_get holdings symbol 0)"
  proof
    fix order assume "order \<in> set orders"
    then obtain i q where iq: "(i, q) \<in> set (size_intents df holdings cash intents)"
      and order: "order = definition_order holdings targets eq account_id i q"
      by (auto simp: orders)
    then show "1 / 10 ^ 9 < order_num order ''estimated_quantity''
        \<and> (\<forall>symbol. meta_get order ''symbol'' = VStr symbol \<and> meta_get order ''side'' = VStr ''sell'' \<longrightarrow>
             order_num order ''estimated_quantity'' \<le> dict_get holdings symbol 0)"
      using size_intents_member [OF iq]
      by (cases "oi_side i") (auto simp: definition_order_fields side_str_def)
  qed
qed

text \<open>C17: The orders sized at the open are funded: with cash and holdings that are not negative,
  the cash left after all of them, slippage and commission included, is at least zero, up to
  10^-9 unit of each symbol (legs that small are not ordered); no order is dust, and a sell never
  exceeds the holding.\<close>

theorem open_orders_are_funded:
  assumes "definition_orders df holdings cash (Some targets) prices account_id = Inr orders"
    and "fair_costs df" and "0 \<le> cash" and "\<forall>(s, q) \<in> set holdings. 0 \<le> q"
  shows "(0 \<le> cash + sum_list (map (order_flow df) orders)
        + (\<Sum>s \<leftarrow> plan_symbols holdings targets. open_price prices s) / 10 ^ 9)
    \<and> (\<forall>order \<in> set orders. 1 / 10 ^ 9 < order_num order ''estimated_quantity''
        \<and> (\<forall>symbol. meta_get order ''symbol'' = VStr symbol \<and> meta_get order ''side'' = VStr ''sell'' \<longrightarrow>
             order_num order ''estimated_quantity'' \<le> dict_get holdings symbol 0))"
  by (rule conjI, rule open_orders_are_funded_parts(1) [OF assms],
      rule open_orders_are_funded_parts(2) [OF assms])

definition example_definition :: strategy_definition where
  "example_definition = \<lparr>sd_symbols = [''AAA'', ''BBB''], sd_provider = ''futu'', sd_execution_price = ''next_open'',
     sd_rebalance = ''daily'', sd_top_n = 1, sd_max_weight_per_symbol = 1, sd_commission_bps = 1,
     sd_slippage_bps = 5, sd_min_order_value = 0, sd_whole_share_orders = False, sd_formula = None,
     sd_factors = [], sd_content_digest = ''d'', sd_dump = VNone\<rparr>"

theorem open_orders_are_funded_witness:
  "\<exists>orders. definition_orders example_definition [(''AAA'', 4)] 100 (Some [(''BBB'', 1)])
      [(''AAA'', 10), (''BBB'', 20)] ''acct'' = Inr orders \<and> length orders = 2
    \<and> 0 \<le> 100 + sum_list (map (order_flow example_definition) orders)
        + (\<Sum>s \<leftarrow> plan_symbols [(''AAA'', 4)] [(''BBB'', 1)]. open_price [(''AAA'', 10), (''BBB'', 20)] s) / 10 ^ 9"
proof -
  have "case definition_orders example_definition [(''AAA'', 4)] 100 (Some [(''BBB'', 1)])
      [(''AAA'', 10), (''BBB'', 20)] ''acct'' of Inl e \<Rightarrow> False | Inr orders \<Rightarrow> length orders = 2"
    by code_simp
  then obtain orders where orders: "definition_orders example_definition [(''AAA'', 4)] 100 (Some [(''BBB'', 1)])
      [(''AAA'', 10), (''BBB'', 20)] ''acct'' = Inr orders" and two: "length orders = 2"
    by (auto split: sum.splits)
  show ?thesis
    using open_orders_are_funded [OF orders] orders two
    by (simp add: fair_costs_def example_definition_def)
qed

end
