(* ===== verification/Sleeves.thy ===== *)
theory Sleeves
  imports Account Policy Definition
begin

text \<open>
  The data of the paper strategy sleeves (\<open>src/quant_system/execution/paper_strategy_sleeves.py\<close>):
  strategy configs, sleeves, signals and execution plans with their constructors, and the JSON
  documents of configs, sleeves and plans with the validation of the latter two. A uuid and the clock
  are arguments: one call of a constructor sees one time. The lemmas show that a document validates
  back to the model it was written from.
\<close>

section \<open>Enumerations\<close>

datatype sleeve_mode = SignalOnly | Allocated

datatype sleeve_status = Running | Paused | Stopped | QuarantinedHold | Flattened | Transferred
  | ManuallyAccepted | DemotedComplete

datatype signal_status = Generated | DataUnavailable | Invalid

datatype plan_status = PlanPending | PlanFilled | PlanPartiallyFilled | PlanSkipped | PlanBlocked
  | PlanMissedWindow | PlanFailed | PlanCancelled

fun mode_str :: "sleeve_mode \<Rightarrow> string" where
  "mode_str SignalOnly = ''signal_only''"
| "mode_str Allocated = ''allocated''"

fun status_str :: "sleeve_status \<Rightarrow> string" where
  "status_str Running = ''running''"
| "status_str Paused = ''paused''"
| "status_str Stopped = ''stopped''"
| "status_str QuarantinedHold = ''quarantined_hold''"
| "status_str Flattened = ''flattened''"
| "status_str Transferred = ''transferred''"
| "status_str ManuallyAccepted = ''manually_accepted''"
| "status_str DemotedComplete = ''demoted_complete''"

fun signal_str :: "signal_status \<Rightarrow> string" where
  "signal_str Generated = ''generated''"
| "signal_str DataUnavailable = ''data_unavailable''"
| "signal_str Invalid = ''invalid''"

fun plan_str :: "plan_status \<Rightarrow> string" where
  "plan_str PlanPending = ''pending''"
| "plan_str PlanFilled = ''filled''"
| "plan_str PlanPartiallyFilled = ''partially_filled''"
| "plan_str PlanSkipped = ''skipped''"
| "plan_str PlanBlocked = ''blocked''"
| "plan_str PlanMissedWindow = ''missed_window''"
| "plan_str PlanFailed = ''failed''"
| "plan_str PlanCancelled = ''cancelled''"

text \<open>The lookup of an enumeration by its value: \<open>StrategySleeveStatus(text)\<close>.\<close>

definition parse_enum :: "('e \<Rightarrow> string) \<Rightarrow> 'e list \<Rightarrow> string \<Rightarrow> 'e option" where
  "parse_enum value_of members text = find (\<lambda>e. value_of e = text) members"

definition parse_mode :: "string \<Rightarrow> sleeve_mode option" where
  "parse_mode = parse_enum mode_str [SignalOnly, Allocated]"

definition parse_status :: "string \<Rightarrow> sleeve_status option" where
  "parse_status = parse_enum status_str [Running, Paused, Stopped, QuarantinedHold, Flattened,
     Transferred, ManuallyAccepted, DemotedComplete]"

definition parse_plan_status :: "string \<Rightarrow> plan_status option" where
  "parse_plan_status = parse_enum plan_str [PlanPending, PlanFilled, PlanPartiallyFilled, PlanSkipped,
     PlanBlocked, PlanMissedWindow, PlanFailed, PlanCancelled]"

lemma parse_mode_str [simp]: "parse_mode (mode_str m) = Some m"
  by (cases m) (simp_all add: parse_mode_def parse_enum_def)

lemma parse_status_str [simp]: "parse_status (status_str s) = Some s"
  by (cases s) (simp_all add: parse_status_def parse_enum_def)

lemma parse_plan_status_str [simp]: "parse_plan_status (plan_str s) = Some s"
  by (cases s) (simp_all add: parse_plan_status_def parse_enum_def)

section \<open>Strategy configs\<close>

record strategy_config =
  sc_id :: string
  sc_version :: int
  sc_name :: string
  sc_description :: string
  sc_strategy_id :: string
  sc_universe_id :: "string option"
  sc_symbols :: "string list"
  sc_factor_ids :: "string list"
  sc_weights :: "(string, rat) dict"
  sc_lookback :: int
  sc_top_n :: int
  sc_rebalance_frequency :: string
  sc_max_weight_per_symbol :: rat
  sc_min_order_value :: rat
  sc_data_provider :: string
  sc_execution_timing :: string
  sc_definition :: "pyval option"
  sc_created_at :: string
  sc_updated_at :: string
  sc_archived :: bool
  sc_tags :: "string list"
  sc_metadata :: metadata

definition str_values :: "string list \<Rightarrow> pyval" where
  "str_values ss = VList (map VStr ss)"

definition rat_values :: "(string, rat) dict \<Rightarrow> pyval" where
  "rat_values d = VDict (map (\<lambda>(k, x). (k, VFloat (Fin x))) d)"

definition opt_value :: "('a \<Rightarrow> pyval) \<Rightarrow> 'a option \<Rightarrow> pyval" where
  "opt_value f x = (case x of None \<Rightarrow> VNone | Some y \<Rightarrow> f y)"

text \<open>\<open>getattr(self, field)\<close>, for the fields a definition determines.\<close>

definition config_columns :: "strategy_config \<Rightarrow> metadata" where
  "config_columns c =
     [(''strategy_id'', VStr (sc_strategy_id c)), (''symbols'', str_values (sc_symbols c)),
      (''factor_ids'', str_values (sc_factor_ids c)), (''weights'', rat_values (sc_weights c)),
      (''lookback'', VInt (sc_lookback c)), (''top_n'', VInt (sc_top_n c)),
      (''rebalance_frequency'', VStr (sc_rebalance_frequency c)),
      (''max_weight_per_symbol'', VFloat (Fin (sc_max_weight_per_symbol c))),
      (''min_order_value'', VFloat (Fin (sc_min_order_value c))),
      (''data_provider'', VStr (sc_data_provider c)), (''execution_timing'', VStr (sc_execution_timing c)),
      (''strategy_definition'', opt_value id (sc_definition c))]"

definition validate_config :: "(pyval \<Rightarrow> strategy_definition result) \<Rightarrow> strategy_config \<Rightarrow> strategy_config result" where
  "validate_config read_definition c =
     (if sc_version c < 1 \<or> sc_lookback c \<le> 0 \<or> sc_top_n c \<le> 0 \<or> sc_max_weight_per_symbol c \<le> 0
         \<or> sc_min_order_value c < 0
      then Inl ValidationError
      else case sc_definition c of
        None \<Rightarrow> if sc_strategy_id c = ''strategy_definition'' then Inl ValidationError else Inr c
      | Some raw \<Rightarrow>
          (case read_definition raw of
             Inl e \<Rightarrow> Inl ValidationError
           | Inr df \<Rightarrow>
               if \<forall>(field, expected) \<in> set (definition_config_fields df).
                    py_eq (meta_get (config_columns c) field) expected
               then Inr c else Inl ValidationError))"

text \<open>\<open>new_version\<close>: the updates of the call are the argument \<open>edit\<close>.\<close>

definition new_version ::
    "(pyval \<Rightarrow> strategy_definition result) \<Rightarrow> (strategy_config \<Rightarrow> strategy_config) \<Rightarrow> string
      \<Rightarrow> strategy_config \<Rightarrow> strategy_config result" where
  "new_version read_definition edit now c =
     validate_config read_definition
       ((edit c)\<lparr>sc_version := sc_version c + 1, sc_created_at := sc_created_at c, sc_updated_at := now\<rparr>)"

section \<open>Sleeves\<close>

record strategy_sleeve =
  sv_id :: string
  sv_account_id :: string
  sv_config_id :: string
  sv_config_version :: int
  sv_mode :: sleeve_mode
  sv_status :: sleeve_status
  sv_initial_cash :: rat
  sv_cash :: rat
  sv_created_at :: string
  sv_updated_at :: string
  sv_paused_at :: "string option"
  sv_stopped_at :: "string option"
  sv_stop_reason :: "string option"
  sv_metadata :: metadata

definition valid_sleeve :: "strategy_sleeve \<Rightarrow> bool" where
  "valid_sleeve s \<longleftrightarrow> 1 \<le> sv_config_version s \<and> 0 \<le> sv_initial_cash s \<and> 0 \<le> sv_cash s"

definition new_sleeve ::
    "strategy_config \<Rightarrow> sleeve_mode \<Rightarrow> string \<Rightarrow> string \<Rightarrow> rat \<Rightarrow> metadata \<Rightarrow> string \<Rightarrow> strategy_sleeve result" where
  "new_sleeve config mode account_id sleeve_id allocated metadata now =
     (if mode = SignalOnly \<and> allocated \<noteq> 0
      then Inl (CashAllocationError ''signal_only sleeves cannot receive allocated cash'')
      else if mode = Allocated \<and> allocated \<le> 0
      then Inl (CashAllocationError ''allocated sleeves require positive allocated_cash'')
      else
        let cash = (if mode = Allocated then allocated else 0);
            s = \<lparr>sv_id = sleeve_id, sv_account_id = account_id, sv_config_id = sc_id config,
                 sv_config_version = sc_version config, sv_mode = mode, sv_status = Running,
                 sv_initial_cash = cash, sv_cash = cash, sv_created_at = now, sv_updated_at = now,
                 sv_paused_at = None, sv_stopped_at = None, sv_stop_reason = None, sv_metadata = metadata\<rparr>
        in if valid_sleeve s then Inr s else Inl ValidationError)"

section \<open>Signals\<close>

record strategy_signal =
  sg_id :: string
  sg_sleeve_id :: string
  sg_config_id :: string
  sg_config_version :: int
  sg_signal_date :: string
  sg_generated_at :: string
  sg_data_provider :: string
  sg_data_as_of :: "string option"
  sg_target_weights :: "(string, rat) dict"
  sg_proposed_orders :: "metadata list"
  sg_warnings :: "string list"
  sg_status :: signal_status
  sg_blocked_reason :: "string option"
  sg_metadata :: metadata

definition signal_blocked_reason :: "strategy_sleeve \<Rightarrow> string option \<Rightarrow> string option" where
  "signal_blocked_reason s blocked_reason =
     (let reason = (if truthy (meta_get (sv_metadata s) ''strategy_replacement_id'')
                    then Some ''strategy_replacement_pending'' else blocked_reason)
      in if sv_status s \<noteq> Running \<and> reason = None then Some (''sleeve_'' @ status_str (sv_status s))
         else reason)"

definition new_signal ::
    "strategy_sleeve \<Rightarrow> string \<Rightarrow> string \<Rightarrow> string \<Rightarrow> string option \<Rightarrow> (string, rat) dict \<Rightarrow> metadata list
      \<Rightarrow> string list \<Rightarrow> signal_status \<Rightarrow> string option \<Rightarrow> metadata \<Rightarrow> string \<Rightarrow> strategy_signal" where
  "new_signal s signal_id signal_date data_provider data_as_of targets orders warnings status blocked metadata now =
     \<lparr>sg_id = signal_id, sg_sleeve_id = sv_id s, sg_config_id = sv_config_id s,
      sg_config_version = sv_config_version s, sg_signal_date = signal_date, sg_generated_at = now,
      sg_data_provider = data_provider, sg_data_as_of = data_as_of, sg_target_weights = targets,
      sg_proposed_orders = orders, sg_warnings = warnings, sg_status = status,
      sg_blocked_reason = signal_blocked_reason s blocked, sg_metadata = metadata\<rparr>"

section \<open>Execution orders, fills and plans\<close>

record execution_order =
  xo_symbol :: string
  xo_side :: string
  xo_target_weight :: "pyfloat option"
  xo_current_value :: "pyfloat option"
  xo_target_value :: "pyfloat option"
  xo_notional_delta :: "pyfloat option"
  xo_reference_price :: "pyfloat option"
  xo_estimated_quantity :: "pyfloat option"
  xo_reason :: "string option"
  xo_account_id :: "string option"
  xo_metadata :: metadata

text \<open>
  Readers of one field of a document; a missing optional field is its default. The amounts of the models
  are finite: a document with an infinite amount or NaN, which pydantic would accept, is refused here.
\<close>

definition read_str :: "metadata \<Rightarrow> string \<Rightarrow> string result" where
  "read_str d k = (case meta_get d k of VStr s \<Rightarrow> Inr s | _ \<Rightarrow> Inl ValidationError)"

definition read_opt_str :: "metadata \<Rightarrow> string \<Rightarrow> string option result" where
  "read_opt_str d k = (case meta_get d k of VNone \<Rightarrow> Inr None | VStr s \<Rightarrow> Inr (Some s) | _ \<Rightarrow> Inl ValidationError)"

definition read_opt_float :: "runtime \<Rightarrow> metadata \<Rightarrow> string \<Rightarrow> pyfloat option result" where
  "read_opt_float rt d k =
     (case meta_get d k of
        VNone \<Rightarrow> Inr None
      | v \<Rightarrow> (case py_float rt v of None \<Rightarrow> Inl ValidationError | Some x \<Rightarrow> Inr (Some x)))"

definition read_rat :: "runtime \<Rightarrow> metadata \<Rightarrow> string \<Rightarrow> rat result" where
  "read_rat rt d k =
     (case py_float rt (meta_get d k) of Some (Fin x) \<Rightarrow> Inr x | _ \<Rightarrow> Inl ValidationError)"

text \<open>An integer field also takes what pydantic coerces to one: a bool, an integral float, such a string.\<close>

definition read_int :: "runtime \<Rightarrow> metadata \<Rightarrow> string \<Rightarrow> int result" where
  "read_int rt d k =
     (case py_float rt (meta_get d k) of
        Some (Fin x) \<Rightarrow> if x = of_int \<lfloor>x\<rfloor> then Inr \<lfloor>x\<rfloor> else Inl ValidationError
      | _ \<Rightarrow> Inl ValidationError)"

definition read_dict :: "metadata \<Rightarrow> string \<Rightarrow> metadata result" where
  "read_dict d k = (case dict_get d k (VDict []) of VDict e \<Rightarrow> Inr e | _ \<Rightarrow> Inl ValidationError)"

definition read_strs :: "metadata \<Rightarrow> string \<Rightarrow> string list result" where
  "read_strs d k =
     (case dict_get d k (VList []) of
        VList vs \<Rightarrow> map_result (\<lambda>v. case v of VStr s \<Rightarrow> Inr s | _ \<Rightarrow> Inl ValidationError) vs
      | _ \<Rightarrow> Inl ValidationError)"

definition read_list :: "(metadata \<Rightarrow> 'a result) \<Rightarrow> metadata \<Rightarrow> string \<Rightarrow> 'a list result" where
  "read_list read d k =
     (case dict_get d k (VList []) of
        VList vs \<Rightarrow> map_result (\<lambda>v. case v of VDict e \<Rightarrow> read e | _ \<Rightarrow> Inl ValidationError) vs
      | _ \<Rightarrow> Inl ValidationError)"

definition read_enum :: "(string \<Rightarrow> 'e option) \<Rightarrow> metadata \<Rightarrow> string \<Rightarrow> 'e result" where
  "read_enum parse d k =
     rbind (read_str d k) (\<lambda>s. case parse s of None \<Rightarrow> Inl ValidationError | Some e \<Rightarrow> Inr e)"

definition validate_order :: "runtime \<Rightarrow> metadata \<Rightarrow> execution_order result" where
  "validate_order rt d =
     rbind (read_str d ''symbol'') (\<lambda>symbol. rbind (read_str d ''side'') (\<lambda>sd.
     rbind (read_opt_float rt d ''target_weight'') (\<lambda>weight.
     rbind (read_opt_float rt d ''current_value'') (\<lambda>current.
     rbind (read_opt_float rt d ''target_value'') (\<lambda>target.
     rbind (read_opt_float rt d ''notional_delta'') (\<lambda>delta.
     rbind (read_opt_float rt d ''reference_price'') (\<lambda>price.
     rbind (read_opt_float rt d ''estimated_quantity'') (\<lambda>quantity.
     rbind (read_opt_str d ''reason'') (\<lambda>reason. rbind (read_opt_str d ''account_id'') (\<lambda>account_id.
     rbind (read_dict d ''metadata'') (\<lambda>metadata.
       Inr \<lparr>xo_symbol = symbol, xo_side = sd, xo_target_weight = weight, xo_current_value = current,
            xo_target_value = target, xo_notional_delta = delta, xo_reference_price = price,
            xo_estimated_quantity = quantity, xo_reason = reason, xo_account_id = account_id,
            xo_metadata = metadata\<rparr>)))))))))))"

definition from_proposed_order :: "runtime \<Rightarrow> metadata \<Rightarrow> execution_order result" where
  "from_proposed_order rt order =
     validate_order rt
       (case map_of order ''symbol'' of
          None \<Rightarrow> order
        | Some v \<Rightarrow> AList.update ''symbol'' (VStr (strip (upper (py_str rt v)))) order)"

record strategy_fill =
  sl_fill_id :: string
  sl_symbol :: string
  sl_side :: string
  sl_quantity :: rat
  sl_price :: rat
  sl_gross_value :: rat
  sl_price_kind :: string
  sl_filled_at :: string
  sl_metadata :: metadata

definition valid_fill :: "strategy_fill \<Rightarrow> bool" where
  "valid_fill f \<longleftrightarrow> 0 < sl_quantity f \<and> 0 < sl_price f \<and> 0 \<le> sl_gross_value f"

definition new_strategy_fill ::
    "string \<Rightarrow> string \<Rightarrow> string \<Rightarrow> string \<Rightarrow> rat \<Rightarrow> rat \<Rightarrow> string \<Rightarrow> rat option \<Rightarrow> metadata \<Rightarrow> strategy_fill result" where
  "new_strategy_fill fill_id now symbol sd quantity price price_kind gross metadata =
     (let f = \<lparr>sl_fill_id = fill_id, sl_symbol = upper symbol, sl_side = sd, sl_quantity = quantity,
               sl_price = price,
               sl_gross_value = (case gross of None \<Rightarrow> quantity * price | Some g \<Rightarrow> g),
               sl_price_kind = price_kind, sl_filled_at = now, sl_metadata = metadata\<rparr>
      in if valid_fill f then Inr f else Inl ValidationError)"

record execution_plan =
  xp_id :: string
  xp_sleeve_id :: string
  xp_account_id :: string
  xp_signal_id :: string
  xp_config_id :: string
  xp_config_version :: int
  xp_window :: string
  xp_target_date :: "string option"
  xp_created_at :: string
  xp_updated_at :: string
  xp_status :: plan_status
  xp_blocked_reason :: "string option"
  xp_orders :: "execution_order list"
  xp_fills :: "strategy_fill list"
  xp_warnings :: "string list"
  xp_metadata :: metadata

text \<open>The target date and the metadata a plan takes from a definition-bound signal.\<close>

definition plan_binding ::
    "runtime \<Rightarrow> strategy_signal \<Rightarrow> string option \<Rightarrow> metadata \<Rightarrow> (string option \<times> metadata) result" where
  "plan_binding rt signal target_date metadata =
     (let sm = sg_metadata signal
      in if truthy (meta_get sm ''definition_digest'') then
           if \<not> truthy (meta_get sm ''trade_date'')
           then Inl (StrategyExecutionPlanError ''strategy_definition_trade_date_missing'')
           else
             let trade_date = py_str rt (meta_get sm ''trade_date'')
             in Inr (Some trade_date, dict_merge metadata
                  [(''definition_digest'', meta_get sm ''definition_digest''),
                   (''decision_session'', meta_get sm ''signal_date''), (''trade_date'', VStr trade_date),
                   (''target_weights'', rat_values (sg_target_weights signal)),
                   (''rebalance_required'', VBool (meta_true sm ''rebalance_required''))])
         else Inr (target_date, metadata))"

definition new_plan ::
    "runtime \<Rightarrow> string \<Rightarrow> string \<Rightarrow> string \<Rightarrow> strategy_sleeve \<Rightarrow> strategy_signal \<Rightarrow> string
      \<Rightarrow> string option \<Rightarrow> metadata \<Rightarrow> execution_plan result" where
  "new_plan rt execution_id now account_id s signal window target_date metadata =
     rbind (plan_binding rt signal target_date metadata) (\<lambda>(target_date, metadata).
     rbind (map_result (from_proposed_order rt) (sg_proposed_orders signal)) (\<lambda>orders.
       if sg_config_version signal < 1 then Inl ValidationError
       else Inr \<lparr>xp_id = execution_id, xp_sleeve_id = sv_id s, xp_account_id = account_id,
                 xp_signal_id = sg_id signal, xp_config_id = sg_config_id signal,
                 xp_config_version = sg_config_version signal, xp_window = window,
                 xp_target_date = target_date, xp_created_at = now, xp_updated_at = now,
                 xp_status = PlanPending, xp_blocked_reason = None, xp_orders = orders, xp_fills = [],
                 xp_warnings = sg_warnings signal, xp_metadata = metadata\<rparr>))"

section \<open>Documents\<close>

text \<open>
  \<open>model_dump(mode="json")\<close> and \<open>model_validate\<close> of the stored models. A field with a default may be
  missing; the floats of sleeves and fills are finite. The files of the model keep sleeves and plans as
  records; \<open>validate_sleeve_document\<close> and \<open>validate_plan_document\<close> justify that.
\<close>

definition read_or :: "(metadata \<Rightarrow> string \<Rightarrow> 'a result) \<Rightarrow> 'a \<Rightarrow> metadata \<Rightarrow> string \<Rightarrow> 'a result" where
  "read_or read x d k = (if map_of d k = None then Inr x else read d k)"

definition num :: "rat \<Rightarrow> pyval" where
  "num x = VFloat (Fin x)"

definition sleeve_document :: "strategy_sleeve \<Rightarrow> metadata" where
  "sleeve_document s =
     [(''sleeve_id'', VStr (sv_id s)), (''account_id'', VStr (sv_account_id s)),
      (''strategy_config_id'', VStr (sv_config_id s)), (''strategy_config_version'', VInt (sv_config_version s)),
      (''mode'', VStr (mode_str (sv_mode s))), (''status'', VStr (status_str (sv_status s))),
      (''initial_allocated_cash'', num (sv_initial_cash s)), (''cash'', num (sv_cash s)),
      (''created_at'', VStr (sv_created_at s)), (''updated_at'', VStr (sv_updated_at s)),
      (''paused_at'', opt_value VStr (sv_paused_at s)), (''stopped_at'', opt_value VStr (sv_stopped_at s)),
      (''stop_reason'', opt_value VStr (sv_stop_reason s)), (''metadata'', VDict (sv_metadata s))]"

text \<open>Two JSON documents compare as Python dicts do: the order of their keys does not matter.\<close>

definition same_sleeve :: "strategy_sleeve \<Rightarrow> strategy_sleeve \<Rightarrow> bool" where
  "same_sleeve s s' \<longleftrightarrow> py_eq (VDict (sleeve_document s)) (VDict (sleeve_document s'))"

definition config_document :: "strategy_config \<Rightarrow> metadata" where
  "config_document c =
     [(''strategy_config_id'', VStr (sc_id c)), (''version'', VInt (sc_version c)), (''name'', VStr (sc_name c)),
      (''description'', VStr (sc_description c)), (''strategy_id'', VStr (sc_strategy_id c)),
      (''universe_id'', opt_value VStr (sc_universe_id c)), (''symbols'', str_values (sc_symbols c)),
      (''factor_ids'', str_values (sc_factor_ids c)), (''weights'', rat_values (sc_weights c)),
      (''lookback'', VInt (sc_lookback c)), (''top_n'', VInt (sc_top_n c)),
      (''rebalance_frequency'', VStr (sc_rebalance_frequency c)),
      (''max_weight_per_symbol'', num (sc_max_weight_per_symbol c)), (''min_order_value'', num (sc_min_order_value c)),
      (''data_provider'', VStr (sc_data_provider c)), (''execution_timing'', VStr (sc_execution_timing c)),
      (''strategy_definition'', opt_value id (sc_definition c)), (''created_at'', VStr (sc_created_at c)),
      (''updated_at'', VStr (sc_updated_at c)), (''archived'', VBool (sc_archived c)),
      (''tags'', str_values (sc_tags c)), (''metadata'', VDict (sc_metadata c))]"

definition same_config :: "strategy_config \<Rightarrow> strategy_config \<Rightarrow> bool" where
  "same_config c c' \<longleftrightarrow> py_eq (VDict (config_document c)) (VDict (config_document c'))"

definition validate_sleeve :: "runtime \<Rightarrow> string \<Rightarrow> string \<Rightarrow> metadata \<Rightarrow> strategy_sleeve result" where
  "validate_sleeve rt default_account now d =
     rbind (read_str d ''sleeve_id'') (\<lambda>sleeve_id.
     rbind (read_or read_str default_account d ''account_id'') (\<lambda>account_id.
     rbind (read_str d ''strategy_config_id'') (\<lambda>config_id.
     rbind (read_int rt d ''strategy_config_version'') (\<lambda>version.
     rbind (read_enum parse_mode d ''mode'') (\<lambda>mode.
     rbind (read_or (read_enum parse_status) Running d ''status'') (\<lambda>status.
     rbind (read_or (read_rat rt) 0 d ''initial_allocated_cash'') (\<lambda>initial.
     rbind (read_or (read_rat rt) 0 d ''cash'') (\<lambda>cash.
     rbind (read_or read_str now d ''created_at'') (\<lambda>created.
     rbind (read_or read_str now d ''updated_at'') (\<lambda>updated.
     rbind (read_opt_str d ''paused_at'') (\<lambda>paused. rbind (read_opt_str d ''stopped_at'') (\<lambda>stopped.
     rbind (read_opt_str d ''stop_reason'') (\<lambda>reason. rbind (read_dict d ''metadata'') (\<lambda>metadata.
       let s = \<lparr>sv_id = sleeve_id, sv_account_id = account_id, sv_config_id = config_id,
                sv_config_version = version, sv_mode = mode, sv_status = status, sv_initial_cash = initial,
                sv_cash = cash, sv_created_at = created, sv_updated_at = updated, sv_paused_at = paused,
                sv_stopped_at = stopped, sv_stop_reason = reason, sv_metadata = metadata\<rparr>
       in if valid_sleeve s then Inr s else Inl ValidationError))))))))))))))"

definition order_document :: "execution_order \<Rightarrow> metadata" where
  "order_document x =
     [(''symbol'', VStr (xo_symbol x)), (''side'', VStr (xo_side x)),
      (''target_weight'', opt_value VFloat (xo_target_weight x)),
      (''current_value'', opt_value VFloat (xo_current_value x)),
      (''target_value'', opt_value VFloat (xo_target_value x)),
      (''notional_delta'', opt_value VFloat (xo_notional_delta x)),
      (''reference_price'', opt_value VFloat (xo_reference_price x)),
      (''estimated_quantity'', opt_value VFloat (xo_estimated_quantity x)),
      (''reason'', opt_value VStr (xo_reason x)), (''account_id'', opt_value VStr (xo_account_id x)),
      (''metadata'', VDict (xo_metadata x))]"

definition fill_document :: "strategy_fill \<Rightarrow> metadata" where
  "fill_document f =
     [(''fill_id'', VStr (sl_fill_id f)), (''symbol'', VStr (sl_symbol f)), (''side'', VStr (sl_side f)),
      (''quantity'', num (sl_quantity f)), (''price'', num (sl_price f)),
      (''gross_value'', num (sl_gross_value f)), (''price_kind'', VStr (sl_price_kind f)),
      (''filled_at'', VStr (sl_filled_at f)), (''metadata'', VDict (sl_metadata f))]"

definition validate_fill :: "runtime \<Rightarrow> string \<Rightarrow> metadata \<Rightarrow> strategy_fill result" where
  "validate_fill rt now d =
     rbind (read_str d ''fill_id'') (\<lambda>fill_id. rbind (read_str d ''symbol'') (\<lambda>symbol.
     rbind (read_str d ''side'') (\<lambda>sd. rbind (read_rat rt d ''quantity'') (\<lambda>quantity.
     rbind (read_rat rt d ''price'') (\<lambda>price. rbind (read_rat rt d ''gross_value'') (\<lambda>gross.
     rbind (read_str d ''price_kind'') (\<lambda>kind. rbind (read_or read_str now d ''filled_at'') (\<lambda>filled.
     rbind (read_dict d ''metadata'') (\<lambda>metadata.
       let f = \<lparr>sl_fill_id = fill_id, sl_symbol = symbol, sl_side = sd, sl_quantity = quantity,
                sl_price = price, sl_gross_value = gross, sl_price_kind = kind, sl_filled_at = filled,
                sl_metadata = metadata\<rparr>
       in if valid_fill f then Inr f else Inl ValidationError)))))))))"

definition plan_document :: "execution_plan \<Rightarrow> metadata" where
  "plan_document p =
     [(''execution_id'', VStr (xp_id p)), (''sleeve_id'', VStr (xp_sleeve_id p)),
      (''account_id'', VStr (xp_account_id p)), (''signal_id'', VStr (xp_signal_id p)),
      (''strategy_config_id'', VStr (xp_config_id p)), (''strategy_config_version'', VInt (xp_config_version p)),
      (''execution_window'', VStr (xp_window p)), (''target_date'', opt_value VStr (xp_target_date p)),
      (''created_at'', VStr (xp_created_at p)), (''updated_at'', VStr (xp_updated_at p)),
      (''status'', VStr (plan_str (xp_status p))), (''blocked_reason'', opt_value VStr (xp_blocked_reason p)),
      (''orders'', VList (map (\<lambda>x. VDict (order_document x)) (xp_orders p))),
      (''fills'', VList (map (\<lambda>f. VDict (fill_document f)) (xp_fills p))),
      (''warnings'', str_values (xp_warnings p)), (''metadata'', VDict (xp_metadata p))]"

definition valid_plan :: "execution_plan \<Rightarrow> bool" where
  "valid_plan p \<longleftrightarrow> 1 \<le> xp_config_version p \<and> list_all valid_fill (xp_fills p)"

definition validate_plan :: "runtime \<Rightarrow> string \<Rightarrow> metadata \<Rightarrow> execution_plan result" where
  "validate_plan rt now d =
     rbind (read_str d ''execution_id'') (\<lambda>execution_id. rbind (read_str d ''sleeve_id'') (\<lambda>sleeve_id.
     rbind (read_str d ''account_id'') (\<lambda>account_id. rbind (read_str d ''signal_id'') (\<lambda>signal_id.
     rbind (read_str d ''strategy_config_id'') (\<lambda>config_id.
     rbind (read_int rt d ''strategy_config_version'') (\<lambda>version.
     rbind (read_or read_str ''next_open'' d ''execution_window'') (\<lambda>window.
     rbind (read_opt_str d ''target_date'') (\<lambda>target_date.
     rbind (read_or read_str now d ''created_at'') (\<lambda>created.
     rbind (read_or read_str now d ''updated_at'') (\<lambda>updated.
     rbind (read_or (read_enum parse_plan_status) PlanPending d ''status'') (\<lambda>status.
     rbind (read_opt_str d ''blocked_reason'') (\<lambda>blocked.
     rbind (read_list (validate_order rt) d ''orders'') (\<lambda>orders.
     rbind (read_list (validate_fill rt now) d ''fills'') (\<lambda>fills.
     rbind (read_strs d ''warnings'') (\<lambda>warnings. rbind (read_dict d ''metadata'') (\<lambda>metadata.
       if version < 1 then Inl ValidationError
       else Inr \<lparr>xp_id = execution_id, xp_sleeve_id = sleeve_id, xp_account_id = account_id,
                 xp_signal_id = signal_id, xp_config_id = config_id, xp_config_version = version,
                 xp_window = window, xp_target_date = target_date, xp_created_at = created,
                 xp_updated_at = updated, xp_status = status, xp_blocked_reason = blocked,
                 xp_orders = orders, xp_fills = fills, xp_warnings = warnings,
                 xp_metadata = metadata\<rparr>))))))))))))))))"

section \<open>Reading back what was written\<close>

lemma map_of_meta: "map_of d k = Some v \<Longrightarrow> meta_get d k = v" "map_of d k = Some v \<Longrightarrow> dict_get d k x = v"
  by (simp_all add: meta_get_def dict_get_def)

lemma read_hit:
  "map_of d k = Some (VStr t) \<Longrightarrow> read_str d k = Inr t"
  "map_of d k = Some (opt_value VStr ot) \<Longrightarrow> read_opt_str d k = Inr ot"
  "map_of d k = Some (opt_value VFloat ox) \<Longrightarrow> read_opt_float rt d k = Inr ox"
  "map_of d k = Some (num x) \<Longrightarrow> read_rat rt d k = Inr x"
  "map_of d k = Some (VInt n) \<Longrightarrow> read_int rt d k = Inr n"
  "map_of d k = Some (VDict e) \<Longrightarrow> read_dict d k = Inr e"
  by (auto simp: read_str_def read_opt_str_def read_opt_float_def read_rat_def read_int_def read_dict_def
      map_of_meta opt_value_def num_def py_float_def split: option.split)

lemma read_hit_list:
  assumes "map_of d k = Some (VList (map (\<lambda>x. VDict (doc x)) xs))" and "\<And>x. x \<in> set xs \<Longrightarrow> read (doc x) = Inr x"
  shows "read_list read d k = Inr xs"
  using assms map_result_inverse [of xs "\<lambda>v. case v of VDict e \<Rightarrow> read e | _ \<Rightarrow> Inl ValidationError" "\<lambda>x. VDict (doc x)"]
  by (simp add: read_list_def map_of_meta)

lemma read_hit_strs: "map_of d k = Some (str_values ts) \<Longrightarrow> read_strs d k = Inr ts"
  using map_result_inverse [of ts "\<lambda>v. case v of VStr s \<Rightarrow> Inr s | _ \<Rightarrow> Inl ValidationError" VStr]
  by (simp add: read_strs_def map_of_meta str_values_def)

lemma read_hit_or:
  "map_of d k = Some v \<Longrightarrow> read_or read x d k = read d k"
  by (simp add: read_or_def)

lemma read_hit_enum:
  "map_of d k = Some (VStr t) \<Longrightarrow> parse t = Some e \<Longrightarrow> read_enum parse d k = Inr e"
  by (simp add: read_enum_def read_hit(1))

lemmas read_back = read_hit read_hit_or read_hit_enum read_hit_strs

lemma validate_sleeve_document:
  "valid_sleeve s \<Longrightarrow> validate_sleeve rt default_account now (sleeve_document s) = Inr s"
  unfolding validate_sleeve_def by (simp add: sleeve_document_def read_back Let_def valid_sleeve_def)

lemma validate_order_document: "validate_order rt (order_document x) = Inr x"
  unfolding validate_order_def by (simp add: order_document_def read_back)

lemma validate_fill_document: "valid_fill f \<Longrightarrow> validate_fill rt now (fill_document f) = Inr f"
  unfolding validate_fill_def by (simp add: fill_document_def read_back Let_def valid_fill_def)

lemma validate_plan_document:
  assumes "valid_plan p"
  shows "validate_plan rt now (plan_document p) = Inr p"
proof -
  have orders: "read_list (validate_order rt) (plan_document p) ''orders'' = Inr (xp_orders p)"
    by (rule read_hit_list [where doc = order_document])
      (simp_all add: plan_document_def validate_order_document)
  have fills: "read_list (validate_fill rt now) (plan_document p) ''fills'' = Inr (xp_fills p)"
    using assms by (intro read_hit_list [where doc = fill_document])
      (auto simp: plan_document_def valid_plan_def list_all_iff validate_fill_document)
  show ?thesis
    using assms orders fills unfolding validate_plan_def
    by (simp add: plan_document_def read_back valid_plan_def)
qed

section \<open>Examples\<close>

definition example_config :: strategy_config where
  "example_config = \<lparr>sc_id = ''cfg'', sc_version = 1, sc_name = ''demo'', sc_description = [],
     sc_strategy_id = ''cross_sectional_top_n'', sc_universe_id = None, sc_symbols = [''AAA''],
     sc_factor_ids = [], sc_weights = [], sc_lookback = 20, sc_top_n = 3, sc_rebalance_frequency = ''daily'',
     sc_max_weight_per_symbol = 1, sc_min_order_value = 0, sc_data_provider = ''futu'',
     sc_execution_timing = ''next_open'', sc_definition = None, sc_created_at = ''t0'', sc_updated_at = ''t0'',
     sc_archived = False, sc_tags = [], sc_metadata = []\<rparr>"

definition example_sleeve :: strategy_sleeve where
  "example_sleeve = \<lparr>sv_id = ''s1'', sv_account_id = ''acct'', sv_config_id = ''cfg'', sv_config_version = 1,
     sv_mode = Allocated, sv_status = Running, sv_initial_cash = 100, sv_cash = 100, sv_created_at = ''t0'',
     sv_updated_at = ''t0'', sv_paused_at = None, sv_stopped_at = None, sv_stop_reason = None, sv_metadata = []\<rparr>"

definition example_plan :: execution_plan where
  "example_plan = \<lparr>xp_id = ''x1'', xp_sleeve_id = ''s1'', xp_account_id = ''acct'', xp_signal_id = ''g1'',
     xp_config_id = ''cfg'', xp_config_version = 1, xp_window = ''next_open'', xp_target_date = Some ''2026-01-05'',
     xp_created_at = ''t0'', xp_updated_at = ''t0'', xp_status = PlanPending, xp_blocked_reason = None,
     xp_orders = [\<lparr>xo_symbol = ''AAA'', xo_side = ''buy'', xo_target_weight = None, xo_current_value = None,
        xo_target_value = None, xo_notional_delta = Some (Fin 100), xo_reference_price = Some (Fin 10),
        xo_estimated_quantity = Some (Fin 10), xo_reason = None, xo_account_id = None, xo_metadata = []\<rparr>],
     xp_fills = [], xp_warnings = [], xp_metadata = []\<rparr>"

definition no_runtime :: runtime where
  "no_runtime = \<lparr>rt_float = (\<lambda>_. None), rt_str = (\<lambda>_. [])\<rparr>"

end
