(* ===== verification/LotBook.thy ===== *)
theory LotBook
  imports Sleeves
begin

text \<open>
  The lots of the sleeves and the lot book
  (\<open>SleeveLot\<close>, \<open>SleeveLotBook\<close> in \<open>src/quant_system/execution/paper_strategy_sleeves.py\<close>). A
  quantity or price handed to the book is a \<open>pyfloat\<close>, as the book checks that it is finite. The
  lemmas show that the book implements a map from sleeve and symbol to the quantity held.
\<close>

section \<open>Lots\<close>

record sleeve_lot =
  lt_id :: string
  lt_account_id :: string
  lt_sleeve_id :: string
  lt_symbol :: string
  lt_quantity :: rat
  lt_avg_cost :: rat
  lt_opened_at :: string
  lt_updated_at :: string
  lt_source :: string

definition valid_lot :: "sleeve_lot \<Rightarrow> bool" where
  "valid_lot l \<longleftrightarrow> 0 < lt_quantity l \<and> 0 \<le> lt_avg_cost l"

definition new_lot ::
    "string \<Rightarrow> string \<Rightarrow> string \<Rightarrow> string \<Rightarrow> string \<Rightarrow> rat \<Rightarrow> rat \<Rightarrow> string \<Rightarrow> sleeve_lot result" where
  "new_lot lot_id now account_id sleeve_id symbol quantity avg_cost source =
     (let l = \<lparr>lt_id = lot_id, lt_account_id = account_id, lt_sleeve_id = sleeve_id,
               lt_symbol = upper symbol, lt_quantity = quantity, lt_avg_cost = avg_cost,
               lt_opened_at = now, lt_updated_at = now, lt_source = source\<rparr>
      in if valid_lot l then Inr l else Inl ValidationError)"

section \<open>The book\<close>

type_synonym lot_book = "(string \<times> string, sleeve_lot) dict"

definition lot_book_of :: "sleeve_lot list \<Rightarrow> lot_book" where
  "lot_book_of ls = dict_of (map (\<lambda>l. ((lt_sleeve_id l, upper (lt_symbol l)), l)) ls)"

text \<open>Sorted by sleeve and symbol: two stable sorts.\<close>

definition book_lots :: "lot_book \<Rightarrow> sleeve_lot list" where
  "book_lots book = sort_key lt_sleeve_id (sort_key lt_symbol (map snd book))"

definition book_lot :: "lot_book \<Rightarrow> string \<Rightarrow> string \<Rightarrow> sleeve_lot result" where
  "book_lot book sleeve_id symbol =
     (case map_of book (sleeve_id, upper symbol) of
        None \<Rightarrow> Inl (InsufficientSleeveLotQuantity
                  (''sleeve '' @ repr_str sleeve_id @ '' has no lot for '' @ upper symbol))
      | Some l \<Rightarrow> Inr l)"

definition lot_quantity :: "lot_book \<Rightarrow> string \<Rightarrow> string \<Rightarrow> rat" where
  "lot_quantity book sleeve_id symbol =
     (case map_of book (sleeve_id, upper symbol) of None \<Rightarrow> 0 | Some l \<Rightarrow> lt_quantity l)"

definition aggregate_quantity :: "lot_book \<Rightarrow> string \<Rightarrow> rat" where
  "aggregate_quantity book symbol =
     (\<Sum>(k, l) \<leftarrow> book. if lt_symbol l = upper symbol then lt_quantity l else 0)"

definition require_positive :: "pyfloat \<Rightarrow> string \<Rightarrow> unit result" where
  "require_positive x name =
     (if \<not> isfinite x \<or> le_zero x then Inl (ValueError (name @ '' must be positive and finite'')) else Inr ())"

definition require_non_negative :: "rat \<Rightarrow> string \<Rightarrow> unit result" where
  "require_non_negative x name =
     (if x < 0 then Inl (ValueError (name @ '' must be non-negative and finite'')) else Inr ())"

definition book_buy ::
    "string \<Rightarrow> string \<Rightarrow> string \<Rightarrow> string \<Rightarrow> string \<Rightarrow> pyfloat \<Rightarrow> pyfloat \<Rightarrow> string \<Rightarrow> lot_book
      \<Rightarrow> lot_book \<times> sleeve_lot result" where
  "book_buy lot_id now account_id sleeve_id symbol quantity price source book =
     (let key = (sleeve_id, upper symbol)
      in case map_of book key of
           None \<Rightarrow>
             (case rbind (require_positive quantity ''quantity'') (\<lambda>_. rbind (require_positive price ''price'')
                     (\<lambda>_. new_lot lot_id now account_id sleeve_id (upper symbol) (fin quantity) (fin price) source)) of
                Inl e \<Rightarrow> (book, Inl e)
              | Inr l \<Rightarrow> (AList.update key l book, Inr l))
         | Some l \<Rightarrow>
             (let total_quantity = lt_quantity l + fin quantity;
                  next_avg_cost = (lt_quantity l * lt_avg_cost l + fin quantity * fin price) / total_quantity
              in case rbind (require_positive quantity ''quantity'') (\<lambda>_. rbind (require_positive price ''price'')
                     (\<lambda>_. rbind (require_positive (Fin total_quantity) ''total_quantity'')
                     (\<lambda>_. require_non_negative next_avg_cost ''avg_cost''))) of
                Inl e \<Rightarrow> (book, Inl e)
              | Inr _ \<Rightarrow>
                  let l = l\<lparr>lt_avg_cost := next_avg_cost, lt_quantity := total_quantity, lt_updated_at := now\<rparr>
                  in (AList.update key l book, Inr l)))"

text \<open>\<open>limit < x\<close> for a finite limit, and \<open>f"{x:.4f}"\<close>.\<close>

fun above :: "rat \<Rightarrow> pyfloat \<Rightarrow> bool" where
  "above limit (Fin x) = (limit < x)"
| "above limit PosInf = True"
| "above limit NegInf = False"
| "above limit NaN = False"

fun show_float :: "pyfloat \<Rightarrow> string" where
  "show_float (Fin x) = fmt_fixed 4 x"
| "show_float PosInf = ''inf''"
| "show_float NegInf = ''-inf''"
| "show_float NaN = ''nan''"

definition lot_dust :: rat where
  "lot_dust = 1 / 10 ^ 9"

definition book_sell ::
    "string \<Rightarrow> string \<Rightarrow> string \<Rightarrow> pyfloat \<Rightarrow> lot_book \<Rightarrow> lot_book \<times> sleeve_lot option result" where
  "book_sell now sleeve_id symbol quantity book =
     (let key = (sleeve_id, upper symbol);
          insufficient = (\<lambda>available. (book, Inl (InsufficientSleeveLotQuantity
            (''sleeve '' @ repr_str sleeve_id @ '' has '' @ fmt_fixed 4 available @ '' '' @ upper symbol
               @ '', cannot sell '' @ show_float quantity))))
      in case map_of book key of
           None \<Rightarrow> insufficient 0
         | Some l \<Rightarrow>
             if above (lt_quantity l + lot_dust) quantity then insufficient (lt_quantity l)
             else
               (case require_positive quantity ''quantity'' of
                  Inl e \<Rightarrow> (book, Inl e)
                | Inr _ \<Rightarrow>
                    let remaining_quantity = lt_quantity l - fin quantity
                    in if remaining_quantity \<le> lot_dust then (AList.delete key book, Inr None)
                       else
                         let l = l\<lparr>lt_quantity := remaining_quantity, lt_updated_at := now\<rparr>
                         in (AList.update key l book, Inr (Some l))))"

section \<open>The book as a map\<close>

definition book_ok :: "lot_book \<Rightarrow> bool" where
  "book_ok book \<longleftrightarrow> wf_dict book \<and>
     (\<forall>((sleeve_id, symbol), l) \<in> set book.
        lt_sleeve_id l = sleeve_id \<and> lt_symbol l = symbol \<and> upper symbol = symbol \<and> valid_lot l)"

text \<open>What each sleeve holds of each symbol; the book's contract is stated over this map.\<close>

definition held :: "lot_book \<Rightarrow> string \<times> string \<Rightarrow> rat" where
  "held book k = (case map_of book k of None \<Rightarrow> 0 | Some l \<Rightarrow> lt_quantity l)"

lemma lot_quantity_held: "lot_quantity book sleeve_id symbol = held book (sleeve_id, upper symbol)"
  by (simp add: lot_quantity_def held_def)

lemma held_update [simp]: "held (AList.update k l book) k' = (if k' = k then lt_quantity l else held book k')"
  by (simp add: held_def)

lemma held_delete [simp]: "held (AList.delete k book) k' = (if k' = k then 0 else held book k')"
  by (simp add: held_def)

lemma book_ok_entry:
  "book_ok book \<Longrightarrow> map_of book (sleeve_id, symbol) = Some l \<Longrightarrow>
    lt_sleeve_id l = sleeve_id \<and> lt_symbol l = symbol \<and> upper symbol = symbol \<and> 0 < lt_quantity l \<and> 0 \<le> lt_avg_cost l"
  by (fastforce simp: book_ok_def valid_lot_def dest: map_of_SomeD)

lemma book_ok_update:
  assumes "book_ok book" "lt_sleeve_id l = sleeve_id" "lt_symbol l = symbol" "upper symbol = symbol" "valid_lot l"
  shows "book_ok (AList.update (sleeve_id, symbol) l book)"
  using assms set_update_subset [of "(sleeve_id, symbol)" l book] by (fastforce simp: book_ok_def)

lemma book_ok_delete: "book_ok book \<Longrightarrow> book_ok (AList.delete k book)"
  by (auto simp: book_ok_def set_delete)

lemma book_ok_Nil [simp]: "book_ok []"
  by (simp add: book_ok_def)

lemma held_nonneg: "book_ok book \<Longrightarrow> 0 \<le> held book k"
  by (cases k) (auto simp: held_def split: option.split dest: book_ok_entry)

text \<open>A book built from well-formed lots with upper-case symbols is well-formed.\<close>

lemma book_ok_lot_book_of:
  "\<forall>l \<in> set ls. valid_lot l \<and> upper (lt_symbol l) = lt_symbol l \<Longrightarrow> book_ok (lot_book_of ls)"
proof (induction ls rule: rev_induct)
  case Nil
  then show ?case by (simp add: lot_book_of_def dict_of_def)
next
  case (snoc l ls)
  then have "book_ok (lot_book_of ls)" by simp
  with snoc.prems show ?case
    by (simp add: lot_book_of_def dict_of_snoc book_ok_update)
qed

subsection \<open>Buying and selling\<close>

lemma require_positive_Inr: "require_positive x name = Inr u \<longleftrightarrow> positive_float x"
  by (auto simp: require_positive_def positive_float_def)

lemma positive_floatE:
  assumes "positive_float x"
  obtains r where "x = Fin r" "0 < r"
  using assms by (auto simp: positive_float_def usable_price_iff)

lemma weighted_cost_nonneg:
  fixes q c r p :: rat
  assumes "0 < q" "0 \<le> c" "0 < r" "0 < p"
  shows "0 \<le> (q * c + r * p) / (q + r)"
  using assms by simp

lemma book_buy_new:
  assumes "map_of book (sleeve_id, upper symbol) = None"
  shows "book_buy lot_id now account_id sleeve_id symbol (Fin q) (Fin p) source book =
    (if q \<le> 0 then (book, Inl (ValueError ''quantity must be positive and finite''))
     else if p \<le> 0 then (book, Inl (ValueError ''price must be positive and finite''))
     else let l = \<lparr>lt_id = lot_id, lt_account_id = account_id, lt_sleeve_id = sleeve_id,
               lt_symbol = upper symbol, lt_quantity = q, lt_avg_cost = p,
               lt_opened_at = now, lt_updated_at = now, lt_source = source\<rparr>
          in (AList.update (sleeve_id, upper symbol) l book, Inr l))"
  using assms by (simp add: book_buy_def Let_def require_positive_def new_lot_def valid_lot_def)

lemma book_buy_more:
  assumes ok: "book_ok book" and lot: "map_of book (sleeve_id, upper symbol) = Some l" and "0 < q" "0 < p"
  shows "book_buy lot_id now account_id sleeve_id symbol (Fin q) (Fin p) source book =
    (let l = l\<lparr>lt_avg_cost := (lt_quantity l * lt_avg_cost l + q * p) / (lt_quantity l + q),
               lt_quantity := lt_quantity l + q, lt_updated_at := now\<rparr>
     in (AList.update (sleeve_id, upper symbol) l book, Inr l))"
proof -
  have l: "0 < lt_quantity l" "0 \<le> lt_avg_cost l"
    using book_ok_entry [OF ok lot] by simp_all
  show ?thesis
    using assms l weighted_cost_nonneg [OF l assms(3,4)]
    by (simp add: book_buy_def Let_def require_positive_def require_non_negative_def not_less)
qed

lemma book_buy_refused:
  assumes "\<not> (positive_float quantity \<and> positive_float price)"
  shows "\<exists>e. book_buy lot_id now account_id sleeve_id symbol quantity price source book = (book, Inl e)"
  using assms by (auto simp: book_buy_def Let_def require_positive_def positive_float_def rbind_def
      split: option.split sum.split)

lemma book_buy_step:
  assumes ok: "book_ok book" and "positive_float quantity" "positive_float price"
  obtains book' l where
    "book_buy lot_id now account_id sleeve_id symbol quantity price source book = (book', Inr l)"
    and "book_ok book'"
    and "held book' = (held book)((sleeve_id, upper symbol) := held book (sleeve_id, upper symbol) + fin quantity)"
    and "book' = AList.update (sleeve_id, upper symbol) l book"
    and "lt_quantity l * lt_avg_cost l = (case map_of book (sleeve_id, upper symbol) of
           None \<Rightarrow> 0 | Some l \<Rightarrow> lt_quantity l * lt_avg_cost l) + fin quantity * fin price"
proof -
  obtain q p where q: "quantity = Fin q" "0 < q" and p: "price = Fin p" "0 < p"
    using assms(2,3) by (elim positive_floatE)
  show ?thesis
  proof (cases "map_of book (sleeve_id, upper symbol)")
    case None
    let ?l = "\<lparr>lt_id = lot_id, lt_account_id = account_id, lt_sleeve_id = sleeve_id,
               lt_symbol = upper symbol, lt_quantity = q, lt_avg_cost = p,
               lt_opened_at = now, lt_updated_at = now, lt_source = source\<rparr>"
    have "book_buy lot_id now account_id sleeve_id symbol quantity price source book
        = (AList.update (sleeve_id, upper symbol) ?l book, Inr ?l)"
      using q p book_buy_new [OF None] by (simp add: Let_def)
    then show ?thesis
      by (rule that) (use q p ok None in
        \<open>auto simp: fun_eq_iff held_def valid_lot_def update_conv' intro!: book_ok_update\<close>)
  next
    case (Some l)
    have l: "0 < lt_quantity l" "0 \<le> lt_avg_cost l" "lt_sleeve_id l = sleeve_id" "lt_symbol l = upper symbol"
      using book_ok_entry [OF ok Some] by simp_all
    let ?l = "l\<lparr>lt_avg_cost := (lt_quantity l * lt_avg_cost l + q * p) / (lt_quantity l + q),
               lt_quantity := lt_quantity l + q, lt_updated_at := now\<rparr>"
    have "lt_quantity l + q \<noteq> 0"
      using l(1) q(2) by simp
    moreover have "book_buy lot_id now account_id sleeve_id symbol quantity price source book
        = (AList.update (sleeve_id, upper symbol) ?l book, Inr ?l)"
      using book_buy_more [OF ok Some q(2) p(2)] q(1) p(1) by (simp add: Let_def)
    ultimately show ?thesis
      by (intro that [of "AList.update (sleeve_id, upper symbol) ?l book" ?l])
        (use q p ok Some l weighted_cost_nonneg [OF l(1,2) q(2) p(2)] in
          \<open>auto simp: fun_eq_iff held_def valid_lot_def update_conv' intro!: book_ok_update\<close>)
  qed
qed

text \<open>What is left of a quantity after a sell: a remainder within the dust is dropped.\<close>

definition left_of :: "rat \<Rightarrow> rat \<Rightarrow> rat" where
  "left_of quantity sold = (if quantity - sold \<le> lot_dust then 0 else quantity - sold)"

text \<open>A sell is admitted when the sleeve holds the symbol and, up to the dust, the quantity.\<close>

definition sellable :: "(string \<times> string \<Rightarrow> rat) \<Rightarrow> string \<times> string \<Rightarrow> pyfloat \<Rightarrow> bool" where
  "sellable h k quantity \<longleftrightarrow> positive_float quantity \<and> 0 < h k \<and> fin quantity \<le> h k + lot_dust"

lemma book_sell_step:
  assumes ok: "book_ok book" and sell: "sellable (held book) (sleeve_id, upper symbol) quantity"
  obtains book' rest where "book_sell now sleeve_id symbol quantity book = (book', Inr rest)"
    and "book_ok book'"
    and "held book' = (held book)((sleeve_id, upper symbol) := left_of (held book (sleeve_id, upper symbol)) (fin quantity))"
    and "\<And>k. k \<noteq> (sleeve_id, upper symbol) \<Longrightarrow> map_of book' k = map_of book k"
proof -
  obtain q where q: "quantity = Fin q" "0 < q"
    using sell by (auto simp: sellable_def elim: positive_floatE)
  obtain l where Some: "map_of book (sleeve_id, upper symbol) = Some l"
    using sell by (auto simp: sellable_def held_def split: option.splits)
  have l: "0 < lt_quantity l" "0 \<le> lt_avg_cost l" "lt_sleeve_id l = sleeve_id" "lt_symbol l = upper symbol"
    using book_ok_entry [OF ok Some] by simp_all
  have enough: "q \<le> lt_quantity l + lot_dust"
    using sell Some q by (simp add: sellable_def held_def)
  have pos: "0 < lot_dust"
    by (simp add: lot_dust_def)
  let ?l = "l\<lparr>lt_quantity := lt_quantity l - q, lt_updated_at := now\<rparr>"
  show ?thesis
  proof (cases "lt_quantity l - q \<le> lot_dust")
    case True
    have "book_sell now sleeve_id symbol quantity book
        = (AList.delete (sleeve_id, upper symbol) book, Inr None)"
      using Some q enough True by (simp add: book_sell_def Let_def require_positive_def not_less)
    then show ?thesis
      by (rule that) (use ok Some q True in
        \<open>auto simp: fun_eq_iff held_def delete_conv' left_of_def intro!: book_ok_delete\<close>)
  next
    case False
    have "book_sell now sleeve_id symbol quantity book
        = (AList.update (sleeve_id, upper symbol) ?l book, Inr (Some ?l))"
      using Some q enough False by (simp add: book_sell_def Let_def require_positive_def not_less)
    then show ?thesis
      by (rule that) (use ok Some q False l pos in
        \<open>auto simp: fun_eq_iff held_def valid_lot_def update_conv' left_of_def intro!: book_ok_update\<close>)
  qed
qed

lemma book_sell_refused:
  assumes ok: "book_ok book" and "\<not> sellable (held book) (sleeve_id, upper symbol) quantity"
  shows "\<exists>e. book_sell now sleeve_id symbol quantity book = (book, Inl e)"
proof (cases "map_of book (sleeve_id, upper symbol)")
  case None
  then show ?thesis by (simp add: book_sell_def Let_def)
next
  case (Some l)
  then have "0 < lt_quantity l"
    using book_ok_entry [OF ok] by blast
  then show ?thesis
    using assms(2) Some
    by (cases quantity) (auto simp: book_sell_def Let_def sellable_def held_def require_positive_def
        positive_float_def)
qed

section \<open>A sequence of trades\<close>

text \<open>
  A trade of one sleeve on the book, with the uuid and the time it draws. The book keeps its state
  when it raises, and the caller goes on with the next trade.
\<close>

datatype lot_trade =
    LotBuy string string string string string pyfloat pyfloat string
  | LotSell string string string pyfloat

fun trade_lot :: "lot_book \<Rightarrow> lot_trade \<Rightarrow> lot_book" where
  "trade_lot book (LotBuy lot_id now account_id sleeve_id symbol quantity price source) =
     fst (book_buy lot_id now account_id sleeve_id symbol quantity price source book)"
| "trade_lot book (LotSell now sleeve_id symbol quantity) = fst (book_sell now sleeve_id symbol quantity book)"

text \<open>The contract: a map from sleeve and symbol to a quantity.\<close>

fun trade_holding :: "(string \<times> string \<Rightarrow> rat) \<Rightarrow> lot_trade \<Rightarrow> (string \<times> string \<Rightarrow> rat)" where
  "trade_holding h (LotBuy lot_id now account_id sleeve_id symbol quantity price source) =
     (if positive_float quantity \<and> positive_float price
      then h((sleeve_id, upper symbol) := h (sleeve_id, upper symbol) + fin quantity) else h)"
| "trade_holding h (LotSell now sleeve_id symbol quantity) =
     (if sellable h (sleeve_id, upper symbol) quantity
      then h((sleeve_id, upper symbol) := left_of (h (sleeve_id, upper symbol)) (fin quantity)) else h)"

lemma trade_lot_step:
  assumes ok: "book_ok book"
  shows "book_ok (trade_lot book t)" and "held (trade_lot book t) = trade_holding (held book) t"
proof -
  have "book_ok (trade_lot book t) \<and> held (trade_lot book t) = trade_holding (held book) t"
  proof (cases t)
    case (LotBuy lot_id now account_id sleeve_id symbol quantity price source)
    show ?thesis
    proof (cases "positive_float quantity \<and> positive_float price")
      case True
      then show ?thesis
        using book_buy_step [OF ok, of quantity price lot_id now account_id sleeve_id symbol source] LotBuy
        by (metis fst_conv trade_holding.simps(1) trade_lot.simps(1))
    next
      case False
      then show ?thesis
        using book_buy_refused [OF False] LotBuy ok
        by (metis fst_conv trade_holding.simps(1) trade_lot.simps(1))
    qed
  next
    case (LotSell now sleeve_id symbol quantity)
    show ?thesis
    proof (cases "sellable (held book) (sleeve_id, upper symbol) quantity")
      case True
      then show ?thesis
        using book_sell_step [OF ok True, of now] LotSell
        by (metis fst_conv trade_holding.simps(2) trade_lot.simps(2))
    next
      case False
      then show ?thesis
        using book_sell_refused [OF ok False] LotSell ok
        by (metis fst_conv trade_holding.simps(2) trade_lot.simps(2))
    qed
  qed
  then show "book_ok (trade_lot book t)" and "held (trade_lot book t) = trade_holding (held book) t"
    by simp_all
qed

interpretation lots: simulation trade_lot "\<lambda>_. True" book_ok trade_holding held
  by unfold_locales (simp_all add: trade_lot_step)

text \<open>The sum over the sleeves is what the book reports as the aggregate.\<close>

lemma aggregate_held:
  assumes "book_ok book"
  shows "aggregate_quantity book symbol = (\<Sum>(k, l) \<leftarrow> book. if snd k = upper symbol then lt_quantity l else 0)"
  unfolding aggregate_quantity_def
  by (rule arg_cong [where f = sum_list], rule map_cong [OF refl])
    (use assms in \<open>auto simp: book_ok_def\<close>)

lemma wf_aggregate_update:
  assumes "wf_dict book"
  shows "(\<Sum>(k, l) \<leftarrow> AList.update k' l' book. if snd k = s then lt_quantity l else 0)
    = (\<Sum>(k, l) \<leftarrow> book. if snd k = s then lt_quantity l else 0)
      + (if snd k' = s then lt_quantity l' - held book k' else 0)"
  using sum_entries_update [OF assms, of "\<lambda>k l. if snd k = s then lt_quantity l else 0" k' l']
  by (auto simp: held_def split: option.split)

section \<open>Properties\<close>

lemma lot_book_implements_holdings_parts:
  assumes "book_ok book"
  shows "book_ok (foldl trade_lot book trades)"
    and "held (foldl trade_lot book trades) = foldl trade_holding (held book) trades"
  using lots.run_inv [of book trades] lots.run_simulates [of book trades] assms
  by (simp_all add: list_all_iff)

text \<open>C6: The lot book implements the map it stands for: through any sequence of buys and sells, of
  any sleeves and also with quantities and prices that are zero, negative, infinite or NaN, the
  book stays well-formed and the quantities it holds are those of the map: a valid buy adds, a sell
  within the sleeve's own holding subtracts (dropping dust), and everything else changes nothing.\<close>

theorem lot_book_implements_holdings:
  assumes "book_ok book"
  shows "(book_ok (foldl trade_lot book trades))
    \<and> (held (foldl trade_lot book trades) = foldl trade_holding (held book) trades)"
  by (rule conjI, rule lot_book_implements_holdings_parts(1) [OF assms],
      rule lot_book_implements_holdings_parts(2) [OF assms])

text \<open>A sell uses only the sleeve's own lot: it succeeds exactly when the quantity is finite,
  positive and within what that sleeve holds of the symbol (up to 10^-9), no other lot changes in
  any field, and when it is refused the book is unchanged.\<close>

theorem sleeve_sell_is_isolated:
  assumes "book_ok book"
  shows "(\<exists>rest. snd (book_sell now sleeve_id symbol quantity book) = Inr rest)
      \<longleftrightarrow> sellable (held book) (sleeve_id, upper symbol) quantity"
    and "k \<noteq> (sleeve_id, upper symbol) \<Longrightarrow>
      map_of (fst (book_sell now sleeve_id symbol quantity book)) k = map_of book k"
    and "snd (book_sell now sleeve_id symbol quantity book) = Inl e \<Longrightarrow>
      fst (book_sell now sleeve_id symbol quantity book) = book"
proof -
  show "(\<exists>rest. snd (book_sell now sleeve_id symbol quantity book) = Inr rest)
      \<longleftrightarrow> sellable (held book) (sleeve_id, upper symbol) quantity"
    by (metis assms book_sell_refused book_sell_step snd_conv sum.distinct(1))
  show "map_of (fst (book_sell now sleeve_id symbol quantity book)) k = map_of book k"
    if "k \<noteq> (sleeve_id, upper symbol)"
    using that by (metis assms book_sell_refused book_sell_step fst_conv)
  show "fst (book_sell now sleeve_id symbol quantity book) = book"
    if "snd (book_sell now sleeve_id symbol quantity book) = Inl e"
    using that by (metis assms book_sell_refused book_sell_step fst_conv snd_conv sum.distinct(1))
qed

text \<open>A buy keeps the books of its lot: the cost basis (quantity times average cost) grows by
  exactly quantity times price, and the aggregate over all sleeves by exactly the quantity.\<close>

theorem lot_buy_keeps_cost_basis:
  assumes ok: "book_ok book" and "positive_float quantity" "positive_float price"
  shows "\<exists>book' l. book_buy lot_id now account_id sleeve_id symbol quantity price source book = (book', Inr l)
    \<and> map_of book' (sleeve_id, upper symbol) = Some l
    \<and> lt_quantity l * lt_avg_cost l = (case map_of book (sleeve_id, upper symbol) of
         None \<Rightarrow> 0 | Some l \<Rightarrow> lt_quantity l * lt_avg_cost l) + fin quantity * fin price
    \<and> aggregate_quantity book' symbol = aggregate_quantity book symbol + fin quantity"
proof -
  let ?k = "(sleeve_id, upper symbol)"
  obtain book' l where buy: "book_buy lot_id now account_id sleeve_id symbol quantity price source book = (book', Inr l)"
    and ok': "book_ok book'"
    and h: "held book' = (held book)(?k := held book ?k + fin quantity)"
    and book': "book' = AList.update ?k l book"
    and cost: "lt_quantity l * lt_avg_cost l = (case map_of book ?k of
         None \<Rightarrow> 0 | Some l \<Rightarrow> lt_quantity l * lt_avg_cost l) + fin quantity * fin price"
    by (rule book_buy_step [OF assms])
  have "wf_dict book"
    using ok by (simp add: book_ok_def)
  moreover have "lt_quantity l = held book ?k + fin quantity"
    using fun_cong [OF h, of ?k] by (simp add: book')
  ultimately have "aggregate_quantity book' symbol = aggregate_quantity book symbol + fin quantity"
    using ok' by (simp add: aggregate_held [OF ok] aggregate_held book' wf_aggregate_update)
  with buy book' cost show ?thesis by simp
qed

definition example_lots :: lot_book where
  "example_lots = lot_book_of [\<lparr>lt_id = ''l1'', lt_account_id = ''acct'', lt_sleeve_id = ''s1'', lt_symbol = ''AAA'',
     lt_quantity = 5, lt_avg_cost = 10, lt_opened_at = ''t0'', lt_updated_at = ''t0'', lt_source = ''strategy:s1''\<rparr>]"

lemma example_lots_ok: "book_ok example_lots"
  unfolding example_lots_def by (rule book_ok_lot_book_of) (simp add: valid_lot_def, code_simp)

theorem lot_book_implements_holdings_witness:
  "held (foldl trade_lot example_lots [LotBuy ''l2'' ''t1'' ''acct'' ''s2'' ''aaa'' (Fin 2) (Fin 20) ''strategy:s2'',
     LotSell ''t2'' ''s1'' ''aaa'' (Fin 7), LotSell ''t3'' ''s1'' ''aaa'' NaN, LotSell ''t4'' ''s2'' ''AAA'' (Fin 1)])
   = foldl trade_holding (held example_lots) [LotBuy ''l2'' ''t1'' ''acct'' ''s2'' ''aaa'' (Fin 2) (Fin 20) ''strategy:s2'',
     LotSell ''t2'' ''s1'' ''aaa'' (Fin 7), LotSell ''t3'' ''s1'' ''aaa'' NaN, LotSell ''t4'' ''s2'' ''AAA'' (Fin 1)]"
  by (rule lot_book_implements_holdings [OF example_lots_ok, THEN conjunct2])

theorem sleeve_sell_is_isolated_witness:
  "\<exists>rest. snd (book_sell ''t1'' ''s1'' ''aaa'' (Fin 2) example_lots) = Inr rest"
  unfolding sleeve_sell_is_isolated(1) [OF example_lots_ok] by code_simp

theorem lot_buy_keeps_cost_basis_witness:
  "\<exists>book' l. book_buy ''l2'' ''t1'' ''acct'' ''s1'' ''aaa'' (Fin 5) (Fin 20) ''strategy:s1'' example_lots = (book', Inr l)
    \<and> lt_quantity l * lt_avg_cost l = 150"
proof -
  have "map_of example_lots (''s1'', upper ''aaa'') = Some \<lparr>lt_id = ''l1'', lt_account_id = ''acct'',
      lt_sleeve_id = ''s1'', lt_symbol = ''AAA'', lt_quantity = 5, lt_avg_cost = 10, lt_opened_at = ''t0'',
      lt_updated_at = ''t0'', lt_source = ''strategy:s1''\<rparr>"
    by code_simp
  then show ?thesis
    using lot_buy_keeps_cost_basis [OF example_lots_ok, of "Fin 5" "Fin 20"]
    by (fastforce simp: positive_float_def)
qed

end
