(* ===== verification/SleeveStore.thy ===== *)
theory SleeveStore
  imports LotBook
begin

text \<open>
  The files of the strategy sleeves
  (\<open>src/quant_system/execution/paper_strategy_sleeve_storage.py\<close>). A store is what the files under
  \<open>paper_strategy_sleeves/\<close> hold, each kind of file a dictionary from its path's identifiers to its
  content; a content is the model it was written from, as the documents of \<open>Sleeves\<close> validate back
  to it. Every write replaces one file atomically. The lock, temporary names and directories are not
  modelled. The lemmas show that config versions never change once saved, that finalising and
  committing are idempotent, and that reconciliation settles every pending sleeve.
\<close>

section \<open>The store\<close>

record config_metadata =
  cm_latest_version :: int
  cm_versions :: "int list"
  cm_name :: string
  cm_archived :: bool
  cm_updated_at :: string

text \<open>A pending journal file holds a journal, or text that does not parse.\<close>

record journal =
  jr_created_at :: string
  jr_account_id :: string
  jr_sleeve_id :: string
  jr_execution_id :: string
  jr_before_account :: paper_account
  jr_after_account :: paper_account
  jr_before_sleeve :: strategy_sleeve
  jr_after_sleeve :: strategy_sleeve
  jr_before_lots :: "sleeve_lot list"
  jr_after_lots :: "sleeve_lot list"
  jr_before_execution :: execution_plan
  jr_after_execution :: execution_plan

record sleeve_store =
  ss_configs :: "(string \<times> int, strategy_config) dict"
  ss_config_meta :: "(string, config_metadata) dict"
  ss_sleeves :: "(string, strategy_sleeve) dict"
  ss_pending :: "(string, strategy_sleeve) dict"
  ss_demoted :: "(string, metadata) dict"
  ss_lots :: "(string, sleeve_lot list) dict"
  ss_signals :: "(string, strategy_signal list) dict"
  ss_executions :: "(string, execution_plan list) dict"
  ss_journals :: "(string \<times> string, journal option) dict"
  ss_committed :: "(string \<times> string, journal option) dict"
  ss_corrupt :: "(string \<times> string) list"

definition empty_store :: sleeve_store where
  "empty_store = \<lparr>ss_configs = [], ss_config_meta = [], ss_sleeves = [], ss_pending = [], ss_demoted = [],
     ss_lots = [], ss_signals = [], ss_executions = [], ss_journals = [], ss_committed = [], ss_corrupt = []\<rparr>"

section \<open>Strategy configs\<close>

definition write_config_metadata :: "strategy_config \<Rightarrow> sleeve_store \<Rightarrow> sleeve_store" where
  "write_config_metadata c st =
     (let versions = sorted_keys (sc_version c #
            (case map_of (ss_config_meta st) (sc_id c) of None \<Rightarrow> [] | Some m \<Rightarrow> cm_versions m));
          m = \<lparr>cm_latest_version = last versions, cm_versions = versions, cm_name = sc_name c,
               cm_archived = sc_archived c, cm_updated_at = sc_updated_at c\<rparr>
      in st\<lparr>ss_config_meta := AList.update (sc_id c) m (ss_config_meta st)\<rparr>)"

definition save_strategy_config :: "strategy_config \<Rightarrow> sleeve_store \<Rightarrow> sleeve_store \<times> unit result" where
  "save_strategy_config c st =
     (case map_of (ss_configs st) (sc_id c, sc_version c) of
        Some existing \<Rightarrow>
          if \<not> same_config existing c then (st, Inl (FileExistsError ''strategy config version already exists''))
          else (write_config_metadata c st, Inr ())
      | None \<Rightarrow>
          (write_config_metadata c
             (st\<lparr>ss_configs := AList.update (sc_id c, sc_version c) c (ss_configs st)\<rparr>), Inr ()))"

definition config_version :: "string \<Rightarrow> int option \<Rightarrow> sleeve_store \<Rightarrow> int result" where
  "config_version config_id version st =
     (case version of
        Some v \<Rightarrow> Inr v
      | None \<Rightarrow> (case map_of (ss_config_meta st) config_id of
                   None \<Rightarrow> Inl (FileNotFoundError ''metadata.json'')
                 | Some m \<Rightarrow> Inr (cm_latest_version m)))"

definition load_strategy_config ::
    "(pyval \<Rightarrow> strategy_definition result) \<Rightarrow> string \<Rightarrow> int option \<Rightarrow> sleeve_store \<Rightarrow> strategy_config result" where
  "load_strategy_config read_definition config_id version st =
     rbind (config_version config_id version st) (\<lambda>v.
       case map_of (ss_configs st) (config_id, v) of
         None \<Rightarrow> Inl (FileNotFoundError ''config.json'')
       | Some c \<Rightarrow> validate_config read_definition c)"

text \<open>The historical loader: another reader of the definition, and the path must agree.\<close>

definition load_frozen_strategy_config ::
    "(pyval \<Rightarrow> strategy_definition result) \<Rightarrow> string \<Rightarrow> int option \<Rightarrow> sleeve_store \<Rightarrow> strategy_config result" where
  "load_frozen_strategy_config read_frozen config_id version st =
     rbind (config_version config_id version st) (\<lambda>v.
     rbind (load_strategy_config read_frozen config_id (Some v) st) (\<lambda>c.
       if sc_id c \<noteq> config_id \<or> sc_version c \<noteq> v
       then Inl (ValueError ''replacement_config_path_identity_mismatch'') else Inr c))"

definition list_strategy_configs ::
    "(pyval \<Rightarrow> strategy_definition result) \<Rightarrow> sleeve_store \<Rightarrow> strategy_config list result" where
  "list_strategy_configs read_definition st =
     map_result (\<lambda>config_id. load_strategy_config read_definition config_id None st)
       (sorted_keys (map fst (ss_config_meta st)))"

section \<open>Sleeves\<close>

definition save_sleeve :: "strategy_sleeve \<Rightarrow> sleeve_store \<Rightarrow> sleeve_store" where
  "save_sleeve s st = st\<lparr>ss_sleeves := AList.update (sv_id s) s (ss_sleeves st)\<rparr>"

definition load_sleeve :: "string \<Rightarrow> sleeve_store \<Rightarrow> strategy_sleeve result" where
  "load_sleeve sleeve_id st =
     (case map_of (ss_sleeves st) sleeve_id of None \<Rightarrow> Inl (FileNotFoundError ''sleeve.json'') | Some s \<Rightarrow> Inr s)"

definition values_sorted :: "(string, 'v) dict \<Rightarrow> 'v list" where
  "values_sorted d = map snd (sort_key fst d)"

definition list_sleeves :: "sleeve_store \<Rightarrow> strategy_sleeve list" where
  "list_sleeves st = values_sorted (ss_sleeves st)"

definition save_pending_sleeve :: "strategy_sleeve \<Rightarrow> sleeve_store \<Rightarrow> sleeve_store" where
  "save_pending_sleeve s st = st\<lparr>ss_pending := AList.update (sv_id s) s (ss_pending st)\<rparr>"

definition list_pending_sleeves :: "sleeve_store \<Rightarrow> strategy_sleeve list" where
  "list_pending_sleeves st = values_sorted (ss_pending st)"

definition count_pending_sleeve_files :: "sleeve_store \<Rightarrow> nat" where
  "count_pending_sleeve_files st = length (ss_pending st)"

definition discard_pending_sleeve :: "string \<Rightarrow> sleeve_store \<Rightarrow> sleeve_store" where
  "discard_pending_sleeve sleeve_id st = st\<lparr>ss_pending := AList.delete sleeve_id (ss_pending st)\<rparr>"

definition finalize_pending_sleeve :: "string \<Rightarrow> sleeve_store \<Rightarrow> sleeve_store \<times> unit result" where
  "finalize_pending_sleeve sleeve_id st =
     (case (map_of (ss_pending st) sleeve_id, map_of (ss_sleeves st) sleeve_id) of
        (None, Some _) \<Rightarrow> (st, Inr ())
      | (None, None) \<Rightarrow> (st, Inl (FileNotFoundError ''sleeve.pending.json''))
      | (Some pending, Some final) \<Rightarrow>
          if \<not> same_sleeve pending final then (st, Inl (FileExistsError ''strategy sleeve already exists''))
          else (discard_pending_sleeve sleeve_id st, Inr ())
      | (Some pending, None) \<Rightarrow>
          (discard_pending_sleeve sleeve_id
             (st\<lparr>ss_sleeves := AList.update sleeve_id pending (ss_sleeves st)\<rparr>), Inr ()))"

definition load_demoted_state :: "string \<Rightarrow> sleeve_store \<Rightarrow> metadata option" where
  "load_demoted_state sleeve_id st = map_of (ss_demoted st) sleeve_id"

definition save_demoted_state :: "string \<Rightarrow> metadata \<Rightarrow> sleeve_store \<Rightarrow> sleeve_store" where
  "save_demoted_state sleeve_id payload st = st\<lparr>ss_demoted := AList.update sleeve_id payload (ss_demoted st)\<rparr>"

text \<open>The loop of \<open>reconcile_pending_sleeves\<close>, over the sleeves listed when it starts.\<close>

fun reconcile_sleeves ::
    "paper_account option \<Rightarrow> strategy_sleeve list \<Rightarrow> sleeve_store \<Rightarrow> sleeve_store \<times> strategy_sleeve list result" where
  "reconcile_sleeves account [] st = (st, Inr [])"
| "reconcile_sleeves account (s # ss) st =
     (if map_of (ss_sleeves st) (sv_id s) \<noteq> None
      then reconcile_sleeves account ss (discard_pending_sleeve (sv_id s) st)
      else if sv_mode s = Allocated
           \<and> \<not> (case account of None \<Rightarrow> False | Some a \<Rightarrow> 0 < dict_get (pa_sleeve_cash a) (sv_id s) 0)
      then reconcile_sleeves account ss (discard_pending_sleeve (sv_id s) st)
      else case finalize_pending_sleeve (sv_id s) st of
             (st, Inl e) \<Rightarrow> (st, Inl e)
           | (st, Inr _) \<Rightarrow>
               (case load_sleeve (sv_id s) st of
                  Inl e \<Rightarrow> (st, Inl e)
                | Inr loaded \<Rightarrow>
                    (case reconcile_sleeves account ss st of
                       (st, Inl e) \<Rightarrow> (st, Inl e)
                     | (st, Inr rest) \<Rightarrow> (st, Inr (loaded # rest)))))"

definition reconcile_pending_sleeves ::
    "paper_account option \<Rightarrow> sleeve_store \<Rightarrow> sleeve_store \<times> strategy_sleeve list result" where
  "reconcile_pending_sleeves account st = reconcile_sleeves account (list_pending_sleeves st) st"

section \<open>Lots, signals and executions\<close>

definition save_sleeve_lots :: "string \<Rightarrow> sleeve_lot list \<Rightarrow> sleeve_store \<Rightarrow> sleeve_store" where
  "save_sleeve_lots sleeve_id ls st = st\<lparr>ss_lots := AList.update sleeve_id ls (ss_lots st)\<rparr>"

definition load_sleeve_lots :: "string \<Rightarrow> sleeve_store \<Rightarrow> sleeve_lot list" where
  "load_sleeve_lots sleeve_id st = dict_get (ss_lots st) sleeve_id []"

definition load_signals :: "string \<Rightarrow> sleeve_store \<Rightarrow> strategy_signal list" where
  "load_signals sleeve_id st = dict_get (ss_signals st) sleeve_id []"

definition append_signal :: "strategy_signal \<Rightarrow> sleeve_store \<Rightarrow> sleeve_store" where
  "append_signal g st =
     st\<lparr>ss_signals := AList.update (sg_sleeve_id g) (load_signals (sg_sleeve_id g) st @ [g]) (ss_signals st)\<rparr>"

definition load_executions :: "string \<Rightarrow> sleeve_store \<Rightarrow> execution_plan list" where
  "load_executions sleeve_id st = dict_get (ss_executions st) sleeve_id []"

definition save_executions :: "string \<Rightarrow> execution_plan list \<Rightarrow> sleeve_store \<Rightarrow> sleeve_store" where
  "save_executions sleeve_id plans st = st\<lparr>ss_executions := AList.update sleeve_id plans (ss_executions st)\<rparr>"

definition append_execution :: "execution_plan \<Rightarrow> sleeve_store \<Rightarrow> sleeve_store" where
  "append_execution p st = save_executions (xp_sleeve_id p) (load_executions (xp_sleeve_id p) st @ [p]) st"

definition latest_execution_for_signal :: "string \<Rightarrow> string \<Rightarrow> sleeve_store \<Rightarrow> execution_plan option" where
  "latest_execution_for_signal sleeve_id signal_id st =
     find (\<lambda>p. xp_signal_id p = signal_id) (rev (load_executions sleeve_id st))"

section \<open>Execution journals\<close>

definition save_execution_journal_pending ::
    "string \<Rightarrow> string \<Rightarrow> journal \<Rightarrow> sleeve_store \<Rightarrow> sleeve_store" where
  "save_execution_journal_pending sleeve_id execution_id payload st =
     st\<lparr>ss_journals := AList.update (sleeve_id, execution_id) (Some payload) (ss_journals st)\<rparr>"

definition journal_path :: "string \<times> string \<Rightarrow> string" where
  "journal_path k = fst k @ ''/execution_journal/'' @ snd k @ ''.pending.json''"

text \<open>Corrupt files are renamed away; the others are returned in order of creation, then of path.\<close>

definition load_pending_execution_journals :: "sleeve_store \<Rightarrow> sleeve_store \<times> journal list" where
  "load_pending_execution_journals st =
     (let corrupt = map fst (filter (\<lambda>(k, j). j = None) (ss_journals st));
          readable = concat (map (\<lambda>(k, j). case j of None \<Rightarrow> [] | Some p \<Rightarrow> [(k, p)]) (ss_journals st))
      in (st\<lparr>ss_journals := filter (\<lambda>(k, j). j \<noteq> None) (ss_journals st), ss_corrupt := ss_corrupt st @ corrupt\<rparr>,
          map snd (sort_key (\<lambda>(k, p). jr_created_at p) (sort_key (\<lambda>(k, p). journal_path k) readable))))"

definition count_pending_execution_journal_files :: "sleeve_store \<Rightarrow> nat" where
  "count_pending_execution_journal_files st = length (ss_journals st)"

definition count_corrupt_execution_journal_files :: "sleeve_store \<Rightarrow> nat" where
  "count_corrupt_execution_journal_files st = length (ss_corrupt st)"

definition commit_execution_journal :: "string \<Rightarrow> string \<Rightarrow> sleeve_store \<Rightarrow> sleeve_store \<times> unit result" where
  "commit_execution_journal sleeve_id execution_id st =
     (let k = (sleeve_id, execution_id)
      in if map_of (ss_committed st) k \<noteq> None
         then (st\<lparr>ss_journals := AList.delete k (ss_journals st)\<rparr>, Inr ())
         else case map_of (ss_journals st) k of
           None \<Rightarrow> (st, Inl (FileNotFoundError ''pending.json''))
         | Some j \<Rightarrow>
             (st\<lparr>ss_journals := AList.delete k (ss_journals st),
                ss_committed := AList.update k j (ss_committed st)\<rparr>, Inr ()))"

section \<open>Collections of records\<close>

text \<open>
  What the services rely on where a file holds a list of records: a save replaces the list of one
  sleeve and no other. \<open>replace_first\<close> is the read-modify-write of a record under its identifier.
\<close>

fun replace_first :: "('v \<Rightarrow> 'i) \<Rightarrow> 'v \<Rightarrow> 'v list \<Rightarrow> 'v list" where
  "replace_first ident x [] = [x]"
| "replace_first ident x (y # ys) = (if ident y = ident x then x # ys else y # replace_first ident x ys)"

lemma replace_first_finds: "find (\<lambda>y. ident y = ident x) (replace_first ident x ys) = Some x"
  by (induction ys) auto

lemma replace_first_others:
  "filter (\<lambda>y. ident y \<noteq> ident x) (replace_first ident x ys) = filter (\<lambda>y. ident y \<noteq> ident x) ys"
  by (induction ys) auto

lemma replace_first_in: "x \<in> set (replace_first ident x ys)"
  by (induction ys) auto

lemma replace_first_idents:
  "map ident (replace_first ident x ys) = (if ident x \<in> ident ` set ys then map ident ys else map ident ys @ [ident x])"
  by (induction ys) auto

locale record_store =
  fixes load :: "'k \<Rightarrow> 's \<Rightarrow> 'v list" and save :: "'k \<Rightarrow> 'v list \<Rightarrow> 's \<Rightarrow> 's" and ident :: "'v \<Rightarrow> 'i"
  assumes load_save: "load k' (save k xs s) = (if k' = k then xs else load k' s)"
begin

lemma load_append: "load k (save k (load k s @ [x]) s) = load k s @ [x]"
  by (simp add: load_save)

lemma load_replace: "find (\<lambda>y. ident y = ident x) (load k (save k (replace_first ident x (load k s)) s)) = Some x"
  by (simp add: load_save replace_first_finds)

lemma replace_keeps_others:
  "filter (\<lambda>y. ident y \<noteq> ident x) (load k' (save k (replace_first ident x (load k s)) s))
    = filter (\<lambda>y. ident y \<noteq> ident x) (load k' s)"
  by (simp add: load_save replace_first_others)

lemma replace_distinct:
  "distinct (map ident (load k s)) \<Longrightarrow> distinct (map ident (load k (save k (replace_first ident x (load k s)) s)))"
  by (auto simp: load_save replace_first_idents)

end

interpretation plans: record_store load_executions save_executions xp_id
  by unfold_locales (simp add: load_executions_def save_executions_def)

interpretation stored_lots: record_store load_sleeve_lots save_sleeve_lots lt_id
  by unfold_locales (simp add: load_sleeve_lots_def save_sleeve_lots_def)

section \<open>Config versions\<close>

text \<open>The metadata file lists exactly the versions on disk, sorted, and names the last.\<close>

definition versions_ok :: "config_metadata option \<Rightarrow> (int \<Rightarrow> bool) \<Rightarrow> bool" where
  "versions_ok m saved \<longleftrightarrow>
     (case m of
        None \<Rightarrow> \<forall>v. \<not> saved v
      | Some m \<Rightarrow> cm_versions m \<noteq> [] \<and> sorted (cm_versions m) \<and> distinct (cm_versions m)
          \<and> cm_latest_version m = last (cm_versions m) \<and> (\<forall>v. v \<in> set (cm_versions m) \<longleftrightarrow> saved v))"

definition version_saved :: "sleeve_store \<Rightarrow> string \<Rightarrow> int \<Rightarrow> bool" where
  "version_saved st config_id v \<longleftrightarrow> map_of (ss_configs st) (config_id, v) \<noteq> None"

definition configs_ok :: "sleeve_store \<Rightarrow> bool" where
  "configs_ok st \<longleftrightarrow>
     (\<forall>config_id. versions_ok (map_of (ss_config_meta st) config_id) (version_saved st config_id))
     \<and> (\<forall>config_id v c. map_of (ss_configs st) (config_id, v) = Some c \<longrightarrow> sc_id c = config_id \<and> sc_version c = v)"

definition save_configs :: "sleeve_store \<Rightarrow> strategy_config \<Rightarrow> sleeve_store" where
  "save_configs st c = fst (save_strategy_config c st)"

lemma save_strategy_config_cases:
  obtains (new) "map_of (ss_configs st) (sc_id c, sc_version c) = None"
      "save_strategy_config c st = (write_config_metadata c
         (st\<lparr>ss_configs := AList.update (sc_id c, sc_version c) c (ss_configs st)\<rparr>), Inr ())"
  | (same) existing where "map_of (ss_configs st) (sc_id c, sc_version c) = Some existing" "same_config existing c"
      "save_strategy_config c st = (write_config_metadata c st, Inr ())"
  | (taken) existing where "map_of (ss_configs st) (sc_id c, sc_version c) = Some existing" "\<not> same_config existing c"
      "save_strategy_config c st = (st, Inl (FileExistsError ''strategy config version already exists''))"
  by (cases "map_of (ss_configs st) (sc_id c, sc_version c)")
    (auto simp: save_strategy_config_def)

lemma write_config_metadata_configs [simp]: "ss_configs (write_config_metadata c st) = ss_configs st"
  by (simp add: write_config_metadata_def Let_def)

lemma versions_ok_add:
  assumes "versions_ok m saved"
  shows "versions_ok
    (Some \<lparr>cm_latest_version = last (sorted_keys (v # (case m of None \<Rightarrow> [] | Some m \<Rightarrow> cm_versions m))),
           cm_versions = sorted_keys (v # (case m of None \<Rightarrow> [] | Some m \<Rightarrow> cm_versions m)),
           cm_name = name, cm_archived = archived, cm_updated_at = updated\<rparr>)
    (\<lambda>v'. v' = v \<or> saved v')"
proof -
  let ?vs = "sorted_keys (v # (case m of None \<Rightarrow> [] | Some m \<Rightarrow> cm_versions m))"
  have "v \<in> set ?vs"
    by simp
  then have "?vs \<noteq> []"
    by (metis empty_iff empty_set)
  moreover have "v' \<in> set ?vs \<longleftrightarrow> v' = v \<or> saved v'" for v'
    using assms by (auto simp: versions_ok_def split: option.splits)
  ultimately show ?thesis
    by (simp add: versions_ok_def)
qed

lemma configs_ok_write:
  assumes st0: "\<And>config_id. versions_ok (map_of (ss_config_meta st) config_id) (version_saved st0 config_id)"
    and saved: "\<And>config_id v. version_saved st config_id v \<longleftrightarrow>
      (config_id, v) = (sc_id c, sc_version c) \<or> version_saved st0 config_id v"
    and own: "\<forall>config_id v c. map_of (ss_configs st) (config_id, v) = Some c \<longrightarrow> sc_id c = config_id \<and> sc_version c = v"
  shows "configs_ok (write_config_metadata c st)"
proof -
  have saved': "version_saved (write_config_metadata c st) = version_saved st"
    by (simp add: version_saved_def fun_eq_iff)
  have "versions_ok (map_of (ss_config_meta (write_config_metadata c st)) config_id) (version_saved st config_id)" for config_id
  proof (cases "config_id = sc_id c")
    case True
    have "version_saved st config_id = (\<lambda>v. v = sc_version c \<or> version_saved st0 config_id v)"
      using saved True by auto
    then show ?thesis
      using versions_ok_add [OF st0 [of config_id], of "sc_version c"] True
      by (simp add: write_config_metadata_def Let_def)
  next
    case False
    then have "version_saved st config_id = version_saved st0 config_id"
      using saved by auto
    then show ?thesis
      using st0 [of config_id] False by (simp add: write_config_metadata_def Let_def)
  qed
  then show ?thesis
    using own by (simp add: configs_ok_def saved')
qed

lemma save_configs_ok:
  assumes ok: "configs_ok st"
  shows "configs_ok (save_configs st c)"
proof (cases rule: save_strategy_config_cases [of st c])
  case new
  let ?st = "st\<lparr>ss_configs := AList.update (sc_id c, sc_version c) c (ss_configs st)\<rparr>"
  have saved: "version_saved ?st config_id v \<longleftrightarrow> (config_id, v) = (sc_id c, sc_version c) \<or> version_saved st config_id v"
    for config_id v
    by (auto simp: version_saved_def)
  have "configs_ok (write_config_metadata c ?st)"
    using ok by (intro configs_ok_write [OF _ saved]) (auto simp: configs_ok_def)
  then show ?thesis by (simp add: save_configs_def new)
next
  case same
  have saved: "version_saved st config_id v \<longleftrightarrow> (config_id, v) = (sc_id c, sc_version c) \<or> version_saved st config_id v"
    for config_id v
    using same(1) by (auto simp: version_saved_def)
  have "configs_ok (write_config_metadata c st)"
    using ok by (intro configs_ok_write [OF _ saved]) (auto simp: configs_ok_def)
  then show ?thesis by (simp add: save_configs_def same)
next
  case taken
  then show ?thesis using ok by (simp add: save_configs_def)
qed

interpretation config_store: invariant_machine save_configs "\<lambda>_. True" configs_ok
  by unfold_locales (rule save_configs_ok)

lemma save_configs_keeps:
  "map_of (ss_configs st) k = Some c' \<Longrightarrow> map_of (ss_configs (save_configs st c)) k = Some c'"
  by (cases rule: save_strategy_config_cases [of st c]) (auto simp: save_configs_def)

lemma saves_keep:
  "map_of (ss_configs st) k = Some c' \<Longrightarrow> map_of (ss_configs (foldl save_configs st cs)) k = Some c'"
  by (induction cs arbitrary: st) (simp_all add: save_configs_keeps)

lemma sorted_le_last: "sorted xs \<Longrightarrow> x \<in> set xs \<Longrightarrow> x \<le> last xs"
  by (induction xs) auto

lemma latest_version:
  assumes "configs_ok st" and m: "map_of (ss_config_meta st) config_id = Some m"
  shows "version_saved st config_id (cm_latest_version m)"
    and "version_saved st config_id v \<Longrightarrow> v \<le> cm_latest_version m"
proof -
  have vs: "cm_versions m \<noteq> []" "sorted (cm_versions m)" "cm_latest_version m = last (cm_versions m)"
    "\<And>v. v \<in> set (cm_versions m) \<longleftrightarrow> version_saved st config_id v"
    using assms by (auto simp: configs_ok_def versions_ok_def split: option.splits dest: spec [of _ config_id])
  then show "version_saved st config_id (cm_latest_version m)"
    using last_in_set by metis
  show "v \<le> cm_latest_version m" if "version_saved st config_id v"
    using vs that sorted_le_last [of "cm_versions m" v] by simp
qed

section \<open>Pending sleeves\<close>

text \<open>A pending sleeve is finalised when no final one exists and the account has funded it.\<close>

definition funded :: "paper_account option \<Rightarrow> string \<Rightarrow> bool" where
  "funded account sleeve_id \<longleftrightarrow>
     (case account of None \<Rightarrow> False | Some a \<Rightarrow> 0 < dict_get (pa_sleeve_cash a) sleeve_id 0)"

definition admits :: "paper_account option \<Rightarrow> sleeve_store \<Rightarrow> strategy_sleeve \<Rightarrow> bool" where
  "admits account st s \<longleftrightarrow>
     map_of (ss_sleeves st) (sv_id s) = None \<and> (sv_mode s = Allocated \<longrightarrow> funded account (sv_id s))"

lemma reconcile_sleeves_Cons:
  assumes "map_of (ss_pending st) (sv_id s) = Some s"
  shows "reconcile_sleeves account (s # ss) st =
    (if admits account st s
     then case reconcile_sleeves account ss (discard_pending_sleeve (sv_id s) (save_sleeve s st)) of
            (st, Inl e) \<Rightarrow> (st, Inl e)
          | (st, Inr rest) \<Rightarrow> (st, Inr (s # rest))
     else reconcile_sleeves account ss (discard_pending_sleeve (sv_id s) st))"
  using assms
  by (auto simp: admits_def funded_def finalize_pending_sleeve_def load_sleeve_def save_sleeve_def
      discard_pending_sleeve_def split: option.splits)

lemma reconcile_loop:
  assumes "distinct (map sv_id ss)" and "\<forall>s \<in> set ss. map_of (ss_pending st) (sv_id s) = Some s"
  shows "\<exists>st'. reconcile_sleeves account ss st = (st', Inr (filter (admits account st) ss))
    \<and> (\<forall>k. map_of (ss_pending st') k = (if k \<in> sv_id ` set ss then None else map_of (ss_pending st) k))
    \<and> (\<forall>k. map_of (ss_sleeves st') k =
          (case find (\<lambda>s. sv_id s = k) ss of
             Some s \<Rightarrow> if admits account st s then Some s else map_of (ss_sleeves st) k
           | None \<Rightarrow> map_of (ss_sleeves st) k))"
  using assms
proof (induction ss arbitrary: st)
  case Nil
  then show ?case by simp
next
  case (Cons s ss)
  let ?st = "if admits account st s then discard_pending_sleeve (sv_id s) (save_sleeve s st)
             else discard_pending_sleeve (sv_id s) st"
  have fresh: "sv_id s' \<noteq> sv_id s" if "s' \<in> set ss" for s'
    using Cons.prems(1) that by (auto simp: image_iff)
  have same: "admits account ?st s' = admits account st s'" if "s' \<in> set ss" for s'
    using fresh [OF that] by (simp add: admits_def discard_pending_sleeve_def save_sleeve_def)
  have pending: "map_of (ss_pending ?st) k = (if k = sv_id s then None else map_of (ss_pending st) k)" for k
    by (simp add: discard_pending_sleeve_def save_sleeve_def)
  have sleeves: "map_of (ss_sleeves ?st) k = (if admits account st s \<and> k = sv_id s then Some s else map_of (ss_sleeves st) k)" for k
    by (simp add: discard_pending_sleeve_def save_sleeve_def)
  have "\<forall>s' \<in> set ss. map_of (ss_pending ?st) (sv_id s') = Some s'"
    unfolding pending using Cons.prems(2) fresh by auto
  then obtain st' where st': "reconcile_sleeves account ss ?st = (st', Inr (filter (admits account ?st) ss))"
    and pending': "\<And>k. map_of (ss_pending st') k = (if k \<in> sv_id ` set ss then None else map_of (ss_pending ?st) k)"
    and sleeves': "\<And>k. map_of (ss_sleeves st') k = (case find (\<lambda>s. sv_id s = k) ss of
             Some s \<Rightarrow> if admits account ?st s then Some s else map_of (ss_sleeves ?st) k
           | None \<Rightarrow> map_of (ss_sleeves ?st) k)"
    using Cons.IH [of ?st] Cons.prems(1) by auto
  have filters: "filter (admits account ?st) ss = filter (admits account st) ss"
    using same by (rule filter_cong [OF refl])
  have none: "find (\<lambda>s'. sv_id s' = sv_id s) ss = None"
    using fresh by (auto simp: find_None_iff)
  have found: "find (\<lambda>s. sv_id s = k) ss = Some s' \<Longrightarrow> s' \<in> set ss \<and> sv_id s' = k" for k s'
    by (auto simp: find_Some_iff)
  show ?case
  proof (intro exI [of _ st'] conjI allI)
    show "reconcile_sleeves account (s # ss) st = (st', Inr (filter (admits account st) (s # ss)))"
      using st' filters reconcile_sleeves_Cons [of st s account ss] Cons.prems(2)
      by (simp del: reconcile_sleeves.simps split: if_splits)
    show "map_of (ss_pending st') k = (if k \<in> sv_id ` set (s # ss) then None else map_of (ss_pending st) k)" for k
      unfolding pending' pending by auto
    show "map_of (ss_sleeves st') k = (case find (\<lambda>s. sv_id s = k) (s # ss) of
             Some s \<Rightarrow> if admits account st s then Some s else map_of (ss_sleeves st) k
           | None \<Rightarrow> map_of (ss_sleeves st) k)" for k
    proof (cases "k = sv_id s")
      case True
      then show ?thesis using none by (simp add: sleeves' sleeves)
    next
      case False
      show ?thesis
      proof (cases "find (\<lambda>s. sv_id s = k) ss")
        case None
        with False show ?thesis by (simp add: sleeves' sleeves)
      next
        case (Some s')
        have "admits account ?st s' = admits account st s'"
          using found [OF Some] by (intro same) simp
        with False Some show ?thesis
          unfolding sleeves' sleeves by simp
      qed
    qed
  qed
qed

lemma values_sorted_facts:
  assumes "wf_dict d" and "\<forall>(k, s) \<in> set d. sv_id s = k"
  shows "distinct (map sv_id (values_sorted d))" and "\<forall>s \<in> set (values_sorted d). map_of d (sv_id s) = Some s"
    and "find (\<lambda>s. sv_id s = k) (values_sorted d) = map_of d k"
proof -
  have keys: "map sv_id (values_sorted d) = map fst (sort_key fst d)"
    using assms(2) by (auto simp: values_sorted_def)
  have "mset (map fst (sort_key fst d)) = mset (map fst d)"
    by simp
  then have "distinct (map fst (sort_key fst d))"
    using assms(1) by (metis mset_eq_imp_distinct_iff)
  then show dist: "distinct (map sv_id (values_sorted d))"
    by (simp only: keys)
  show all: "\<forall>s \<in> set (values_sorted d). map_of d (sv_id s) = Some s"
    using assms by (auto simp: values_sorted_def)
  show "find (\<lambda>s. sv_id s = k) (values_sorted d) = map_of d k"
  proof (cases "map_of d k")
    case None
    then have "k \<notin> fst ` set d"
      by (simp add: map_of_eq_None_iff)
    then show ?thesis
      using assms(2) None by (fastforce simp: find_None_iff values_sorted_def image_iff)
  next
    case (Some s)
    then have "(k, s) \<in> set d"
      by (rule map_of_SomeD)
    then have "s \<in> set (values_sorted d)" "sv_id s = k"
      using assms(2) by (force simp: values_sorted_def)+
    then have "find (\<lambda>s. sv_id s = k) (values_sorted d) \<noteq> None"
      by (auto simp: find_None_iff)
    then obtain s' where s': "find (\<lambda>s. sv_id s = k) (values_sorted d) = Some s'"
      by auto
    then have "s' \<in> set (values_sorted d)" "sv_id s' = k"
      by (auto simp: find_Some_iff)
    then show ?thesis
      using all s' by force
  qed
qed

section \<open>Properties\<close>

lemma config_versions_are_immutable_parts:
  assumes "configs_ok st" and "version_saved st config_id v"
  shows "configs_ok (foldl save_configs st cs)"
    and "load_strategy_config read_definition config_id (Some v) (foldl save_configs st cs)
      = load_strategy_config read_definition config_id (Some v) st"
    and "\<exists>latest. config_version config_id None (foldl save_configs st cs) = Inr latest
      \<and> v \<le> latest \<and> version_saved (foldl save_configs st cs) config_id latest"
    and "snd (save_strategy_config c st) = Inr () \<Longrightarrow>
      \<exists>c'. load_strategy_config read_definition (sc_id c) (Some (sc_version c)) (fst (save_strategy_config c st))
          = validate_config read_definition c'
        \<and> (c' = c \<or> same_config c' c) \<and> (\<not> version_saved st (sc_id c) (sc_version c) \<longrightarrow> c' = c)"
    and "map_of (ss_configs st) (sc_id c, sc_version c) = Some c' \<Longrightarrow> \<not> same_config c' c \<Longrightarrow>
      \<exists>e. save_strategy_config c st = (st, Inl e)"
proof -
  let ?st = "foldl save_configs st cs"
  show ok: "configs_ok ?st"
    using config_store.run_inv [of st cs] assms(1) by (simp add: list_all_iff)
  obtain saved where saved: "map_of (ss_configs st) (config_id, v) = Some saved"
    using assms(2) by (auto simp: version_saved_def)
  then have kept: "map_of (ss_configs ?st) (config_id, v) = Some saved"
    by (rule saves_keep)
  with saved show "load_strategy_config read_definition config_id (Some v) ?st
      = load_strategy_config read_definition config_id (Some v) st"
    by (simp add: load_strategy_config_def config_version_def)
  have v: "version_saved ?st config_id v"
    using kept by (simp add: version_saved_def)
  then obtain m where m: "map_of (ss_config_meta ?st) config_id = Some m"
    using ok by (auto simp: configs_ok_def versions_ok_def split: option.splits dest: spec [of _ config_id])
  show "\<exists>latest. config_version config_id None ?st = Inr latest \<and> v \<le> latest \<and> version_saved ?st config_id latest"
    using latest_version [OF ok m] v m by (simp add: config_version_def)
  show "\<exists>c'. load_strategy_config read_definition (sc_id c) (Some (sc_version c)) (fst (save_strategy_config c st))
          = validate_config read_definition c'
        \<and> (c' = c \<or> same_config c' c) \<and> (\<not> version_saved st (sc_id c) (sc_version c) \<longrightarrow> c' = c)"
    if "snd (save_strategy_config c st) = Inr ()"
    using that by (cases rule: save_strategy_config_cases [of st c])
      (auto simp: load_strategy_config_def config_version_def version_saved_def)
  show "\<exists>e. save_strategy_config c st = (st, Inl e)"
    if "map_of (ss_configs st) (sc_id c, sc_version c) = Some c'" "\<not> same_config c' c"
    using that by (cases rule: save_strategy_config_cases [of st c]) auto
qed

text \<open>C15: A saved config version never changes: whatever configs are saved afterwards, it loads as
  before, the version list stays exact, and the latest version is a saved one that is at least as
  high. A save that is accepted can be loaded back: as it is when the version is new, and otherwise as
  the version on file, which has the same JSON. A save that would change a version is refused.\<close>

theorem config_versions_are_immutable:
  assumes "configs_ok st" and "version_saved st config_id v"
  shows "(configs_ok (foldl save_configs st cs))
    \<and> (load_strategy_config read_definition config_id (Some v) (foldl save_configs st cs)
      = load_strategy_config read_definition config_id (Some v) st)
    \<and> (\<exists>latest. config_version config_id None (foldl save_configs st cs) = Inr latest
      \<and> v \<le> latest \<and> version_saved (foldl save_configs st cs) config_id latest)
    \<and> (\<forall>c. snd (save_strategy_config c st) = Inr () \<longrightarrow>
      (\<exists>c'. load_strategy_config read_definition (sc_id c) (Some (sc_version c)) (fst (save_strategy_config c st))
          = validate_config read_definition c'
        \<and> (c' = c \<or> same_config c' c) \<and> (\<not> version_saved st (sc_id c) (sc_version c) \<longrightarrow> c' = c)))
    \<and> (\<forall>c c'. map_of (ss_configs st) (sc_id c, sc_version c) = Some c' \<longrightarrow>
      \<not> same_config c' c \<longrightarrow>
      (\<exists>e. save_strategy_config c st = (st, Inl e)))"
  by (rule conjI, rule config_versions_are_immutable_parts(1) [OF assms],
      rule conjI, rule config_versions_are_immutable_parts(2) [OF assms],
      rule conjI, rule config_versions_are_immutable_parts(3) [OF assms],
      rule conjI, rule allI, rule impI, rule config_versions_are_immutable_parts(4) [OF assms], assumption,
      rule allI, rule allI, rule impI, rule impI, rule config_versions_are_immutable_parts(5) [OF assms], assumption, assumption)

text \<open>C16: Reconciliation settles every pending sleeve: it succeeds, no pending sleeve remains, the
  sleeves that existed are untouched, and a pending one becomes a sleeve exactly when none existed
  under its id and, if it is allocated, the account holds cash for it.\<close>

theorem pending_sleeves_settle:
  assumes "wf_dict (ss_pending st)" and "\<forall>(k, s) \<in> set (ss_pending st). sv_id s = k"
  shows "\<exists>st'. reconcile_pending_sleeves account st
        = (st', Inr (filter (admits account st) (list_pending_sleeves st)))
    \<and> (\<forall>k. map_of (ss_pending st') k = None)
    \<and> (\<forall>k. map_of (ss_sleeves st') k =
          (case map_of (ss_sleeves st) k of
             Some s \<Rightarrow> Some s
           | None \<Rightarrow> (case map_of (ss_pending st) k of
               Some s \<Rightarrow> if sv_mode s = Allocated \<and> \<not> funded account k then None else Some s
             | None \<Rightarrow> None)))"
proof -
  note facts = values_sorted_facts [OF assms]
  obtain st' where st': "reconcile_sleeves account (list_pending_sleeves st) st
        = (st', Inr (filter (admits account st) (list_pending_sleeves st)))"
    and pending: "\<And>k. map_of (ss_pending st') k =
        (if k \<in> sv_id ` set (list_pending_sleeves st) then None else map_of (ss_pending st) k)"
    and sleeves: "\<And>k. map_of (ss_sleeves st') k =
        (case map_of (ss_pending st) k of
             Some s \<Rightarrow> if admits account st s then Some s else map_of (ss_sleeves st) k
           | None \<Rightarrow> map_of (ss_sleeves st) k)"
    using reconcile_loop [of "list_pending_sleeves st" st account] facts
    by (auto simp: list_pending_sleeves_def)
  have id: "map_of (ss_pending st) k = Some s \<Longrightarrow> sv_id s = k" for k s
    using assms(2) by (auto dest: map_of_SomeD)
  have "map_of (ss_pending st') k = None" for k
  proof (cases "map_of (ss_pending st) k")
    case None
    then show ?thesis by (simp add: pending)
  next
    case (Some s)
    then have "s \<in> set (list_pending_sleeves st)" "sv_id s = k"
      using id map_of_SomeD [OF Some] by (force simp: list_pending_sleeves_def values_sorted_def)+
    then show ?thesis by (auto simp: pending)
  qed
  moreover have "map_of (ss_sleeves st') k =
          (case map_of (ss_sleeves st) k of
             Some s \<Rightarrow> Some s
           | None \<Rightarrow> (case map_of (ss_pending st) k of
               Some s \<Rightarrow> if sv_mode s = Allocated \<and> \<not> funded account k then None else Some s
             | None \<Rightarrow> None))" for k
    using id [of k] by (auto simp: sleeves admits_def split: option.split)
  ultimately show ?thesis
    using st' by (auto simp: reconcile_pending_sleeves_def)
qed

definition example_store :: sleeve_store where
  "example_store = save_configs
     (save_pending_sleeve (example_sleeve\<lparr>sv_id := ''s2'', sv_mode := SignalOnly\<rparr>)
        (save_pending_sleeve example_sleeve empty_store)) example_config"

lemma example_store_configs: "configs_ok example_store"
  unfolding example_store_def
  by (rule save_configs_ok)
    (simp add: configs_ok_def versions_ok_def version_saved_def save_pending_sleeve_def empty_store_def)

theorem config_versions_are_immutable_witness:
  "\<exists>latest. config_version ''cfg'' None (foldl save_configs example_store
      [example_config\<lparr>sc_version := 2\<rparr>, example_config\<lparr>sc_name := ''other''\<rparr>]) = Inr latest \<and> 1 \<le> latest
    \<and> snd (save_strategy_config (example_config\<lparr>sc_name := ''other''\<rparr>) example_store) \<noteq> Inr ()"
proof -
  have saved: "version_saved example_store ''cfg'' 1"
    by code_simp
  have "map_of (ss_configs example_store) (''cfg'', 1) = Some example_config"
    by code_simp
  moreover have "\<not> same_config example_config (example_config\<lparr>sc_name := ''other''\<rparr>)"
    by code_simp
  ultimately have "\<exists>e. save_strategy_config (example_config\<lparr>sc_name := ''other''\<rparr>) example_store = (example_store, Inl e)"
    using config_versions_are_immutable [OF example_store_configs saved, where read_definition = "\<lambda>_. Inl ValidationError"] by (simp add: example_config_def)
  then show ?thesis
    using config_versions_are_immutable [OF example_store_configs saved,
        where read_definition = "\<lambda>_. Inl ValidationError" and
          cs = "[example_config\<lparr>sc_version := 2\<rparr>, example_config\<lparr>sc_name := ''other''\<rparr>]"] by auto
qed

theorem pending_sleeves_settle_witness:
  "\<exists>st'. reconcile_pending_sleeves None example_store
        = (st', Inr (filter (admits None example_store) (list_pending_sleeves example_store)))
      \<and> map_of (ss_pending st') ''s1'' = None
    \<and> filter (admits None example_store) (list_pending_sleeves example_store)
        = [example_sleeve\<lparr>sv_id := ''s2'', sv_mode := SignalOnly\<rparr>]"
proof -
  have "wf_dict (ss_pending example_store)" and "\<forall>(k, s) \<in> set (ss_pending example_store). sv_id s = k"
    by code_simp+
  moreover have "filter (admits None example_store) (list_pending_sleeves example_store)
      = [example_sleeve\<lparr>sv_id := ''s2'', sv_mode := SignalOnly\<rparr>]"
    by code_simp
  ultimately show ?thesis
    using pending_sleeves_settle [of example_store None] by auto
qed

end
