(* ===== verification/SleeveService.thy ===== *)
theory SleeveService
  imports SleeveStore
begin

text \<open>
  The sleeve service (\<open>PaperStrategySleeveService\<close> in
  \<open>src/quant_system/execution/paper_strategy_sleeves.py\<close>): the life cycle of a sleeve, the
  allocation of cash to it and the execution plan made from a signal. The evidence a replacement
  left on disk against a sleeve (\<open>strategy_replacement.sleeve_replacement_pending\<close>) is the argument
  \<open>evidence\<close>. The lemmas give the life cycle as a step relation with its invariant, show that
  allocation conserves the cash of the sleeves, and characterise when a plan is made.
\<close>

section \<open>Life cycle\<close>

definition replacement_pending :: "(strategy_sleeve \<Rightarrow> bool) \<Rightarrow> strategy_sleeve \<Rightarrow> bool" where
  "replacement_pending evidence s \<longleftrightarrow>
     truthy (meta_get (sv_metadata s) ''strategy_replacement_id'') \<or> evidence s"

definition pause_sleeve :: "string \<Rightarrow> strategy_sleeve \<Rightarrow> sleeve_store \<Rightarrow> sleeve_store \<times> strategy_sleeve result" where
  "pause_sleeve now s st =
     (if sv_status s \<notin> {Running, Paused}
      then (st, Inl (ValueError ''only running sleeves can be paused''))
      else let s = s\<lparr>sv_status := Paused, sv_paused_at := Some now, sv_updated_at := now\<rparr>
           in (save_sleeve s st, Inr s))"

definition resume_sleeve ::
    "(strategy_sleeve \<Rightarrow> bool) \<Rightarrow> string \<Rightarrow> strategy_sleeve \<Rightarrow> sleeve_store \<Rightarrow> sleeve_store \<times> strategy_sleeve result" where
  "resume_sleeve evidence now s st =
     (if replacement_pending evidence s then (st, Inl (ValueError ''strategy_replacement_pending''))
      else if sv_status s \<noteq> Paused then (st, Inl (ValueError ''only paused sleeves can be resumed''))
      else if meta_get (sv_metadata s) ''mandate_id'' = VStr ''remote-hang''
              \<and> meta_get (sv_metadata s) ''hang_activation_state'' = VStr ''book_binding_pending''
      then (st, Inl (ValueError ''remote_hang_binding_pending''))
      else let s = s\<lparr>sv_status := Running, sv_paused_at := None, sv_updated_at := now\<rparr>
           in (save_sleeve s st, Inr s))"

definition stop_sleeve ::
    "string \<Rightarrow> string option \<Rightarrow> strategy_sleeve \<Rightarrow> sleeve_store \<Rightarrow> sleeve_store \<times> strategy_sleeve result" where
  "stop_sleeve now reason s st =
     (let s = s\<lparr>sv_status := Stopped, sv_stopped_at := Some now, sv_updated_at := now, sv_stop_reason := reason\<rparr>
      in (save_sleeve s st, Inr s))"

definition quarantine_sleeve ::
    "string \<Rightarrow> string \<Rightarrow> strategy_sleeve \<Rightarrow> sleeve_store \<Rightarrow> sleeve_store \<times> strategy_sleeve result" where
  "quarantine_sleeve now reason s st =
     (if sv_status s = DemotedComplete
      then (st, Inl (ValueError ''completed demotions cannot be quarantined''))
      else let stopped = (case sv_stopped_at s of None \<Rightarrow> now | Some t \<Rightarrow> if t = [] then now else t);
               s = s\<lparr>sv_status := QuarantinedHold, sv_stopped_at := Some stopped, sv_updated_at := now,
                     sv_stop_reason := Some reason,
                     sv_metadata := AList.update ''quarantined_at'' (VStr now)
                       (AList.update ''quarantine_reason'' (VStr reason) (sv_metadata s))\<rparr>
           in (save_sleeve s st, Inr s))"

definition complete_demote ::
    "string \<Rightarrow> sleeve_status \<Rightarrow> strategy_sleeve \<Rightarrow> sleeve_store \<Rightarrow> sleeve_store \<times> strategy_sleeve result" where
  "complete_demote now outcome s st =
     (if sv_status s \<noteq> QuarantinedHold
      then (st, Inl (ValueError ''only quarantined sleeves can complete demote''))
      else if outcome \<notin> {Flattened, Transferred, ManuallyAccepted}
      then (st, Inl (ValueError ''invalid demote outcome''))
      else let s = s\<lparr>sv_metadata := AList.update ''demote_outcome_at'' (VStr now)
                       (AList.update ''demote_outcome'' (VStr (status_str outcome)) (sv_metadata s)),
                     sv_status := DemotedComplete, sv_updated_at := now\<rparr>
           in (save_sleeve s st, Inr s))"

section \<open>Allocation\<close>

definition allocate_cash ::
    "environment \<Rightarrow> strategy_sleeve \<Rightarrow> paper_account \<Rightarrow> paper_account \<times> unit result" where
  "allocate_cash env s a =
     (let manual_cash = dict_get (pa_sleeve_cash a) ''manual'' (pa_cash a);
          available = manual_available_cash a None
      in if available + account_dust < sv_cash s
         then (a, Inl (CashAllocationError (''cannot allocate '' @ fmt_fixed 2 (sv_cash s)
                 @ ''; manual cash available is '' @ fmt_fixed 2 available)))
         else
           let book = AList.update ''manual'' (manual_cash - sv_cash s) (pa_sleeve_cash a);
               book = AList.update (sv_id s) (dict_get book (sv_id s) 0 + sv_cash s) book
           in (record_event env ''sleeve_cash_allocated'' (''strategy:'' @ sv_id s) None None None None None
                 (''allocated '' @ fmt_fixed 2 (sv_cash s) @ '' '' @ pa_currency a @ '' to sleeve '' @ sv_id s)
                 (a\<lparr>pa_sleeve_cash := book\<rparr>), Inr ()))"

text \<open>\<open>sleeve_id\<close> is the id given or drawn, \<open>now\<close> the time of the new sleeve.\<close>

definition create_sleeve ::
    "environment \<Rightarrow> strategy_config \<Rightarrow> sleeve_mode \<Rightarrow> rat \<Rightarrow> metadata \<Rightarrow> string \<Rightarrow> string \<Rightarrow> paper_account
      \<Rightarrow> paper_account \<times> strategy_sleeve result" where
  "create_sleeve env config mode allocated metadata sleeve_id now a =
     (let a = ensure_manual_sleeve_cash a
      in case new_sleeve config mode (pa_id a) sleeve_id allocated metadata now of
           Inl e \<Rightarrow> (a, Inl e)
         | Inr s \<Rightarrow>
             if mode \<noteq> Allocated then (a, Inr s)
             else (case allocate_cash env s a of
                     (a, Inl e) \<Rightarrow> (a, Inl e)
                   | (a, Inr _) \<Rightarrow> (a, Inr s)))"

section \<open>Execution plans\<close>

text \<open>\<open>float(x)\<close>, with the exception it raises.\<close>

definition to_float :: "runtime \<Rightarrow> pyval \<Rightarrow> pyfloat result" where
  "to_float rt v =
     (case py_float rt v of
        Some x \<Rightarrow> Inr x
      | None \<Rightarrow> (case v of
            VStr s \<Rightarrow> Inl (ValueError (''could not convert string to float: '' @ repr_str s))
          | _ \<Rightarrow> Inl (TypeError ''float() argument must be a string or a real number'')))"

fun reference_prices :: "runtime \<Rightarrow> metadata list \<Rightarrow> (string, pyfloat) dict \<Rightarrow> (string, pyfloat) dict result" where
  "reference_prices rt [] prices = Inr prices"
| "reference_prices rt (order # orders) prices =
     (if truthy (meta_get order ''symbol'') \<and> truthy (meta_get order ''reference_price'')
      then rbind (to_float rt (meta_get order ''reference_price''))
             (\<lambda>x. reference_prices rt orders
                (AList.update (upper (py_str rt (meta_get order ''symbol''))) x prices))
      else reference_prices rt orders prices)"

text \<open>The batch of an automated sleeve on an account: prices of the orders, and the average cost elsewhere.\<close>

definition account_batch ::
    "runtime \<Rightarrow> paper_account \<Rightarrow> strategy_sleeve \<Rightarrow> sleeve_lot list \<Rightarrow> metadata list \<Rightarrow> metadata
      \<Rightarrow> (string, pyfloat) dict \<Rightarrow> bool \<Rightarrow> execution_batch" where
  "account_batch rt a s lots orders context reference hung =
     (let account_price = (\<lambda>symbol p. dict_get reference symbol (Fin (ap_avg_cost p)));
          account_prices = upper_dict (map (\<lambda>(symbol, p). (symbol, account_price symbol p)) (pa_positions a));
          nav = pf_add (Fin (pa_cash a)) (pf_sum (map (\<lambda>(symbol, p).
            pf_scale (ap_quantity p) (dict_get account_prices symbol (Fin (ap_avg_cost p)))) (pa_positions a)));
          sleeve_equity = pf_add (Fin (sv_cash s)) (pf_sum (map (\<lambda>l.
            pf_scale (lt_quantity l) (dict_get reference (upper (lt_symbol l)) (Fin (lt_avg_cost l)))) lots))
      in \<lparr>eb_source = py_str rt (dict_get (sv_metadata s) ''automation_source'' (VStr ''d33'')),
          eb_workspace_id = VStr (py_str rt (dict_get (sv_metadata s) ''workspace_id'' (VStr ''local-default''))),
          eb_account_id = VStr (pa_id a), eb_sleeve_id = VStr (sv_id s), eb_orders = orders,
          eb_sleeve_equity = VFloat sleeve_equity, eb_nav = VFloat nav,
          eb_aggregate = map (\<lambda>(symbol, p). (symbol, VFloat (pf_scale (ap_quantity p) (account_price symbol p))))
                           (pa_positions a),
          eb_emergency_stop = VBool (meta_true context ''emergency_stop''),
          eb_execution_enabled = VBool (dict_get context ''paper_execution_enabled'' (VBool True) = VBool True),
          eb_mandate_active = VBool (meta_true context ''mandate_active''),
          eb_mandate_execution_allowed = VBool (meta_true context ''mandate_paper_execution_allowed''),
          eb_hung_observation = VBool hung\<rparr>)"

definition plan_batch ::
    "runtime \<Rightarrow> paper_account \<Rightarrow> strategy_sleeve \<Rightarrow> sleeve_lot list \<Rightarrow> strategy_signal \<Rightarrow> metadata
      \<Rightarrow> (string, pyfloat) dict \<Rightarrow> execution_batch" where
  "plan_batch rt a s lots signal context reference =
     account_batch rt a s lots (sg_proposed_orders signal) context reference (meta_true context ''hung_observation'')"

definition policy_context :: "metadata \<Rightarrow> metadata" where
  "policy_context metadata =
     (case dict_get metadata ''paper_execution_policy_context'' (VDict []) of VDict d \<Rightarrow> d | _ \<Rightarrow> [])"

text \<open>The metadata of the plan: of an automated sleeve, the policy must allow the batch.\<close>

definition policy_metadata ::
    "runtime \<Rightarrow> (pyval \<Rightarrow> string) \<Rightarrow> paper_account \<Rightarrow> strategy_sleeve \<Rightarrow> sleeve_lot list \<Rightarrow> strategy_signal
      \<Rightarrow> metadata \<Rightarrow> metadata result" where
  "policy_metadata rt digest a s lots signal metadata =
     (if \<not> meta_true (sv_metadata s) ''automation_managed'' then Inr metadata
      else rbind (reference_prices rt (sg_proposed_orders signal) []) (\<lambda>reference.
        let decision = evaluate_batch rt digest default_execution_limits
              (plan_batch rt a s lots signal (policy_context metadata) reference)
        in if \<not> ed_allowed decision
           then Inl (StrategyExecutionPlanError (''automation_'' @ hd (ed_blockers decision)))
           else Inr (AList.update ''paper_execution_policy_decision'' (VDict (decision_to_dict decision)) metadata)))"

text \<open>The guards of \<open>create_execution_plan\<close> before the policy, in order.\<close>

definition plan_guard ::
    "(strategy_sleeve \<Rightarrow> bool) \<Rightarrow> paper_account \<Rightarrow> strategy_sleeve \<Rightarrow> strategy_signal \<Rightarrow> string \<Rightarrow> bool
      \<Rightarrow> string option" where
  "plan_guard evidence a s signal window allow_frozen =
     (if replacement_pending evidence s then Some ''strategy_replacement_pending''
      else if sv_mode s = SignalOnly then Some ''signal_only_no_execution''
      else if sv_status s \<noteq> Running then Some (''sleeve_'' @ status_str (sv_status s))
      else if sv_account_id s \<noteq> pa_id a then Some ''account_sleeve_mismatch''
      else if sg_sleeve_id signal \<noteq> sv_id s then Some ''signal_sleeve_mismatch''
      else if sg_config_id signal \<noteq> sv_config_id s then Some ''signal_config_mismatch''
      else if sg_config_version signal \<noteq> sv_config_version s then Some ''signal_config_version_mismatch''
      else if sg_status signal \<noteq> Generated then Some ''signal_not_generated''
      else if sg_blocked_reason signal \<noteq> None \<and> sg_blocked_reason signal \<noteq> Some [] then sg_blocked_reason signal
      else if pa_kill_switch a \<and> \<not> allow_frozen then Some ''account_frozen''
      else if window \<noteq> ''next_open'' then Some ''unsupported_execution_window''
      else if sg_proposed_orders signal = []
              \<and> (\<not> meta_true (sg_metadata signal) ''rebalance_required''
                 \<or> \<not> truthy (meta_get (sg_metadata signal) ''definition_digest''))
      then Some ''no_proposed_orders''
      else None)"

text \<open>A signal without orders must be bound to the definition of its config.\<close>

definition empty_signal_bound ::
    "(pyval \<Rightarrow> strategy_definition result) \<Rightarrow> strategy_signal \<Rightarrow> sleeve_store \<Rightarrow> unit result" where
  "empty_signal_bound read_definition signal st =
     (if sg_proposed_orders signal \<noteq> [] then Inr ()
      else rbind (load_strategy_config read_definition (sg_config_id signal) (Some (sg_config_version signal)) st)
        (\<lambda>config. case sc_definition config of
            None \<Rightarrow> Inl (StrategyExecutionPlanError ''strategy_definition_signal_binding_mismatch'')
          | Some (VDict d) \<Rightarrow>
              (case map_of d ''content_digest'' of
                 None \<Rightarrow> Inl (KeyError ''content_digest'')
               | Some digest \<Rightarrow>
                   if py_eq digest (meta_get (sg_metadata signal) ''definition_digest'') then Inr ()
                   else Inl (StrategyExecutionPlanError ''strategy_definition_signal_binding_mismatch''))
          | Some _ \<Rightarrow> Inl ValidationError))"

definition create_execution_plan ::
    "runtime \<Rightarrow> (pyval \<Rightarrow> string) \<Rightarrow> (pyval \<Rightarrow> strategy_definition result) \<Rightarrow> (strategy_sleeve \<Rightarrow> bool)
      \<Rightarrow> string \<Rightarrow> string \<Rightarrow> string \<Rightarrow> paper_account \<Rightarrow> strategy_sleeve \<Rightarrow> strategy_signal \<Rightarrow> string \<Rightarrow> string option
      \<Rightarrow> metadata \<Rightarrow> bool \<Rightarrow> sleeve_store \<Rightarrow> sleeve_store \<times> execution_plan result" where
  "create_execution_plan rt digest read_definition evidence execution_id now today a s signal window
       target_date metadata allow_frozen st =
     (case plan_guard evidence a s signal window allow_frozen of
        Some code \<Rightarrow> (st, Inl (StrategyExecutionPlanError code))
      | None \<Rightarrow>
          (case rbind (empty_signal_bound read_definition signal st) (\<lambda>_.
             rbind (policy_metadata rt digest a s (load_sleeve_lots (sv_id s) st) signal metadata) (\<lambda>metadata.
             if latest_execution_for_signal (sv_id s) (sg_id signal) st \<noteq> None
             then Inl (StrategyExecutionPlanError ''execution_already_exists'')
             else new_plan rt execution_id now (pa_id a) s signal window
               (case target_date of None \<Rightarrow> Some today | Some d \<Rightarrow> if d = [] then Some today else Some d) metadata)) of
             Inl e \<Rightarrow> (st, Inl e)
           | Inr plan \<Rightarrow> (append_execution plan st, Inr plan)))"

section \<open>The life cycle as a state machine\<close>

datatype sleeve_command =
    Pause string
  | Resume string
  | Stop string "string option"
  | Quarantine string string
  | CompleteDemote string sleeve_status

fun do_command ::
    "(strategy_sleeve \<Rightarrow> bool) \<Rightarrow> sleeve_command \<Rightarrow> strategy_sleeve \<Rightarrow> sleeve_store
      \<Rightarrow> sleeve_store \<times> strategy_sleeve result" where
  "do_command evidence (Pause now) s st = pause_sleeve now s st"
| "do_command evidence (Resume now) s st = resume_sleeve evidence now s st"
| "do_command evidence (Stop now reason) s st = stop_sleeve now reason s st"
| "do_command evidence (Quarantine now reason) s st = quarantine_sleeve now reason s st"
| "do_command evidence (CompleteDemote now outcome) s st = complete_demote now outcome s st"

text \<open>A caller loads the sleeve, runs one command and drops the exception.\<close>

definition run_command ::
    "(strategy_sleeve \<Rightarrow> bool) \<Rightarrow> sleeve_store \<Rightarrow> string \<times> sleeve_command \<Rightarrow> sleeve_store" where
  "run_command evidence st c =
     (case load_sleeve (fst c) st of
        Inl e \<Rightarrow> st
      | Inr s \<Rightarrow> fst (do_command evidence (snd c) s st))"

text \<open>The contract: the transitions of a status.\<close>

inductive status_step :: "sleeve_status \<Rightarrow> sleeve_status \<Rightarrow> bool" where
  pause: "status_step Running Paused"
| pause_again: "status_step Paused Paused"
| resume: "status_step Paused Running"
| stop: "status_step status Stopped"
| quarantine: "status \<noteq> DemotedComplete \<Longrightarrow> status_step status QuarantinedHold"
| demote: "status_step QuarantinedHold DemotedComplete"

code_pred status_step .

inductive_cases status_step_to_running: "status_step status Running"
inductive_cases status_step_to_demoted: "status_step status DemotedComplete"
inductive_cases status_step_outcome:
  "status_step status Flattened" "status_step status Transferred" "status_step status ManuallyAccepted"

inductive_simps status_step_from_demoted: "status_step DemotedComplete status"

lemma status_step_lifecycle:
  "status_step x y \<Longrightarrow> y \<in> {Running, Paused, Stopped, QuarantinedHold, DemotedComplete}"
  by (erule status_step.cases) simp_all

lemma reachable_lifecycle:
  "status_step\<^sup>*\<^sup>* Running y \<Longrightarrow> y \<in> {Running, Paused, Stopped, QuarantinedHold, DemotedComplete}"
  by (induction rule: rtranclp_induct) (auto dest: status_step_lifecycle)

text \<open>What never changes in the life of a sleeve.\<close>

definition same_funds :: "strategy_sleeve \<Rightarrow> strategy_sleeve \<Rightarrow> bool" where
  "same_funds s s' \<longleftrightarrow> sv_id s' = sv_id s \<and> sv_account_id s' = sv_account_id s \<and> sv_mode s' = sv_mode s
     \<and> sv_config_id s' = sv_config_id s \<and> sv_config_version s' = sv_config_version s
     \<and> sv_cash s' = sv_cash s \<and> sv_initial_cash s' = sv_initial_cash s \<and> sv_created_at s' = sv_created_at s"

lemma same_funds_refl [simp]: "same_funds s s"
  by (simp add: same_funds_def)

lemma same_funds_trans: "same_funds s t \<Longrightarrow> same_funds t u \<Longrightarrow> same_funds s u"
  by (simp add: same_funds_def)

text \<open>The times, the reason and the outcome agree with the status.\<close>

definition lifecycle_ok :: "strategy_sleeve \<Rightarrow> bool" where
  "lifecycle_ok s \<longleftrightarrow>
     sv_status s \<in> {Running, Paused, Stopped, QuarantinedHold, DemotedComplete}
     \<and> (sv_status s = Running \<longrightarrow> sv_paused_at s = None)
     \<and> (sv_status s = Paused \<longrightarrow> sv_paused_at s \<noteq> None)
     \<and> (sv_status s \<in> {Stopped, QuarantinedHold, DemotedComplete} \<longrightarrow> sv_stopped_at s \<noteq> None)
     \<and> (sv_status s \<in> {QuarantinedHold, DemotedComplete} \<longrightarrow>
          meta_get (sv_metadata s) ''quarantine_reason'' = opt_value VStr (sv_stop_reason s))
     \<and> (sv_status s = DemotedComplete \<longrightarrow> (\<exists>outcome \<in> {Flattened, Transferred, ManuallyAccepted}.
          meta_get (sv_metadata s) ''demote_outcome'' = VStr (status_str outcome)))"

lemma lifecycle_status:
  assumes "lifecycle_ok s"
  shows "sv_status s \<in> {Running, Paused, Stopped, QuarantinedHold, DemotedComplete}"
  using assms unfolding lifecycle_ok_def by (elim conjE)

lemmas lifecycle_defs = pause_sleeve_def resume_sleeve_def stop_sleeve_def quarantine_sleeve_def complete_demote_def

lemma pause_ok: "snd (pause_sleeve now s st) = Inr s' \<Longrightarrow> lifecycle_ok s'"
  by (auto simp: pause_sleeve_def Let_def lifecycle_ok_def split: if_splits)

lemma resume_ok: "snd (resume_sleeve evidence now s st) = Inr s' \<Longrightarrow> lifecycle_ok s'"
  by (auto simp: resume_sleeve_def Let_def lifecycle_ok_def split: if_splits)

lemma stop_ok: "snd (stop_sleeve now reason s st) = Inr s' \<Longrightarrow> lifecycle_ok s'"
  by (auto simp: stop_sleeve_def Let_def lifecycle_ok_def)

lemma quarantine_ok: "snd (quarantine_sleeve now reason s st) = Inr s' \<Longrightarrow> lifecycle_ok s'"
  by (auto simp: quarantine_sleeve_def Let_def lifecycle_ok_def opt_value_def split: if_splits)

lemma demote_ok:
  assumes "lifecycle_ok s" and "snd (complete_demote now outcome s st) = Inr s'"
  shows "lifecycle_ok s'"
proof -
  have q: "sv_status s = QuarantinedHold" and outcome: "outcome \<in> {Flattened, Transferred, ManuallyAccepted}"
    using assms(2) by (simp_all only: complete_demote_def split: if_splits) simp_all
  have s': "s' = s\<lparr>sv_metadata := AList.update ''demote_outcome_at'' (VStr now)
                       (AList.update ''demote_outcome'' (VStr (status_str outcome)) (sv_metadata s)),
                     sv_status := DemotedComplete, sv_updated_at := now\<rparr>"
    using assms(2) q outcome by (auto simp: complete_demote_def Let_def)
  have "sv_stopped_at s \<noteq> None" "meta_get (sv_metadata s) ''quarantine_reason'' = opt_value VStr (sv_stop_reason s)"
    using assms(1) q by (simp_all add: lifecycle_ok_def)
  moreover have "\<exists>x \<in> {Flattened, Transferred, ManuallyAccepted}. VStr (status_str outcome) = VStr (status_str x)"
    using outcome by (intro bexI [of _ outcome] refl)
  moreover have "meta_get (sv_metadata s') ''demote_outcome'' = VStr (status_str outcome)"
    by (simp add: s')
  ultimately show ?thesis
    using s' by (simp add: lifecycle_ok_def)
qed

lemma do_command_result:
  obtains e where "do_command evidence c s st = (st, Inl e)"
  | s' where "do_command evidence c s st = (save_sleeve s' st, Inr s')"
      "status_step (sv_status s) (sv_status s')" "same_funds s s'" "lifecycle_ok s \<Longrightarrow> lifecycle_ok s'"
proof (cases "snd (do_command evidence c s st)")
  case (Inl e)
  then have "do_command evidence c s st = (st, Inl e)"
    by (cases c) (auto simp: lifecycle_defs Let_def split: if_splits)
  then show ?thesis by (rule that)
next
  case (Inr s')
  have save: "do_command evidence c s st = (save_sleeve s' st, Inr s')"
    using Inr by (cases c) (auto simp: lifecycle_defs Let_def split: if_splits)
  moreover have "status_step (sv_status s) (sv_status s')"
    using Inr by (cases c) (auto simp: lifecycle_defs Let_def intro: status_step.intros split: if_splits)
  moreover have "same_funds s s'"
    using Inr by (cases c) (auto simp: lifecycle_defs Let_def same_funds_def split: if_splits)
  moreover have "lifecycle_ok s \<Longrightarrow> lifecycle_ok s'"
    using Inr by (cases c) (auto dest: pause_ok resume_ok stop_ok quarantine_ok demote_ok)
  ultimately show ?thesis by (rule that)
qed

text \<open>Every sleeve of a store is stored under its id and has a coherent life cycle.\<close>

definition sleeves_ok :: "sleeve_store \<Rightarrow> bool" where
  "sleeves_ok st \<longleftrightarrow> (\<forall>k s. map_of (ss_sleeves st) k = Some s \<longrightarrow> sv_id s = k \<and> lifecycle_ok s)"

lemma run_command_cases:
  assumes ok: "sleeves_ok st"
  obtains "run_command evidence st c = st"
  | s s' where "map_of (ss_sleeves st) (fst c) = Some s" "run_command evidence st c = save_sleeve s' st"
      "sv_id s' = fst c" "status_step (sv_status s) (sv_status s')" "same_funds s s'" "lifecycle_ok s'"
proof (cases "map_of (ss_sleeves st) (fst c)")
  case None
  then have "run_command evidence st c = st"
    by (simp add: run_command_def load_sleeve_def)
  then show ?thesis by (rule that)
next
  case (Some s)
  then have run: "run_command evidence st c = fst (do_command evidence (snd c) s st)"
    by (simp add: run_command_def load_sleeve_def)
  have s: "sv_id s = fst c" "lifecycle_ok s"
    using ok Some by (auto simp: sleeves_ok_def)
  show ?thesis
  proof (cases rule: do_command_result [of evidence "snd c" s st])
    case (1 e)
    then show ?thesis using run that(1) by simp
  next
    case (2 s')
    then have "sv_id s' = fst c"
      using s by (simp add: same_funds_def)
    then show ?thesis
      using run 2 s by (intro that(2) [OF Some]) simp_all
  qed
qed

lemma run_command_ok:
  assumes ok: "sleeves_ok st"
  shows "sleeves_ok (run_command evidence st c)"
  by (cases rule: run_command_cases [OF ok, of evidence c])
    (use ok in \<open>auto simp: sleeves_ok_def save_sleeve_def\<close>)

interpretation lifecycle: invariant_machine "run_command evidence" "\<lambda>_. True" sleeves_ok
  for evidence
  by unfold_locales (rule run_command_ok)

lemma run_command_path:
  assumes ok: "sleeves_ok st" and "map_of (ss_sleeves st) k = Some s"
  shows "\<exists>s'. map_of (ss_sleeves (run_command evidence st c)) k = Some s'
    \<and> status_step\<^sup>*\<^sup>* (sv_status s) (sv_status s') \<and> same_funds s s'"
  by (cases rule: run_command_cases [OF ok, of evidence c])
    (use assms in \<open>auto simp: save_sleeve_def\<close>)

lemma run_commands_path:
  assumes "sleeves_ok st" and "map_of (ss_sleeves st) k = Some s"
  shows "\<exists>s'. map_of (ss_sleeves (foldl (run_command evidence) st cs)) k = Some s'
    \<and> status_step\<^sup>*\<^sup>* (sv_status s) (sv_status s') \<and> same_funds s s'"
  using assms
proof (induction cs arbitrary: st s)
  case Nil
  then show ?case by simp
next
  case (Cons c cs)
  obtain t where t: "map_of (ss_sleeves (run_command evidence st c)) k = Some t"
    "status_step\<^sup>*\<^sup>* (sv_status s) (sv_status t)" "same_funds s t"
    using run_command_path [OF Cons.prems] by blast
  obtain u where u: "map_of (ss_sleeves (foldl (run_command evidence) (run_command evidence st c) cs)) k = Some u"
    "status_step\<^sup>*\<^sup>* (sv_status t) (sv_status u)" "same_funds t u"
    using Cons.IH [OF run_command_ok [OF Cons.prems(1)] t(1)] by blast
  have "status_step\<^sup>*\<^sup>* (sv_status s) (sv_status u)" "same_funds s u"
    using t u by (auto intro: rtranclp_trans same_funds_trans)
  with u(1) show ?case by auto
qed

section \<open>Who demotes a sleeve\<close>

definition status_in :: "sleeve_store \<Rightarrow> string \<Rightarrow> sleeve_status option" where
  "status_in st k = map_option sv_status (map_of (ss_sleeves st) k)"

lemma run_command_status:
  assumes ok: "sleeves_ok st" and changed: "status_in (run_command evidence st c) k \<noteq> status_in st k"
  obtains s st' s' where "fst c = k" "map_of (ss_sleeves st) k = Some s"
    "do_command evidence (snd c) s st = (st', Inr s')" "status_in (run_command evidence st c) k = Some (sv_status s')"
proof -
  obtain s where s: "map_of (ss_sleeves st) (fst c) = Some s"
    using changed by (cases "map_of (ss_sleeves st) (fst c)") (auto simp: run_command_def load_sleeve_def)
  then have id: "sv_id s = fst c"
    using ok by (simp add: sleeves_ok_def)
  have run: "run_command evidence st c = fst (do_command evidence (snd c) s st)"
    using s by (simp add: run_command_def load_sleeve_def)
  show ?thesis
  proof (cases rule: do_command_result [of evidence "snd c" s st])
    case (1 e)
    then show ?thesis using changed run by simp
  next
    case (2 s')
    have id': "sv_id s' = fst c"
      using 2(3) id by (simp add: same_funds_def)
    have upd: "status_in (run_command evidence st c) k = (if k = fst c then Some (sv_status s') else status_in st k)"
      using run 2(1) id' by (simp add: status_in_def save_sleeve_def)
    then have "fst c = k"
      using changed by (simp split: if_splits)
    then show ?thesis
      using s 2(1) upd by (intro that [of s "save_sleeve s' st" s']) simp_all
  qed
qed

lemma to_quarantine:
  "do_command evidence c s st = (st', Inr s') \<Longrightarrow> sv_status s' = QuarantinedHold \<Longrightarrow> \<exists>now reason. c = Quarantine now reason"
  by (cases c) (auto simp: lifecycle_defs Let_def split: if_splits)

lemma to_demoted:
  "do_command evidence c s st = (st', Inr s') \<Longrightarrow> sv_status s' = DemotedComplete \<Longrightarrow>
    sv_status s = QuarantinedHold \<and> (\<exists>now outcome. c = CompleteDemote now outcome \<and> outcome \<in> {Flattened, Transferred, ManuallyAccepted})"
  by (cases c) (auto simp: lifecycle_defs Let_def split: if_splits)

text \<open>The last step that brought a sleeve into a status it did not have.\<close>

lemma entered_status:
  assumes "sleeves_ok st" and "status_in st k \<noteq> Some x" and "status_in (foldl (run_command evidence) st cs) k = Some x"
  obtains before c after s st' s' where "cs = before @ (k, c) # after"
    "map_of (ss_sleeves (foldl (run_command evidence) st before)) k = Some s"
    "do_command evidence c s (foldl (run_command evidence) st before) = (st', Inr s')" "sv_status s' = x"
  using assms
proof (induction cs arbitrary: thesis rule: rev_induct)
  case Nil
  then show ?case by simp
next
  case (snoc c cs)
  let ?st = "foldl (run_command evidence) st cs"
  have ok: "sleeves_ok ?st"
    using lifecycle.run_inv [of st cs evidence] snoc.prems(2) by (simp add: list_all_iff)
  show ?case
  proof (cases "status_in ?st k = Some x")
    case True
    obtain before c' after s st' s' where "cs = before @ (k, c') # after"
      "map_of (ss_sleeves (foldl (run_command evidence) st before)) k = Some s"
      "do_command evidence c' s (foldl (run_command evidence) st before) = (st', Inr s')" "sv_status s' = x"
      using snoc.IH [OF _ snoc.prems(2,3) True] by blast
    then show ?thesis
      by (intro snoc.prems(1) [of before c' "after @ [c]"]) simp_all
  next
    case False
    then have "status_in (run_command evidence ?st c) k \<noteq> status_in ?st k"
      using snoc.prems(4) by simp
    then obtain s st' s' where "fst c = k" "map_of (ss_sleeves ?st) k = Some s"
      "do_command evidence (snd c) s ?st = (st', Inr s')" "status_in (run_command evidence ?st c) k = Some (sv_status s')"
      by (rule run_command_status [OF ok])
    then show ?thesis
      using snoc.prems(4) by (intro snoc.prems(1) [of cs "snd c" "[]" s st' s']) auto
  qed
qed

section \<open>Properties of the life cycle\<close>

lemma life_cycle_follows_contract_parts:
  assumes "sleeves_ok st" and "map_of (ss_sleeves st) k = Some s"
  shows "sleeves_ok (foldl (run_command evidence) st cs)"
    and "\<exists>s'. map_of (ss_sleeves (foldl (run_command evidence) st cs)) k = Some s'
      \<and> status_step\<^sup>*\<^sup>* (sv_status s) (sv_status s') \<and> same_funds s s'
      \<and> sv_status s' \<notin> {Flattened, Transferred, ManuallyAccepted}"
proof -
  show ok: "sleeves_ok (foldl (run_command evidence) st cs)"
    using lifecycle.run_inv [of st cs evidence] assms(1) by (simp add: list_all_iff)
  obtain s' where s': "map_of (ss_sleeves (foldl (run_command evidence) st cs)) k = Some s'"
    "status_step\<^sup>*\<^sup>* (sv_status s) (sv_status s')" "same_funds s s'"
    using run_commands_path [OF assms, of evidence cs] by (elim exE conjE)
  have "lifecycle_ok s'"
    using ok s'(1) by (simp add: sleeves_ok_def)
  then have "sv_status s' \<notin> {Flattened, Transferred, ManuallyAccepted}"
    using lifecycle_status by fastforce
  with s' show "\<exists>s'. map_of (ss_sleeves (foldl (run_command evidence) st cs)) k = Some s'
      \<and> status_step\<^sup>*\<^sup>* (sv_status s) (sv_status s') \<and> same_funds s s'
      \<and> sv_status s' \<notin> {Flattened, Transferred, ManuallyAccepted}"
    by (intro exI [of _ s'] conjI)
qed

text \<open>C8: The life cycle follows its contract: through any sequence of pauses, resumes, stops,
  quarantines and demotions (refused ones included) every sleeve stays stored under its id, moves
  only along the transitions of the status machine, keeps its cash, mode, account and config, and
  its times, stop reason and demotion outcome always agree with its status; so the outcomes
  flattened, transferred and manually accepted are never a status.\<close>

theorem life_cycle_follows_contract:
  assumes "sleeves_ok st" and "map_of (ss_sleeves st) k = Some s"
  shows "(sleeves_ok (foldl (run_command evidence) st cs))
    \<and> (\<exists>s'. map_of (ss_sleeves (foldl (run_command evidence) st cs)) k = Some s'
      \<and> status_step\<^sup>*\<^sup>* (sv_status s) (sv_status s') \<and> same_funds s s'
      \<and> sv_status s' \<notin> {Flattened, Transferred, ManuallyAccepted})"
  by (rule conjI, rule life_cycle_follows_contract_parts(1) [OF assms],
      rule life_cycle_follows_contract_parts(2) [OF assms])

text \<open>A demotion is never completed without a quarantine: when a sleeve that was neither
  quarantined nor demoted ends up demoted, the commands contain a quarantine of it and, later, the
  completion of its demotion with one of the three outcomes.\<close>

theorem demotion_needs_quarantine:
  assumes ok: "sleeves_ok st" and start: "status_in st k \<notin> {Some QuarantinedHold, Some DemotedComplete}"
    and final: "status_in (foldl (run_command evidence) st cs) k = Some DemotedComplete"
  shows "\<exists>xs ys zs now reason now' outcome.
    cs = xs @ (k, Quarantine now reason) # ys @ (k, CompleteDemote now' outcome) # zs
    \<and> outcome \<in> {Flattened, Transferred, ManuallyAccepted}"
proof -
  have "status_in st k \<noteq> Some DemotedComplete"
    using start by auto
  then obtain before c zs s st' s' where cs: "cs = before @ (k, c) # zs"
    and s: "map_of (ss_sleeves (foldl (run_command evidence) st before)) k = Some s"
    and c: "do_command evidence c s (foldl (run_command evidence) st before) = (st', Inr s')"
      "sv_status s' = DemotedComplete"
    by (rule entered_status [OF ok _ final])
  obtain now' outcome where q: "sv_status s = QuarantinedHold"
    and demote: "c = CompleteDemote now' outcome" "outcome \<in> {Flattened, Transferred, ManuallyAccepted}"
    using to_demoted [OF c] by blast
  have "status_in (foldl (run_command evidence) st before) k = Some QuarantinedHold"
    using s q by (simp add: status_in_def)
  moreover have "status_in st k \<noteq> Some QuarantinedHold"
    using start by auto
  ultimately obtain xs c' ys u st'' u' where before: "before = xs @ (k, c') # ys"
    and c': "do_command evidence c' u (foldl (run_command evidence) st xs) = (st'', Inr u')"
      "sv_status u' = QuarantinedHold"
    by (elim entered_status [OF ok])
  obtain now reason where "c' = Quarantine now reason"
    using to_quarantine [OF c'] by blast
  then have "cs = xs @ (k, Quarantine now reason) # ys @ (k, CompleteDemote now' outcome) # zs"
    using cs before demote(1) by simp
  with demote(2) show ?thesis by blast
qed

definition no_evidence :: "strategy_sleeve \<Rightarrow> bool" where
  "no_evidence s = False"

definition sleeve_on_file :: sleeve_store where
  "sleeve_on_file = save_sleeve example_sleeve empty_store"

definition demotion :: "(string \<times> sleeve_command) list" where
  "demotion = [(''s1'', Pause ''t1''), (''s1'', Quarantine ''t2'' ''drawdown''), (''s1'', Resume ''t3''),
     (''s1'', CompleteDemote ''t4'' Flattened)]"

lemma sleeve_on_file_ok: "sleeves_ok sleeve_on_file" "map_of (ss_sleeves sleeve_on_file) ''s1'' = Some example_sleeve"
  by (simp_all add: sleeves_ok_def sleeve_on_file_def save_sleeve_def empty_store_def example_sleeve_def lifecycle_ok_def)

theorem life_cycle_follows_contract_witness:
  "\<exists>s'. map_of (ss_sleeves (foldl (run_command no_evidence) sleeve_on_file demotion)) ''s1'' = Some s'
    \<and> status_step\<^sup>*\<^sup>* Running (sv_status s') \<and> same_funds example_sleeve s'
    \<and> sv_status s' \<notin> {Flattened, Transferred, ManuallyAccepted}"
  using life_cycle_follows_contract [OF sleeve_on_file_ok, THEN conjunct2] by (simp add: example_sleeve_def)

theorem demotion_needs_quarantine_witness:
  "\<exists>xs ys zs now reason now' outcome.
    demotion = xs @ (''s1'', Quarantine now reason) # ys @ (''s1'', CompleteDemote now' outcome) # zs
    \<and> outcome \<in> {Flattened, Transferred, ManuallyAccepted}"
proof (rule demotion_needs_quarantine [OF sleeve_on_file_ok(1)])
  show "status_in sleeve_on_file ''s1'' \<notin> {Some QuarantinedHold, Some DemotedComplete}"
    by code_simp
  show "status_in (foldl (run_command no_evidence) sleeve_on_file demotion) ''s1'' = Some DemotedComplete"
    by code_simp
qed

text \<open>A completed demotion is not final: \<open>quarantine_sleeve\<close> refuses a sleeve whose demotion is
  complete, but \<open>stop_sleeve\<close> has no guard, so stopping it first lets it be quarantined again, with
  the earlier outcome still on its record.\<close>

theorem completed_demotion_can_be_reopened:
  "map_option (\<lambda>s. (sv_status s, meta_get (sv_metadata s) ''demote_outcome''))
     (map_of (ss_sleeves (foldl (run_command no_evidence) sleeve_on_file
        (demotion @ [(''s1'', Quarantine ''t5'' ''again'')]))) ''s1'')
     = Some (DemotedComplete, VStr ''flattened'')
   \<and> map_option (\<lambda>s. (sv_status s, meta_get (sv_metadata s) ''demote_outcome''))
     (map_of (ss_sleeves (foldl (run_command no_evidence) sleeve_on_file
        (demotion @ [(''s1'', Stop ''t5'' None), (''s1'', Quarantine ''t6'' ''again'')]))) ''s1'')
     = Some (QuarantinedHold, VStr ''flattened'')"
  by code_simp

section \<open>Allocation and plans\<close>

lemma ensure_sleeve_wf: "wf_dict (pa_sleeve_cash a) \<Longrightarrow> wf_dict (pa_sleeve_cash (ensure_manual_sleeve_cash a))"
  by (simp add: ensure_manual_sleeve_cash_def)

lemma manual_available_le:
  "0 \<le> dict_get (pa_sleeve_cash a) ''manual'' (pa_cash a) \<Longrightarrow>
    manual_available_cash a None \<le> dict_get (pa_sleeve_cash a) ''manual'' (pa_cash a)"
  unfolding manual_available_cash_def Let_def
  by (auto intro!: sum_list_nonneg)

lemma record_event_books [simp]:
  "pa_sleeve_cash (record_event env kind source symbol sd quantity price price_kind note a) = pa_sleeve_cash a"
  "pa_cash (record_event env kind source symbol sd quantity price price_kind note a) = pa_cash a"
  "pa_positions (record_event env kind source symbol sd quantity price price_kind note a) = pa_positions a"
  by (simp_all add: record_event_def append_ledger_def Let_def)

lemma allocate_cash_books:
  assumes alloc: "allocate_cash env s a = (a', Inr u)" and wf: "wf_dict (pa_sleeve_cash a)"
    and id: "sv_id s \<noteq> ''manual''" and manual: "map_of (pa_sleeve_cash a) ''manual'' = Some m" "0 \<le> m"
  shows "pa_cash a' = pa_cash a" and "pa_positions a' = pa_positions a"
    and "dict_total (pa_sleeve_cash a') = dict_total (pa_sleeve_cash a)"
    and "dict_get (pa_sleeve_cash a') ''manual'' 0 = m - sv_cash s" and "- account_dust \<le> m - sv_cash s"
    and "dict_get (pa_sleeve_cash a') (sv_id s) 0 = dict_get (pa_sleeve_cash a) (sv_id s) 0 + sv_cash s"
    and "k \<noteq> ''manual'' \<Longrightarrow> k \<noteq> sv_id s \<Longrightarrow>
      dict_get (pa_sleeve_cash a') k 0 = dict_get (pa_sleeve_cash a) k 0"
proof -
  let ?book = "AList.update ''manual'' (m - sv_cash s) (pa_sleeve_cash a)"
  have m: "dict_get (pa_sleeve_cash a) ''manual'' x = m" for x
    using manual(1) by (simp add: dict_get_def)
  have fits: "sv_cash s \<le> manual_available_cash a None + account_dust"
    and cash: "pa_cash a' = pa_cash a" "pa_positions a' = pa_positions a"
    and book: "pa_sleeve_cash a' = AList.update (sv_id s) (dict_get ?book (sv_id s) 0 + sv_cash s) ?book"
    using alloc by (auto simp: allocate_cash_def Let_def m split: if_splits)
  show "pa_cash a' = pa_cash a" "pa_positions a' = pa_positions a"
    by (fact cash)+
  show "dict_total (pa_sleeve_cash a') = dict_total (pa_sleeve_cash a)"
    using wf id by (simp add: book dict_total_update m)
  show "dict_get (pa_sleeve_cash a') ''manual'' 0 = m - sv_cash s"
    "dict_get (pa_sleeve_cash a') (sv_id s) 0 = dict_get (pa_sleeve_cash a) (sv_id s) 0 + sv_cash s"
    using id by (auto simp: book)
  show "dict_get (pa_sleeve_cash a') k 0 = dict_get (pa_sleeve_cash a) k 0"
    if "k \<noteq> ''manual''" "k \<noteq> sv_id s"
    using that by (simp add: book)
  show "- account_dust \<le> m - sv_cash s"
    using fits manual_available_le [of a] m manual(2) by simp
qed

lemma create_execution_plan_Inr:
  assumes "create_execution_plan rt digest read_definition evidence execution_id now today a s signal window
      target_date metadata allow_frozen st = (st', Inr p)"
  obtains metadata' target where "plan_guard evidence a s signal window allow_frozen = None"
    and "policy_metadata rt digest a s (load_sleeve_lots (sv_id s) st) signal metadata = Inr metadata'"
    and "latest_execution_for_signal (sv_id s) (sg_id signal) st = None"
    and "new_plan rt execution_id now (pa_id a) s signal window target metadata' = Inr p"
    and "st' = append_execution p st"
  using assms unfolding create_execution_plan_def
  by (auto simp: rbind_Inr split: option.splits sum.splits if_splits)

lemma new_plan_fields:
  assumes "new_plan rt execution_id now account_id s signal window target metadata = Inr p"
  shows "xp_id p = execution_id" "xp_sleeve_id p = sv_id s" "xp_account_id p = account_id" "xp_signal_id p = sg_id signal"
    "xp_config_id p = sg_config_id signal" "xp_config_version p = sg_config_version signal" "xp_window p = window"
    "xp_status p = PlanPending" "xp_fills p = []" "valid_plan p"
  using assms by (auto simp: new_plan_def rbind_Inr valid_plan_def split: if_splits)

lemma latest_execution_None:
  "latest_execution_for_signal sleeve_id signal_id st = None \<longleftrightarrow>
    (\<forall>p \<in> set (load_executions sleeve_id st). xp_signal_id p \<noteq> signal_id)"
  by (auto simp: latest_execution_for_signal_def find_None_iff)

section \<open>Properties of allocation and plans\<close>

text \<open>The sleeve book after loading: the manual cash is what the sleeves leave.\<close>

lemma loaded_book:
  assumes "wf_dict (pa_sleeve_cash a)" and "allocated_cash (pa_sleeve_cash a) \<le> pa_cash a" and "0 \<le> pa_cash a"
  shows "dict_total (pa_sleeve_cash (ensure_manual_sleeve_cash a)) = pa_cash a"
    and "map_of (pa_sleeve_cash (ensure_manual_sleeve_cash a)) ''manual''
      = Some (pa_cash a - allocated_cash (pa_sleeve_cash a))"
    and "k \<noteq> ''manual'' \<Longrightarrow>
      dict_get (pa_sleeve_cash (ensure_manual_sleeve_cash a)) k 0 = dict_get (pa_sleeve_cash a) k 0"
proof -
  show "dict_total (pa_sleeve_cash (ensure_manual_sleeve_cash a)) = pa_cash a"
    using ensure_sleeve_total [OF assms(1,3)] assms(2) by simp
  show "map_of (pa_sleeve_cash (ensure_manual_sleeve_cash a)) ''manual''
      = Some (pa_cash a - allocated_cash (pa_sleeve_cash a))"
    using assms(2) by (auto simp: ensure_manual_sleeve_cash_def allocated_cash_def)
  show "dict_get (pa_sleeve_cash (ensure_manual_sleeve_cash a)) k 0 = dict_get (pa_sleeve_cash a) k 0"
    if "k \<noteq> ''manual''"
    using that by (auto simp: ensure_manual_sleeve_cash_def dict_get_def)
qed

lemma allocate_cash_Inl: "allocate_cash env s a = (a', Inl e) \<Longrightarrow> a' = a"
  by (auto simp: allocate_cash_def Let_def split: if_splits)

text \<open>How a creation ends: refused, without cash, or funded from the manual book.\<close>

lemma create_sleeve_ends:
  assumes "create_sleeve env config mode allocated metadata sleeve_id now a = (a', r)"
  shows "(\<exists>e. r = Inl e \<and> a' = ensure_manual_sleeve_cash a)
    \<or> (\<exists>s. r = Inr s \<and> a' = ensure_manual_sleeve_cash a \<and> mode \<noteq> Allocated \<and> sv_cash s = 0)
    \<or> (\<exists>s. r = Inr s \<and> allocate_cash env s (ensure_manual_sleeve_cash a) = (a', Inr ()) \<and> mode = Allocated
         \<and> sv_id s = sleeve_id \<and> sv_cash s = allocated)"
  using assms
  by (auto simp: create_sleeve_def new_sleeve_def Let_def dest: allocate_cash_Inl
      split: if_splits sum.splits prod.splits)

lemma created_sleeve_funded:
  assumes "create_sleeve env config Allocated allocated metadata sleeve_id now a = (a', Inr s)"
    and "sleeve_id \<noteq> ''manual''"
  shows "dict_get (pa_sleeve_cash a') sleeve_id 0 = dict_get (pa_sleeve_cash a) sleeve_id 0 + allocated"
proof -
  have "allocate_cash env s (ensure_manual_sleeve_cash a) = (a', Inr ())" "sv_id s = sleeve_id" "sv_cash s = allocated"
    using create_sleeve_ends [OF assms(1)] by auto
  then have "dict_get (pa_sleeve_cash a') sleeve_id 0
      = dict_get (pa_sleeve_cash (ensure_manual_sleeve_cash a)) sleeve_id 0 + allocated"
    using assms(2) by (auto simp: allocate_cash_def Let_def split: if_splits)
  then show ?thesis
    using assms(2) by (auto simp: ensure_manual_sleeve_cash_def dict_get_def)
qed

lemma created_sleeve_entries:
  assumes create: "create_sleeve env config mode allocated metadata sleeve_id now a = (a', Inr s)"
    and wf: "wf_dict (pa_sleeve_cash a)" and books: "allocated_cash (pa_sleeve_cash a) \<le> pa_cash a" "0 \<le> pa_cash a"
    and id: "sleeve_id \<noteq> ''manual''"
  shows "dict_get (pa_sleeve_cash a') k 0 =
      (if k = ''manual'' then pa_cash a - allocated_cash (pa_sleeve_cash a) - sv_cash s
       else if k = sleeve_id then dict_get (pa_sleeve_cash a) k 0 + sv_cash s
       else dict_get (pa_sleeve_cash a) k 0)"
    and "sv_cash s = (if mode = Allocated then allocated else 0)"
proof -
  let ?a = "ensure_manual_sleeve_cash a" and ?m = "pa_cash a - allocated_cash (pa_sleeve_cash a)"
  note book = loaded_book [OF wf books]
  have entries: "dict_get (pa_sleeve_cash ?a) k 0 =
      (if k = ''manual'' then ?m else dict_get (pa_sleeve_cash a) k 0)" for k
    using book(2) book(3) [of k] by (simp add: dict_get_def)
  have m: "0 \<le> ?m" using books(1) by simp
  consider (signal) "a' = ?a" "mode \<noteq> Allocated" "sv_cash s = 0"
    | (funded) "allocate_cash env s ?a = (a', Inr ())" "mode = Allocated" "sv_id s = sleeve_id" "sv_cash s = allocated"
    using create_sleeve_ends [OF create] by blast
  then have "dict_get (pa_sleeve_cash a') k 0 =
      (if k = ''manual'' then ?m - sv_cash s
       else if k = sleeve_id then dict_get (pa_sleeve_cash a) k 0 + sv_cash s
       else dict_get (pa_sleeve_cash a) k 0)
    \<and> sv_cash s = (if mode = Allocated then allocated else 0)"
  proof cases
    case funded
    note moved = allocate_cash_books [OF funded(1) ensure_sleeve_wf [OF wf] _ book(2) m]
    show ?thesis
      using moved(4,6) moved(7) [of k] id funded book(3) [of k] by auto
  qed (simp add: entries)
  then show "dict_get (pa_sleeve_cash a') k 0 =
      (if k = ''manual'' then ?m - sv_cash s
       else if k = sleeve_id then dict_get (pa_sleeve_cash a) k 0 + sv_cash s
       else dict_get (pa_sleeve_cash a) k 0)"
    and "sv_cash s = (if mode = Allocated then allocated else 0)"
    by blast+
qed

text \<open>C14: Creating a sleeve moves cash between sleeves and creates none. Where the sleeves hold no more than
  the account, the sleeve book sums to the account's cash before and after. The new sleeve's entry grows by
  exactly its cash (the amount allocated, or nothing for a signal-only sleeve), the manual entry shrinks by
  exactly that, every other sleeve keeps its cash, and the manual book goes no lower than \<open>10^-9\<close> below
  zero. Cash and positions do not move, and a refused creation leaves the account as it was loaded.\<close>

theorem allocation_conserves_cash:
  assumes create: "create_sleeve env config mode allocated metadata sleeve_id now a = (a', r)"
    and wf: "wf_dict (pa_sleeve_cash a)" and books: "allocated_cash (pa_sleeve_cash a) \<le> pa_cash a" "0 \<le> pa_cash a"
    and id: "sleeve_id \<noteq> ''manual''"
  shows "(pa_cash a' = pa_cash a)
    \<and> (pa_positions a' = pa_positions a)
    \<and> (dict_total (pa_sleeve_cash (ensure_manual_sleeve_cash a)) = pa_cash a)
    \<and> (dict_total (pa_sleeve_cash a') = pa_cash a)
    \<and> (- account_dust \<le> dict_get (pa_sleeve_cash a') ''manual'' 0)
    \<and> (\<forall>s. r = Inr s \<longrightarrow>
      sv_cash s = (if mode = Allocated then allocated else 0)
      \<and> (\<forall>k. dict_get (pa_sleeve_cash a') k 0 =
          (if k = ''manual'' then pa_cash a - allocated_cash (pa_sleeve_cash a) - sv_cash s
           else if k = sleeve_id then dict_get (pa_sleeve_cash a) k 0 + sv_cash s
           else dict_get (pa_sleeve_cash a) k 0)))
    \<and> (\<forall>e. r = Inl e \<longrightarrow> a' = ensure_manual_sleeve_cash a)"
proof -
  let ?a = "ensure_manual_sleeve_cash a" and ?m = "pa_cash a - allocated_cash (pa_sleeve_cash a)"
  note book = loaded_book [OF wf books]
  have manual: "dict_get (pa_sleeve_cash ?a) ''manual'' 0 = ?m" and m: "0 \<le> ?m" "- account_dust \<le> ?m"
    using book(2) books(1) account_dust_pos by (simp_all add: dict_get_def)
  consider (failed) e where "r = Inl e" "a' = ?a"
    | (signal) s where "r = Inr s" "a' = ?a" "mode \<noteq> Allocated" "sv_cash s = 0"
    | (funded) s where "r = Inr s" "allocate_cash env s ?a = (a', Inr ())" "mode = Allocated"
        "sv_id s = sleeve_id" "sv_cash s = allocated"
    using create_sleeve_ends [OF create] by blast
  then show ?thesis
  proof cases
    case failed
    then show ?thesis using m manual book(1) by simp
  next
    case signal
    with created_sleeve_entries [OF _ wf books id] create show ?thesis
      using m manual book(1) by simp
  next
    case funded
    with created_sleeve_entries [OF _ wf books id] create show ?thesis
      using allocate_cash_books(1-5) [OF funded(2) ensure_sleeve_wf [OF wf] _ book(2) m(1)] id book(1) by simp
  qed
qed

lemma plan_binding_decision:
  assumes "plan_binding rt signal target metadata = Inr (target', metadata')"
  shows "meta_get metadata' ''paper_execution_policy_decision'' = meta_get metadata ''paper_execution_policy_decision''"
  using assms
  by (auto simp: plan_binding_def Let_def dict_merge_def meta_get_def split: if_splits)

lemma new_plan_decision:
  assumes "new_plan rt execution_id now account_id s signal window target metadata = Inr p"
  shows "meta_get (xp_metadata p) ''paper_execution_policy_decision'' = meta_get metadata ''paper_execution_policy_decision''"
  using assms by (auto simp: new_plan_def rbind_Inr dest: plan_binding_decision split: if_splits)

lemma policy_metadata_decision:
  assumes "policy_metadata rt digest a s lots signal metadata = Inr metadata'"
    and "meta_true (sv_metadata s) ''automation_managed''"
  obtains reference where "reference_prices rt (sg_proposed_orders signal) [] = Inr reference"
    and "ed_allowed (evaluate_batch rt digest default_execution_limits
          (plan_batch rt a s lots signal (policy_context metadata) reference))"
    and "meta_get metadata' ''paper_execution_policy_decision'' = VDict (decision_to_dict
          (evaluate_batch rt digest default_execution_limits
             (plan_batch rt a s lots signal (policy_context metadata) reference)))"
  using assms by (auto simp: policy_metadata_def rbind_Inr Let_def meta_get_def split: if_splits)

text \<open>C13: A plan is made only for a running allocated sleeve of the account that no replacement holds, from a
  generated signal of that sleeve and config that carries no blocked reason, on an account that trades (or
  for a caller that allows frozen ones); it is pending, without fills, bound to all of them, and the only
  plan of its signal. For an automated sleeve the policy allows exactly the batch of the signal's orders at
  their own reference prices, and the plan's metadata carries that decision. Where no plan is made nothing
  is written.\<close>

theorem plan_is_admitted:
  assumes run: "create_execution_plan rt digest read_definition evidence execution_id now today a s signal window
      target_date metadata allow_frozen st = (st', r)"
  shows "(\<forall>e. r = Inl e \<longrightarrow> st' = st) \<and> (\<forall>p. r = Inr p \<longrightarrow>
    \<not> replacement_pending evidence s \<and> sv_mode s = Allocated \<and> sv_status s = Running \<and> sv_account_id s = pa_id a
    \<and> sg_sleeve_id signal = sv_id s \<and> sg_config_id signal = sv_config_id s
    \<and> sg_config_version signal = sv_config_version s \<and> sg_status signal = Generated
    \<and> sg_blocked_reason signal \<in> {None, Some []}
    \<and> (pa_kill_switch a \<longrightarrow> allow_frozen) \<and> window = ''next_open''
    \<and> xp_status p = PlanPending \<and> xp_fills p = [] \<and> xp_sleeve_id p = sv_id s \<and> xp_account_id p = pa_id a
    \<and> xp_signal_id p = sg_id signal \<and> valid_plan p
    \<and> load_executions (sv_id s) st' = load_executions (sv_id s) st @ [p]
    \<and> (\<forall>p' \<in> set (load_executions (sv_id s) st). xp_signal_id p' \<noteq> sg_id signal)
    \<and> (meta_true (sv_metadata s) ''automation_managed'' \<longrightarrow>
        (\<exists>reference decision. reference_prices rt (sg_proposed_orders signal) [] = Inr reference
           \<and> decision = evaluate_batch rt digest default_execution_limits
               (plan_batch rt a s (load_sleeve_lots (sv_id s) st) signal (policy_context metadata) reference)
           \<and> ed_allowed decision
           \<and> meta_get (xp_metadata p) ''paper_execution_policy_decision'' = VDict (decision_to_dict decision))))"
proof (cases r)
  case (Inl e)
  then show ?thesis
    using run by (auto simp: create_execution_plan_def split: option.splits sum.splits)
next
  case (Inr p)
  obtain metadata' target where guard: "plan_guard evidence a s signal window allow_frozen = None"
    and policy: "policy_metadata rt digest a s (load_sleeve_lots (sv_id s) st) signal metadata = Inr metadata'"
    and fresh: "latest_execution_for_signal (sv_id s) (sg_id signal) st = None"
    and plan: "new_plan rt execution_id now (pa_id a) s signal window target metadata' = Inr p"
    and st': "st' = append_execution p st"
    using run unfolding Inr by (rule create_execution_plan_Inr)
  note fields = new_plan_fields [OF plan]
  have "sv_mode s = Allocated"
    using guard by (cases "sv_mode s") (simp_all add: plan_guard_def split: if_splits)
  moreover have "load_executions (sv_id s) st' = load_executions (sv_id s) st @ [p]"
    using fields(2) plans.load_append [of "sv_id s" st p] by (simp add: st' append_execution_def)
  moreover have "\<exists>reference decision. reference_prices rt (sg_proposed_orders signal) [] = Inr reference
       \<and> decision = evaluate_batch rt digest default_execution_limits
           (plan_batch rt a s (load_sleeve_lots (sv_id s) st) signal (policy_context metadata) reference)
       \<and> ed_allowed decision
       \<and> meta_get (xp_metadata p) ''paper_execution_policy_decision'' = VDict (decision_to_dict decision)"
    if "meta_true (sv_metadata s) ''automation_managed''"
    using policy_metadata_decision [OF policy that] new_plan_decision [OF plan] by metis
  ultimately show ?thesis
    using guard fields fresh Inr
    by (simp add: plan_guard_def latest_execution_None split: if_splits)
qed

theorem allocation_conserves_cash_witness:
  "\<exists>a'. \<exists>s. create_sleeve example_env example_config Allocated 30 [] ''s9'' ''t1'' (example_account\<lparr>pa_cash := 150\<rparr>) = (a', Inr s)
    \<and> dict_total (pa_sleeve_cash a') = 150 \<and> sv_cash s = 30"
proof -
  let ?a = "example_account\<lparr>pa_cash := 150\<rparr>"
  have "case snd (create_sleeve example_env example_config Allocated 30 [] ''s9'' ''t1'' ?a) of Inl e \<Rightarrow> False | Inr s \<Rightarrow> True"
    by code_simp
  then obtain a' s where run: "create_sleeve example_env example_config Allocated 30 [] ''s9'' ''t1'' ?a = (a', Inr s)"
    by (cases "create_sleeve example_env example_config Allocated 30 [] ''s9'' ''t1'' ?a") (auto split: sum.splits)
  have wf: "wf_dict (pa_sleeve_cash ?a)" and books: "allocated_cash (pa_sleeve_cash ?a) \<le> pa_cash ?a" "0 \<le> pa_cash ?a"
    by code_simp+
  have "dict_total (pa_sleeve_cash a') = pa_cash ?a"
    using allocation_conserves_cash [OF run wf books] by simp
  moreover have "sv_cash s = 30"
    using allocation_conserves_cash [OF run wf books] by simp
  ultimately show ?thesis
    using run by simp
qed

definition example_signal :: strategy_signal where
  "example_signal = new_signal example_sleeve ''g1'' ''2026-01-02'' ''futu'' None []
     [[(''symbol'', VStr ''aaa''), (''side'', VStr ''buy''), (''notional_delta'', VFloat (Fin 30)),
       (''reference_price'', VFloat (Fin 10))]] [] Generated None [] ''t1''"

definition managed_sleeve :: strategy_sleeve where
  "managed_sleeve = example_sleeve\<lparr>sv_account_id := pa_id example_account,
     sv_metadata := [(''automation_managed'', VBool True)]\<rparr>"

theorem plan_is_admitted_witness:
  "\<exists>st' p. create_execution_plan no_runtime (\<lambda>_. ''d'') (\<lambda>_. Inl ValidationError) no_evidence ''x1'' ''t2'' ''2026-01-05''
      (example_account\<lparr>pa_cash := 10000\<rparr>) managed_sleeve example_signal ''next_open'' None [] False empty_store = (st', Inr p)
    \<and> xp_status p = PlanPending \<and> load_executions ''s1'' st' = [p]"
proof -
  let ?run = "create_execution_plan no_runtime (\<lambda>_. ''d'') (\<lambda>_. Inl ValidationError) no_evidence ''x1'' ''t2'' ''2026-01-05''
      (example_account\<lparr>pa_cash := 10000\<rparr>) managed_sleeve example_signal ''next_open'' None [] False empty_store"
  have "case snd ?run of Inl e \<Rightarrow> False | Inr p \<Rightarrow> True"
    by code_simp
  then obtain st' p where run: "?run = (st', Inr p)"
    by (cases ?run) (auto split: sum.splits)
  have "sv_id managed_sleeve = ''s1''" "load_executions ''s1'' empty_store = []"
    by (simp_all add: managed_sleeve_def example_sleeve_def load_executions_def empty_store_def)
  with plan_is_admitted [OF run] run show ?thesis
    by simp
qed

end
