(* ===== verification/Execution.thy ===== *)
theory Execution
  imports SleeveService
begin

text \<open>
  Preparing a strategy execution plan
  (\<open>src/quant_system/execution/paper_strategy_execution_service.py\<close>): the structural guards, the
  price evidence of both paths (quotes for the orders of the signal, session-open prices for a
  frozen definition), the execution steps, the digest that binds them and the bounded retries. The
  price feeds, the exchange calendar, the digest and the texts of foreign exceptions are the
  arguments in \<open>world\<close>. The lemmas show what a step is, that the retries end, and that a prepared
  execution has usable evidence for every symbol it needs.
\<close>

section \<open>The world of an execution\<close>

record priced_quote =
  pq_symbol :: string
  pq_price :: pyfloat
  pq_price_kind :: string
  pq_as_of :: string
  pq_source :: string

text \<open>
  The costs and retry bounds of the service, and what it calls: the validated definition, the two
  price sources (at the n-th attempt), the session after a date, whether a time is the open of a
  session, the timestamp a string denotes, and the uuids of the n-th fill and lot.
\<close>

record world =
  xw_commission_bps :: rat
  xw_slippage_bps :: rat
  xw_max_retries :: nat
  xw_backoff_seconds :: rat
  xw_runtime :: runtime
  xw_digest :: "pyval \<Rightarrow> string"
  xw_definition :: "pyval \<Rightarrow> strategy_definition result"
  xw_prices :: "nat \<Rightarrow> string list \<Rightarrow> (string, priced_quote) dict result"
  xw_open_prices :: "nat \<Rightarrow> string list \<Rightarrow> string option \<Rightarrow> (string, priced_quote) dict result"
  xw_next_session :: "pyval \<Rightarrow> string result"
  xw_is_open :: "string option \<Rightarrow> string \<Rightarrow> bool result"
  xw_timestamp :: "string \<Rightarrow> string result"
  xw_error_text :: "py_error \<Rightarrow> string"
  xw_fill_id :: "nat \<Rightarrow> string"
  xw_lot_id :: "nat \<Rightarrow> string"

definition exec_epsilon :: rat where
  "exec_epsilon = 1 / 10 ^ 9"

definition retry_codes :: "string list" where
  "retry_codes = [''price_unavailable'', ''strategy_definition_open_data_unavailable'']"

text \<open>\<open>except\<close> clauses: the subclasses of \<open>ValueError\<close> and of \<open>OSError\<close> among the exceptions.\<close>

fun is_value_error :: "py_error \<Rightarrow> bool" where
  "is_value_error (ValueError s) = True"
| "is_value_error ValidationError = True"
| "is_value_error (CashAllocationError s) = True"
| "is_value_error (InsufficientSleeveLotQuantity s) = True"
| "is_value_error (StrategyExecutionPlanError s) = True"
| "is_value_error (PaperStrategyExecutionError s) = True"
| "is_value_error _ = False"

fun is_os_error :: "py_error \<Rightarrow> bool" where
  "is_os_error (OSError s) = True"
| "is_os_error (FileNotFoundError s) = True"
| "is_os_error (FileExistsError s) = True"
| "is_os_error _ = False"

fun is_lookup_or_type :: "py_error \<Rightarrow> bool" where
  "is_lookup_or_type (KeyError s) = True"
| "is_lookup_or_type (TypeError s) = True"
| "is_lookup_or_type _ = False"

definition is_file_not_found :: "py_error \<Rightarrow> bool" where
  "is_file_not_found e \<longleftrightarrow> (case e of FileNotFoundError s \<Rightarrow> True | _ \<Rightarrow> False)"

definition is_price_unavailable :: "py_error \<Rightarrow> bool" where
  "is_price_unavailable e \<longleftrightarrow> (case e of PriceUnavailableError s \<Rightarrow> True | _ \<Rightarrow> False)"

abbreviation exec_error :: "string \<Rightarrow> py_error + 'a" where
  "exec_error code \<equiv> Inl (PaperStrategyExecutionError code)"

text \<open>\<open>except (OSError, ValueError, TypeError, KeyError) as exc: raise \<dots>(str(exc))\<close>.\<close>

definition reraise :: "world \<Rightarrow> 'a result \<Rightarrow> 'a result" where
  "reraise w r =
     (case r of
        Inr x \<Rightarrow> Inr x
      | Inl e \<Rightarrow> if is_os_error e \<or> is_value_error e \<or> is_lookup_or_type e
                 then exec_error (xw_error_text w e) else Inl e)"

section \<open>Steps\<close>

record execution_step =
  es_order :: execution_order
  es_side :: side
  es_symbol :: string
  es_quantity :: rat
  es_price :: rat
  es_gross :: rat
  es_quote :: priced_quote
  es_fill_price :: rat
  es_commission :: rat

fun pf_abs :: "pyfloat \<Rightarrow> pyfloat" where
  "pf_abs (Fin x) = Fin \<bar>x\<bar>"
| "pf_abs NaN = NaN"
| "pf_abs _ = PosInf"

fun pf_div :: "pyfloat \<Rightarrow> pyfloat \<Rightarrow> pyfloat result" where
  "pf_div x (Fin p) = (if p = 0 then Inl ZeroDivisionError else Inr (pf_scale (1 / p) x))"
| "pf_div (Fin x) NaN = Inr NaN"
| "pf_div (Fin x) y = Inr (Fin 0)"
| "pf_div x y = Inr NaN"

definition execution_quantity :: "execution_order \<Rightarrow> side \<Rightarrow> pyfloat \<Rightarrow> pyfloat result" where
  "execution_quantity x sd price =
     (case (sd, xo_estimated_quantity x, xo_notional_delta x) of
        (Sell, Some q, _) \<Rightarrow> Inr (pf_abs q)
      | (_, _, Some d) \<Rightarrow> pf_div (pf_abs d) price
      | (_, Some q, None) \<Rightarrow> Inr (pf_abs q)
      | (_, None, None) \<Rightarrow> Inr (Fin 0))"

definition step_fill_price :: "world \<Rightarrow> side \<Rightarrow> rat \<Rightarrow> rat" where
  "step_fill_price w sd price =
     (let slip = xw_slippage_bps w / 10000
      in price * (case sd of Buy \<Rightarrow> 1 + slip | Sell \<Rightarrow> 1 - slip))"

definition step_commission :: "world \<Rightarrow> side \<Rightarrow> rat \<Rightarrow> rat \<Rightarrow> rat" where
  "step_commission w sd quantity price = quantity * step_fill_price w sd price * xw_commission_bps w / 10000"

text \<open>One order: nothing when its quantity is dust.\<close>

definition build_step ::
    "world \<Rightarrow> (string, priced_quote) dict \<Rightarrow> execution_order \<Rightarrow> execution_step option result" where
  "build_step w quotes x =
     (let symbol = upper (xo_symbol x)
      in case parse_side (xo_side x) of
           None \<Rightarrow> exec_error ''invalid_order_side''
         | Some sd \<Rightarrow>
             (case map_of quotes symbol of
                None \<Rightarrow> Inl (KeyError symbol)
              | Some qt \<Rightarrow> rbind (execution_quantity x sd (pq_price qt)) (\<lambda>quantity.
                  if \<not> isfinite quantity then exec_error ''invalid_order_quantity''
                  else if fin quantity \<le> exec_epsilon then Inr None
                  else if \<not> isfinite (pq_price qt) then exec_error ''invalid_order_value''
                  else let q = fin quantity; price = fin (pq_price qt)
                       in Inr (Some \<lparr>es_order = x, es_side = sd, es_symbol = symbol, es_quantity = q,
                            es_price = price, es_gross = q * price, es_quote = qt,
                            es_fill_price = step_fill_price w sd price,
                            es_commission = step_commission w sd q price\<rparr>))))"

definition build_steps ::
    "world \<Rightarrow> execution_plan \<Rightarrow> (string, priced_quote) dict \<Rightarrow> execution_step list result" where
  "build_steps w plan quotes =
     rbind (map_result (build_step w quotes) (xp_orders plan)) (\<lambda>steps.
       let steps = concat (map (\<lambda>s. case s of None \<Rightarrow> [] | Some x \<Rightarrow> [x]) steps)
       in if steps = [] then exec_error ''no_executable_orders'' else Inr steps)"

section \<open>Guards\<close>

definition no_work :: "execution_plan \<Rightarrow> bool" where
  "no_work plan \<longleftrightarrow> xp_orders plan = [] \<and>
     \<not> (meta_true (xp_metadata plan) ''rebalance_required''
        \<and> truthy (meta_get (xp_metadata plan) ''definition_digest''))"

definition validate_structural_context :: "strategy_sleeve \<Rightarrow> execution_plan \<Rightarrow> unit result" where
  "validate_structural_context s plan =
     (if xp_status plan \<noteq> PlanPending then exec_error ''execution_not_pending''
      else if xp_window plan \<noteq> ''next_open'' then exec_error ''unsupported_execution_window''
      else if sv_mode s \<noteq> Allocated then exec_error ''signal_only_no_execution''
      else if sv_status s = Paused then exec_error ''sleeve_paused''
      else if sv_status s = Stopped then exec_error ''sleeve_stopped''
      else if xp_sleeve_id plan \<noteq> sv_id s then exec_error ''execution_sleeve_mismatch''
      else if no_work plan then exec_error ''no_executable_orders''
      else Inr ())"

definition validate_execution_context ::
    "paper_account \<Rightarrow> strategy_sleeve \<Rightarrow> execution_plan \<Rightarrow> bool \<Rightarrow> unit result" where
  "validate_execution_context a s plan allow_frozen =
     (if xp_status plan \<noteq> PlanPending then exec_error ''execution_not_pending''
      else if xp_window plan \<noteq> ''next_open'' then exec_error ''unsupported_execution_window''
      else if sv_mode s \<noteq> Allocated then exec_error ''signal_only_no_execution''
      else if sv_status s = Paused then exec_error ''sleeve_paused''
      else if sv_status s = Stopped then exec_error ''sleeve_stopped''
      else if pa_kill_switch a \<and> \<not> allow_frozen then exec_error ''account_frozen''
      else if sv_account_id s \<noteq> pa_id a \<or> xp_account_id plan \<noteq> pa_id a
      then exec_error ''account_sleeve_mismatch''
      else if xp_sleeve_id plan \<noteq> sv_id s then exec_error ''execution_sleeve_mismatch''
      else if no_work plan then exec_error ''no_executable_orders''
      else Inr ())"

section \<open>Price evidence\<close>

text \<open>The quotes of the orders: every symbol present, every quote finite and positive.\<close>

definition usable_quote :: "priced_quote \<Rightarrow> bool" where
  "usable_quote qt \<longleftrightarrow> isfinite (pq_price qt) \<and> \<not> le_zero (pq_price qt)"

definition load_quotes :: "world \<Rightarrow> nat \<Rightarrow> execution_plan \<Rightarrow> (string, priced_quote) dict result" where
  "load_quotes w attempt plan =
     (let symbols = sorted_keys (map (\<lambda>x. upper (xo_symbol x)) (xp_orders plan))
      in case xw_prices w attempt symbols of
           Inl e \<Rightarrow> if is_price_unavailable e then exec_error ''price_unavailable'' else Inl e
         | Inr quotes \<Rightarrow>
             if (\<exists>s \<in> set symbols. map_of quotes s = None) \<or> (\<exists>(s, qt) \<in> set quotes. \<not> usable_quote qt)
             then exec_error ''price_unavailable''
             else Inr (map (\<lambda>(s, qt). (s, qt\<lparr>pq_symbol := upper s\<rparr>)) quotes))"

text \<open>The config of a definition-bound plan; none for the path of the signal's orders.\<close>

definition definition_config ::
    "world \<Rightarrow> sleeve_store \<Rightarrow> strategy_sleeve \<Rightarrow> execution_plan \<Rightarrow> strategy_config option result" where
  "definition_config w st s plan =
     (let bound = truthy (meta_get (sv_metadata s) ''definition_digest'');
          mismatch = exec_error ''strategy_definition_execution_binding_mismatch''
      in case load_strategy_config (paper_definition (xw_definition w)) (xp_config_id plan) (Some (xp_config_version plan)) st of
           Inr c \<Rightarrow>
             if sc_definition c = None \<and> \<not> bound then Inr None
             else if sc_definition c = None \<or> xp_config_id plan \<noteq> sv_config_id s
                     \<or> xp_config_version plan \<noteq> sv_config_version s
             then mismatch
             else Inr (Some c)
         | Inl e \<Rightarrow>
             if is_file_not_found e \<and> \<not> bound then Inr None
             else if is_os_error e \<or> is_value_error e then mismatch else Inl e)"

record definition_signal =
  ds_definition :: strategy_definition
  ds_targets :: "(string, rat) dict"
  ds_metadata :: metadata

text \<open>The one signal of the plan, and that it, the sleeve and the plan carry the same definition.\<close>

definition signal_unbound ::
    "strategy_sleeve \<Rightarrow> execution_plan \<Rightarrow> strategy_config \<Rightarrow> strategy_definition \<Rightarrow> strategy_signal \<Rightarrow> bool" where
  "signal_unbound s plan c df signal \<longleftrightarrow>
     (let sm = sg_metadata signal; digest = VStr (sd_content_digest df)
      in meta_get (sv_metadata s) ''definition_digest'' \<noteq> digest
         \<or> meta_get sm ''definition_digest'' \<noteq> digest
         \<or> meta_get (xp_metadata plan) ''definition_digest'' \<noteq> digest
         \<or> sg_config_id signal \<noteq> sc_id c \<or> sg_config_version signal \<noteq> sc_version c
         \<or> sg_status signal \<noteq> Generated \<or> sg_blocked_reason signal \<noteq> None
         \<or> \<not> py_eq (meta_get sm ''signal_date'') (opt_value VStr (sg_data_as_of signal))
         \<or> \<not> meta_true sm ''ready'' \<or> \<not> meta_true sm ''rebalance_due''
         \<or> \<not> py_eq (meta_get sm ''targets'') (rat_values (sg_target_weights signal))
         \<or> \<not> py_eq (meta_get sm ''trade_date'') (opt_value VStr (xp_target_date plan)))"

definition definition_binding ::
    "world \<Rightarrow> sleeve_store \<Rightarrow> strategy_sleeve \<Rightarrow> execution_plan \<Rightarrow> strategy_config \<Rightarrow> definition_signal result" where
  "definition_binding w st s plan c =
     reraise w (rbind (paper_definition (xw_definition w) (opt_value id (sc_definition c))) (\<lambda>df.
       if xw_commission_bps w \<noteq> sd_commission_bps df \<or> xw_slippage_bps w \<noteq> sd_slippage_bps df
       then Inl (ValueError ''strategy_definition_execution_cost_mismatch'')
       else case filter (\<lambda>g. sg_id g = xp_signal_id plan) (load_signals (sv_id s) st) of
         [signal] \<Rightarrow>
           if signal_unbound s plan c df signal
           then Inl (ValueError ''strategy_definition_signal_binding_mismatch'')
           else (case map_of (sg_metadata signal) ''signal_date'' of
               None \<Rightarrow> Inl (KeyError ''signal_date'')
             | Some signal_date \<Rightarrow> rbind (xw_next_session w signal_date) (\<lambda>session.
                 if Some session \<noteq> xp_target_date plan
                 then Inl (ValueError ''strategy_definition_execution_session_mismatch'')
                 else if \<not> fst ` set (sg_target_weights signal) \<subseteq> set (sd_symbols df)
                 then Inl (ValueError ''strategy_definition_target_universe_mismatch'')
                 else Inr \<lparr>ds_definition = df, ds_targets = sg_target_weights signal,
                           ds_metadata = sg_metadata signal\<rparr>))
       | _ \<Rightarrow> Inl (ValueError ''strategy_definition_signal_binding_mismatch'')))"

definition lot_holdings :: "sleeve_lot list \<Rightarrow> (string, rat) dict" where
  "lot_holdings ls =
     foldl (\<lambda>h l. AList.update (upper (lt_symbol l)) (dict_get h (upper (lt_symbol l)) 0 + lt_quantity l) h) [] ls"

text \<open>The open quote of one symbol; a refused one is missing evidence.\<close>

definition open_evidence ::
    "world \<Rightarrow> execution_plan \<Rightarrow> (string, priced_quote) dict \<Rightarrow> string \<Rightarrow> (string \<times> rat) result" where
  "open_evidence w plan quotes symbol =
     (let invalid = Inl (PriceUnavailableError ''strategy_definition_open_evidence_invalid'')
      in case map_of quotes symbol of
           None \<Rightarrow> invalid
         | Some qt \<Rightarrow>
             if pq_source qt \<noteq> ''futu'' \<or> pq_price_kind qt \<noteq> ''futu_daily_open'' \<or> pq_symbol qt \<noteq> symbol
             then invalid
             else rbind (xw_is_open w (xp_target_date plan) (pq_as_of qt)) (\<lambda>at_open.
               if \<not> at_open \<or> \<not> usable_quote qt then invalid else Inr (symbol, fin (pq_price qt))))"

definition definition_quotes ::
    "world \<Rightarrow> nat \<Rightarrow> (string, rat) dict \<Rightarrow> (string, rat) dict \<Rightarrow> execution_plan
      \<Rightarrow> ((string, priced_quote) dict \<times> (string, rat) dict) result" where
  "definition_quotes w attempt holdings targets plan =
     (let symbols = sorted_keys (map fst holdings @ map fst targets)
      in case rbind (xw_open_prices w attempt symbols (xp_target_date plan)) (\<lambda>quotes.
               rbind (map_result (open_evidence w plan quotes) symbols) (\<lambda>prices. Inr (quotes, prices))) of
           Inr r \<Rightarrow> Inr r
         | Inl e \<Rightarrow> if is_price_unavailable e then exec_error ''strategy_definition_open_data_unavailable''
                    else reraise w (Inl e))"

section \<open>Preparation\<close>

record prepared_execution =
  pe_account_id :: string
  pe_sleeve_id :: string
  pe_execution_id :: string
  pe_target_date :: "string option"
  pe_window :: string
  pe_signal_id :: string
  pe_config_id :: string
  pe_config_version :: int
  pe_is_definition :: bool
  pe_quotes :: "(string, priced_quote) dict"
  pe_prices :: "(string, rat) dict"
  pe_snapshot_steps :: "execution_step list option"
  pe_prepared_at :: string
  pe_digest :: string

text \<open>The digested document: the binding and the price evidence, sorted by symbol.\<close>

definition prepared_document :: "prepared_execution \<Rightarrow> pyval" where
  "prepared_document pe = VDict
     [(''account_id'', VStr (pe_account_id pe)), (''sleeve_id'', VStr (pe_sleeve_id pe)),
      (''execution_id'', VStr (pe_execution_id pe)), (''target_date'', opt_value VStr (pe_target_date pe)),
      (''execution_window'', VStr (pe_window pe)), (''signal_id'', VStr (pe_signal_id pe)),
      (''strategy_config_id'', VStr (pe_config_id pe)),
      (''strategy_config_version'', VInt (pe_config_version pe)),
      (''is_definition'', VBool (pe_is_definition pe)),
      (''quotes'', VList (map (\<lambda>(s, qt). VList [VStr s, VFloat (pq_price qt), VStr (pq_price_kind qt),
         VStr (pq_as_of qt), VStr (pq_source qt)]) (sort_key fst (pe_quotes pe)))),
      (''prices'', VList (map (\<lambda>(s, x). VList [VStr s, num x]) (sort_key fst (pe_prices pe))))]"

definition prepared_digest :: "world \<Rightarrow> prepared_execution \<Rightarrow> string" where
  "prepared_digest w pe = xw_digest w (prepared_document pe)"

definition bind_plan ::
    "world \<Rightarrow> string \<Rightarrow> execution_plan \<Rightarrow> bool \<Rightarrow> (string, priced_quote) dict \<Rightarrow> (string, rat) dict
      \<Rightarrow> execution_step list option \<Rightarrow> prepared_execution" where
  "bind_plan w now plan is_definition quotes prices steps =
     (let pe = \<lparr>pe_account_id = xp_account_id plan, pe_sleeve_id = xp_sleeve_id plan,
            pe_execution_id = xp_id plan, pe_target_date = xp_target_date plan, pe_window = xp_window plan,
            pe_signal_id = xp_signal_id plan, pe_config_id = xp_config_id plan,
            pe_config_version = xp_config_version plan, pe_is_definition = is_definition,
            pe_quotes = sort_key fst quotes, pe_prices = sort_key fst prices, pe_snapshot_steps = steps,
            pe_prepared_at = now, pe_digest = []\<rparr>
      in pe\<lparr>pe_digest := prepared_digest w pe\<rparr>)"

definition prepare_execution ::
    "world \<Rightarrow> nat \<Rightarrow> string \<Rightarrow> sleeve_store \<Rightarrow> strategy_sleeve \<Rightarrow> execution_plan \<Rightarrow> prepared_execution result" where
  "prepare_execution w attempt now st s plan =
     rbind (validate_structural_context s plan) (\<lambda>_.
     rbind (definition_config w st s plan) (\<lambda>config.
       case config of
         Some c \<Rightarrow>
           rbind (definition_binding w st s plan c) (\<lambda>ds.
             let holdings = lot_holdings (load_sleeve_lots (sv_id s) st)
             in if \<not> fst ` set holdings \<subseteq> set (sd_symbols (ds_definition ds))
                then exec_error ''strategy_definition_position_outside_universe''
                else rbind (definition_quotes w attempt holdings (ds_targets ds) plan) (\<lambda>(quotes, prices).
                  Inr (bind_plan w now plan True quotes prices None)))
       | None \<Rightarrow>
           rbind (load_quotes w attempt plan) (\<lambda>quotes.
           rbind (build_steps w plan quotes) (\<lambda>steps.
             Inr (bind_plan w now plan False quotes (map (\<lambda>(s, qt). (s, fin (pq_price qt))) quotes)
               (Some steps))))))"

section \<open>Retries\<close>

text \<open>The record of one failed attempt, in the plan's metadata.\<close>

definition record_price_retry :: "world \<Rightarrow> string \<Rightarrow> nat \<Rightarrow> string \<Rightarrow> execution_plan \<Rightarrow> execution_plan result" where
  "record_price_retry w now attempt code plan =
     (case dict_get (xp_metadata plan) ''price_unavailable_retry''
             (VDict [(''attempts'', VList []), (''max_retries'', VInt (int (xw_max_retries w))),
                     (''backoff_seconds'', num (xw_backoff_seconds w))]) of
        VDict r \<Rightarrow>
          let entry = VDict [(''attempt'', VInt (int attempt)), (''code'', VStr code), (''at'', VStr now)];
              previous = meta_get r ''attempts'';
              update = (\<lambda>vs. Inr (plan\<lparr>xp_metadata := AList.update ''price_unavailable_retry''
                (VDict (AList.update ''attempts'' (VList (vs @ [entry])) r)) (xp_metadata plan)\<rparr>))
          in (case previous of
                VList vs \<Rightarrow> update vs
              | VDict d \<Rightarrow> update (map (\<lambda>(k, v). VStr k) d)
              | VStr s \<Rightarrow> update (map (\<lambda>c. VStr [c]) s)
              | v \<Rightarrow> if truthy v then Inl (TypeError ''Value after * must be an iterable'') else update [])
      | v \<Rightarrow> Inl (AttributeError ''get''))"

text \<open>The retried codes, and the loop; \<open>retries\<close> counts the attempts that have failed so far.\<close>

definition retryable :: "py_error \<Rightarrow> string option" where
  "retryable e = (case e of
      PaperStrategyExecutionError code \<Rightarrow> if code \<in> set retry_codes then Some code else None
    | _ \<Rightarrow> None)"

function retry_loop ::
    "world \<Rightarrow> (nat \<Rightarrow> string) \<Rightarrow> sleeve_store \<Rightarrow> strategy_sleeve \<Rightarrow> nat \<Rightarrow> execution_plan
      \<Rightarrow> execution_plan \<times> prepared_execution result" where
  "retry_loop w clock st s retries plan =
     (case prepare_execution w retries (clock retries) st s plan of
        Inr pe \<Rightarrow> (plan, Inr pe)
      | Inl e \<Rightarrow>
          (case retryable e of
             None \<Rightarrow> (plan, Inl e)
           | Some code \<Rightarrow>
               if retries < xw_max_retries w
               then (case record_price_retry w (clock retries) (Suc retries) code plan of
                       Inl e' \<Rightarrow> (plan, Inl e')
                     | Inr plan \<Rightarrow> retry_loop w clock st s (Suc retries) plan)
               else (plan, Inl e)))"
  by pat_completeness auto

termination
  by (relation "measure (\<lambda>(w, clock, st, s, retries, plan). xw_max_retries w - retries)") auto

declare retry_loop.simps [simp del]

definition prepare_with_retries ::
    "world \<Rightarrow> (nat \<Rightarrow> string) \<Rightarrow> sleeve_store \<Rightarrow> strategy_sleeve \<Rightarrow> execution_plan
      \<Rightarrow> execution_plan \<times> prepared_execution result" where
  "prepare_with_retries w clock st s plan = retry_loop w clock st s 0 plan"

section \<open>The retries\<close>

text \<open>A plan's retry record is absent or holds a list of attempts; how many it holds.\<close>

definition retry_record_ok :: "execution_plan \<Rightarrow> bool" where
  "retry_record_ok plan \<longleftrightarrow>
     (case map_of (xp_metadata plan) ''price_unavailable_retry'' of
        None \<Rightarrow> True
      | Some (VDict r) \<Rightarrow> (\<exists>vs. meta_get r ''attempts'' = VList vs)
      | Some _ \<Rightarrow> False)"

definition attempts_of :: "execution_plan \<Rightarrow> nat" where
  "attempts_of plan =
     (case meta_get (xp_metadata plan) ''price_unavailable_retry'' of
        VDict r \<Rightarrow> (case meta_get r ''attempts'' of VList vs \<Rightarrow> length vs | _ \<Rightarrow> 0)
      | _ \<Rightarrow> 0)"

lemma record_price_retry_ok:
  assumes "retry_record_ok plan"
  obtains v plan' where "record_price_retry w now attempt code plan = Inr plan'"
    and "plan' = plan\<lparr>xp_metadata := AList.update ''price_unavailable_retry'' v (xp_metadata plan)\<rparr>"
    and "retry_record_ok plan'" and "attempts_of plan' = Suc (attempts_of plan)"
proof -
  let ?entry = "VDict [(''attempt'', VInt (int attempt)), (''code'', VStr code), (''at'', VStr now)]"
  let ?new = "[(''attempts'', VList []), (''max_retries'', VInt (int (xw_max_retries w))),
                     (''backoff_seconds'', num (xw_backoff_seconds w))]"
  obtain r vs where r: "dict_get (xp_metadata plan) ''price_unavailable_retry'' (VDict ?new) = VDict r"
    and vs: "meta_get r ''attempts'' = VList vs" and n: "length vs = attempts_of plan"
  proof (cases "map_of (xp_metadata plan) ''price_unavailable_retry''")
    case None
    then show ?thesis
      by (intro that [of ?new "[]"]) (simp_all add: dict_get_def meta_get_def attempts_of_def)
  next
    case (Some v)
    then obtain r vs where "v = VDict r" "meta_get r ''attempts'' = VList vs"
      using assms by (auto simp: retry_record_ok_def split: pyval.splits)
    with Some show ?thesis
      by (intro that [of r vs]) (simp_all add: dict_get_def meta_get_def attempts_of_def)
  qed
  let ?v = "VDict (AList.update ''attempts'' (VList (vs @ [?entry])) r)"
  let ?plan = "plan\<lparr>xp_metadata := AList.update ''price_unavailable_retry'' ?v (xp_metadata plan)\<rparr>"
  have "record_price_retry w now attempt code plan = Inr ?plan"
    by (simp add: record_price_retry_def r vs)
  moreover have "retry_record_ok ?plan"
    by (simp add: retry_record_ok_def)
  moreover have "attempts_of ?plan = Suc (length vs)"
    by (simp add: attempts_of_def)
  then have "attempts_of ?plan = Suc (attempts_of plan)"
    by (simp add: n)
  ultimately show ?thesis
    by (rule that [OF _ refl])
qed

text \<open>An attempt does not read the retry record, so every attempt answers for the original plan.\<close>

lemma prepare_ignores_retries:
  "prepare_execution w attempt now st s
     (plan\<lparr>xp_metadata := AList.update ''price_unavailable_retry'' v (xp_metadata plan)\<rparr>)
   = prepare_execution w attempt now st s plan"
proof -
  let ?plan = "plan\<lparr>xp_metadata := AList.update ''price_unavailable_retry'' v (xp_metadata plan)\<rparr>"
  have sel: "xp_id ?plan = xp_id plan" "xp_sleeve_id ?plan = xp_sleeve_id plan" "xp_account_id ?plan = xp_account_id plan"
    "xp_signal_id ?plan = xp_signal_id plan" "xp_config_id ?plan = xp_config_id plan"
    "xp_config_version ?plan = xp_config_version plan" "xp_window ?plan = xp_window plan"
    "xp_target_date ?plan = xp_target_date plan" "xp_status ?plan = xp_status plan" "xp_orders ?plan = xp_orders plan"
    by simp_all
  have work: "no_work ?plan = no_work plan" and unbound: "signal_unbound s ?plan = signal_unbound s plan"
    by (simp_all add: no_work_def meta_true_def signal_unbound_def fun_eq_iff)
  have evidence: "open_evidence w ?plan = open_evidence w plan"
    unfolding open_evidence_def [abs_def] sel by (rule refl)
  have part1: "validate_structural_context s ?plan = validate_structural_context s plan"
    unfolding validate_structural_context_def sel work by (rule refl)
  have part2: "definition_config w st s ?plan = definition_config w st s plan"
    unfolding definition_config_def sel by (rule refl)
  have part3: "definition_binding w st s ?plan c = definition_binding w st s plan c" for c
    unfolding definition_binding_def sel unbound by (rule refl)
  have part4: "definition_quotes w attempt h ts ?plan = definition_quotes w attempt h ts plan" for h ts
    unfolding definition_quotes_def sel evidence by (rule refl)
  have part5: "load_quotes w attempt ?plan = load_quotes w attempt plan"
    unfolding load_quotes_def sel by (rule refl)
  have part6: "build_steps w ?plan quotes = build_steps w plan quotes" for quotes
    unfolding build_steps_def sel by (rule refl)
  have part7: "bind_plan w now ?plan d q ps steps = bind_plan w now plan d q ps steps" for d q ps steps
    unfolding bind_plan_def sel by (rule refl)
  show ?thesis
    unfolding prepare_execution_def part1 part2 part3 part4 part5 part6 part7 by (rule refl)
qed

definition transient_failure ::
    "world \<Rightarrow> (nat \<Rightarrow> string) \<Rightarrow> sleeve_store \<Rightarrow> strategy_sleeve \<Rightarrow> execution_plan \<Rightarrow> nat \<Rightarrow> bool" where
  "transient_failure w clock st s plan n \<longleftrightarrow>
     (case prepare_execution w n (clock n) st s plan of Inl e \<Rightarrow> retryable e \<noteq> None | Inr pe \<Rightarrow> False)"

lemma retry_loop_result:
  assumes "retry_record_ok plan" and "retries \<le> xw_max_retries w"
  shows "\<exists>n plan'. retries \<le> n \<and> n \<le> xw_max_retries w
    \<and> retry_loop w clock st s retries plan = (plan', prepare_execution w n (clock n) st s plan)
    \<and> (\<forall>i. retries \<le> i \<and> i < n \<longrightarrow> transient_failure w clock st s plan i)
    \<and> (transient_failure w clock st s plan n \<longrightarrow> n = xw_max_retries w)
    \<and> attempts_of plan' + retries = attempts_of plan + n"
  using assms
proof (induction "xw_max_retries w - retries" arbitrary: retries plan)
  case 0
  then have max: "retries = xw_max_retries w"
    by simp
  have "retry_loop w clock st s retries plan = (plan, prepare_execution w retries (clock retries) st s plan)"
    by (subst retry_loop.simps) (simp add: max split: sum.split option.split)
  with max show ?case
    by (intro exI [of _ retries] exI [of _ plan]) auto
next
  case (Suc k)
  show ?case
  proof (cases "transient_failure w clock st s plan retries")
    case False
    have "retry_loop w clock st s retries plan = (plan, prepare_execution w retries (clock retries) st s plan)"
      using False by (subst retry_loop.simps) (auto simp: transient_failure_def split: sum.splits option.splits)
    with False Suc.prems show ?thesis
      by (intro exI [of _ retries] exI [of _ plan]) auto
  next
    case True
    then obtain e code where e: "prepare_execution w retries (clock retries) st s plan = Inl e" "retryable e = Some code"
      by (auto simp: transient_failure_def split: sum.splits)
    obtain v plan' where rec: "record_price_retry w (clock retries) (Suc retries) code plan = Inr plan'"
      and plan': "plan' = plan\<lparr>xp_metadata := AList.update ''price_unavailable_retry'' v (xp_metadata plan)\<rparr>"
      and ok: "retry_record_ok plan'" and n: "attempts_of plan' = Suc (attempts_of plan)"
      by (rule record_price_retry_ok [OF Suc.prems(1)])
    have "retries < xw_max_retries w"
      using Suc.hyps(2) by simp
    then have step: "retry_loop w clock st s retries plan = retry_loop w clock st s (Suc retries) plan'"
      using e rec by (subst retry_loop.simps) simp
    have same: "prepare_execution w i now st s plan' = prepare_execution w i now st s plan" for i now
      unfolding plan' by (rule prepare_ignores_retries)
    then have fails: "transient_failure w clock st s plan' = transient_failure w clock st s plan"
      by (simp add: transient_failure_def fun_eq_iff)
    have "k = xw_max_retries w - Suc retries" "Suc retries \<le> xw_max_retries w"
      using Suc.hyps(2) by simp_all
    from Suc.hyps(1) [OF this(1) ok this(2)] obtain m q where m: "Suc retries \<le> m" "m \<le> xw_max_retries w"
      "retry_loop w clock st s (Suc retries) plan' = (q, prepare_execution w m (clock m) st s plan)"
      "\<forall>i. Suc retries \<le> i \<and> i < m \<longrightarrow> transient_failure w clock st s plan i"
      "transient_failure w clock st s plan m \<longrightarrow> m = xw_max_retries w"
      "attempts_of q + Suc retries = attempts_of plan' + m"
      unfolding same fails by blast
    have "transient_failure w clock st s plan i" if "retries \<le> i" "i < m" for i
      using m(4) True that by (cases "i = retries") auto
    with m step n show ?thesis
      by (intro exI [of _ m] exI [of _ q]) auto
  qed
qed

section \<open>Properties of the retries\<close>

text \<open>C10: The retries end: \<open>prepare_with_retries\<close> always returns, with the outcome of attempt n for
  some n within the retry budget; every earlier attempt failed for want of prices, attempt n either
  did not or was the last allowed, and the plan records exactly n failed attempts.\<close>

theorem retries_end:
  assumes "retry_record_ok plan"
  shows "\<exists>n plan'. n \<le> xw_max_retries w
    \<and> prepare_with_retries w clock st s plan = (plan', prepare_execution w n (clock n) st s plan)
    \<and> (\<forall>i < n. transient_failure w clock st s plan i)
    \<and> (transient_failure w clock st s plan n \<longrightarrow> n = xw_max_retries w)
    \<and> attempts_of plan' = attempts_of plan + n"
  using retry_loop_result [OF assms, of 0 w clock st s] by (auto simp: prepare_with_retries_def)

text \<open>C11: An outage is survived: when attempts fail for want of prices until attempt j, within the
  budget, and attempt j finds its evidence, then the preparation succeeds with that evidence.\<close>

theorem outage_is_survived:
  assumes "retry_record_ok plan" and "j \<le> xw_max_retries w"
    and "\<forall>i < j. transient_failure w clock st s plan i"
    and "prepare_execution w j (clock j) st s plan = Inr pe"
  shows "snd (prepare_with_retries w clock st s plan) = Inr pe"
proof -
  obtain n plan' where n: "n \<le> xw_max_retries w"
    "retry_loop w clock st s 0 plan = (plan', prepare_execution w n (clock n) st s plan)"
    "\<forall>i. 0 \<le> i \<and> i < n \<longrightarrow> transient_failure w clock st s plan i"
    "transient_failure w clock st s plan n \<longrightarrow> n = xw_max_retries w"
    using retry_loop_result [OF assms(1), of 0 w clock st s] by blast
  have "\<not> transient_failure w clock st s plan j"
    using assms(4) by (simp add: transient_failure_def)
  then have "n \<le> j"
    using n(3) not_le_imp_less by blast
  moreover have "\<not> n < j"
    using assms(2,3) n(4) by auto
  ultimately have "n = j"
    by simp
  then show ?thesis
    using n(2) assms(4) by (simp add: prepare_with_retries_def)
qed

section \<open>What a prepared execution holds\<close>

lemma map_of_filter: "map_of d k = (case filter (\<lambda>p. fst p = k) d of [] \<Rightarrow> None | p # ps \<Rightarrow> Some (snd p))"
  by (induction d) auto

lemma map_of_sort_key [simp]: "map_of (sort_key fst d) k = map_of d k"
  by (simp add: map_of_filter sort_key_stable)

lemma build_step_lookup:
  assumes "\<And>k. map_of q k = map_of q' k"
  shows "build_step w q = build_step w q'"
  unfolding build_step_def [abs_def] assms by (rule refl)

lemma bind_plan_fields [simp]:
  "pe_account_id (bind_plan w now plan d q ps steps) = xp_account_id plan"
  "pe_sleeve_id (bind_plan w now plan d q ps steps) = xp_sleeve_id plan"
  "pe_execution_id (bind_plan w now plan d q ps steps) = xp_id plan"
  "pe_target_date (bind_plan w now plan d q ps steps) = xp_target_date plan"
  "pe_window (bind_plan w now plan d q ps steps) = xp_window plan"
  "pe_signal_id (bind_plan w now plan d q ps steps) = xp_signal_id plan"
  "pe_config_id (bind_plan w now plan d q ps steps) = xp_config_id plan"
  "pe_config_version (bind_plan w now plan d q ps steps) = xp_config_version plan"
  "pe_is_definition (bind_plan w now plan d q ps steps) = d"
  "pe_quotes (bind_plan w now plan d q ps steps) = sort_key fst q"
  "pe_prices (bind_plan w now plan d q ps steps) = sort_key fst ps"
  "pe_snapshot_steps (bind_plan w now plan d q ps steps) = steps"
  by (simp_all add: bind_plan_def Let_def)

lemma bind_plan_digest:
  "pe_digest (bind_plan w now plan d q ps steps) = prepared_digest w (bind_plan w now plan d q ps steps)"
  by (simp add: bind_plan_def Let_def prepared_digest_def prepared_document_def)

text \<open>A step: its side and symbol are the order's, its quantity is above the dust, and its prices follow.\<close>

definition step_ok :: "world \<Rightarrow> (string, priced_quote) dict \<Rightarrow> execution_step \<Rightarrow> bool" where
  "step_ok w quotes x \<longleftrightarrow>
     es_symbol x = upper (xo_symbol (es_order x)) \<and> xo_side (es_order x) = side_str (es_side x)
     \<and> map_of quotes (es_symbol x) = Some (es_quote x) \<and> pq_price (es_quote x) = Fin (es_price x)
     \<and> exec_epsilon < es_quantity x \<and> es_gross x = es_quantity x * es_price x
     \<and> es_fill_price x = step_fill_price w (es_side x) (es_price x)
     \<and> es_commission x = step_commission w (es_side x) (es_quantity x) (es_price x)"

lemma build_step_ok:
  assumes "build_step w quotes x = Inr (Some y)"
  shows "step_ok w quotes y" and "es_order y = x"
proof -
  obtain sd qt quantity where sd: "parse_side (xo_side x) = Some sd"
    and qt: "map_of quotes (upper (xo_symbol x)) = Some qt"
    and fin: "isfinite quantity" "isfinite (pq_price qt)" "exec_epsilon < fin quantity"
    and y: "y = \<lparr>es_order = x, es_side = sd, es_symbol = upper (xo_symbol x), es_quantity = fin quantity,
        es_price = fin (pq_price qt), es_gross = fin quantity * fin (pq_price qt), es_quote = qt,
        es_fill_price = step_fill_price w sd (fin (pq_price qt)),
        es_commission = step_commission w sd (fin quantity) (fin (pq_price qt))\<rparr>"
    using assms by (auto simp: build_step_def Let_def rbind_Inr split: option.splits if_splits)
  show "step_ok w quotes y" "es_order y = x"
    using sd qt fin by (auto simp: y step_ok_def parse_side_Some isfinite_iff)
qed

lemma build_steps_Inr:
  assumes "build_steps w plan quotes = Inr steps"
  shows "steps \<noteq> []" and "\<forall>x \<in> set steps. step_ok w quotes x \<and> es_order x \<in> set (xp_orders plan)"
proof -
  obtain rs where rs: "map_result (build_step w quotes) (xp_orders plan) = Inr rs"
    and steps: "steps = concat (map (\<lambda>s. case s of None \<Rightarrow> [] | Some x \<Rightarrow> [x]) rs)" "steps \<noteq> []"
    using assms by (auto simp: build_steps_def rbind_Inr Let_def split: if_splits)
  have "\<forall>r \<in> set rs. \<exists>x \<in> set xs. build_step w quotes x = Inr r" if "map_result (build_step w quotes) xs = Inr rs" for xs
    using that by (induction xs arbitrary: rs) (fastforce simp: rbind_Inr)+
  with rs have "\<forall>r \<in> set rs. \<exists>x \<in> set (xp_orders plan). build_step w quotes x = Inr r"
    by blast
  then show "\<forall>x \<in> set steps. step_ok w quotes x \<and> es_order x \<in> set (xp_orders plan)"
    using build_step_ok by (fastforce simp: steps split: option.splits)
  show "steps \<noteq> []"
    by (fact steps(2))
qed

lemma load_quotes_Inr:
  assumes "load_quotes w attempt plan = Inr quotes"
  shows "\<forall>(s, qt) \<in> set quotes. usable_quote qt"
    and "\<forall>x \<in> set (xp_orders plan). map_of quotes (upper (xo_symbol x)) \<noteq> None"
proof -
  obtain raw where "\<forall>s \<in> set (sorted_keys (map (\<lambda>x. upper (xo_symbol x)) (xp_orders plan))). map_of raw s \<noteq> None"
    and usable: "\<forall>(s, qt) \<in> set raw. usable_quote qt"
    and quotes: "quotes = map (\<lambda>(s, qt). (s, qt\<lparr>pq_symbol := upper s\<rparr>)) raw"
    using assms unfolding load_quotes_def Let_def
    by (auto split: sum.splits if_splits)
  then have present: "\<forall>x \<in> set (xp_orders plan). map_of raw (upper (xo_symbol x)) \<noteq> None"
    by auto
  have "map_of quotes k = map_option (\<lambda>qt. qt\<lparr>pq_symbol := upper k\<rparr>) (map_of raw k)" for k
    unfolding quotes by (induction raw) auto
  with present show "\<forall>x \<in> set (xp_orders plan). map_of quotes (upper (xo_symbol x)) \<noteq> None"
    by simp
  show "\<forall>(s, qt) \<in> set quotes. usable_quote qt"
    using usable by (auto simp: quotes usable_quote_def)
qed

lemma definition_quotes_Inr:
  assumes "definition_quotes w attempt holdings targets plan = Inr (quotes, prices)"
  shows "map fst prices = sorted_keys (map fst holdings @ map fst targets)" and "\<forall>(s, x) \<in> set prices. 0 < x"
proof -
  let ?ss = "sorted_keys (map fst holdings @ map fst targets)"
  have evidence: "map_result (open_evidence w plan quotes) ?ss = Inr prices"
    using assms by (auto simp: definition_quotes_def Let_def reraise_def rbind_Inr split: sum.splits if_splits)
  have one: "fst p = s \<and> 0 < snd p" if "open_evidence w plan quotes s = Inr p" for s p
    using that by (auto simp: open_evidence_def Let_def rbind_Inr usable_quote_def isfinite_iff
        split: option.splits if_splits)
  have "map fst prices = ss \<and> (\<forall>(s, x) \<in> set prices. 0 < x)"
    if "map_result (open_evidence w plan quotes) ss = Inr prices" for ss
    using that
  proof (induction ss arbitrary: prices)
    case Nil
    then show ?case by simp
  next
    case (Cons s ss)
    then obtain p ps where p: "open_evidence w plan quotes s = Inr p"
      and ps: "map_result (open_evidence w plan quotes) ss = Inr ps" "prices = p # ps"
      by (auto simp: rbind_Inr)
    show ?case
      using one [OF p] Cons.IH [OF ps(1)] by (auto simp: ps(2))
  qed
  with evidence show "map fst prices = ?ss" "\<forall>(s, x) \<in> set prices. 0 < x"
    by blast+
qed

lemma lot_holdings_keys: "fst ` set (lot_holdings ls) = upper ` lt_symbol ` set ls"
proof -
  have "fst ` set (foldl (\<lambda>h l. AList.update (upper (lt_symbol l)) (dict_get h (upper (lt_symbol l)) 0 + lt_quantity l) h) h ls)
      = fst ` set h \<union> upper ` lt_symbol ` set ls" for h
    by (induction ls arbitrary: h) auto
  then show ?thesis by (simp add: lot_holdings_def)
qed

lemma sort_key_keys: "set (map fst (sort_key fst d)) = set (map fst d)"
  by simp

lemma prepared_evidence_is_bound_parts:
  assumes "prepare_execution w attempt now st s plan = Inr pe"
  shows "xp_status plan = PlanPending \<and> sv_mode s = Allocated \<and> sv_status s \<notin> {Paused, Stopped} \<and> xp_sleeve_id plan = sv_id s"
    and "pe_digest pe = prepared_digest w pe \<and> pe_execution_id pe = xp_id plan \<and> pe_sleeve_id pe = xp_sleeve_id plan
      \<and> pe_account_id pe = xp_account_id plan \<and> pe_signal_id pe = xp_signal_id plan
      \<and> pe_target_date pe = xp_target_date plan \<and> pe_window pe = xp_window plan
      \<and> pe_config_id pe = xp_config_id plan \<and> pe_config_version pe = xp_config_version plan"
    and "\<not> pe_is_definition pe \<Longrightarrow>
      (\<exists>steps. pe_snapshot_steps pe = Some steps \<and> build_steps w plan (pe_quotes pe) = Inr steps)
      \<and> (\<forall>x \<in> set (xp_orders plan). \<exists>qt. map_of (pe_quotes pe) (upper (xo_symbol x)) = Some qt \<and> usable_quote qt)"
    and "pe_is_definition pe \<Longrightarrow> pe_snapshot_steps pe = None
      \<and> (\<exists>targets. set (map fst (pe_prices pe)) = upper ` lt_symbol ` set (load_sleeve_lots (sv_id s) st) \<union> fst ` set targets
           \<and> (\<exists>c. definition_config w st s plan = Inr (Some c)
               \<and> (\<exists>ds. definition_binding w st s plan c = Inr ds \<and> ds_targets ds = targets)))
      \<and> (\<forall>(symbol, x) \<in> set (pe_prices pe). 0 < x)"
proof -
  obtain config where structural: "validate_structural_context s plan = Inr ()"
    and config: "definition_config w st s plan = Inr config"
    using assms by (auto simp: prepare_execution_def rbind_Inr)
  show "xp_status plan = PlanPending \<and> sv_mode s = Allocated \<and> sv_status s \<notin> {Paused, Stopped} \<and> xp_sleeve_id plan = sv_id s"
    using structural by (auto simp: validate_structural_context_def split: if_splits)
  consider (bound) c ds quotes prices where "config = Some c" "definition_binding w st s plan c = Inr ds"
      "definition_quotes w attempt (lot_holdings (load_sleeve_lots (sv_id s) st)) (ds_targets ds) plan = Inr (quotes, prices)"
      "pe = bind_plan w now plan True quotes prices None"
    | (orders) quotes steps where "load_quotes w attempt plan = Inr quotes" "build_steps w plan quotes = Inr steps"
      "pe = bind_plan w now plan False quotes (map (\<lambda>(s, qt). (s, fin (pq_price qt))) quotes) (Some steps)"
    using assms structural config
    by (auto simp: prepare_execution_def rbind_Inr Let_def split: option.splits if_splits)
  note paths = this
  show "pe_digest pe = prepared_digest w pe \<and> pe_execution_id pe = xp_id plan \<and> pe_sleeve_id pe = xp_sleeve_id plan
      \<and> pe_account_id pe = xp_account_id plan \<and> pe_signal_id pe = xp_signal_id plan
      \<and> pe_target_date pe = xp_target_date plan \<and> pe_window pe = xp_window plan
      \<and> pe_config_id pe = xp_config_id plan \<and> pe_config_version pe = xp_config_version plan"
    by (cases rule: paths) (simp_all add: bind_plan_digest)
  show "(\<exists>steps. pe_snapshot_steps pe = Some steps \<and> build_steps w plan (pe_quotes pe) = Inr steps)
      \<and> (\<forall>x \<in> set (xp_orders plan). \<exists>qt. map_of (pe_quotes pe) (upper (xo_symbol x)) = Some qt \<and> usable_quote qt)" if "\<not> pe_is_definition pe"
  proof (cases rule: paths)
    case bound
    with that show ?thesis by simp
  next
    case orders
    have "build_step w (sort_key fst quotes) = build_step w quotes"
      by (rule build_step_lookup) simp
    then have "build_steps w plan (sort_key fst quotes) = Inr steps"
      using orders(2) by (simp add: build_steps_def)
    moreover have "\<exists>qt. map_of quotes (upper (xo_symbol x)) = Some qt \<and> usable_quote qt" if "x \<in> set (xp_orders plan)" for x
      using load_quotes_Inr [OF orders(1)] that by (fastforce dest: map_of_SomeD)
    ultimately show ?thesis
      by (simp add: orders(3))
  qed
  show "pe_snapshot_steps pe = None
      \<and> (\<exists>targets. set (map fst (pe_prices pe)) = upper ` lt_symbol ` set (load_sleeve_lots (sv_id s) st) \<union> fst ` set targets
           \<and> (\<exists>c. definition_config w st s plan = Inr (Some c)
               \<and> (\<exists>ds. definition_binding w st s plan c = Inr ds \<and> ds_targets ds = targets)))
      \<and> (\<forall>(symbol, x) \<in> set (pe_prices pe). 0 < x)" if "pe_is_definition pe"
  proof (cases rule: paths)
    case bound
    have "set (map fst prices) = upper ` lt_symbol ` set (load_sleeve_lots (sv_id s) st) \<union> fst ` set (ds_targets ds)"
      unfolding definition_quotes_Inr(1) [OF bound(3)] by (simp add: lot_holdings_keys)
    moreover have "\<forall>(symbol, x) \<in> set prices. 0 < x"
      by (rule definition_quotes_Inr(2) [OF bound(3)])
    ultimately show ?thesis
      using bound(1,2) config by (auto simp: bound(4))
  next
    case orders
    with that show ?thesis by simp
  qed
qed

text \<open>C12: A prepared execution is bound to its plan and rests on usable evidence: the plan was pending
  and its sleeve allocated and neither paused nor stopped; the digest covers the plan's identity,
  the quotes and the prices; on the path of the signal's orders every quote is finite and positive,
  every order has one, and the snapshot is what the steps of the plan are under these quotes; on
  the path of a frozen definition every symbol held or targeted has a positive open price.\<close>

theorem prepared_evidence_is_bound:
  assumes "prepare_execution w attempt now st s plan = Inr pe"
  shows "(xp_status plan = PlanPending \<and> sv_mode s = Allocated \<and> sv_status s \<notin> {Paused, Stopped} \<and> xp_sleeve_id plan = sv_id s)
    \<and> (pe_digest pe = prepared_digest w pe \<and> pe_execution_id pe = xp_id plan \<and> pe_sleeve_id pe = xp_sleeve_id plan
      \<and> pe_account_id pe = xp_account_id plan \<and> pe_signal_id pe = xp_signal_id plan
      \<and> pe_target_date pe = xp_target_date plan \<and> pe_window pe = xp_window plan
      \<and> pe_config_id pe = xp_config_id plan \<and> pe_config_version pe = xp_config_version plan)
    \<and> (\<not> pe_is_definition pe \<longrightarrow>
      (\<exists>steps. pe_snapshot_steps pe = Some steps \<and> build_steps w plan (pe_quotes pe) = Inr steps)
      \<and> (\<forall>x \<in> set (xp_orders plan). \<exists>qt. map_of (pe_quotes pe) (upper (xo_symbol x)) = Some qt \<and> usable_quote qt))
    \<and> (pe_is_definition pe \<longrightarrow>
      pe_snapshot_steps pe = None
      \<and> (\<exists>targets. set (map fst (pe_prices pe)) = upper ` lt_symbol ` set (load_sleeve_lots (sv_id s) st) \<union> fst ` set targets
           \<and> (\<exists>c. definition_config w st s plan = Inr (Some c)
               \<and> (\<exists>ds. definition_binding w st s plan c = Inr ds \<and> ds_targets ds = targets)))
      \<and> (\<forall>(symbol, x) \<in> set (pe_prices pe). 0 < x))"
  by (rule conjI, rule prepared_evidence_is_bound_parts(1) [OF assms],
      rule conjI, rule prepared_evidence_is_bound_parts(2) [OF assms],
      rule conjI, rule impI, rule prepared_evidence_is_bound_parts(3) [OF assms], assumption,
      rule impI, rule prepared_evidence_is_bound_parts(4) [OF assms], assumption)

text \<open>A price source that is out of order at its first attempt.\<close>

definition example_quote :: priced_quote where
  "example_quote = \<lparr>pq_symbol = ''AAA'', pq_price = Fin 10, pq_price_kind = ''last_close'', pq_as_of = ''t'', pq_source = ''futu''\<rparr>"

definition example_world :: world where
  "example_world = \<lparr>xw_commission_bps = 1, xw_slippage_bps = 5, xw_max_retries = 2, xw_backoff_seconds = 30,
     xw_runtime = no_runtime, xw_digest = (\<lambda>_. ''digest''), xw_definition = (\<lambda>_. Inl ValidationError),
     xw_prices = (\<lambda>attempt symbols. if attempt = 0 then Inl (PriceUnavailableError ''offline'')
                  else Inr [(''AAA'', example_quote)]),
     xw_open_prices = (\<lambda>_ _ _. Inl (PriceUnavailableError ''offline'')), xw_next_session = (\<lambda>_. Inr []),
     xw_is_open = (\<lambda>_ _. Inr True), xw_timestamp = Inr, xw_error_text = (\<lambda>_. ''error''),
     xw_fill_id = nat_str, xw_lot_id = nat_str\<rparr>"

lemma example_retry: "retry_record_ok example_plan" "attempts_of example_plan = 0"
  by (simp_all add: retry_record_ok_def attempts_of_def example_plan_def)

lemma example_outage:
  "transient_failure example_world nat_str empty_store example_sleeve example_plan 0"
  "\<not> transient_failure example_world nat_str empty_store example_sleeve example_plan 1"
  by code_simp+

lemma example_prepared:
  obtains pe where "prepare_execution example_world 1 (nat_str 1) empty_store example_sleeve example_plan = Inr pe"
    "\<not> pe_is_definition pe"
proof -
  have "case prepare_execution example_world 1 (nat_str 1) empty_store example_sleeve example_plan of
      Inl e \<Rightarrow> False | Inr pe \<Rightarrow> \<not> pe_is_definition pe"
    by code_simp
  then show ?thesis
    using that by (auto split: sum.splits)
qed

theorem retries_end_witness:
  "\<exists>n plan'. prepare_with_retries example_world nat_str empty_store example_sleeve example_plan
      = (plan', prepare_execution example_world n (nat_str n) empty_store example_sleeve example_plan)
    \<and> attempts_of plan' = 1 \<and> n = 1"
proof -
  obtain n plan' where n: "n \<le> xw_max_retries example_world"
    "prepare_with_retries example_world nat_str empty_store example_sleeve example_plan
      = (plan', prepare_execution example_world n (nat_str n) empty_store example_sleeve example_plan)"
    "\<forall>i < n. transient_failure example_world nat_str empty_store example_sleeve example_plan i"
    "transient_failure example_world nat_str empty_store example_sleeve example_plan n \<longrightarrow> n = xw_max_retries example_world"
    "attempts_of plan' = attempts_of example_plan + n"
    using retries_end [OF example_retry(1), of example_world nat_str empty_store example_sleeve] by blast
  have "xw_max_retries example_world = 2"
    by (simp add: example_world_def)
  then have "n \<noteq> 0"
    using n(4) example_outage(1) by (cases "n = 0") auto
  moreover have "\<not> 1 < n"
    using n(3) example_outage(2) by auto
  ultimately have "n = 1"
    by simp
  with n(2,5) show ?thesis
    by (simp add: example_retry(2))
qed

theorem outage_is_survived_witness:
  "\<exists>pe. snd (prepare_with_retries example_world nat_str empty_store example_sleeve example_plan) = Inr pe"
proof -
  obtain pe where pe: "prepare_execution example_world 1 (nat_str 1) empty_store example_sleeve example_plan = Inr pe"
    by (rule example_prepared)
  have "\<forall>i < 1. transient_failure example_world nat_str empty_store example_sleeve example_plan i"
    using example_outage(1) by simp
  moreover have "1 \<le> xw_max_retries example_world"
    by (simp add: example_world_def)
  ultimately have "snd (prepare_with_retries example_world nat_str empty_store example_sleeve example_plan) = Inr pe"
    using pe by (intro outage_is_survived [OF example_retry(1)])
  then show ?thesis by blast
qed

theorem prepared_evidence_is_bound_witness:
  "\<exists>pe. prepare_execution example_world 1 (nat_str 1) empty_store example_sleeve example_plan = Inr pe
    \<and> pe_digest pe = prepared_digest example_world pe
    \<and> (\<exists>steps. pe_snapshot_steps pe = Some steps \<and> build_steps example_world example_plan (pe_quotes pe) = Inr steps)"
proof -
  obtain pe where pe: "prepare_execution example_world 1 (nat_str 1) empty_store example_sleeve example_plan = Inr pe"
    "\<not> pe_is_definition pe"
    by (rule example_prepared)
  show ?thesis
    using prepared_evidence_is_bound [OF pe(1)] pe by blast
qed

end
