(* ===== verification/Commit.thy ===== *)
theory Commit
  imports Execution
begin

text \<open>
  Committing a prepared execution
  (\<open>src/quant_system/execution/paper_strategy_execution_service.py\<close>): the re-validation under the
  caller's locks, the preflight, the application of the steps to copies of account, sleeve and lots,
  the journal and the writes that follow it, the recovery from journals, and the plans that are
  blocked, missed or pending. The policy guard is an argument. The lemmas show that a commit
  executes each plan at most once and all or nothing, and that recovery finishes a commit that was
  interrupted after its journal.
\<close>

section \<open>State\<close>

text \<open>The objects the caller holds and the files of the store.\<close>

record execution_state =
  xt_account :: paper_account
  xt_sleeve :: strategy_sleeve
  xt_plan :: execution_plan
  xt_store :: sleeve_store

text \<open>A policy guard may leave a note in the metadata of the plan it is shown; it answers with the metadata
  afterwards and the code of its refusal.\<close>

type_synonym policy_guard =
  "paper_account \<Rightarrow> strategy_sleeve \<Rightarrow> execution_plan \<Rightarrow> metadata list \<Rightarrow> metadata \<times> string option"

definition replace_execution :: "execution_plan \<Rightarrow> sleeve_store \<Rightarrow> sleeve_store" where
  "replace_execution plan st =
     save_executions (xp_sleeve_id plan) (replace_first xp_id plan (load_executions (xp_sleeve_id plan) st)) st"

text \<open>\<open>_block_plan\<close>: the plan is changed in place and written.\<close>

definition block_execution :: "string \<Rightarrow> string \<Rightarrow> execution_state \<Rightarrow> execution_state" where
  "block_execution now reason x =
     (let plan = (xt_plan x)\<lparr>xp_status := PlanBlocked, xp_blocked_reason := Some reason, xp_updated_at := now\<rparr>
      in x\<lparr>xt_plan := plan, xt_store := replace_execution plan (xt_store x)\<rparr>)"

definition block_plan :: "string \<Rightarrow> string \<Rightarrow> execution_state \<Rightarrow> execution_state \<times> unit result" where
  "block_plan now reason x =
     (if xp_status (xt_plan x) \<noteq> PlanPending \<or> reason = []
      then (x, exec_error ''execution_block_invalid'') else (block_execution now reason x, Inr ()))"

section \<open>Steps against the books\<close>

definition ordered_steps :: "execution_step list \<Rightarrow> execution_step list" where
  "ordered_steps steps = sort_key (\<lambda>x. if es_side x = Sell then 0 else 1 :: nat) steps"

definition sleeve_source :: "string \<Rightarrow> string" where
  "sleeve_source sleeve_id = ''strategy:'' @ sleeve_id"

definition account_fill :: "world \<Rightarrow> execution_plan \<Rightarrow> execution_step \<Rightarrow> execution_fill result" where
  "account_fill w plan x =
     rbind (xw_timestamp w (pq_as_of (es_quote x))) (\<lambda>timestamp.
       new_execution_fill (''fill-'' @ xp_id plan @ ''-'' @ es_symbol x @ ''-'' @ side_str (es_side x))
         (xp_id plan) timestamp (es_symbol x) (es_side x) (es_quantity x) (es_fill_price x)
         (es_quantity x * es_fill_price x) (es_commission x))"

definition position_sources :: "paper_account \<Rightarrow> string \<Rightarrow> (string, rat) dict" where
  "position_sources a symbol =
     (case map_of (pa_positions a) (upper symbol) of None \<Rightarrow> [] | Some p \<Rightarrow> ap_sources p)"

definition account_source_quantity :: "paper_account \<Rightarrow> string \<Rightarrow> string \<Rightarrow> rat" where
  "account_source_quantity a symbol source = dict_get (position_sources a symbol) source 0"

definition set_source_after_sell ::
    "string \<Rightarrow> string \<Rightarrow> (string, rat) dict \<Rightarrow> rat \<Rightarrow> paper_account \<Rightarrow> paper_account" where
  "set_source_after_sell symbol source earlier quantity a =
     (let updated = AList.update source (dict_get earlier source 0 - quantity) earlier
      in a\<lparr>pa_positions := AList.map_entry (upper symbol)
             (\<lambda>p. p\<lparr>ap_sources := filter (\<lambda>(s, q). exec_epsilon < q) updated\<rparr>) (pa_positions a)\<rparr>)"

text \<open>The dry run: the account is read as it is, lots and sleeve cash are followed.\<close>

fun preflight_steps ::
    "paper_account \<Rightarrow> string \<Rightarrow> string \<Rightarrow> execution_step list \<Rightarrow> lot_book \<Rightarrow> rat \<Rightarrow> unit result" where
  "preflight_steps a now sleeve_id [] book cash = Inr ()"
| "preflight_steps a now sleeve_id (x # xs) book cash =
     (case es_side x of
        Sell \<Rightarrow>
          if account_source_quantity a (es_symbol x) (sleeve_source sleeve_id) < es_quantity x - exec_epsilon
          then exec_error ''insufficient_account_source_quantity''
          else (case book_sell now sleeve_id (es_symbol x) (Fin (es_quantity x)) book of
                  (book', Inl e) \<Rightarrow> exec_error ''insufficient_sleeve_lot_quantity''
                | (book', Inr r) \<Rightarrow> preflight_steps a now sleeve_id xs book' (cash + es_gross x))
      | Buy \<Rightarrow>
          if cash + exec_epsilon < es_gross x then exec_error ''insufficient_sleeve_cash''
          else preflight_steps a now sleeve_id xs book (cash - es_gross x))"

definition preflight :: "sleeve_store \<Rightarrow> paper_account \<Rightarrow> strategy_sleeve \<Rightarrow> string \<Rightarrow> execution_step list \<Rightarrow> unit result" where
  "preflight st a s now steps =
     preflight_steps a now (sv_id s) (ordered_steps steps) (lot_book_of (load_sleeve_lots (sv_id s) st)) (sv_cash s)"

section \<open>Applying the steps\<close>

record work =
  wk_account :: paper_account
  wk_cash :: rat
  wk_book :: lot_book
  wk_fills :: "strategy_fill list"

definition fill_to_account ::
    "environment \<Rightarrow> string \<Rightarrow> execution_step \<Rightarrow> execution_fill \<Rightarrow> paper_account \<Rightarrow> paper_account result" where
  "fill_to_account env sleeve_id x f a =
     (case apply_fill env f (sleeve_source sleeve_id) (Some (pq_price_kind (es_quote x)))
             ''sleeve_execution_fill'' a of
        (a, Inl e) \<Rightarrow> Inl e
      | (a, Inr _) \<Rightarrow> Inr a)"

definition apply_sell ::
    "environment \<Rightarrow> string \<Rightarrow> string \<Rightarrow> execution_step \<Rightarrow> execution_fill \<Rightarrow> work \<Rightarrow> work result" where
  "apply_sell env now sleeve_id x f k =
     (let earlier = position_sources (wk_account k) (es_symbol x)
      in case book_sell now sleeve_id (es_symbol x) (Fin (es_quantity x)) (wk_book k) of
           (book, Inl e) \<Rightarrow> Inl e
         | (book, Inr r) \<Rightarrow>
             rbind (fill_to_account env sleeve_id x f (wk_account k)) (\<lambda>a.
               Inr (k\<lparr>wk_account := set_source_after_sell (es_symbol x) (sleeve_source sleeve_id) earlier
                                     (es_quantity x) a,
                      wk_cash := wk_cash k + (es_quantity x * es_fill_price x - es_commission x),
                      wk_book := book\<rparr>)))"

definition apply_buy ::
    "environment \<Rightarrow> string \<Rightarrow> string \<Rightarrow> string \<Rightarrow> execution_step \<Rightarrow> execution_fill \<Rightarrow> work \<Rightarrow> work result" where
  "apply_buy env lot_id now sleeve_id x f k =
     rbind (fill_to_account env sleeve_id x f (wk_account k)) (\<lambda>a.
       case book_buy lot_id now (pa_id a) sleeve_id (es_symbol x) (Fin (es_quantity x)) (Fin (es_price x))
              (sleeve_source sleeve_id) (wk_book k) of
         (book, Inl e) \<Rightarrow> Inl e
       | (book, Inr l) \<Rightarrow>
           Inr (k\<lparr>wk_account := a, wk_cash := wk_cash k - (es_quantity x * es_fill_price x + es_commission x),
                  wk_book := book\<rparr>))"

definition step_fill :: "world \<Rightarrow> nat \<Rightarrow> string \<Rightarrow> execution_step \<Rightarrow> strategy_fill result" where
  "step_fill w n now x =
     new_strategy_fill (xw_fill_id w n) now (es_symbol x) (side_str (es_side x)) (es_quantity x)
       (es_fill_price x) (pq_price_kind (es_quote x)) (Some (es_quantity x * es_fill_price x))
       [(''commission'', num (es_commission x)), (''commission_bps'', num (xw_commission_bps w)),
        (''slippage_bps'', num (xw_slippage_bps w))]"

definition apply_step ::
    "world \<Rightarrow> environment \<Rightarrow> string \<Rightarrow> execution_plan \<Rightarrow> string \<Rightarrow> execution_step \<Rightarrow> work \<Rightarrow> work result" where
  "apply_step w env now plan sleeve_id x k =
     (let n = length (wk_fills k)
      in rbind (account_fill w plan x) (\<lambda>f.
         rbind (case es_side x of
                  Sell \<Rightarrow> apply_sell env now sleeve_id x f k
                | Buy \<Rightarrow> apply_buy env (xw_lot_id w n) now sleeve_id x f k) (\<lambda>k.
         rbind (step_fill w n now x) (\<lambda>sf. Inr (k\<lparr>wk_fills := wk_fills k @ [sf]\<rparr>)))))"

fun apply_all ::
    "world \<Rightarrow> environment \<Rightarrow> string \<Rightarrow> execution_plan \<Rightarrow> string \<Rightarrow> execution_step list \<Rightarrow> work \<Rightarrow> work result" where
  "apply_all w env now plan sleeve_id [] k = Inr k"
| "apply_all w env now plan sleeve_id (x # xs) k =
     rbind (apply_step w env now plan sleeve_id x k) (apply_all w env now plan sleeve_id xs)"

text \<open>\<open>_apply_steps\<close> on the copies: the account, the sleeve, the plan and the lots afterwards.\<close>

definition apply_steps ::
    "world \<Rightarrow> environment \<Rightarrow> string \<Rightarrow> paper_account \<Rightarrow> strategy_sleeve \<Rightarrow> execution_plan \<Rightarrow> sleeve_lot list
      \<Rightarrow> execution_step list \<Rightarrow> (paper_account \<times> strategy_sleeve \<times> execution_plan \<times> sleeve_lot list) result" where
  "apply_steps w env now a s plan lots steps =
     rbind (apply_all w env now plan (sv_id s) (ordered_steps steps)
              \<lparr>wk_account = a, wk_cash = sv_cash s, wk_book = lot_book_of lots, wk_fills = []\<rparr>) (\<lambda>k.
       let cash = max (wk_cash k) 0
       in Inr ((wk_account k)\<lparr>pa_sleeve_cash := AList.update (sv_id s) cash (pa_sleeve_cash (wk_account k))\<rparr>,
               s\<lparr>sv_cash := cash, sv_updated_at := now\<rparr>,
               plan\<lparr>xp_fills := wk_fills k, xp_status := PlanFilled, xp_updated_at := now\<rparr>,
               book_lots (wk_book k)))"

section \<open>Re-validation\<close>

definition verify_prepared_binding :: "execution_plan \<Rightarrow> prepared_execution \<Rightarrow> unit result" where
  "verify_prepared_binding plan pe =
     (if xp_id plan \<noteq> pe_execution_id pe \<or> xp_sleeve_id plan \<noteq> pe_sleeve_id pe
         \<or> xp_account_id plan \<noteq> pe_account_id pe \<or> xp_signal_id plan \<noteq> pe_signal_id pe
         \<or> xp_target_date plan \<noteq> pe_target_date pe \<or> xp_window plan \<noteq> pe_window pe
         \<or> xp_config_id plan \<noteq> pe_config_id pe \<or> xp_config_version plan \<noteq> pe_config_version pe
      then exec_error ''prepared_execution_rebind_mismatch'' else Inr ())"

definition verify_prepared_digest :: "world \<Rightarrow> prepared_execution \<Rightarrow> unit result" where
  "verify_prepared_digest w pe =
     (if prepared_digest w pe \<noteq> pe_digest pe
      then exec_error ''prepared_execution_integrity_violation'' else Inr ())"

definition quote_document :: "priced_quote \<Rightarrow> pyval" where
  "quote_document qt = VDict
     [(''symbol'', VStr (pq_symbol qt)), (''price'', VFloat (pq_price qt)),
      (''price_kind'', VStr (pq_price_kind qt)), (''as_of'', VStr (pq_as_of qt)), (''source'', VStr (pq_source qt))]"

text \<open>The orders of a frozen definition, sized at the prepared opens, in a copy of the plan.\<close>

definition order_plan ::
    "world \<Rightarrow> definition_signal \<Rightarrow> (string, rat) dict \<Rightarrow> rat \<Rightarrow> (string, rat) dict \<Rightarrow> (string, priced_quote) dict
      \<Rightarrow> string \<Rightarrow> execution_plan \<Rightarrow> execution_plan result" where
  "order_plan w ds holdings cash prices quotes account_id plan =
     reraise w
       (rbind (definition_orders (ds_definition ds) holdings cash (Some (ds_targets ds)) prices account_id) (\<lambda>items.
        rbind (map_result (from_proposed_order (xw_runtime w)) items) (\<lambda>orders.
          Inr (plan\<lparr>xp_orders := orders,
            xp_metadata := dict_merge (xp_metadata plan)
              [(''definition_digest'', VStr (sd_content_digest (ds_definition ds))),
               (''decision_session'', meta_get (ds_metadata ds) ''signal_date''),
               (''trade_date'', opt_value VStr (xp_target_date plan)),
               (''target_weights'', rat_values (ds_targets ds)),
               (''sizing_basis'', VStr ''session_open_equity''),
               (''execution_quotes'', VDict (map (\<lambda>(s, qt). (s, quote_document qt)) quotes))]\<rparr>))))"

text \<open>Everything but the prices is read again.\<close>

definition recompute_definition ::
    "world \<Rightarrow> sleeve_store \<Rightarrow> paper_account \<Rightarrow> strategy_sleeve \<Rightarrow> execution_plan \<Rightarrow> prepared_execution
      \<Rightarrow> (execution_plan \<times> execution_step list) result" where
  "recompute_definition w st a s plan pe =
     rbind (definition_config w st s plan) (\<lambda>config.
       case config of
         None \<Rightarrow> exec_error ''strategy_definition_execution_binding_mismatch''
       | Some c \<Rightarrow> rbind (definition_binding w st s plan c) (\<lambda>ds.
           let holdings = lot_holdings (load_sleeve_lots (sv_id s) st);
               required = sorted_keys (map fst holdings @ map fst (ds_targets ds))
           in if \<not> set required \<subseteq> fst ` set (pe_prices pe)
              then exec_error ''strategy_definition_open_data_unavailable''
              else rbind (order_plan w ds holdings (sv_cash s)
                     (map (\<lambda>symbol. (symbol, dict_get (pe_prices pe) symbol 0)) required)
                     (pe_quotes pe) (pa_id a) plan) (\<lambda>plan'.
                if xp_orders plan' = [] then Inr (plan', [])
                else rbind (build_steps w plan' (pe_quotes pe)) (\<lambda>steps. Inr (plan', steps)))))"

definition planned_steps ::
    "world \<Rightarrow> execution_state \<Rightarrow> prepared_execution \<Rightarrow> (execution_plan \<times> execution_step list) result" where
  "planned_steps w x pe =
     (if pe_is_definition pe
      then recompute_definition w (xt_store x) (xt_account x) (xt_sleeve x) (xt_plan x) pe
      else rbind (build_steps w (xt_plan x) (pe_quotes pe)) (\<lambda>steps.
        if pe_snapshot_steps pe \<noteq> Some steps then exec_error ''prepared_execution_steps_drift''
        else Inr (xt_plan x, steps)))"

definition guarded_order :: "execution_step \<Rightarrow> metadata" where
  "guarded_order x =
     [(''symbol'', VStr (es_symbol x)),
      (''notional_delta'', num (case es_side x of Buy \<Rightarrow> es_gross x | Sell \<Rightarrow> - es_gross x)),
      (''execution_price'', num (es_price x))]"

definition consult_guard ::
    "policy_guard option \<Rightarrow> paper_account \<Rightarrow> strategy_sleeve \<Rightarrow> execution_plan \<Rightarrow> execution_step list
      \<Rightarrow> execution_plan \<times> unit result" where
  "consult_guard guard a s plan steps =
     (case guard of
        None \<Rightarrow> (plan, Inr ())
      | Some g \<Rightarrow>
          (case g a s plan (map guarded_order steps) of
             (metadata, None) \<Rightarrow> (plan\<lparr>xp_metadata := metadata\<rparr>, Inr ())
           | (metadata, Some code) \<Rightarrow> (plan\<lparr>xp_metadata := metadata\<rparr>, exec_error code)))"

text \<open>
  The checks, and the caller's plan after them: outside the path of a frozen definition the guard is
  shown that very object.
\<close>

definition commit_checks ::
    "world \<Rightarrow> policy_guard option \<Rightarrow> bool \<Rightarrow> prepared_execution \<Rightarrow> string \<Rightarrow> execution_state
      \<Rightarrow> execution_plan \<times> (execution_plan \<times> execution_step list) result" where
  "commit_checks w guard allow_frozen pe now x =
     (case rbind (verify_prepared_binding (xt_plan x) pe) (\<lambda>_.
           rbind (verify_prepared_digest w pe) (\<lambda>_.
           rbind (validate_execution_context (xt_account x) (xt_sleeve x) (xt_plan x) allow_frozen) (\<lambda>_.
             planned_steps w x pe))) of
        Inl e \<Rightarrow> (xt_plan x, Inl e)
      | Inr (plan, steps) \<Rightarrow>
          (case consult_guard guard (xt_account x) (xt_sleeve x) plan steps of
             (plan, allowed) \<Rightarrow>
               (if pe_is_definition pe then xt_plan x else plan,
                rbind allowed (\<lambda>_. rbind (preflight (xt_store x) (xt_account x) (xt_sleeve x) now steps) (\<lambda>_.
                  Inr (plan, steps))))))"

section \<open>Commit\<close>

definition error_code :: "py_error \<Rightarrow> string option" where
  "error_code e = (case e of PaperStrategyExecutionError code \<Rightarrow> Some code | _ \<Rightarrow> None)"

text \<open>\<open>except PaperStrategyExecutionError\<close>: a pending plan is blocked with the code; the exception goes on.\<close>

definition block_pending :: "string \<Rightarrow> py_error \<Rightarrow> execution_state \<Rightarrow> execution_state" where
  "block_pending now e x =
     (case error_code e of
        None \<Rightarrow> x
      | Some code \<Rightarrow> if xp_status (xt_plan x) = PlanPending then block_execution now code x else x)"

definition skip_execution :: "string \<Rightarrow> execution_plan \<Rightarrow> execution_state \<Rightarrow> execution_state" where
  "skip_execution now plan x =
     (let plan = plan\<lparr>xp_status := PlanSkipped, xp_updated_at := now,
        xp_metadata := AList.update ''skip_reason'' (VStr ''no_rebalance_orders_at_open'') (xp_metadata plan)\<rparr>
      in x\<lparr>xt_plan := plan, xt_store := replace_execution plan (xt_store x)\<rparr>)"

definition execution_journal ::
    "string \<Rightarrow> execution_state \<Rightarrow> paper_account \<Rightarrow> strategy_sleeve \<Rightarrow> execution_plan \<Rightarrow> sleeve_lot list \<Rightarrow> journal" where
  "execution_journal now x a s plan lots =
     \<lparr>jr_created_at = now, jr_account_id = pa_id (xt_account x), jr_sleeve_id = sv_id (xt_sleeve x),
      jr_execution_id = xp_id (xt_plan x), jr_before_account = xt_account x, jr_after_account = a,
      jr_before_sleeve = xt_sleeve x, jr_after_sleeve = s,
      jr_before_lots = load_sleeve_lots (sv_id (xt_sleeve x)) (xt_store x), jr_after_lots = lots,
      jr_before_execution = xt_plan x, jr_after_execution = plan\<rparr>"

text \<open>The store once the journal is written, and after the writes that follow.\<close>

definition journal_written ::
    "string \<Rightarrow> execution_state \<Rightarrow> paper_account \<Rightarrow> strategy_sleeve \<Rightarrow> execution_plan \<Rightarrow> sleeve_lot list \<Rightarrow> sleeve_store" where
  "journal_written now x a s plan lots =
     save_execution_journal_pending (sv_id (xt_sleeve x)) (xp_id (xt_plan x))
       (execution_journal now x a s plan lots) (xt_store x)"

definition write_execution ::
    "strategy_sleeve \<Rightarrow> string \<Rightarrow> sleeve_lot list \<Rightarrow> execution_plan \<Rightarrow> sleeve_store \<Rightarrow> sleeve_store" where
  "write_execution s sleeve_id lots plan st =
     replace_execution plan (save_sleeve_lots sleeve_id lots (save_sleeve s st))"

definition commit_execution ::
    "world \<Rightarrow> environment \<Rightarrow> policy_guard option \<Rightarrow> bool \<Rightarrow> prepared_execution \<Rightarrow> string \<Rightarrow> execution_state
      \<Rightarrow> execution_state \<times> execution_plan result" where
  "commit_execution w env guard allow_frozen pe now x =
     (case commit_checks w guard allow_frozen pe now x of
        (own, Inl e) \<Rightarrow> (block_pending now e (x\<lparr>xt_plan := own\<rparr>), Inl e)
      | (own, Inr (plan, steps)) \<Rightarrow>
          let x = x\<lparr>xt_plan := own\<rparr>
          in if pe_is_definition pe \<and> steps = []
             then (skip_execution now plan x, Inr (xt_plan (skip_execution now plan x)))
             else
               (case apply_steps w env now (xt_account x) (xt_sleeve x) plan
                       (load_sleeve_lots (sv_id (xt_sleeve x)) (xt_store x)) steps of
                  Inl e \<Rightarrow> (x, Inl e)
                | Inr (a, s, plan, lots) \<Rightarrow>
                    (\<lparr>xt_account = a, xt_sleeve = s, xt_plan = plan,
                      xt_store = write_execution s (sv_id s) lots plan (journal_written now x a s plan lots)\<rparr>,
                     Inr plan)))"

definition execute_plan ::
    "world \<Rightarrow> environment \<Rightarrow> policy_guard option \<Rightarrow> bool \<Rightarrow> (nat \<Rightarrow> string) \<Rightarrow> string \<Rightarrow> execution_state
      \<Rightarrow> execution_state \<times> execution_plan result" where
  "execute_plan w env guard allow_frozen clock now x =
     (case prepare_with_retries w clock (xt_store x) (xt_sleeve x) (xt_plan x) of
        (plan, Inl e) \<Rightarrow> (block_pending now e (x\<lparr>xt_plan := plan\<rparr>), Inl e)
      | (plan, Inr pe) \<Rightarrow> commit_execution w env guard allow_frozen pe now (x\<lparr>xt_plan := plan\<rparr>))"

section \<open>Recovery from journals\<close>

text \<open>Two dictionaries, two accounts, as their JSON dumps compare: the order of keys does not matter.\<close>

definition dict_same :: "('v \<Rightarrow> 'v \<Rightarrow> bool) \<Rightarrow> ('k, 'v) dict \<Rightarrow> ('k, 'v) dict \<Rightarrow> bool" where
  "dict_same same d d' \<longleftrightarrow> set (map fst d) = set (map fst d') \<and>
     list_all (\<lambda>k. case (map_of d k, map_of d' k) of (Some v, Some v') \<Rightarrow> same v v' | _ \<Rightarrow> False) (map fst d)"

definition positions_same :: "account_position \<Rightarrow> account_position \<Rightarrow> bool" where
  "positions_same p q \<longleftrightarrow> ap_symbol p = ap_symbol q \<and> ap_quantity p = ap_quantity q
     \<and> ap_avg_cost p = ap_avg_cost q \<and> dict_same (=) (ap_sources p) (ap_sources q)"

definition accounts_match :: "paper_account \<Rightarrow> paper_account \<Rightarrow> bool" where
  "accounts_match a b \<longleftrightarrow> pa_id a = pa_id b \<and> pa_currency a = pa_currency b
     \<and> pa_initial_cash a = pa_initial_cash b \<and> pa_cash a = pa_cash b
     \<and> dict_same (=) (pa_sleeve_cash a) (pa_sleeve_cash b) \<and> pa_realized_pnl a = pa_realized_pnl b
     \<and> pa_kill_switch a = pa_kill_switch b \<and> dict_same positions_same (pa_positions a) (pa_positions b)
     \<and> pa_pending a = pa_pending b \<and> pa_ledger a = pa_ledger b
     \<and> pa_created_at a = pa_created_at b \<and> pa_updated_at a = pa_updated_at b"

definition account_has_execution :: "paper_account \<Rightarrow> string \<Rightarrow> bool" where
  "account_has_execution a execution_id \<longleftrightarrow>
     list_ex (\<lambda>e. le_kind e = ''sleeve_execution_fill'' \<and> le_note e = execution_id) (pa_ledger a)"

text \<open>One journal; both accounts in it go through the validator of every load.\<close>

definition reconcile_journal ::
    "string \<Rightarrow> bool \<Rightarrow> journal \<Rightarrow> paper_account \<Rightarrow> sleeve_store
      \<Rightarrow> paper_account \<times> sleeve_store \<times> execution_plan result" where
  "reconcile_journal now commit j a st =
     (let seen = account_has_execution a (jr_execution_id j);
          matches = accounts_match a (ensure_manual_sleeve_cash (jr_before_account j));
          a = (if seen then a else if matches then ensure_manual_sleeve_cash (jr_after_account j) else a);
          plan = (if seen \<or> matches then jr_after_execution j
                  else (jr_after_execution j)\<lparr>xp_status := PlanBlocked,
                         xp_blocked_reason := Some ''recovery_required'', xp_updated_at := now\<rparr>);
          st = (if seen \<or> matches
                then save_sleeve_lots (jr_sleeve_id j) (jr_after_lots j) (save_sleeve (jr_after_sleeve j) st) else st);
          st = replace_execution plan st
      in if \<not> commit then (a, st, Inr plan)
         else case commit_execution_journal (jr_sleeve_id j) (jr_execution_id j) st of
                (st, Inl e) \<Rightarrow> (a, st, Inl e)
              | (st, Inr _) \<Rightarrow> (a, st, Inr plan))"

fun reconcile_journals ::
    "string \<Rightarrow> bool \<Rightarrow> journal list \<Rightarrow> paper_account \<Rightarrow> sleeve_store
      \<Rightarrow> paper_account \<times> sleeve_store \<times> execution_plan list result" where
  "reconcile_journals now commit [] a st = (a, st, Inr [])"
| "reconcile_journals now commit (j # js) a st =
     (case reconcile_journal now commit j a st of
        (a, st, Inl e) \<Rightarrow> (a, st, Inl e)
      | (a, st, Inr plan) \<Rightarrow>
          (case reconcile_journals now commit js a st of
             (a, st, Inl e) \<Rightarrow> (a, st, Inl e)
           | (a, st, Inr plans) \<Rightarrow> (a, st, Inr (plan # plans))))"

definition reconcile_execution_journals ::
    "string \<Rightarrow> bool \<Rightarrow> paper_account \<Rightarrow> sleeve_store \<Rightarrow> paper_account \<times> sleeve_store \<times> execution_plan list result" where
  "reconcile_execution_journals now commit a st =
     (case load_pending_execution_journals st of (st, js) \<Rightarrow> reconcile_journals now commit js a st)"

definition commit_plan_journal :: "execution_plan \<Rightarrow> sleeve_store \<Rightarrow> sleeve_store \<times> unit result" where
  "commit_plan_journal plan st = commit_execution_journal (xp_sleeve_id plan) (xp_id plan) st"

section \<open>Missed and pending plans\<close>

text \<open>The plan's reason to be overtaken by its date: none for a pending plan, its code for a price block.\<close>

definition missable :: "execution_plan \<Rightarrow> string option option" where
  "missable plan =
     (if xp_status plan = PlanPending then Some None
      else case xp_blocked_reason plan of
        Some code \<Rightarrow> if xp_status plan = PlanBlocked \<and> code \<in> set retry_codes then Some (Some code) else None
      | None \<Rightarrow> None)"

definition missed_window_record :: "execution_plan \<Rightarrow> string option \<Rightarrow> string \<Rightarrow> string \<Rightarrow> pyval" where
  "missed_window_record plan reason due now = VDict
     [(''previous_status'', VStr (plan_str (xp_status plan))), (''previous_blocked_reason'', opt_value VStr reason),
      (''target_date'', opt_value VStr (xp_target_date plan)), (''processing_date'', VStr due),
      (''marked_at'', VStr now)]"

text \<open>\<open>read_date\<close> and \<open>show_date\<close> are \<open>date.fromisoformat\<close> and \<open>isoformat\<close>, on the days of the calendar.\<close>

definition mark_missed_window ::
    "(string \<Rightarrow> int option) \<Rightarrow> (int \<Rightarrow> string) \<Rightarrow> string \<Rightarrow> string \<Rightarrow> execution_state \<Rightarrow> execution_state \<times> bool" where
  "mark_missed_window read_date show_date now processing_date x =
     (let plan = xt_plan x
      in if xp_window plan \<noteq> ''next_open'' then (x, False)
         else case (xp_target_date plan, read_date processing_date) of
           (Some target_date, Some due) \<Rightarrow>
             (case (read_date target_date, missable plan) of
                (Some target, Some reason) \<Rightarrow>
                  if due \<le> target then (x, False)
                  else let plan = plan\<lparr>xp_status := PlanMissedWindow, xp_updated_at := now,
                             xp_metadata := AList.update ''missed_window''
                               (missed_window_record plan reason (show_date due) now) (xp_metadata plan)\<rparr>
                       in (x\<lparr>xt_plan := plan, xt_store := replace_execution plan (xt_store x)\<rparr>, True)
              | _ \<Rightarrow> (x, False))
         | _ \<Rightarrow> (x, False))"

definition pending_plans ::
    "string \<Rightarrow> string option \<Rightarrow> string \<Rightarrow> string option \<Rightarrow> int \<Rightarrow> sleeve_store
      \<Rightarrow> (strategy_sleeve \<times> execution_plan) list result" where
  "pending_plans today sleeve_id window target_date limit st =
     (let due = (case target_date of None \<Rightarrow> today | Some d \<Rightarrow> if d = [] then today else d)
      in rbind (case sleeve_id of None \<Rightarrow> Inr (list_sleeves st) | Some i \<Rightarrow> rbind (load_sleeve i st) (\<lambda>s. Inr [s]))
           (\<lambda>sleeves. Inr (take (nat (max 1 limit)) (concat (map (\<lambda>s. map (Pair s)
             (filter (\<lambda>p. xp_status p = PlanPending \<and> xp_window p = window \<and> xp_target_date p = Some due)
                (load_executions (sv_id s) st))) sleeves)))))"

section \<open>What the operations leave behind\<close>

lemma load_replace_execution:
  "load_executions k (replace_execution plan st) =
     (if k = xp_sleeve_id plan then replace_first xp_id plan (load_executions k st) else load_executions k st)"
  by (simp add: replace_execution_def plans.load_save)

lemma replace_execution_stores [simp]:
  "ss_sleeves (replace_execution plan st) = ss_sleeves st" "ss_lots (replace_execution plan st) = ss_lots st"
  "ss_journals (replace_execution plan st) = ss_journals st" "ss_committed (replace_execution plan st) = ss_committed st"
  "ss_corrupt (replace_execution plan st) = ss_corrupt st" "ss_configs (replace_execution plan st) = ss_configs st"
  "ss_signals (replace_execution plan st) = ss_signals st"
  by (simp_all add: replace_execution_def save_executions_def)

lemma replace_execution_found:
  "find (\<lambda>p. xp_id p = xp_id plan) (load_executions (xp_sleeve_id plan) (replace_execution plan st)) = Some plan"
  by (simp add: load_replace_execution replace_first_finds)

lemma block_execution_fields [simp]:
  "xt_account (block_execution now code x) = xt_account x" "xt_sleeve (block_execution now code x) = xt_sleeve x"
  "xt_plan (block_execution now code x)
    = (xt_plan x)\<lparr>xp_status := PlanBlocked, xp_blocked_reason := Some code, xp_updated_at := now\<rparr>"
  "xt_store (block_execution now code x) = replace_execution (xt_plan (block_execution now code x)) (xt_store x)"
  by (simp_all add: block_execution_def Let_def)

lemma block_pending_cases:
  obtains "block_pending now e x = x"
  | code where "error_code e = Some code" "xp_status (xt_plan x) = PlanPending"
      "block_pending now e x = block_execution now code x"
  by (cases "error_code e"; cases "xp_status (xt_plan x) = PlanPending") (auto simp: block_pending_def)

lemma block_pending_settled: "xp_status (xt_plan x) \<noteq> PlanPending \<Longrightarrow> block_pending now e x = x"
  by (simp add: block_pending_def split: option.split)

text \<open>The order of a step's application: its cash, and what the account records of it.\<close>

definition step_flow :: "execution_step \<Rightarrow> rat" where
  "step_flow x = (case es_side x of
       Sell \<Rightarrow> es_quantity x * es_fill_price x - es_commission x
     | Buy \<Rightarrow> - (es_quantity x * es_fill_price x + es_commission x))"

definition work_step :: "string \<Rightarrow> execution_step \<Rightarrow> work \<Rightarrow> work \<Rightarrow> bool" where
  "work_step plan_id x k k' \<longleftrightarrow>
     pa_cash (wk_account k') = pa_cash (wk_account k) + step_flow x
     \<and> wk_cash k' = wk_cash k + step_flow x
     \<and> pa_sleeve_cash (wk_account k') = pa_sleeve_cash (wk_account k)
     \<and> pa_pending (wk_account k') = pa_pending (wk_account k)
     \<and> (\<exists>e. pa_ledger (wk_account k') = pa_ledger (wk_account k) @ [e]
          \<and> le_kind e = ''sleeve_execution_fill'' \<and> le_note e = plan_id)
     \<and> (\<exists>f. wk_fills k' = wk_fills k @ [f] \<and> sl_symbol f = upper (es_symbol x) \<and> sl_quantity f = es_quantity x
          \<and> sl_price f = es_fill_price x)"

lemma sleeve_fill_account:
  assumes "fill_to_account env i x f a = Inr a'"
  shows "pa_cash a' = pa_cash a + cash_delta f" and "pa_sleeve_cash a' = pa_sleeve_cash a"
    and "pa_pending a' = pa_pending a"
    and "\<exists>e. pa_ledger a' = pa_ledger a @ [e] \<and> le_kind e = ''sleeve_execution_fill'' \<and> le_note e = ef_order_id f"
proof -
  obtain u where run: "apply_fill env f (sleeve_source i) (Some (pq_price_kind (es_quote x)))
      ''sleeve_execution_fill'' a = (a', Inr u)"
    using assms by (auto simp: fill_to_account_def split: prod.splits sum.splits)
  note ap = apply_fill_applied [OF run]
  show "pa_cash a' = pa_cash a + cash_delta f" "pa_pending a' = pa_pending a"
    by (rule ap(2), rule ap(5))
  show "pa_sleeve_cash a' = pa_sleeve_cash a"
    unfolding ap(7) cash_settled_def by (simp add: sync_manual_sleeve_cash_def cash_belongs_to_manual_def)
  show "\<exists>e. pa_ledger a' = pa_ledger a @ [e] \<and> le_kind e = ''sleeve_execution_fill'' \<and> le_note e = ef_order_id f"
    using run unfolding apply_fill_eq by (auto simp: ledger_draft_def split: if_splits sum.splits)
qed

lemma account_fill_Inr:
  assumes "account_fill w plan x = Inr f"
  shows "cash_delta f = step_flow x" and "ef_order_id f = xp_id plan" and "fill_symbol f = es_symbol x"
    and "fill_side f = es_side x" and "fill_quantity f = es_quantity x"
  using assms by (auto simp: account_fill_def rbind_Inr new_execution_fill_def cash_delta_def step_flow_def
      split: if_splits side.splits)

lemma set_source_simps [simp]:
  "pa_cash (set_source_after_sell sy so b q a) = pa_cash a"
  "pa_sleeve_cash (set_source_after_sell sy so b q a) = pa_sleeve_cash a"
  "pa_pending (set_source_after_sell sy so b q a) = pa_pending a"
  "pa_ledger (set_source_after_sell sy so b q a) = pa_ledger a"
  by (simp_all add: set_source_after_sell_def Let_def)

lemma step_fill_Inr:
  assumes "step_fill w n now x = Inr f"
  shows "sl_symbol f = upper (es_symbol x) \<and> sl_quantity f = es_quantity x \<and> sl_price f = es_fill_price x"
  using assms by (auto simp: step_fill_def new_strategy_fill_def Let_def split: if_splits)

text \<open>A sell or a buy as one account transition; the lots it leaves are the book's.\<close>

definition booked :: "environment \<Rightarrow> string \<Rightarrow> execution_step \<Rightarrow> execution_fill \<Rightarrow> work \<Rightarrow> work \<Rightarrow> bool" where
  "booked env i x f k k' \<longleftrightarrow>
     (\<exists>a. fill_to_account env i x f (wk_account k) = Inr a
        \<and> pa_cash (wk_account k') = pa_cash a \<and> pa_sleeve_cash (wk_account k') = pa_sleeve_cash a
        \<and> pa_pending (wk_account k') = pa_pending a \<and> pa_ledger (wk_account k') = pa_ledger a)
     \<and> wk_cash k' = wk_cash k + step_flow x \<and> wk_fills k' = wk_fills k"

lemma apply_sell_booked:
  assumes "apply_sell env now i x f k = Inr k'" and "es_side x = Sell"
  shows "booked env i x f k k'"
  using assms by (auto simp: apply_sell_def booked_def Let_def rbind_Inr step_flow_def split: prod.splits sum.splits)

lemma apply_buy_booked:
  assumes "apply_buy env lot_id now i x f k = Inr k'" and "es_side x = Buy"
  shows "booked env i x f k k'"
proof -
  obtain a where a: "fill_to_account env i x f (wk_account k) = Inr a"
    using assms(1) by (auto simp: apply_buy_def rbind_Inr)
  then show ?thesis
    using assms by (auto simp: apply_buy_def booked_def step_flow_def split: prod.splits sum.splits)
qed

lemma apply_step_work:
  assumes "apply_step w env now plan i x k = Inr k'"
  shows "work_step (xp_id plan) x k k'"
proof -
  obtain f k1 sf where f: "account_fill w plan x = Inr f"
    and k1: "(case es_side x of Sell \<Rightarrow> apply_sell env now i x f k
       | Buy \<Rightarrow> apply_buy env (xw_lot_id w (length (wk_fills k))) now i x f k) = Inr k1"
    and sf: "step_fill w (length (wk_fills k)) now x = Inr sf" and k': "k' = k1\<lparr>wk_fills := wk_fills k1 @ [sf]\<rparr>"
    using assms unfolding apply_step_def Let_def rbind_Inr by blast
  have "booked env i x f k k1"
    using k1 apply_sell_booked [of env now i x f k k1] apply_buy_booked [of env "xw_lot_id w (length (wk_fills k))" now i x f k k1]
    by (cases "es_side x") simp_all
  then obtain a where a: "fill_to_account env i x f (wk_account k) = Inr a"
    and same: "pa_cash (wk_account k1) = pa_cash a" "pa_sleeve_cash (wk_account k1) = pa_sleeve_cash a"
      "pa_pending (wk_account k1) = pa_pending a" "pa_ledger (wk_account k1) = pa_ledger a"
      "wk_cash k1 = wk_cash k + step_flow x" "wk_fills k1 = wk_fills k"
    unfolding booked_def by blast
  show ?thesis
    using sleeve_fill_account [OF a] account_fill_Inr [OF f] same step_fill_Inr [OF sf]
    by (simp add: work_step_def k')
qed

lemma apply_all_work:
  assumes "apply_all w env now plan i xs k = Inr k'"
  shows "pa_cash (wk_account k') = pa_cash (wk_account k) + sum_list (map step_flow xs)
    \<and> wk_cash k' = wk_cash k + sum_list (map step_flow xs)
    \<and> pa_sleeve_cash (wk_account k') = pa_sleeve_cash (wk_account k)
    \<and> pa_pending (wk_account k') = pa_pending (wk_account k)
    \<and> (\<exists>es. pa_ledger (wk_account k') = pa_ledger (wk_account k) @ es \<and> length es = length xs
         \<and> (\<forall>e \<in> set es. le_kind e = ''sleeve_execution_fill'' \<and> le_note e = xp_id plan))
    \<and> (\<exists>fs. wk_fills k' = wk_fills k @ fs \<and> map sl_quantity fs = map es_quantity xs)"
  using assms
proof (induction xs arbitrary: k)
  case Nil
  then show ?case by simp
next
  case (Cons x xs)
  then obtain k1 where k1: "apply_step w env now plan i x k = Inr k1" "apply_all w env now plan i xs k1 = Inr k'"
    by (auto simp: rbind_Inr)
  obtain e f where s: "pa_cash (wk_account k1) = pa_cash (wk_account k) + step_flow x"
    "wk_cash k1 = wk_cash k + step_flow x" "pa_sleeve_cash (wk_account k1) = pa_sleeve_cash (wk_account k)"
    "pa_pending (wk_account k1) = pa_pending (wk_account k)"
    "pa_ledger (wk_account k1) = pa_ledger (wk_account k) @ [e]"
    "le_kind e = ''sleeve_execution_fill''" "le_note e = xp_id plan"
    "wk_fills k1 = wk_fills k @ [f]" "sl_quantity f = es_quantity x"
    using apply_step_work [OF k1(1)] unfolding work_step_def by blast
  from Cons.IH [OF k1(2)] obtain es fs where ih:
    "pa_cash (wk_account k') = pa_cash (wk_account k1) + sum_list (map step_flow xs)"
    "wk_cash k' = wk_cash k1 + sum_list (map step_flow xs)"
    "pa_sleeve_cash (wk_account k') = pa_sleeve_cash (wk_account k1)"
    "pa_pending (wk_account k') = pa_pending (wk_account k1)"
    "pa_ledger (wk_account k') = pa_ledger (wk_account k1) @ es" "length es = length xs"
    "\<forall>e \<in> set es. le_kind e = ''sleeve_execution_fill'' \<and> le_note e = xp_id plan"
    "wk_fills k' = wk_fills k1 @ fs" "map sl_quantity fs = map es_quantity xs"
    by blast
  have "pa_cash (wk_account k') = pa_cash (wk_account k) + sum_list (map step_flow (x # xs))"
    and "wk_cash k' = wk_cash k + sum_list (map step_flow (x # xs))"
    using s(1,2) ih(1,2) by simp_all
  moreover have "pa_ledger (wk_account k') = pa_ledger (wk_account k) @ (e # es) \<and> length (e # es) = length (x # xs)
      \<and> (\<forall>e \<in> set (e # es). le_kind e = ''sleeve_execution_fill'' \<and> le_note e = xp_id plan)"
    using s(5,6,7) ih(5,6,7) by simp
  moreover have "wk_fills k' = wk_fills k @ (f # fs) \<and> map sl_quantity (f # fs) = map es_quantity (x # xs)"
    using s(8,9) ih(8,9) by simp
  moreover have "pa_sleeve_cash (wk_account k') = pa_sleeve_cash (wk_account k)"
    and "pa_pending (wk_account k') = pa_pending (wk_account k)"
    using s(3,4) ih(3,4) by simp_all
  ultimately show ?case
    by blast
qed

lemma order_plan_keeps:
  assumes "order_plan w ds h c ps qs i plan = Inr plan'"
  shows "xp_id plan' = xp_id plan \<and> xp_sleeve_id plan' = xp_sleeve_id plan \<and> xp_status plan' = xp_status plan
    \<and> xp_account_id plan' = xp_account_id plan"
  using assms by (auto simp: order_plan_def reraise_def rbind_Inr split: sum.splits if_splits)

lemma planned_steps_keeps:
  assumes "planned_steps w x pe = Inr (plan, steps)"
  shows "xp_id plan = xp_id (xt_plan x)" and "xp_sleeve_id plan = xp_sleeve_id (xt_plan x)"
    and "pe_is_definition pe \<or> steps \<noteq> []"
proof -
  show "xp_id plan = xp_id (xt_plan x)" "xp_sleeve_id plan = xp_sleeve_id (xt_plan x)"
    using assms order_plan_keeps
    by (auto simp: planned_steps_def recompute_definition_def rbind_Inr Let_def split: if_splits option.splits)
  show "pe_is_definition pe \<or> steps \<noteq> []"
    using assms build_steps_Inr(1) by (auto simp: planned_steps_def rbind_Inr split: if_splits)
qed

lemma validate_execution_context_Inr:
  assumes "validate_execution_context a s plan allow = Inr ()"
  shows "xp_status plan = PlanPending" and "sv_mode s = Allocated" and "sv_status s \<notin> {Paused, Stopped}"
    and "sv_account_id s = pa_id a" and "xp_account_id plan = pa_id a" and "xp_sleeve_id plan = sv_id s"
    and "pa_kill_switch a \<longrightarrow> allow" and "xp_window plan = ''next_open''"
  using assms by (auto simp: validate_execution_context_def split: if_splits)

text \<open>A plan with other metadata.\<close>

definition noted :: "execution_plan \<Rightarrow> metadata \<Rightarrow> execution_plan" where
  "noted plan m = plan\<lparr>xp_metadata := m\<rparr>"

lemma noted_fields [simp]:
  "xp_id (noted plan m) = xp_id plan" "xp_sleeve_id (noted plan m) = xp_sleeve_id plan"
  "xp_status (noted plan m) = xp_status plan" "xp_account_id (noted plan m) = xp_account_id plan"
  "xp_fills (noted plan m) = xp_fills plan" "xp_orders (noted plan m) = xp_orders plan"
  by (simp_all add: noted_def)

lemma noted_self: "\<exists>m. plan = noted plan m"
  by (rule exI [of _ "xp_metadata plan"]) (simp add: noted_def)

lemma consult_guard_notes:
  "consult_guard guard a s plan steps = (plan', r) \<Longrightarrow> \<exists>m. plan' = noted plan m"
  using noted_self [of plan] by (auto simp: consult_guard_def noted_def split: option.splits prod.splits)

lemma commit_checks_Inr:
  assumes "commit_checks w guard allow pe now x = (own, Inr (plan, steps))"
  obtains plan0 where "verify_prepared_binding (xt_plan x) pe = Inr ()" and "verify_prepared_digest w pe = Inr ()"
    and "validate_execution_context (xt_account x) (xt_sleeve x) (xt_plan x) allow = Inr ()"
    and "planned_steps w x pe = Inr (plan0, steps)"
    and "consult_guard guard (xt_account x) (xt_sleeve x) plan0 steps = (plan, Inr ())"
    and "preflight (xt_store x) (xt_account x) (xt_sleeve x) now steps = Inr ()"
    and "own = (if pe_is_definition pe then xt_plan x else plan)"
  using assms by (auto simp: commit_checks_def rbind_Inr split: sum.splits prod.splits)

lemma planned_snapshot:
  "planned_steps w x pe = Inr (plan, steps) \<Longrightarrow> \<not> pe_is_definition pe \<Longrightarrow> plan = xt_plan x"
  by (auto simp: planned_steps_def rbind_Inr split: if_splits)

text \<open>Whatever the checks say, the caller's plan keeps all but its metadata.\<close>

lemma commit_checks_own:
  assumes "commit_checks w guard allow pe now x = (own, r)"
  shows "\<exists>m. own = noted (xt_plan x) m"
  using assms noted_self [of "xt_plan x"] planned_snapshot [of w x pe]
  by (auto simp: commit_checks_def rbind_Inr split: sum.splits prod.splits if_splits dest!: consult_guard_notes)

lemma commit_checks_pending:
  assumes "commit_checks w guard allow pe now x = (own, Inr (plan, steps))"
  shows "xp_status (xt_plan x) = PlanPending" and "xp_sleeve_id (xt_plan x) = sv_id (xt_sleeve x)"
    and "xp_id plan = xp_id (xt_plan x)" and "xp_sleeve_id plan = xp_sleeve_id (xt_plan x)"
    and "pe_is_definition pe \<or> steps \<noteq> []"
proof -
  obtain plan0 where c: "validate_execution_context (xt_account x) (xt_sleeve x) (xt_plan x) allow = Inr ()"
    "planned_steps w x pe = Inr (plan0, steps)" "consult_guard guard (xt_account x) (xt_sleeve x) plan0 steps = (plan, Inr ())"
    by (rule commit_checks_Inr [OF assms])
  show "xp_status (xt_plan x) = PlanPending" "xp_sleeve_id (xt_plan x) = sv_id (xt_sleeve x)"
    using validate_execution_context_Inr [OF c(1)] by simp_all
  show "xp_id plan = xp_id (xt_plan x)" "xp_sleeve_id plan = xp_sleeve_id (xt_plan x)" "pe_is_definition pe \<or> steps \<noteq> []"
    using planned_steps_keeps [OF c(2)] consult_guard_notes [OF c(3)] by auto
qed

text \<open>A successful \<open>apply_steps\<close>.\<close>

lemma apply_steps_Inr:
  assumes "apply_steps w env now a s plan lots steps = Inr (a', s', plan', lots')"
  shows "pa_cash a' = pa_cash a + sum_list (map step_flow (ordered_steps steps))"
    and "sv_cash s' = max (sv_cash s + sum_list (map step_flow (ordered_steps steps))) 0"
    and "pa_sleeve_cash a' = AList.update (sv_id s) (sv_cash s') (pa_sleeve_cash a)"
    and "pa_pending a' = pa_pending a"
    and "\<exists>es. pa_ledger a' = pa_ledger a @ es \<and> length es = length steps
      \<and> (\<forall>e \<in> set es. le_kind e = ''sleeve_execution_fill'' \<and> le_note e = xp_id plan)"
    and "map sl_quantity (xp_fills plan') = map es_quantity (ordered_steps steps)"
    and "sv_id s' = sv_id s" and "xp_id plan' = xp_id plan" and "xp_sleeve_id plan' = xp_sleeve_id plan"
    and "xp_status plan' = PlanFilled"
proof -
  obtain k where k: "apply_all w env now plan (sv_id s) (ordered_steps steps)
      \<lparr>wk_account = a, wk_cash = sv_cash s, wk_book = lot_book_of lots, wk_fills = []\<rparr> = Inr k"
    and out: "a' = (wk_account k)\<lparr>pa_sleeve_cash := AList.update (sv_id s) (max (wk_cash k) 0) (pa_sleeve_cash (wk_account k))\<rparr>"
      "s' = s\<lparr>sv_cash := max (wk_cash k) 0, sv_updated_at := now\<rparr>"
      "plan' = plan\<lparr>xp_fills := wk_fills k, xp_status := PlanFilled, xp_updated_at := now\<rparr>"
    using assms by (auto simp: apply_steps_def rbind_Inr Let_def)
  have "length (ordered_steps steps) = length steps"
    by (simp add: ordered_steps_def)
  with apply_all_work [OF k] show
    "pa_cash a' = pa_cash a + sum_list (map step_flow (ordered_steps steps))"
    "sv_cash s' = max (sv_cash s + sum_list (map step_flow (ordered_steps steps))) 0"
    "pa_sleeve_cash a' = AList.update (sv_id s) (sv_cash s') (pa_sleeve_cash a)"
    "pa_pending a' = pa_pending a"
    "\<exists>es. pa_ledger a' = pa_ledger a @ es \<and> length es = length steps
      \<and> (\<forall>e \<in> set es. le_kind e = ''sleeve_execution_fill'' \<and> le_note e = xp_id plan)"
    "map sl_quantity (xp_fills plan') = map es_quantity (ordered_steps steps)"
    "sv_id s' = sv_id s" "xp_id plan' = xp_id plan" "xp_sleeve_id plan' = xp_sleeve_id plan"
    "xp_status plan' = PlanFilled"
    by (auto simp: out)
qed

text \<open>The outcomes of a commit.\<close>

definition shown :: "execution_state \<Rightarrow> metadata \<Rightarrow> execution_state" where
  "shown x m = x\<lparr>xt_plan := noted (xt_plan x) m\<rparr>"

lemma shown_fields [simp]:
  "xt_account (shown x m) = xt_account x" "xt_sleeve (shown x m) = xt_sleeve x" "xt_store (shown x m) = xt_store x"
  "xt_plan (shown x m) = noted (xt_plan x) m"
  by (simp_all add: shown_def)

lemma commit_cases:
  assumes "commit_execution w env guard allow pe now x = (x', r)"
  obtains (refused) e m where "commit_checks w guard allow pe now x = (noted (xt_plan x) m, Inl e)"
      "x' = block_pending now e (shown x m)" "r = Inl e"
  | (failed) e m plan steps where "x' = shown x m" "r = Inl e" "xp_status (xt_plan x) = PlanPending"
      "apply_steps w env now (xt_account x) (xt_sleeve x) plan
         (load_sleeve_lots (sv_id (xt_sleeve x)) (xt_store x)) steps = Inl e"
  | (skipped) plan m where "commit_checks w guard allow pe now x = (noted (xt_plan x) m, Inr (plan, []))"
      "x' = skip_execution now plan (shown x m)" "r = Inr (xt_plan x')"
  | (filled) plan steps a s plan' lots m where
      "commit_checks w guard allow pe now x = (noted (xt_plan x) m, Inr (plan, steps))" "steps \<noteq> []"
      "apply_steps w env now (xt_account x) (xt_sleeve x) plan
         (load_sleeve_lots (sv_id (xt_sleeve x)) (xt_store x)) steps = Inr (a, s, plan', lots)"
      "x' = \<lparr>xt_account = a, xt_sleeve = s, xt_plan = plan',
             xt_store = write_execution s (sv_id s) lots plan' (journal_written now (shown x m) a s plan' lots)\<rparr>"
      "r = Inr plan'"
proof -
  obtain own c where checks: "commit_checks w guard allow pe now x = (own, c)"
    by fastforce
  obtain m where m: "own = noted (xt_plan x) m"
    using commit_checks_own [OF checks] by blast
  then have own: "x\<lparr>xt_plan := own\<rparr> = shown x m"
    by (simp add: shown_def)
  show ?thesis
  proof (cases c)
    case (Inl e)
    with assms checks own m show ?thesis
      by (intro refused [of m e]) (auto simp: commit_execution_def shown_def)
  next
    case (Inr ps)
    obtain plan steps where ps: "ps = (plan, steps)"
      by (cases ps)
    note ok = checks [unfolded Inr ps]
    note pending = commit_checks_pending [OF ok]
    show ?thesis
    proof (cases "pe_is_definition pe \<and> steps = []")
      case True
      with assms ok own m show ?thesis
        by (intro skipped [of m plan]) (auto simp: commit_execution_def Let_def shown_def)
    next
      case False
      with pending(5) have "steps \<noteq> []"
        by blast
      then show ?thesis
        using assms ok own m pending(1)
        by (cases "apply_steps w env now (xt_account x) (xt_sleeve x) plan
              (load_sleeve_lots (sv_id (xt_sleeve x)) (xt_store x)) steps")
          (auto simp: commit_execution_def Let_def shown_def intro: failed filled)
    qed
  qed
qed

section \<open>Commits are all or nothing\<close>

lemma write_execution_stores [simp]:
  "ss_journals (write_execution s i lots plan st) = ss_journals st"
  "load_sleeve (sv_id s) (write_execution s i lots plan st) = Inr s"
  "load_sleeve_lots i (write_execution s i lots plan st) = lots"
  "load_sleeve_lots i' (write_execution s i lots plan st) = (if i' = i then lots else load_sleeve_lots i' st)"
  by (simp_all add: write_execution_def save_sleeve_lots_def save_sleeve_def load_sleeve_def load_sleeve_lots_def)

lemma load_executions_kept [simp]:
  "load_executions k (save_sleeve_lots i lots st) = load_executions k st"
  "load_executions k (save_sleeve s st) = load_executions k st"
  "load_executions k (save_execution_journal_pending i j p st) = load_executions k st"
  by (simp_all add: save_sleeve_lots_def save_sleeve_def save_execution_journal_pending_def load_executions_def)

lemma write_execution_found:
  "find (\<lambda>p. xp_id p = xp_id plan) (load_executions (xp_sleeve_id plan) (write_execution s i lots plan st)) = Some plan"
  by (simp add: write_execution_def replace_execution_found)

text \<open>The books a commit may change: account, sleeve, and the sleeve, lot and journal files.\<close>

definition same_books :: "execution_state \<Rightarrow> execution_state \<Rightarrow> bool" where
  "same_books x y \<longleftrightarrow> xt_account x = xt_account y \<and> xt_sleeve x = xt_sleeve y
     \<and> ss_sleeves (xt_store x) = ss_sleeves (xt_store y) \<and> ss_lots (xt_store x) = ss_lots (xt_store y)
     \<and> ss_journals (xt_store x) = ss_journals (xt_store y)"

lemma same_books_refl [simp]: "same_books x x"
  by (simp add: same_books_def)

lemma same_books_block [simp]: "same_books (block_execution now code y) x = same_books y x"
  by (simp add: same_books_def)

lemma same_books_block_pending [simp]: "same_books (block_pending now e x) x"
  by (rule block_pending_cases [of now e x]) auto

lemma same_books_skip [simp]: "same_books (skip_execution now plan y) x = same_books y x"
  by (simp add: same_books_def skip_execution_def Let_def)

lemma same_books_shown [simp]: "same_books y (shown x m) = same_books y x"
  by (simp add: same_books_def)

lemma same_books_shown_self [simp]: "same_books (shown x m) x"
  by (simp add: same_books_def)

lemma commit_is_all_or_nothing_parts:
  assumes "commit_execution w env guard allow pe now x = (x', r)"
  shows "r = Inl e \<Longrightarrow> same_books x' x \<and> (\<exists>m. x' = shown x m \<or> xp_status (xt_plan x) = PlanPending
      \<and> (\<exists>code. error_code e = Some code \<and> x' = block_execution now code (shown x m)))"
    and "r = Inr plan \<Longrightarrow> xp_status (xt_plan x) = PlanPending \<and> xt_plan x' = plan \<and> xp_id plan = xp_id (xt_plan x)
      \<and> find (\<lambda>p. xp_id p = xp_id plan) (load_executions (xp_sleeve_id plan) (xt_store x')) = Some plan
      \<and> (xp_status plan = PlanSkipped \<and> same_books x' x
         \<or> xp_status plan = PlanFilled
           \<and> load_sleeve (sv_id (xt_sleeve x)) (xt_store x') = Inr (xt_sleeve x')
           \<and> map_of (pa_sleeve_cash (xt_account x')) (sv_id (xt_sleeve x)) = Some (sv_cash (xt_sleeve x'))
           \<and> (\<exists>j. map_of (ss_journals (xt_store x')) (sv_id (xt_sleeve x), xp_id plan) = Some (Some j)
               \<and> jr_before_account j = xt_account x \<and> jr_after_account j = xt_account x' \<and> jr_after_execution j = plan
               \<and> jr_after_sleeve j = xt_sleeve x'
               \<and> jr_after_lots j = load_sleeve_lots (sv_id (xt_sleeve x)) (xt_store x')))"
proof -
  show "same_books x' x \<and> (\<exists>m. x' = shown x m \<or> xp_status (xt_plan x) = PlanPending
      \<and> (\<exists>code. error_code e = Some code \<and> x' = block_execution now code (shown x m)))" if "r = Inl e"
    using assms
  proof (cases rule: commit_cases)
    case (refused e' m)
    with that show ?thesis
      by (cases rule: block_pending_cases [of now e "shown x m"]) auto
  qed (use that in auto)
  show "xp_status (xt_plan x) = PlanPending \<and> xt_plan x' = plan \<and> xp_id plan = xp_id (xt_plan x)
      \<and> find (\<lambda>p. xp_id p = xp_id plan) (load_executions (xp_sleeve_id plan) (xt_store x')) = Some plan
      \<and> (xp_status plan = PlanSkipped \<and> same_books x' x
         \<or> xp_status plan = PlanFilled
           \<and> load_sleeve (sv_id (xt_sleeve x)) (xt_store x') = Inr (xt_sleeve x')
           \<and> map_of (pa_sleeve_cash (xt_account x')) (sv_id (xt_sleeve x)) = Some (sv_cash (xt_sleeve x'))
           \<and> (\<exists>j. map_of (ss_journals (xt_store x')) (sv_id (xt_sleeve x), xp_id plan) = Some (Some j)
               \<and> jr_before_account j = xt_account x \<and> jr_after_account j = xt_account x' \<and> jr_after_execution j = plan
               \<and> jr_after_sleeve j = xt_sleeve x'
               \<and> jr_after_lots j = load_sleeve_lots (sv_id (xt_sleeve x)) (xt_store x')))" if "r = Inr plan"
    using assms
  proof (cases rule: commit_cases)
    case (skipped p m)
    note keep = commit_checks_pending [OF skipped(1)]
    have "plan = xt_plan (skip_execution now p (shown x m))"
      using skipped that by simp
    moreover have "same_books x' x"
      by (simp add: skipped(2))
    ultimately show ?thesis
      using keep(1,3) replace_execution_found [of plan "xt_store x"]
      by (simp add: skipped(2)) (simp add: skip_execution_def Let_def)
  next
    case (filled p steps a s p' lots m)
    note keep = commit_checks_pending [OF filled(1)]
    note applied = apply_steps_Inr [OF filled(3)]
    have "p' = plan"
      using filled(5) that by simp
    moreover have "map_of (ss_journals (journal_written now (shown x m) a s plan lots)) (sv_id (xt_sleeve x), xp_id plan)
        = Some (Some (execution_journal now (shown x m) a s plan lots))"
      using keep applied(8) \<open>p' = plan\<close> by (simp add: journal_written_def save_execution_journal_pending_def)
    moreover have "load_sleeve (sv_id (xt_sleeve x)) (write_execution s (sv_id s) lots plan st) = Inr s" for st
      using applied(7) write_execution_stores(2) [of s] by simp
    ultimately show ?thesis
      using keep(1,3) applied(3,7,8,10)
        write_execution_found [of plan s "sv_id (xt_sleeve x)" lots "journal_written now (shown x m) a s plan lots"]
      by (simp add: filled(4) execution_journal_def)
  qed (use that in auto)
qed

text \<open>C1: A commit is all or nothing: when it raises, account, sleeve, lots and journals are as they were and
  the plan is unchanged but for a note of the guard, or was pending and is now blocked with the code raised; when it returns, the
  plan was pending and is on file, skipped with the books untouched, or filled with account, sleeve
  file and sleeve cash agreeing, the sleeve's lots written and the journal of the change on disk.\<close>

theorem commit_is_all_or_nothing:
  assumes "commit_execution w env guard allow pe now x = (x', r)"
  shows "(\<forall>e. r = Inl e \<longrightarrow>
      same_books x' x \<and> (\<exists>m. x' = shown x m \<or> xp_status (xt_plan x) = PlanPending
      \<and> (\<exists>code. error_code e = Some code \<and> x' = block_execution now code (shown x m))))
    \<and> (\<forall>plan. r = Inr plan \<longrightarrow>
      xp_status (xt_plan x) = PlanPending \<and> xt_plan x' = plan \<and> xp_id plan = xp_id (xt_plan x)
      \<and> find (\<lambda>p. xp_id p = xp_id plan) (load_executions (xp_sleeve_id plan) (xt_store x')) = Some plan
      \<and> (xp_status plan = PlanSkipped \<and> same_books x' x
         \<or> xp_status plan = PlanFilled
           \<and> load_sleeve (sv_id (xt_sleeve x)) (xt_store x') = Inr (xt_sleeve x')
           \<and> map_of (pa_sleeve_cash (xt_account x')) (sv_id (xt_sleeve x)) = Some (sv_cash (xt_sleeve x'))
           \<and> (\<exists>j. map_of (ss_journals (xt_store x')) (sv_id (xt_sleeve x), xp_id plan) = Some (Some j)
               \<and> jr_before_account j = xt_account x \<and> jr_after_account j = xt_account x' \<and> jr_after_execution j = plan
               \<and> jr_after_sleeve j = xt_sleeve x'
               \<and> jr_after_lots j = load_sleeve_lots (sv_id (xt_sleeve x)) (xt_store x'))))"
  by (rule conjI, rule allI, rule impI, rule commit_is_all_or_nothing_parts(1) [OF assms], assumption,
      rule allI, rule impI, rule commit_is_all_or_nothing_parts(2) [OF assms], assumption)

text \<open>C9: Cash moves together: a filled commit changes the account's cash by the flows of its steps (proceeds
  minus commission of a sell, cost plus commission of a buy) and the sleeve's cash by the same
  amount, cut off at zero; the cash of every other sleeve and the pending orders stay; the ledger
  gets one fill per step, noted with the plan, and the plan the quantities of its steps.\<close>

theorem commit_moves_cash:
  assumes "commit_execution w env guard allow pe now x = (x', Inr plan)" and "xp_status plan = PlanFilled"
  shows "\<exists>own plan0 steps flow. commit_checks w guard allow pe now x = (own, Inr (plan0, steps))
    \<and> flow = sum_list (map step_flow (ordered_steps steps))
    \<and> pa_cash (xt_account x') = pa_cash (xt_account x) + flow
    \<and> sv_cash (xt_sleeve x') = max (sv_cash (xt_sleeve x) + flow) 0
    \<and> (\<forall>other. other \<noteq> sv_id (xt_sleeve x) \<longrightarrow>
        map_of (pa_sleeve_cash (xt_account x')) other = map_of (pa_sleeve_cash (xt_account x)) other)
    \<and> pa_pending (xt_account x') = pa_pending (xt_account x)
    \<and> (\<exists>es. pa_ledger (xt_account x') = pa_ledger (xt_account x) @ es \<and> length es = length steps
        \<and> (\<forall>e \<in> set es. le_kind e = ''sleeve_execution_fill'' \<and> le_note e = xp_id plan))
    \<and> map sl_quantity (xp_fills plan) = map es_quantity (ordered_steps steps)"
  using assms(1)
proof (cases rule: commit_cases)
  case (skipped p m)
  with assms(2) show ?thesis
    by (simp add: skip_execution_def Let_def)
next
  case (filled p steps a s p' lots m)
  note applied = apply_steps_Inr [OF filled(3)]
  have "p' = plan"
    using filled(5) by simp
  with applied filled(1) show ?thesis
    by (intro exI [of _ "noted (xt_plan x) m"] exI [of _ p] exI [of _ steps] exI [of _ "sum_list (map step_flow (ordered_steps steps))"])
      (simp add: filled(4))
qed simp_all

section \<open>The life of a plan\<close>

text \<open>What can be done to a plan once it is on file; each command is one call with its own arguments.\<close>

datatype plan_command =
    Execute bool string
  | Commit bool prepared_execution string
  | BlockPlan string string
  | Expire string string

fun run_plan_command ::
    "world \<Rightarrow> environment \<Rightarrow> policy_guard option \<Rightarrow> (nat \<Rightarrow> string) \<Rightarrow> (string \<Rightarrow> int option) \<Rightarrow> (int \<Rightarrow> string)
      \<Rightarrow> execution_state \<Rightarrow> plan_command \<Rightarrow> execution_state" where
  "run_plan_command w env guard clock rd sd x (Execute allow now) = fst (execute_plan w env guard allow clock now x)"
| "run_plan_command w env guard clock rd sd x (Commit allow pe now) = fst (commit_execution w env guard allow pe now x)"
| "run_plan_command w env guard clock rd sd x (BlockPlan now reason) = fst (block_plan now reason x)"
| "run_plan_command w env guard clock rd sd x (Expire now processing_date) =
     fst (mark_missed_window rd sd now processing_date x)"

text \<open>The contract: a pending plan settles; only a blocked one may still expire.\<close>

inductive plan_move :: "plan_status \<Rightarrow> plan_status \<Rightarrow> bool" where
  fill: "plan_move PlanPending PlanFilled"
| skip: "plan_move PlanPending PlanSkipped"
| block: "plan_move PlanPending PlanBlocked"
| miss: "plan_move PlanPending PlanMissedWindow"
| miss_blocked: "plan_move PlanBlocked PlanMissedWindow"

code_pred plan_move .

inductive_cases plan_move_fromE: "plan_move a b"

lemma plan_settles:
  "plan_move\<^sup>*\<^sup>* PlanPending PlanMissedWindow" "plan_move\<^sup>*\<^sup>* PlanBlocked PlanMissedWindow"
  "plan_move\<^sup>*\<^sup>* PlanPending PlanFilled" "plan_move\<^sup>*\<^sup>* PlanPending PlanSkipped" "plan_move\<^sup>*\<^sup>* PlanPending PlanBlocked"
  by (rule r_into_rtranclp, rule plan_move.intros)+

abbreviation status_of :: "execution_state \<Rightarrow> plan_status" where
  "status_of x \<equiv> xp_status (xt_plan x)"

lemma commit_move:
  "plan_move\<^sup>*\<^sup>* (status_of x) (status_of (fst (commit_execution w env guard allow pe now x)))"
proof -
  obtain x' r where run: "commit_execution w env guard allow pe now x = (x', r)"
    by fastforce
  then have "plan_move\<^sup>*\<^sup>* (status_of x) (status_of x')"
  proof (cases rule: commit_cases)
    case (refused e m)
    then show ?thesis
      by (cases rule: block_pending_cases [of now e "shown x m"]) (auto simp: plan_settles)
  next
    case (skipped p m)
    with commit_checks_pending(1) [OF skipped(1)] show ?thesis
      by (auto simp: skip_execution_def Let_def plan_settles)
  next
    case (filled p steps a s p' lots m)
    with commit_checks_pending(1) [OF filled(1)] apply_steps_Inr(10) [OF filled(3)] show ?thesis
      by (auto simp: plan_settles)
  qed simp
  with run show ?thesis
    by simp
qed

text \<open>A plan that is not pending is refused before the guard is asked.\<close>

lemma commit_settled:
  assumes "status_of x \<noteq> PlanPending"
  shows "fst (commit_execution w env guard allow pe now x) = x"
proof -
  have "validate_execution_context (xt_account x) (xt_sleeve x) (xt_plan x) allow = exec_error ''execution_not_pending''"
    using assms by (simp add: validate_execution_context_def)
  then obtain e where "commit_checks w guard allow pe now x = (xt_plan x, Inl e)"
    by (cases "verify_prepared_binding (xt_plan x) pe"; cases "verify_prepared_digest w pe") (auto simp: commit_checks_def)
  with assms show ?thesis
    by (simp add: commit_execution_def block_pending_settled)
qed

lemma record_price_retry_status: "record_price_retry w now n code plan = Inr plan' \<Longrightarrow> xp_status plan' = xp_status plan"
  by (auto simp: record_price_retry_def Let_def split: pyval.splits if_splits)

lemma retry_loop_status: "retry_loop w clock st s n plan = (plan', r) \<Longrightarrow> xp_status plan' = xp_status plan"
proof (induction w clock st s n plan rule: retry_loop.induct)
  case (1 w clock st s retries plan)
  show ?case
  proof (cases "prepare_execution w retries (clock retries) st s plan")
    case (Inr pe)
    with "1.prems" show ?thesis
      by (subst (asm) retry_loop.simps) simp
  next
    case (Inl e)
    show ?thesis
    proof (cases "\<exists>code plan1. retryable e = Some code \<and> retries < xw_max_retries w
        \<and> record_price_retry w (clock retries) (Suc retries) code plan = Inr plan1")
      case True
      then obtain code plan1 where step: "retryable e = Some code" "retries < xw_max_retries w"
        "record_price_retry w (clock retries) (Suc retries) code plan = Inr plan1"
        by blast
      with "1.prems" Inl have "retry_loop w clock st s (Suc retries) plan1 = (plan', r)"
        by (subst (asm) retry_loop.simps) simp
      with "1.IH" [OF Inl step] record_price_retry_status [OF step(3)] show ?thesis
        by simp
    next
      case False
      with "1.prems" Inl show ?thesis
        by (subst (asm) retry_loop.simps) (auto split: option.splits sum.splits if_splits)
    qed
  qed
qed

text \<open>A plan that is not pending is refused by the first guard.\<close>

lemma prepare_settled:
  assumes "xp_status plan \<noteq> PlanPending"
  shows "prepare_with_retries w clock st s plan = (plan, exec_error ''execution_not_pending'')"
proof -
  have "prepare_execution w n now st s plan = exec_error ''execution_not_pending''" for n now
    using assms by (simp add: prepare_execution_def validate_structural_context_def)
  moreover have "retryable (PaperStrategyExecutionError ''execution_not_pending'') = None"
    by (simp add: retryable_def retry_codes_def)
  ultimately show ?thesis
    by (simp add: prepare_with_retries_def retry_loop.simps)
qed

lemma execute_plan_move:
  "plan_move\<^sup>*\<^sup>* (status_of x) (status_of (fst (execute_plan w env guard allow clock now x)))"
proof -
  obtain plan r where run: "prepare_with_retries w clock (xt_store x) (xt_sleeve x) (xt_plan x) = (plan, r)"
    by fastforce
  have status: "xp_status plan = status_of x"
    by (rule retry_loop_status [OF run [unfolded prepare_with_retries_def]])
  show ?thesis
  proof (cases r)
    case (Inl e)
    with run status show ?thesis
      by (cases rule: block_pending_cases [of now e "x\<lparr>xt_plan := plan\<rparr>"])
        (auto simp: execute_plan_def plan_settles)
  next
    case (Inr pe)
    with run status commit_move [of "x\<lparr>xt_plan := plan\<rparr>" w env guard allow pe now] show ?thesis
      by (auto simp: execute_plan_def)
  qed
qed

lemma missable_Some:
  assumes "missable plan = Some reason"
  shows "xp_status plan = PlanPending \<and> reason = None
    \<or> xp_status plan = PlanBlocked \<and> xp_blocked_reason plan = reason \<and> (\<exists>code \<in> set retry_codes. reason = Some code)"
  using assms by (cases "xp_blocked_reason plan"; cases reason) (auto simp: missable_def split: if_splits)

lemma missed_cases:
  obtains "mark_missed_window rd sd now pd x = (x, False)"
  | target_date target due reason where "xp_window (xt_plan x) = ''next_open''"
      "xp_target_date (xt_plan x) = Some target_date" "rd target_date = Some target" "rd pd = Some due" "target < due"
      "missable (xt_plan x) = Some reason" "snd (mark_missed_window rd sd now pd x)"
      "xt_plan (fst (mark_missed_window rd sd now pd x)) = (xt_plan x)\<lparr>xp_status := PlanMissedWindow, xp_updated_at := now,
          xp_metadata := AList.update ''missed_window'' (missed_window_record (xt_plan x) reason (sd due) now)
            (xp_metadata (xt_plan x))\<rparr>"
      "fst (mark_missed_window rd sd now pd x) = x\<lparr>xt_plan := xt_plan (fst (mark_missed_window rd sd now pd x)),
          xt_store := replace_execution (xt_plan (fst (mark_missed_window rd sd now pd x))) (xt_store x)\<rparr>"
proof -
  have "mark_missed_window rd sd now pd x = (x, False) \<or>
    (\<exists>target_date target due reason. xp_window (xt_plan x) = ''next_open''
      \<and> xp_target_date (xt_plan x) = Some target_date \<and> rd target_date = Some target \<and> rd pd = Some due \<and> target < due
      \<and> missable (xt_plan x) = Some reason \<and> snd (mark_missed_window rd sd now pd x)
      \<and> xt_plan (fst (mark_missed_window rd sd now pd x)) = (xt_plan x)\<lparr>xp_status := PlanMissedWindow, xp_updated_at := now,
          xp_metadata := AList.update ''missed_window'' (missed_window_record (xt_plan x) reason (sd due) now)
            (xp_metadata (xt_plan x))\<rparr>
      \<and> fst (mark_missed_window rd sd now pd x) = x\<lparr>xt_plan := xt_plan (fst (mark_missed_window rd sd now pd x)),
          xt_store := replace_execution (xt_plan (fst (mark_missed_window rd sd now pd x))) (xt_store x)\<rparr>)"
    by (simp add: mark_missed_window_def Let_def split: option.split)
  then show ?thesis
    using that by metis
qed

lemma run_plan_command_move:
  "plan_move\<^sup>*\<^sup>* (status_of x) (status_of (run_plan_command w env guard clock rd sd x c))"
proof (cases c)
  case (Execute allow now)
  then show ?thesis
    using execute_plan_move [of x w env guard allow clock now] by auto
next
  case (Commit allow pe now)
  then show ?thesis
    using commit_move [of x w env guard allow pe now] by auto
next
  case (BlockPlan now reason)
  then show ?thesis
    by (auto simp: block_plan_def plan_settles)
next
  case (Expire now pd)
  show ?thesis
  proof (cases rule: missed_cases [of rd sd now pd x])
    case 1
    with Expire show ?thesis by simp
  next
    case (2 target_date target due reason)
    with Expire missable_Some [OF 2(6)] show ?thesis
      by (auto simp: plan_settles)
  qed
qed

interpretation plan_life: invariant_machine "run_plan_command w env guard clock rd sd" "\<lambda>_. True"
    "\<lambda>x. plan_move\<^sup>*\<^sup>* status (status_of x)" for w env guard clock rd sd status
  by unfold_locales (rule rtranclp_trans [OF _ run_plan_command_move])

text \<open>A plan that is neither pending nor blocked is settled: no command touches anything any more.\<close>

lemma run_plan_command_settled:
  assumes "status_of x \<noteq> PlanPending" and "status_of x \<noteq> PlanBlocked"
  shows "run_plan_command w env guard clock rd sd x c = x"
proof (cases c)
  case (Execute allow now)
  with assms(1) show ?thesis
    by (simp add: execute_plan_def prepare_settled block_pending_settled)
next
  case (Commit allow pe now)
  with assms(1) show ?thesis
    by (simp add: commit_settled)
next
  case (BlockPlan now reason)
  with assms(1) show ?thesis
    by (simp add: block_plan_def)
next
  case (Expire now pd)
  show ?thesis
  proof (cases rule: missed_cases [of rd sd now pd x])
    case 1
    with Expire show ?thesis by simp
  next
    case (2 target_date target due reason)
    with assms missable_Some [OF 2(6)] show ?thesis
      by simp
  qed
qed

interpretation settled: invariant_machine "run_plan_command w env guard clock rd sd" "\<lambda>_. True"
    "\<lambda>y. y = x \<and> status_of x \<noteq> PlanPending \<and> status_of x \<noteq> PlanBlocked" for w env guard clock rd sd x
  by unfold_locales (auto simp: run_plan_command_settled)

lemma plan_executes_at_most_once_parts:
  shows "plan_move\<^sup>*\<^sup>* (status_of x) (status_of (foldl (run_plan_command w env guard clock rd sd) x commands))"
    and "status_of x \<notin> {PlanPending, PlanBlocked} \<Longrightarrow>
      foldl (run_plan_command w env guard clock rd sd) x commands = x"
proof -
  have all: "list_all (\<lambda>_. True) commands"
    by (simp add: list_all_iff)
  show "plan_move\<^sup>*\<^sup>* (status_of x) (status_of (foldl (run_plan_command w env guard clock rd sd) x commands))"
    by (rule plan_life.run_inv [OF _ all]) simp
  show "foldl (run_plan_command w env guard clock rd sd) x commands = x" if "status_of x \<notin> {PlanPending, PlanBlocked}"
    using settled.run_inv [OF _ all, of x x w env guard clock rd sd] that by simp
qed

text \<open>C3: A plan lives by its contract: whatever commits, executions, blocks and expiries follow one another,
  its status moves only from pending to filled, skipped, blocked or missed, and from blocked to
  missed; and a plan that is already filled, skipped or missed is executed no second time: every
  further command leaves account, sleeve, plan and store as they are.\<close>

theorem plan_executes_at_most_once:
  shows "(plan_move\<^sup>*\<^sup>* (status_of x) (status_of (foldl (run_plan_command w env guard clock rd sd) x commands)))
    \<and> (status_of x \<notin> {PlanPending, PlanBlocked} \<longrightarrow>
      foldl (run_plan_command w env guard clock rd sd) x commands = x)"
  by (rule conjI, rule plan_executes_at_most_once_parts(1),
      rule impI, rule plan_executes_at_most_once_parts(2), assumption)

lemma only_overdue_plans_expire_parts:
  assumes "mark_missed_window rd sd now pd x = (x', changed)"
  shows "\<not> changed \<Longrightarrow> x' = x"
    and "changed \<Longrightarrow> same_books x' x \<and> status_of x' = PlanMissedWindow
      \<and> xp_fills (xt_plan x') = xp_fills (xt_plan x) \<and> xp_orders (xt_plan x') = xp_orders (xt_plan x)
      \<and> xp_blocked_reason (xt_plan x') = xp_blocked_reason (xt_plan x)
      \<and> find (\<lambda>p. xp_id p = xp_id (xt_plan x)) (load_executions (xp_sleeve_id (xt_plan x)) (xt_store x')) = Some (xt_plan x')
      \<and> (\<exists>target_date target due. xp_target_date (xt_plan x) = Some target_date \<and> rd target_date = Some target
          \<and> rd pd = Some due \<and> target < due)
      \<and> (status_of x = PlanPending \<or> status_of x = PlanBlocked
          \<and> (\<exists>code \<in> set retry_codes. xp_blocked_reason (xt_plan x) = Some code))"
proof -
  show "x' = x" if "\<not> changed"
    using assms that by (cases rule: missed_cases [of rd sd now pd x]) auto
  show "same_books x' x \<and> status_of x' = PlanMissedWindow
      \<and> xp_fills (xt_plan x') = xp_fills (xt_plan x) \<and> xp_orders (xt_plan x') = xp_orders (xt_plan x)
      \<and> xp_blocked_reason (xt_plan x') = xp_blocked_reason (xt_plan x)
      \<and> find (\<lambda>p. xp_id p = xp_id (xt_plan x)) (load_executions (xp_sleeve_id (xt_plan x)) (xt_store x')) = Some (xt_plan x')
      \<and> (\<exists>target_date target due. xp_target_date (xt_plan x) = Some target_date \<and> rd target_date = Some target
          \<and> rd pd = Some due \<and> target < due)
      \<and> (status_of x = PlanPending \<or> status_of x = PlanBlocked
          \<and> (\<exists>code \<in> set retry_codes. xp_blocked_reason (xt_plan x) = Some code))" if changed
  proof (cases rule: missed_cases [of rd sd now pd x])
    case 1
    with assms that show ?thesis by simp
  next
    case (2 target_date target due reason)
    have x': "fst (mark_missed_window rd sd now pd x) = x'"
      using assms by simp
    note moved = 2(8,9) [unfolded x']
    have "xp_id (xt_plan x') = xp_id (xt_plan x)" "xp_sleeve_id (xt_plan x') = xp_sleeve_id (xt_plan x)"
      by (simp_all add: moved(1))
    then have "find (\<lambda>p. xp_id p = xp_id (xt_plan x)) (load_executions (xp_sleeve_id (xt_plan x)) (xt_store x')) = Some (xt_plan x')"
      using replace_execution_found [of "xt_plan x'" "xt_store x"] by (subst moved(2)) simp
    moreover have "same_books x' x"
      by (subst moved(2)) (simp add: same_books_def)
    ultimately show ?thesis
      using missable_Some [OF 2(6)] 2(2-5) by (auto simp: moved(1))
  qed
qed

text \<open>Plans expire only when overdue: \<open>mark_missed_window\<close> changes something only for a plan of the open
  whose target date is before the processing date and that is pending or blocked for want of
  prices; then the plan is on file as missed, with its fills, orders and blocked reason as they
  were, and the account, the sleeve, the lots and the journals are untouched.\<close>

theorem only_overdue_plans_expire:
  assumes "mark_missed_window rd sd now pd x = (x', changed)"
  shows "(\<not> changed \<longrightarrow>
      x' = x)
    \<and> (changed \<longrightarrow>
      same_books x' x \<and> status_of x' = PlanMissedWindow
      \<and> xp_fills (xt_plan x') = xp_fills (xt_plan x) \<and> xp_orders (xt_plan x') = xp_orders (xt_plan x)
      \<and> xp_blocked_reason (xt_plan x') = xp_blocked_reason (xt_plan x)
      \<and> find (\<lambda>p. xp_id p = xp_id (xt_plan x)) (load_executions (xp_sleeve_id (xt_plan x)) (xt_store x')) = Some (xt_plan x')
      \<and> (\<exists>target_date target due. xp_target_date (xt_plan x) = Some target_date \<and> rd target_date = Some target
          \<and> rd pd = Some due \<and> target < due)
      \<and> (status_of x = PlanPending \<or> status_of x = PlanBlocked
          \<and> (\<exists>code \<in> set retry_codes. xp_blocked_reason (xt_plan x) = Some code)))"
  by (rule conjI, rule impI, rule only_overdue_plans_expire_parts(1) [OF assms], assumption,
      rule impI, rule only_overdue_plans_expire_parts(2) [OF assms], assumption)

section \<open>A fresh preparation is accepted\<close>

lemma fresh_preparation_is_accepted_parts:
  assumes "prepare_execution w attempt t (xt_store x) (xt_sleeve x) (xt_plan x) = Inr pe"
  shows "verify_prepared_binding (xt_plan x) pe = Inr () \<and> verify_prepared_digest w pe = Inr ()"
    and "\<not> pe_is_definition pe \<Longrightarrow> (\<exists>steps. pe_snapshot_steps pe = Some steps \<and> steps \<noteq> []
      \<and> commit_checks w guard allow pe now x =
         (if pa_kill_switch (xt_account x) \<and> \<not> allow then (xt_plan x, exec_error ''account_frozen'')
          else if sv_account_id (xt_sleeve x) \<noteq> pa_id (xt_account x) \<or> xp_account_id (xt_plan x) \<noteq> pa_id (xt_account x)
          then (xt_plan x, exec_error ''account_sleeve_mismatch'')
          else (case consult_guard guard (xt_account x) (xt_sleeve x) (xt_plan x) steps of (plan, allowed) \<Rightarrow>
            (plan, rbind allowed (\<lambda>_.
              rbind (preflight (xt_store x) (xt_account x) (xt_sleeve x) now steps) (\<lambda>_. Inr (plan, steps)))))))"
proof -
  obtain config where structural: "validate_structural_context (xt_sleeve x) (xt_plan x) = Inr ()"
    and config: "definition_config w (xt_store x) (xt_sleeve x) (xt_plan x) = Inr config"
    using assms by (auto simp: prepare_execution_def rbind_Inr)
  consider (bound) quotes prices where "pe = bind_plan w t (xt_plan x) True quotes prices None"
    | (orders) quotes steps where "build_steps w (xt_plan x) quotes = Inr steps"
      "pe = bind_plan w t (xt_plan x) False quotes (map (\<lambda>(s, qt). (s, fin (pq_price qt))) quotes) (Some steps)"
    using assms structural config
    by (auto simp: prepare_execution_def rbind_Inr Let_def split: option.splits if_splits)
  note paths = this
  show checks: "verify_prepared_binding (xt_plan x) pe = Inr () \<and> verify_prepared_digest w pe = Inr ()"
    by (cases rule: paths)
      (simp_all add: verify_prepared_binding_def verify_prepared_digest_def bind_plan_digest)
  show "\<exists>steps. pe_snapshot_steps pe = Some steps \<and> steps \<noteq> []
      \<and> commit_checks w guard allow pe now x =
         (if pa_kill_switch (xt_account x) \<and> \<not> allow then (xt_plan x, exec_error ''account_frozen'')
          else if sv_account_id (xt_sleeve x) \<noteq> pa_id (xt_account x) \<or> xp_account_id (xt_plan x) \<noteq> pa_id (xt_account x)
          then (xt_plan x, exec_error ''account_sleeve_mismatch'')
          else (case consult_guard guard (xt_account x) (xt_sleeve x) (xt_plan x) steps of (plan, allowed) \<Rightarrow>
            (plan, rbind allowed (\<lambda>_.
              rbind (preflight (xt_store x) (xt_account x) (xt_sleeve x) now steps) (\<lambda>_. Inr (plan, steps))))))"
    if "\<not> pe_is_definition pe"
  proof (cases rule: paths)
    case bound
    with that show ?thesis by simp
  next
    case orders
    have "build_step w (sort_key fst quotes) = build_step w quotes"
      by (rule build_step_lookup) simp
    then have "planned_steps w x pe = Inr (xt_plan x, steps)"
      using orders(1) by (simp add: planned_steps_def orders(2) build_steps_def)
    moreover have "validate_execution_context (xt_account x) (xt_sleeve x) (xt_plan x) allow =
        (if pa_kill_switch (xt_account x) \<and> \<not> allow then exec_error ''account_frozen''
         else if sv_account_id (xt_sleeve x) \<noteq> pa_id (xt_account x) \<or> xp_account_id (xt_plan x) \<noteq> pa_id (xt_account x)
         then exec_error ''account_sleeve_mismatch'' else Inr ())"
      using structural by (simp add: validate_structural_context_def validate_execution_context_def split: if_splits)
    ultimately show ?thesis
      using checks build_steps_Inr(1) [OF orders(1)]
      by (intro exI [of _ steps]) (simp add: commit_checks_def orders(2))
  qed
qed

text \<open>What was prepared is what is committed: on the plan, sleeve and store it was prepared from, a
  prepared execution passes the binding and the digest, and on the path of the signal's orders the
  steps recomputed from its quotes are its snapshot; so a commit can only be refused by the account
  (frozen, or not the plan's), by the policy guard or by the preflight, with the snapshot's steps.\<close>

theorem fresh_preparation_is_accepted:
  assumes "prepare_execution w attempt t (xt_store x) (xt_sleeve x) (xt_plan x) = Inr pe"
  shows "(verify_prepared_binding (xt_plan x) pe = Inr () \<and> verify_prepared_digest w pe = Inr ())
    \<and> (\<not> pe_is_definition pe \<longrightarrow>
      (\<exists>steps. pe_snapshot_steps pe = Some steps \<and> steps \<noteq> []
      \<and> commit_checks w guard allow pe now x =
         (if pa_kill_switch (xt_account x) \<and> \<not> allow then (xt_plan x, exec_error ''account_frozen'')
          else if sv_account_id (xt_sleeve x) \<noteq> pa_id (xt_account x) \<or> xp_account_id (xt_plan x) \<noteq> pa_id (xt_account x)
          then (xt_plan x, exec_error ''account_sleeve_mismatch'')
          else (case consult_guard guard (xt_account x) (xt_sleeve x) (xt_plan x) steps of (plan, allowed) \<Rightarrow>
            (plan, rbind allowed (\<lambda>_.
              rbind (preflight (xt_store x) (xt_account x) (xt_sleeve x) now steps) (\<lambda>_. Inr (plan, steps))))))))"
  by (rule conjI, rule fresh_preparation_is_accepted_parts(1) [OF assms],
      rule impI, rule fresh_preparation_is_accepted_parts(2) [OF assms], assumption)

section \<open>Recovery finishes an interrupted commit\<close>

lemma update_again [simp]: "AList.update k v (AList.update k v d) = AList.update k v d"
  by (induction d) auto

lemma replace_first_again [simp]: "replace_first ident x (replace_first ident x ys) = replace_first ident x ys"
  by (induction ys) auto

lemma replace_execution_again [simp]: "replace_execution plan (replace_execution plan st) = replace_execution plan st"
  by (simp add: replace_execution_def plans.load_save) (simp add: save_executions_def)

lemma write_execution_again [simp]:
  "write_execution s i lots plan (write_execution s i lots plan st) = write_execution s i lots plan st"
proof -
  have comm: "save_sleeve_lots i lots (save_sleeve s (replace_execution plan st)) = replace_execution plan (save_sleeve_lots i lots (save_sleeve s st))" for st
    by (simp add: save_sleeve_lots_def save_sleeve_def replace_execution_def save_executions_def load_executions_def)
  have "save_sleeve_lots i lots (save_sleeve s (save_sleeve_lots i lots (save_sleeve s st))) = save_sleeve_lots i lots (save_sleeve s st)"
    by (simp add: save_sleeve_lots_def save_sleeve_def)
  then show ?thesis
    by (simp add: write_execution_def comm)
qed

lemma dict_same_refl: "(\<And>v. v \<in> snd ` set d \<Longrightarrow> same v v) \<Longrightarrow> dict_same same d d"
proof -
  assume same: "\<And>v. v \<in> snd ` set d \<Longrightarrow> same v v"
  have "case (map_of d k, map_of d k) of (Some v, Some v') \<Rightarrow> same v v' | _ \<Rightarrow> False" if "k \<in> set (map fst d)" for k
  proof (cases "map_of d k")
    case None
    with that show ?thesis by (auto simp: map_of_eq_None_iff)
  next
    case (Some v)
    with same [of v] show ?thesis by (force dest: map_of_SomeD)
  qed
  then show ?thesis
    by (simp add: dict_same_def list_all_iff)
qed

lemma accounts_match_refl [simp]: "accounts_match a a"
  by (simp add: accounts_match_def dict_same_refl positions_same_def)

lemma ensure_ledger [simp]: "pa_ledger (ensure_manual_sleeve_cash a) = pa_ledger a"
  by (simp add: ensure_manual_sleeve_cash_def)

text \<open>The one journal of a commit, read back.\<close>

lemma load_single_journal:
  "ss_journals st = [(k, Some j)] \<Longrightarrow> load_pending_execution_journals st = (st, [j])"
  by (simp add: load_pending_execution_journals_def)

lemma journal_written_single:
  assumes "ss_journals (xt_store x) = []"
  shows "ss_journals (journal_written now x a s plan lots)
    = [((sv_id (xt_sleeve x), xp_id (xt_plan x)), Some (execution_journal now x a s plan lots))]"
  using assms by (simp add: journal_written_def save_execution_journal_pending_def)

lemma commit_pending_journal:
  assumes "map_of (ss_journals st) (i, j) = Some p"
  shows "\<exists>st'. commit_execution_journal i j st = (st', Inr ())"
  using assms by (simp add: commit_execution_journal_def Let_def)

text \<open>C2: Recovery finishes an interrupted commit: take a commit that filled a plan the account had no fill of,
  with no other journal pending. After a crash once the journal was written, with the account still as before, and after
  a crash once the account was saved but the journal was not committed, recovery gives the same
  result as the uninterrupted run: the account after the fills (as a load validates it), the store
  with sleeve, lots and plan written and the journal committed, and the filled plan as recovered.\<close>

theorem recovery_completes_commit:
  assumes "commit_execution w env guard allow pe now x = (x', Inr plan)" and "xp_status plan = PlanFilled"
    and "ss_journals (xt_store x) = []" and "ensure_manual_sleeve_cash (xt_account x) = xt_account x"
    and "\<not> account_has_execution (xt_account x) (xp_id plan)"
  shows "\<exists>m st lots. commit_plan_journal plan (xt_store x') = (st, Inr ())
    \<and> lots = load_sleeve_lots (sv_id (xt_sleeve x)) (xt_store x')
    \<and> reconcile_execution_journals t True (xt_account x)
         (journal_written now (shown x m) (xt_account x') (xt_sleeve x') plan lots)
       = (ensure_manual_sleeve_cash (xt_account x'), st, Inr [plan])
    \<and> reconcile_execution_journals t True (ensure_manual_sleeve_cash (xt_account x')) (xt_store x')
       = (ensure_manual_sleeve_cash (xt_account x'), st, Inr [plan])"
  using assms(1)
proof (cases rule: commit_cases)
  case (skipped p m)
  with assms(2) show ?thesis
    by (simp add: skip_execution_def Let_def)
next
  case (filled p steps a s p' lots m)
  note keep = commit_checks_pending [OF filled(1)]
  note applied = apply_steps_Inr [OF filled(3)]
  have p': "p' = plan"
    using filled(5) by simp
  have ids: "sv_id s = sv_id (xt_sleeve x)" "xp_id plan = xp_id (xt_plan x)" "xp_sleeve_id plan = sv_id (xt_sleeve x)"
    using keep applied(7-9) by (simp_all add: p')
  let ?j = "execution_journal now (shown x m) a s plan lots"
  let ?st0 = "journal_written now (shown x m) a s plan lots"
  let ?st1 = "write_execution s (sv_id (xt_sleeve x)) lots plan ?st0"
  have x': "x' = \<lparr>xt_account = a, xt_sleeve = s, xt_plan = plan, xt_store = ?st1\<rparr>"
    using filled(4) by (simp add: p' ids)
  have single: "ss_journals ?st0 = [((sv_id (xt_sleeve x), xp_id plan), Some ?j)]" "ss_journals ?st1 = ss_journals ?st0"
    using journal_written_single [of "shown x m"] assms(3) by (simp_all add: ids)
  then obtain st where st: "commit_execution_journal (sv_id (xt_sleeve x)) (xp_id plan) ?st1 = (st, Inr ())"
    using commit_pending_journal [of ?st1 "sv_id (xt_sleeve x)" "xp_id plan" "Some ?j"] by auto
  obtain es where es: "pa_ledger a = pa_ledger (xt_account x) @ es" "length es = length steps"
    "\<forall>e \<in> set es. le_kind e = ''sleeve_execution_fill'' \<and> le_note e = xp_id plan"
    using applied(5,8) by (auto simp: p')
  then have "es \<noteq> []"
    using filled(2) by auto
  with es have seen: "account_has_execution (ensure_manual_sleeve_cash a) (xp_id plan)"
    by (cases es) (auto simp: account_has_execution_def)
  have one: "reconcile_journal t True ?j (xt_account x) ?st0 = (ensure_manual_sleeve_cash a, st, Inr plan)"
    using assms(5) st unfolding reconcile_journal_def Let_def
    by (simp add: execution_journal_def ids assms(4) write_execution_def)
  have two: "reconcile_journal t True ?j (ensure_manual_sleeve_cash a) st' = (ensure_manual_sleeve_cash a, st, Inr plan)"
    if "write_execution s (sv_id (xt_sleeve x)) lots plan st' = ?st1" for st'
    using that seen st unfolding reconcile_journal_def Let_def
    by (simp add: execution_journal_def ids write_execution_def)
  show ?thesis
    using st one two [of ?st1] load_single_journal [OF single(1)] load_single_journal [of ?st1, OF single(2) [unfolded single(1)]]
    by (intro exI [of _ m] exI [of _ st] exI [of _ lots])
      (simp add: x' ids commit_plan_journal_def reconcile_execution_journals_def)
qed simp_all

section \<open>A commit on concrete books\<close>

text \<open>A sleeve with 100 in cash buys for 100 at the quoted price, with 5 basis points of slippage and one of
  commission.\<close>

definition example_state :: execution_state where
  "example_state = \<lparr>xt_account = example_account\<lparr>pa_id := ''acct''\<rparr>, xt_sleeve = example_sleeve,
     xt_plan = example_plan, xt_store = empty_store\<rparr>"

definition prepare_and_commit :: "execution_state \<Rightarrow> prepared_execution result \<times> execution_state \<times> execution_plan result" where
  "prepare_and_commit x =
     (case prepare_execution example_world 1 ''1'' (xt_store x) (xt_sleeve x) (xt_plan x) of
        Inl e \<Rightarrow> (Inl e, x, Inl e)
      | Inr pe \<Rightarrow> (Inr pe, commit_execution example_world example_env None False pe ''now'' x))"

lemma example_filled:
  obtains pe x' plan where
    "prepare_execution example_world 1 ''1'' (xt_store example_state) (xt_sleeve example_state) (xt_plan example_state) = Inr pe"
    "\<not> pe_is_definition pe"
    "commit_execution example_world example_env None False pe ''now'' example_state = (x', Inr plan)"
    "xp_status plan = PlanFilled" "\<not> account_has_execution (xt_account example_state) (xp_id plan)"
    "pa_cash (xt_account x') < dict_total (pa_sleeve_cash (xt_account x'))"
proof -
  have "case prepare_and_commit example_state of
      (Inr pe, x', Inr plan) \<Rightarrow> \<not> pe_is_definition pe \<and> xp_status plan = PlanFilled
        \<and> \<not> account_has_execution (xt_account example_state) (xp_id plan)
        \<and> pa_cash (xt_account x') < dict_total (pa_sleeve_cash (xt_account x'))
    | _ \<Rightarrow> False"
    by code_simp
  then show ?thesis
    using that by (auto simp: prepare_and_commit_def split: sum.splits prod.splits)
qed

lemma example_books:
  "ss_journals (xt_store example_state) = []"
  "ensure_manual_sleeve_cash (xt_account example_state) = xt_account example_state"
  "status_of example_state = PlanPending"
  "dict_total (pa_sleeve_cash (xt_account example_state)) = pa_cash (xt_account example_state)"
  by (simp add: example_state_def empty_store_def) code_simp+

theorem commit_is_all_or_nothing_witness:
  "\<exists>pe x' plan. commit_execution example_world example_env None False pe ''now'' example_state = (x', Inr plan)
    \<and> load_sleeve (sv_id (xt_sleeve example_state)) (xt_store x') = Inr (xt_sleeve x') \<and> xp_status plan = PlanFilled"
proof -
  obtain pe x' plan where run: "commit_execution example_world example_env None False pe ''now'' example_state = (x', Inr plan)"
    "xp_status plan = PlanFilled"
    by (rule example_filled)
  show ?thesis
    using commit_is_all_or_nothing [OF run(1)] run by auto
qed

theorem commit_moves_cash_witness:
  "\<exists>pe x' plan flow. commit_execution example_world example_env None False pe ''now'' example_state = (x', Inr plan)
    \<and> pa_cash (xt_account x') = pa_cash (xt_account example_state) + flow
    \<and> sv_cash (xt_sleeve x') = max (sv_cash (xt_sleeve example_state) + flow) 0"
proof -
  obtain pe x' plan where run: "commit_execution example_world example_env None False pe ''now'' example_state = (x', Inr plan)"
    "xp_status plan = PlanFilled"
    by (rule example_filled)
  show ?thesis
    using commit_moves_cash [OF run] run by blast
qed

theorem plan_executes_at_most_once_witness:
  "\<exists>pe x' plan. commit_execution example_world example_env None False pe ''now'' example_state = (x', Inr plan)
    \<and> (\<forall>commands. foldl (run_plan_command example_world example_env None nat_str (\<lambda>_. None) (\<lambda>_. [])) x' commands = x')"
proof -
  obtain pe x' plan where run: "commit_execution example_world example_env None False pe ''now'' example_state = (x', Inr plan)"
    "xp_status plan = PlanFilled"
    by (rule example_filled)
  have "status_of x' = PlanFilled"
    using run by (cases rule: commit_cases [OF run(1)]) auto
  then have "foldl (run_plan_command example_world example_env None nat_str (\<lambda>_. None) (\<lambda>_. [])) x' commands = x'" for commands
    using plan_executes_at_most_once [of x' example_world example_env None nat_str "\<lambda>_. None" "\<lambda>_. []" commands] by simp
  with run(1) show ?thesis
    by blast
qed

theorem only_overdue_plans_expire_witness:
  "\<exists>x'. mark_missed_window (\<lambda>s. Some (int (length s))) (\<lambda>_. []) ''now'' ''2026-01-05T'' example_state = (x', True)
    \<and> status_of x' = PlanMissedWindow \<and> same_books x' example_state"
proof -
  obtain x' changed where run: "mark_missed_window (\<lambda>s. Some (int (length s))) (\<lambda>_. []) ''now'' ''2026-01-05T'' example_state = (x', changed)"
    by fastforce
  have "snd (mark_missed_window (\<lambda>s. Some (int (length s))) (\<lambda>_. []) ''now'' ''2026-01-05T'' example_state)"
    by code_simp
  then have changed
    using run by simp
  with run only_overdue_plans_expire [OF run] this show ?thesis
    by auto
qed

theorem fresh_preparation_is_accepted_witness:
  "\<exists>pe steps. pe_snapshot_steps pe = Some steps \<and> verify_prepared_digest example_world pe = Inr ()
    \<and> commit_checks example_world None False pe ''now'' example_state =
       (example_plan, rbind (preflight empty_store (xt_account example_state) example_sleeve ''now'' steps)
          (\<lambda>_. Inr (example_plan, steps)))"
proof -
  obtain pe where pe: "prepare_execution example_world 1 ''1'' (xt_store example_state) (xt_sleeve example_state) (xt_plan example_state) = Inr pe"
    "\<not> pe_is_definition pe"
    by (rule example_filled)
  have books: "\<not> pa_kill_switch (xt_account example_state)" "sv_account_id (xt_sleeve example_state) = pa_id (xt_account example_state)"
    "xp_account_id (xt_plan example_state) = pa_id (xt_account example_state)"
    by (simp_all add: example_state_def example_account_def example_sleeve_def example_plan_def)
  have "xt_store example_state = empty_store" "xt_sleeve example_state = example_sleeve" "xt_plan example_state = example_plan"
    by (simp_all add: example_state_def)
  then show ?thesis
    using fresh_preparation_is_accepted [OF pe(1), of None False "''now''"] pe(2) books
    by (auto simp: consult_guard_def)
qed

theorem recovery_completes_commit_witness:
  "\<exists>pe x' plan m st lots. commit_execution example_world example_env None False pe ''now'' example_state = (x', Inr plan)
    \<and> reconcile_execution_journals ''later'' True (xt_account example_state)
         (journal_written ''now'' (shown example_state m) (xt_account x') (xt_sleeve x') plan lots)
       = (ensure_manual_sleeve_cash (xt_account x'), st, Inr [plan])"
proof -
  obtain pe x' plan where run: "commit_execution example_world example_env None False pe ''now'' example_state = (x', Inr plan)"
    "xp_status plan = PlanFilled" "\<not> account_has_execution (xt_account example_state) (xp_id plan)"
    by (rule example_filled)
  show ?thesis
    using recovery_completes_commit [OF run(1,2) example_books(1,2) run(3), of "''later''"] run(1) by blast
qed

text \<open>The preflight compares a buy with the sleeve's cash at the quoted price, without slippage and
  commission, and the commit cuts the sleeve's cash off at zero: a sleeve that spends all its cash
  on one buy leaves an account whose sleeve cash book, equal to its cash before, exceeds it.\<close>

theorem sleeve_can_overdraw_account:
  "\<exists>pe x' plan. commit_execution example_world example_env None False pe ''now'' example_state = (x', Inr plan)
    \<and> xp_status plan = PlanFilled
    \<and> dict_total (pa_sleeve_cash (xt_account example_state)) = pa_cash (xt_account example_state)
    \<and> pa_cash (xt_account x') < dict_total (pa_sleeve_cash (xt_account x'))"
proof -
  obtain pe x' plan where run: "commit_execution example_world example_env None False pe ''now'' example_state = (x', Inr plan)"
    "xp_status plan = PlanFilled" "pa_cash (xt_account x') < dict_total (pa_sleeve_cash (xt_account x'))"
    by (rule example_filled)
  with example_books(4) show ?thesis
    by blast
qed

text \<open>The guards of an execution refuse a paused and a stopped sleeve but not a quarantined or a demoted
  one: a plan that is pending when its sleeve's demotion completes is still executed.\<close>

theorem demoted_sleeve_still_trades:
  "case prepare_and_commit (example_state\<lparr>xt_sleeve := example_sleeve\<lparr>sv_status := DemotedComplete\<rparr>\<rparr>) of
     (Inr pe, x', Inr plan) \<Rightarrow> xp_status plan = PlanFilled \<and> map sl_quantity (xp_fills plan) = [10]
   | _ \<Rightarrow> False"
  by code_simp

end
