(* ===== verification/AccountDocument.thy ===== *)
theory AccountDocument
  imports SleeveService
begin

text \<open>
  The JSON document of the paper account and the inspection of its cash partitions
  (\<open>inspect_persisted_paper_account_allocation\<close> in
  \<open>src/quant_system/execution/account_repository.py\<close>), which reads the raw document and never
  builds an account. The document is what \<open>model_dump(mode="json")\<close> writes and \<open>model_validate\<close>
  reads, with the validator of the account. The lemmas show that an account survives its document,
  and that opening an account and allocating cash to new sleeves keep the document in order.
\<close>

section \<open>Documents\<close>

definition position_document :: "account_position \<Rightarrow> metadata" where
  "position_document p =
     [(''symbol'', VStr (ap_symbol p)), (''quantity'', num (ap_quantity p)), (''avg_cost'', num (ap_avg_cost p)),
      (''source_quantity'', rat_values (ap_sources p))]"

definition ledger_document :: "ledger_entry \<Rightarrow> metadata" where
  "ledger_document e =
     [(''entry_id'', VStr (le_id e)), (''timestamp'', VStr (le_timestamp e)), (''kind'', VStr (le_kind e)),
      (''source'', VStr (le_source e)), (''symbol'', opt_value VStr (le_symbol e)),
      (''side'', opt_value VStr (le_side e)), (''quantity'', opt_value num (le_quantity e)),
      (''price'', opt_value num (le_price e)), (''gross_value'', opt_value num (le_gross e)),
      (''commission'', num (le_commission e)), (''price_kind'', opt_value VStr (le_price_kind e)),
      (''realized_pnl_delta'', num (le_realized_delta e)), (''cash_after'', num (le_cash_after e)),
      (''note'', VStr (le_note e))]"

definition pending_document :: "pending_order \<Rightarrow> metadata" where
  "pending_document p =
     [(''order_id'', VStr (po_id p)), (''created_at'', VStr (po_created_at p)), (''symbol'', VStr (po_symbol p)),
      (''side'', VStr (po_side p)), (''quantity'', num (po_quantity p)), (''limit_price'', num (po_limit p)),
      (''reserved_cash'', num (po_reserved_cash p)), (''reserved_quantity'', num (po_reserved_quantity p)),
      (''source'', VStr (po_source p)), (''reason'', VStr (po_reason p)),
      (''last_checked_price'', opt_value num (po_last_price p)),
      (''last_checked_price_kind'', opt_value VStr (po_last_price_kind p)),
      (''last_checked_at'', opt_value VStr (po_last_checked_at p))]"

definition account_document :: "paper_account \<Rightarrow> metadata" where
  "account_document a =
     [(''account_id'', VStr (pa_id a)), (''base_currency'', VStr (pa_currency a)),
      (''initial_cash'', num (pa_initial_cash a)), (''cash'', num (pa_cash a)),
      (''sleeve_cash'', rat_values (pa_sleeve_cash a)), (''realized_pnl'', num (pa_realized_pnl a)),
      (''kill_switch'', VBool (pa_kill_switch a)),
      (''positions'', VDict (map (\<lambda>(k, p). (k, VDict (position_document p))) (pa_positions a))),
      (''pending_orders'', VList (map (\<lambda>p. VDict (pending_document p)) (pa_pending a))),
      (''ledger'', VList (map (\<lambda>e. VDict (ledger_document e)) (pa_ledger a))),
      (''created_at'', VStr (pa_created_at a)), (''updated_at'', VStr (pa_updated_at a))]"

text \<open>Readers of an optional number, a flag and a dictionary of values.\<close>

definition read_opt_rat :: "runtime \<Rightarrow> metadata \<Rightarrow> string \<Rightarrow> rat option result" where
  "read_opt_rat rt d k =
     (case meta_get d k of VNone \<Rightarrow> Inr None | _ \<Rightarrow> rbind (read_rat rt d k) (\<lambda>x. Inr (Some x)))"

definition read_flag :: "metadata \<Rightarrow> string \<Rightarrow> bool result" where
  "read_flag d k = (case meta_get d k of VBool b \<Rightarrow> Inr b | _ \<Rightarrow> Inl ValidationError)"

definition read_values :: "(pyval \<Rightarrow> 'a result) \<Rightarrow> metadata \<Rightarrow> string \<Rightarrow> (string, 'a) dict result" where
  "read_values read d k =
     (case dict_get d k (VDict []) of
        VDict e \<Rightarrow> map_result (\<lambda>(key, v). rbind (read v) (\<lambda>x. Inr (key, x))) e
      | _ \<Rightarrow> Inl ValidationError)"

definition value_rat :: "runtime \<Rightarrow> pyval \<Rightarrow> rat result" where
  "value_rat rt v = (case py_float rt v of Some (Fin x) \<Rightarrow> Inr x | _ \<Rightarrow> Inl ValidationError)"

definition value_model :: "(metadata \<Rightarrow> 'a result) \<Rightarrow> pyval \<Rightarrow> 'a result" where
  "value_model read v = (case v of VDict d \<Rightarrow> read d | _ \<Rightarrow> Inl ValidationError)"

definition validate_position :: "runtime \<Rightarrow> metadata \<Rightarrow> account_position result" where
  "validate_position rt d =
     rbind (read_str d ''symbol'') (\<lambda>symbol. rbind (read_or (read_rat rt) 0 d ''quantity'') (\<lambda>quantity.
     rbind (read_or (read_rat rt) 0 d ''avg_cost'') (\<lambda>cost.
     rbind (read_values (value_rat rt) d ''source_quantity'') (\<lambda>sources.
       Inr \<lparr>ap_symbol = symbol, ap_quantity = quantity, ap_avg_cost = cost, ap_sources = sources\<rparr>))))"

definition validate_entry :: "runtime \<Rightarrow> metadata \<Rightarrow> ledger_entry result" where
  "validate_entry rt d =
     rbind (read_str d ''entry_id'') (\<lambda>entry_id. rbind (read_str d ''timestamp'') (\<lambda>timestamp.
     rbind (read_str d ''kind'') (\<lambda>kind. rbind (read_or read_str ''system'' d ''source'') (\<lambda>source.
     rbind (read_opt_str d ''symbol'') (\<lambda>symbol. rbind (read_opt_str d ''side'') (\<lambda>sd.
     rbind (read_opt_rat rt d ''quantity'') (\<lambda>quantity. rbind (read_opt_rat rt d ''price'') (\<lambda>price.
     rbind (read_opt_rat rt d ''gross_value'') (\<lambda>gross.
     rbind (read_or (read_rat rt) 0 d ''commission'') (\<lambda>commission.
     rbind (read_opt_str d ''price_kind'') (\<lambda>price_kind.
     rbind (read_or (read_rat rt) 0 d ''realized_pnl_delta'') (\<lambda>realized.
     rbind (read_or (read_rat rt) 0 d ''cash_after'') (\<lambda>cash_after.
     rbind (read_or read_str [] d ''note'') (\<lambda>note'.
       Inr \<lparr>le_id = entry_id, le_timestamp = timestamp, le_kind = kind, le_source = source,
            le_symbol = symbol, le_side = sd, le_quantity = quantity, le_price = price, le_gross = gross,
            le_commission = commission, le_price_kind = price_kind, le_realized_delta = realized,
            le_cash_after = cash_after, le_note = note'\<rparr>))))))))))))))"

definition validate_pending :: "runtime \<Rightarrow> metadata \<Rightarrow> pending_order result" where
  "validate_pending rt d =
     rbind (read_str d ''order_id'') (\<lambda>order_id. rbind (read_str d ''created_at'') (\<lambda>created.
     rbind (read_str d ''symbol'') (\<lambda>symbol. rbind (read_str d ''side'') (\<lambda>sd.
     rbind (read_rat rt d ''quantity'') (\<lambda>quantity. rbind (read_rat rt d ''limit_price'') (\<lambda>limit.
     rbind (read_or (read_rat rt) 0 d ''reserved_cash'') (\<lambda>cash.
     rbind (read_or (read_rat rt) 0 d ''reserved_quantity'') (\<lambda>reserved.
     rbind (read_or read_str ''manual'' d ''source'') (\<lambda>source.
     rbind (read_or read_str ''manual_order'' d ''reason'') (\<lambda>reason.
     rbind (read_opt_rat rt d ''last_checked_price'') (\<lambda>price.
     rbind (read_opt_str d ''last_checked_price_kind'') (\<lambda>kind.
     rbind (read_opt_str d ''last_checked_at'') (\<lambda>checked.
       Inr \<lparr>po_id = order_id, po_created_at = created, po_symbol = symbol, po_side = sd,
            po_quantity = quantity, po_limit = limit, po_reserved_cash = cash, po_reserved_quantity = reserved,
            po_source = source, po_reason = reason, po_last_price = price, po_last_price_kind = kind,
            po_last_checked_at = checked\<rparr>)))))))))))))"

definition default_initial_cash :: rat where
  "default_initial_cash = 1000000"

definition validate_account :: "runtime \<Rightarrow> string \<Rightarrow> metadata \<Rightarrow> paper_account result" where
  "validate_account rt now d =
     rbind (read_or read_str ''default'' d ''account_id'') (\<lambda>account_id.
     rbind (read_or read_str ''USD'' d ''base_currency'') (\<lambda>currency.
     rbind (read_or (read_rat rt) default_initial_cash d ''initial_cash'') (\<lambda>initial.
     rbind (read_or (read_rat rt) default_initial_cash d ''cash'') (\<lambda>cash.
     rbind (read_values (value_rat rt) d ''sleeve_cash'') (\<lambda>sleeves.
     rbind (read_or (read_rat rt) 0 d ''realized_pnl'') (\<lambda>realized.
     rbind (read_or read_flag False d ''kill_switch'') (\<lambda>kill_switch.
     rbind (read_values (value_model (validate_position rt)) d ''positions'') (\<lambda>positions.
     rbind (read_list (validate_pending rt) d ''pending_orders'') (\<lambda>pending.
     rbind (read_list (validate_entry rt) d ''ledger'') (\<lambda>ledger.
     rbind (read_or read_str now d ''created_at'') (\<lambda>created.
     rbind (read_or read_str now d ''updated_at'') (\<lambda>updated.
       Inr (ensure_manual_sleeve_cash
         \<lparr>pa_id = account_id, pa_currency = currency, pa_initial_cash = initial, pa_cash = cash,
          pa_sleeve_cash = sleeves, pa_realized_pnl = realized, pa_kill_switch = kill_switch,
          pa_positions = positions, pa_pending = pending, pa_ledger = ledger, pa_created_at = created,
          pa_updated_at = updated\<rparr>)))))))))))))"

section \<open>Inspection of the cash partitions\<close>

record allocation_integrity =
  ai_status :: string
  ai_account_id :: string
  ai_sha256 :: "string option"
  ai_cash :: "rat option"
  ai_manual_cash :: "rat option"
  ai_partition_sum :: "rat option"
  ai_ledger_count :: "nat option"
  ai_invalid :: "string list"

definition integrity_result :: "string \<Rightarrow> string \<Rightarrow> string option \<Rightarrow> allocation_integrity" where
  "integrity_result status account_id sha =
     \<lparr>ai_status = status, ai_account_id = account_id, ai_sha256 = sha, ai_cash = None, ai_manual_cash = None,
      ai_partition_sum = None, ai_ledger_count = None, ai_invalid = []\<rparr>"

definition isclose :: "rat \<Rightarrow> rat \<Rightarrow> bool" where
  "isclose x y \<longleftrightarrow> \<bar>x - y\<bar> \<le> max (1 / 10 ^ 9 * max \<bar>x\<bar> \<bar>y\<bar>) (1 / 10 ^ 7)"

text \<open>The partitions: an error where \<open>float\<close> raises, \<open>None\<close> at an amount that is negative or not finite.\<close>

fun read_partitions ::
    "runtime \<Rightarrow> metadata \<Rightarrow> (string, rat) dict \<Rightarrow> (string, rat) dict option result" where
  "read_partitions rt [] parts = Inr (Some parts)"
| "read_partitions rt ((sleeve_id, v) # items) parts =
     (case py_float rt v of
        None \<Rightarrow> Inl (ValueError ''could not convert to float'')
      | Some (Fin x) \<Rightarrow> if x < 0 then Inr None else read_partitions rt items (AList.update sleeve_id x parts)
      | Some _ \<Rightarrow> Inr None)"

definition is_allocation :: "string \<Rightarrow> pyval \<Rightarrow> bool" where
  "is_allocation source entry =
     (case entry of
        VDict e \<Rightarrow> py_eq (meta_get e ''kind'') (VStr ''sleeve_cash_allocated'')
                   \<and> py_eq (meta_get e ''source'') (VStr source)
      | _ \<Rightarrow> False)"

definition allocations :: "string \<Rightarrow> pyval list \<Rightarrow> nat" where
  "allocations sleeve_id ledger = length (filter (is_allocation (''strategy:'' @ sleeve_id)) ledger)"

definition json_value :: "(string \<Rightarrow> pyval option) \<Rightarrow> pyval \<Rightarrow> pyval option" where
  "json_value loads v = (case v of VStr s \<Rightarrow> loads s | _ \<Rightarrow> Some v)"

text \<open>\<open>loads\<close> is \<open>json.loads\<close> and \<open>sha256\<close> the digest of the canonical encoding of a document.\<close>

definition inspect_allocation ::
    "runtime \<Rightarrow> (string \<Rightarrow> pyval option) \<Rightarrow> (pyval \<Rightarrow> string) \<Rightarrow> pyval \<Rightarrow> string \<Rightarrow> pyval \<Rightarrow> allocation_integrity" where
  "inspect_allocation rt loads sha256 raw account_id persisted =
     (let corrupt = integrity_result ''corrupt'' account_id
      in case json_value loads raw of
           Some (VDict payload) \<Rightarrow>
             if \<not> py_eq (meta_get payload ''account_id'') (VStr account_id) then corrupt None
             else
               let sha = Some (sha256 (VDict payload))
               in (case (py_float rt (meta_get payload ''cash''), map_of payload ''sleeve_cash'', map_of payload ''ledger'') of
                     (Some cash, Some sleeves, Some ledger) \<Rightarrow>
                       (case (cash, sleeves, ledger) of
                          (Fin cash, VDict items, VList ledger) \<Rightarrow>
                            (case json_value loads persisted of
                               None \<Rightarrow> corrupt None
                             | Some rows \<Rightarrow>
                                 (case (case rows of VNone \<Rightarrow> Some ledger | VList vs \<Rightarrow> Some vs | _ \<Rightarrow> None) of
                                    None \<Rightarrow> corrupt sha
                                  | Some materialized \<Rightarrow>
                                      (case read_partitions rt items [] of
                                         Inl _ \<Rightarrow> corrupt None
                                       | Inr None \<Rightarrow> corrupt sha
                                       | Inr (Some parts) \<Rightarrow>
                                           let common = (\<lambda>status.
                                                 (integrity_result status account_id sha)
                                                   \<lparr>ai_cash := Some cash, ai_manual_cash := map_of parts ''manual'',
                                                    ai_partition_sum := Some (dict_total parts),
                                                    ai_ledger_count := Some (length ledger)\<rparr>);
                                               invalid = filter (\<lambda>k. allocations k ledger \<noteq> 1 \<or> allocations k materialized \<noteq> 1)
                                                           (sort (filter (\<lambda>k. k \<noteq> ''manual'') (map fst parts)))
                                           in if map_of parts ''manual'' = None \<or> \<not> isclose (dict_total parts) cash
                                              then common ''partition_invalid''
                                              else if invalid \<noteq> []
                                              then (common ''allocation_ledger_invalid'')\<lparr>ai_invalid := invalid\<rparr>
                                              else common ''in_sync'')))
                        | _ \<Rightarrow> corrupt sha)
                   | _ \<Rightarrow> corrupt None)
         | _ \<Rightarrow> corrupt None)"

section \<open>Reading back\<close>

lemma num_not_none [simp]: "num x \<noteq> VNone"
  by (simp add: num_def)

lemma read_hit_opt_rat: "map_of d k = Some (opt_value num ox) \<Longrightarrow> read_opt_rat rt d k = Inr ox"
proof (cases ox)
  case None
  then show "map_of d k = Some (opt_value num ox) \<Longrightarrow> read_opt_rat rt d k = Inr ox"
    by (simp add: read_opt_rat_def map_of_meta opt_value_def)
next
  case (Some x)
  assume hit: "map_of d k = Some (opt_value num ox)"
  then have "meta_get d k = num x" "read_rat rt d k = Inr x"
    using Some by (simp_all add: map_of_meta opt_value_def read_hit(4))
  then show "read_opt_rat rt d k = Inr ox"
    using Some by (simp add: read_opt_rat_def num_def)
qed

lemma read_hit_flag: "map_of d k = Some (VBool b) \<Longrightarrow> read_flag d k = Inr b"
  by (simp add: read_flag_def map_of_meta)

lemma read_hit_values:
  assumes "map_of d k = Some (VDict (map (\<lambda>(key, x). (key, doc x)) xs))"
    and "\<And>key x. (key, x) \<in> set xs \<Longrightarrow> read (doc x) = Inr x"
  shows "read_values read d k = Inr xs"
proof -
  have "map_result (\<lambda>(key, v). rbind (read v) (\<lambda>x. Inr (key, x))) (map (\<lambda>(key, x). (key, doc x)) xs) = Inr xs"
    using assms(2) by (intro map_result_inverse) auto
  then show ?thesis
    using assms(1) by (simp add: read_values_def map_of_meta)
qed

lemma read_hit_rats:
  "map_of d k = Some (rat_values xs) \<Longrightarrow> read_values (value_rat rt) d k = Inr xs"
  by (rule read_hit_values [where doc = "\<lambda>x. VFloat (Fin x)"])
    (simp_all add: rat_values_def value_rat_def py_float_def)

lemmas account_read_back = read_back read_hit_opt_rat read_hit_flag read_hit_rats

lemma validate_position_document: "validate_position rt (position_document p) = Inr p"
  unfolding validate_position_def by (simp add: position_document_def account_read_back)

lemma validate_entry_document: "validate_entry rt (ledger_document e) = Inr e"
  unfolding validate_entry_def by (simp add: ledger_document_def account_read_back)

lemma validate_pending_document: "validate_pending rt (pending_document p) = Inr p"
  unfolding validate_pending_def by (simp add: pending_document_def account_read_back)

lemma account_eta [simp]:
  "\<lparr>pa_id = pa_id a, pa_currency = pa_currency a, pa_initial_cash = pa_initial_cash a, pa_cash = pa_cash a,
     pa_sleeve_cash = pa_sleeve_cash a, pa_realized_pnl = pa_realized_pnl a, pa_kill_switch = pa_kill_switch a,
     pa_positions = pa_positions a, pa_pending = pa_pending a, pa_ledger = pa_ledger a,
     pa_created_at = pa_created_at a, pa_updated_at = pa_updated_at a\<rparr> = a"
  by (cases a) simp

lemma validate_account_document:
  "validate_account rt now (account_document a) = Inr (ensure_manual_sleeve_cash a)"
proof -
  have positions: "read_values (value_model (validate_position rt)) (account_document a) ''positions'' = Inr (pa_positions a)"
    by (rule read_hit_values [where doc = "\<lambda>p. VDict (position_document p)"])
      (simp_all add: account_document_def value_model_def validate_position_document)
  have pending: "read_list (validate_pending rt) (account_document a) ''pending_orders'' = Inr (pa_pending a)"
    by (rule read_hit_list [where doc = pending_document])
      (simp_all add: account_document_def validate_pending_document)
  have ledger: "read_list (validate_entry rt) (account_document a) ''ledger'' = Inr (pa_ledger a)"
    by (rule read_hit_list [where doc = ledger_document])
      (simp_all add: account_document_def validate_entry_document)
  show ?thesis
    using positions pending ledger unfolding validate_account_def
    by (simp add: account_document_def account_read_back)
qed

section \<open>The inspection of an account's own document\<close>

definition allocation_entries :: "string \<Rightarrow> ledger_entry list \<Rightarrow> nat" where
  "allocation_entries sleeve_id ledger =
     length (filter (\<lambda>e. le_kind e = ''sleeve_cash_allocated'' \<and> le_source e = ''strategy:'' @ sleeve_id) ledger)"

lemma is_allocation_document:
  "is_allocation source (VDict (ledger_document e)) \<longleftrightarrow> le_kind e = ''sleeve_cash_allocated'' \<and> le_source e = source"
  by (auto simp: is_allocation_def ledger_document_def meta_get_def dict_get_def)

lemma allocations_document:
  "allocations k (map (\<lambda>e. VDict (ledger_document e)) ledger) = allocation_entries k ledger"
  by (simp add: allocations_def allocation_entries_def filter_map comp_def is_allocation_document)

lemma read_partitions_rats:
  assumes "distinct (map fst parts @ map fst d)"
  shows "read_partitions rt (map (\<lambda>(k, x). (k, VFloat (Fin x))) d) parts =
    Inr (if \<forall>(k, x) \<in> set d. 0 \<le> x then Some (parts @ d) else None)"
  using assms
proof (induction d arbitrary: parts)
  case Nil
  then show ?case by simp
next
  case (Cons p d)
  obtain k x where p: "p = (k, x)" by fastforce
  have "AList.update k x parts = parts @ [(k, x)]"
    using Cons.prems p by (intro update_absent) auto
  with Cons.IH [of "parts @ [(k, x)]"] Cons.prems p show ?case
    by (auto simp: py_float_def)
qed

definition books_in_order :: "paper_account \<Rightarrow> bool" where
  "books_in_order a \<longleftrightarrow>
     (\<forall>(k, x) \<in> set (pa_sleeve_cash a). 0 \<le> x)
     \<and> map_of (pa_sleeve_cash a) ''manual'' \<noteq> None
     \<and> isclose (dict_total (pa_sleeve_cash a)) (pa_cash a)
     \<and> (\<forall>(k, x) \<in> set (pa_sleeve_cash a). k = ''manual'' \<or> allocation_entries k (pa_ledger a) = 1)"

lemma account_document_fields:
  "meta_get (account_document a) ''account_id'' = VStr (pa_id a)"
  "meta_get (account_document a) ''cash'' = VFloat (Fin (pa_cash a))"
  "map_of (account_document a) ''sleeve_cash'' = Some (rat_values (pa_sleeve_cash a))"
  "map_of (account_document a) ''ledger'' = Some (VList (map (\<lambda>e. VDict (ledger_document e)) (pa_ledger a)))"
  by (simp_all add: account_document_def meta_get_def dict_get_def num_def)

lemma inspect_account:
  assumes "wf_dict (pa_sleeve_cash a)"
  shows "ai_status (inspect_allocation rt loads sha256 (VDict (account_document a)) account_id VNone) =
    (if pa_id a \<noteq> account_id then ''corrupt''
     else if \<not> (\<forall>(k, x) \<in> set (pa_sleeve_cash a). 0 \<le> x) then ''corrupt''
     else if map_of (pa_sleeve_cash a) ''manual'' = None \<or> \<not> isclose (dict_total (pa_sleeve_cash a)) (pa_cash a)
     then ''partition_invalid''
     else if \<exists>k \<in> fst ` set (pa_sleeve_cash a). k \<noteq> ''manual'' \<and> allocation_entries k (pa_ledger a) \<noteq> 1
     then ''allocation_ledger_invalid'' else ''in_sync'')"
proof -
  have parts: "read_partitions rt (map (\<lambda>(k, x). (k, VFloat (Fin x))) (pa_sleeve_cash a)) [] =
      Inr (if \<forall>(k, x) \<in> set (pa_sleeve_cash a). 0 \<le> x then Some (pa_sleeve_cash a) else None)"
    using read_partitions_rats [of "[]" "pa_sleeve_cash a" rt] assms by simp
  have invalid: "filter (\<lambda>k. allocation_entries k (pa_ledger a) \<noteq> Suc 0) (sort (filter (\<lambda>k. k \<noteq> ''manual'') (map fst (pa_sleeve_cash a)))) = []
      \<longleftrightarrow> \<not> (\<exists>k \<in> fst ` set (pa_sleeve_cash a). k \<noteq> ''manual'' \<and> allocation_entries k (pa_ledger a) \<noteq> 1)"
    by (auto simp: filter_empty_conv)
  show ?thesis
    unfolding inspect_allocation_def json_value_def
    by (simp add: account_document_fields py_float_def rat_values_def parts allocations_document invalid
        integrity_result_def Let_def del: read_partitions.simps)
qed

lemma in_sync_iff:
  "wf_dict (pa_sleeve_cash a) \<Longrightarrow>
     ai_status (inspect_allocation rt loads sha256 (VDict (account_document a)) account_id VNone) = ''in_sync''
       \<longleftrightarrow> pa_id a = account_id \<and> books_in_order a"
  by (auto simp: inspect_account books_in_order_def)

section \<open>Allocation keeps the books in order\<close>

lemma ensure_idem:
  assumes "0 \<le> pa_cash a \<or> pa_sleeve_cash a \<noteq> []"
  shows "ensure_manual_sleeve_cash (ensure_manual_sleeve_cash a) = ensure_manual_sleeve_cash a"
proof (cases "pa_sleeve_cash a = []")
  case True
  then show ?thesis using assms by (simp add: ensure_manual_sleeve_cash_def allocated_cash_def)
next
  case False
  have alloc: "allocated_cash (AList.update ''manual'' v d) = allocated_cash d" for v d
    by (induction d) (auto simp: allocated_cash_def)
  have again: "AList.update k v (AList.update k v d) = AList.update k v d" for k v and d :: "(string, rat) dict"
    by (induction d) auto
  have "AList.update ''manual'' v d \<noteq> []" for v and d :: "(string, rat) dict"
    by (cases d) auto
  with False show ?thesis
    by (simp add: ensure_manual_sleeve_cash_def alloc again)
qed

lemma isclose_refl [simp]: "isclose x x"
  by (simp add: isclose_def)

text \<open>What the service keeps of an account: an entry for each sleeve, and no more cash in the sleeves
  than in the account.\<close>

definition sleeves_funded :: "paper_account \<Rightarrow> bool" where
  "sleeves_funded a \<longleftrightarrow>
     wf_dict (pa_sleeve_cash a) \<and> 0 \<le> pa_cash a \<and> allocated_cash (pa_sleeve_cash a) \<le> pa_cash a
     \<and> (\<forall>(k, x) \<in> set (pa_sleeve_cash a). k = ''manual'' \<or> 0 \<le> x \<and> allocation_entries k (pa_ledger a) = 1)"

lemma ensure_manual_value:
  assumes "sleeves_funded a"
  shows "pa_sleeve_cash (ensure_manual_sleeve_cash a) =
    AList.update ''manual'' (pa_cash a - allocated_cash (pa_sleeve_cash a)) (pa_sleeve_cash a)"
  using assms by (auto simp: ensure_manual_sleeve_cash_def sleeves_funded_def allocated_cash_def)

lemma funded_books:
  assumes funded: "sleeves_funded a"
  shows "books_in_order (ensure_manual_sleeve_cash a)" and "sleeves_funded (ensure_manual_sleeve_cash a)"
    and "wf_dict (pa_sleeve_cash (ensure_manual_sleeve_cash a))"
proof -
  have wf: "wf_dict (pa_sleeve_cash a)" and cash: "allocated_cash (pa_sleeve_cash a) \<le> pa_cash a" "0 \<le> pa_cash a"
    and entries: "\<And>k x. (k, x) \<in> set (pa_sleeve_cash a) \<Longrightarrow> k \<noteq> ''manual'' \<Longrightarrow>
      0 \<le> x \<and> allocation_entries k (pa_ledger a) = 1"
    using funded by (auto simp: sleeves_funded_def)
  have sum: "dict_total (pa_sleeve_cash (ensure_manual_sleeve_cash a)) = pa_cash a"
    using ensure_sleeve_total [OF wf cash(2)] cash(1) by simp
  note book = ensure_manual_value [OF funded] and members = set_update_wf [OF wf]
  show "wf_dict (pa_sleeve_cash (ensure_manual_sleeve_cash a))"
    using wf by (simp add: book)
  show "books_in_order (ensure_manual_sleeve_cash a)"
    unfolding books_in_order_def sum using cash entries
    by (auto simp: book members)
  show "sleeves_funded (ensure_manual_sleeve_cash a)"
    using cash entries wf unfolding sleeves_funded_def
    by (auto simp: book members)
qed

lemma allocation_entries_record:
  "allocation_entries k (pa_ledger (record_event env kind source symbol sd quantity price price_kind note' a)) =
    allocation_entries k (pa_ledger a)
      + (if kind = ''sleeve_cash_allocated'' \<and> source = ''strategy:'' @ k then 1 else 0)"
  by (simp add: record_event_def allocation_entries_def ledger_draft_def)

lemma allocate_cash_in_order:
  assumes alloc: "allocate_cash env s a = (a', Inr u)" and funded: "sleeves_funded a"
    and m: "map_of (pa_sleeve_cash a) ''manual'' = Some m" "0 \<le> sv_cash s" "sv_cash s \<le> m"
    and total: "dict_total (pa_sleeve_cash a) = pa_cash a"
    and fresh: "sv_id s \<noteq> ''manual''" "sv_id s \<notin> fst ` set (pa_sleeve_cash a)"
      "allocation_entries (sv_id s) (pa_ledger a) = 0"
  shows "books_in_order a'" and "wf_dict (pa_sleeve_cash a')" and "pa_id a' = pa_id a"
proof -
  let ?book = "AList.update (sv_id s) (sv_cash s) (AList.update ''manual'' (m - sv_cash s) (pa_sleeve_cash a))"
  have wf: "wf_dict (pa_sleeve_cash a)"
    and entries: "\<And>k x. (k, x) \<in> set (pa_sleeve_cash a) \<Longrightarrow> k \<noteq> ''manual'' \<Longrightarrow>
      0 \<le> x \<and> allocation_entries k (pa_ledger a) = 1"
    using funded by (auto simp: sleeves_funded_def)
  have dget: "dict_get (pa_sleeve_cash a) ''manual'' x = m" "dict_get (pa_sleeve_cash a) (sv_id s) 0 = 0" for x
    using m(1) map_of_absent [OF fresh(2)] by (simp_all add: dict_get_def)
  obtain note' where a'_eq: "a' = record_event env ''sleeve_cash_allocated'' (''strategy:'' @ sv_id s) None None None None None
      note' (a\<lparr>pa_sleeve_cash := ?book\<rparr>)"
    using alloc fresh(1) by (auto simp: allocate_cash_def Let_def dget split: if_splits)
  then have a': "pa_sleeve_cash a' = ?book" "pa_cash a' = pa_cash a" "pa_id a' = pa_id a"
    by (simp_all add: record_event_def append_ledger_def Let_def)
  have ledger: "allocation_entries k (pa_ledger a') = allocation_entries k (pa_ledger a) + (if k = sv_id s then 1 else 0)" for k
    unfolding a'_eq allocation_entries_record by auto
  have wf1: "wf_dict (AList.update ''manual'' (m - sv_cash s) (pa_sleeve_cash a))"
    using wf by simp
  have "0 \<le> m" using m by simp
  then have total': "dict_total (pa_sleeve_cash a') = pa_cash a"
    using allocate_cash_books(3) [OF alloc wf fresh(1) m(1)] total by simp
  have members: "set ?book = insert (sv_id s, sv_cash s)
      {p \<in> insert (''manual'', m - sv_cash s) {p \<in> set (pa_sleeve_cash a). fst p \<noteq> ''manual''}. fst p \<noteq> sv_id s}"
    by (simp only: set_update_wf [OF wf1] set_update_wf [OF wf])
  have nonneg: "0 \<le> x" if "(k, x) \<in> set ?book" for k x
    using that entries m unfolding members by auto
  have one: "k = ''manual'' \<or> allocation_entries k (pa_ledger a') = 1" if "(k, x) \<in> set ?book" for k x
  proof (cases "k = sv_id s \<or> k = ''manual''")
    case True
    then show ?thesis using fresh(3) by (auto simp: ledger)
  next
    case False
    then have "(k, x) \<in> set (pa_sleeve_cash a)" using that unfolding members by simp
    then show ?thesis using entries [of k x] False by (simp add: ledger)
  qed
  have manual: "map_of ?book ''manual'' \<noteq> None"
    using fresh(1) by simp
  have close: "isclose (dict_total (pa_sleeve_cash a')) (pa_cash a')"
    by (simp add: total' a'(2))
  show "books_in_order a'"
    unfolding books_in_order_def
    using close manual nonneg one unfolding a'(1) by (intro conjI) blast+
  show "wf_dict (pa_sleeve_cash a')" "pa_id a' = pa_id a"
    using wf1 a' by simp_all
qed

lemma open_new_funded:
  assumes "open_new env account_id cash currency now = Inr a"
  shows "sleeves_funded a" and "ensure_manual_sleeve_cash a = a" and "pa_id a = account_id"
    and "pa_sleeve_cash a = [(''manual'', cash)]" and "0 \<le> cash" and "pa_cash a = cash"
    and "allocation_entries k (pa_ledger a) = 0" and "pa_positions a = []" and "pa_kill_switch a = False"
  using assms
  by (auto simp: open_new_def sleeves_funded_def ensure_manual_sleeve_cash_def allocated_cash_def append_ledger_def
      Let_def allocation_entries_def ledger_draft_def split: if_splits)

section \<open>Properties\<close>

text \<open>C36: An account survives its JSON document: what \<open>model_validate\<close> reads from the document of an
  account is that account with its manual cash rebuilt, whatever the clock is, and reading and
  writing once more changes nothing, unless the account had no sleeve book and negative cash.\<close>

theorem account_reads_back:
  "validate_account rt now (account_document a) = Inr (ensure_manual_sleeve_cash a)
    \<and> (0 \<le> pa_cash a \<or> pa_sleeve_cash a \<noteq> [] \<longrightarrow>
       validate_account rt later (account_document (ensure_manual_sleeve_cash a)) = Inr (ensure_manual_sleeve_cash a))"
  using ensure_idem [of a] by (auto simp: validate_account_document)

theorem account_reads_back_witness:
  "validate_account no_runtime ''t9'' (account_document (ensure_manual_sleeve_cash example_account))
    = Inr (ensure_manual_sleeve_cash example_account)"
  using account_reads_back [of no_runtime "''t8''" example_account "''t9''"] by (simp add: example_account_def)

text \<open>C39: Creating a sleeve keeps the persisted account in order: when every sleeve of the account has
  its one allocation entry and the sleeves hold no more than the account, then after a creation
  under a new id with no more cash than the manual book holds, successful or refused, the
  inspection of the account's document answers \<open>in_sync\<close>.\<close>

theorem creation_keeps_integrity:
  assumes create: "create_sleeve env config mode allocated metadata sleeve_id now a = (a', r)"
    and funded: "sleeves_funded a"
    and cash: "allocated \<le> pa_cash a - allocated_cash (pa_sleeve_cash a)"
    and fresh: "sleeve_id \<noteq> ''manual''" "sleeve_id \<notin> fst ` set (pa_sleeve_cash a)"
      "allocation_entries sleeve_id (pa_ledger a) = 0"
  shows "ai_status (inspect_allocation rt loads sha256 (VDict (account_document a')) (pa_id a) VNone) = ''in_sync''"
proof -
  let ?a = "ensure_manual_sleeve_cash a"
  have total: "dict_total (pa_sleeve_cash ?a) = pa_cash ?a"
    using ensure_sleeve_total [of a] funded by (auto simp: sleeves_funded_def)
  have book: "pa_sleeve_cash ?a = AList.update ''manual'' (pa_cash a - allocated_cash (pa_sleeve_cash a)) (pa_sleeve_cash a)"
    by (rule ensure_manual_value [OF funded])
  have id: "pa_id ?a = pa_id a"
    by (simp add: ensure_manual_sleeve_cash_def)
  consider (kept) "a' = ?a"
    | (funded) s where "allocate_cash env s ?a = (a', Inr ())" "r = Inr s" "sv_id s = sleeve_id"
        "sv_cash s = allocated" "0 \<le> allocated"
    using create by (auto simp: create_sleeve_def new_sleeve_def allocate_cash_def Let_def split: if_splits)
  then have "books_in_order a' \<and> wf_dict (pa_sleeve_cash a') \<and> pa_id a' = pa_id a"
  proof cases
    case kept
    then show ?thesis using funded_books [OF funded] id by simp
  next
    case (funded s)
    have "map_of (pa_sleeve_cash ?a) ''manual'' = Some (pa_cash a - allocated_cash (pa_sleeve_cash a))"
      by (simp add: book)
    then show ?thesis
      using allocate_cash_in_order [OF funded(1) funded_books(2) [OF \<open>sleeves_funded a\<close>] _ _ _ total] funded cash fresh id
      by (simp add: book)
  qed
  then show ?thesis
    by (simp add: in_sync_iff)
qed

theorem creation_keeps_integrity_witness:
  "\<exists>a'. \<exists>s. create_sleeve example_env example_config Allocated 30 [] ''s9'' ''t1''
        (example_account\<lparr>pa_sleeve_cash := [(''manual'', 100)]\<rparr>) = (a', Inr s)
    \<and> ai_status (inspect_allocation no_runtime (\<lambda>_. None) (\<lambda>_. ''sha'') (VDict (account_document a')) (pa_id example_account) VNone) = ''in_sync''"
proof -
  let ?a = "example_account\<lparr>pa_sleeve_cash := [(''manual'', 100)]\<rparr>"
  let ?run = "create_sleeve example_env example_config Allocated 30 [] ''s9'' ''t1'' ?a"
  have "case snd ?run of Inl e \<Rightarrow> False | Inr s \<Rightarrow> True"
    by code_simp
  then obtain a' s where run: "?run = (a', Inr s)"
    by (cases ?run) (auto split: sum.splits)
  have "sleeves_funded ?a" "30 \<le> pa_cash ?a - allocated_cash (pa_sleeve_cash ?a)"
    "''s9'' \<noteq> ''manual''" "''s9'' \<notin> fst ` set (pa_sleeve_cash ?a)" "allocation_entries ''s9'' (pa_ledger ?a) = 0"
    by code_simp+
  from creation_keeps_integrity [OF run this] run show ?thesis
    by simp
qed

end
