(* ===== verification/AccountStore.thy ===== *)
theory AccountStore
  imports AccountDocument
begin

text \<open>
  The repositories of the paper account: the files of
  \<open>src/quant_system/execution/account_storage.py\<close> (primary, backup, archive, preserved corrupt
  files, positions snapshot) and the dual-write repository of
  \<open>src/quant_system/execution/account_dual_write_repository.py\<close>, whose database mirror is an
  argument. What both promise to their callers is the locale \<open>account_repository\<close>; its lemmas about
  load-change-save requests are proved once and interpreted on both. The lemmas show that requests
  on a stored account are requests on the account, that a corrupt file costs at most one save, and
  when a repair that fails costs the whole account.
\<close>

section \<open>Files\<close>

text \<open>What a file holds, for \<open>json.loads\<close>.\<close>

datatype account_file = Undecodable | Json pyval

record position_row =
  pr_symbol :: string
  pr_quantity :: rat
  pr_avg_cost :: rat
  pr_last_price :: rat
  pr_market_value :: rat
  pr_weight :: rat
  pr_unrealized_pnl :: rat
  pr_source_breakdown :: "(string, rat) dict"
  pr_kind :: "string option"
  pr_as_of :: "string option"

record file_store =
  as_account_id :: string
  as_primary :: "account_file option"
  as_backup :: "account_file option"
  as_archive :: "(string \<times> metadata) list"
  as_corrupt :: "(string \<times> account_file) list"
  as_snapshot :: "position_row list option"
  as_warning :: "string option"

text \<open>One write: the time and uuid in a new file name, whether the n-th rename is denied, and whether the
  parquet file of the positions can be written.\<close>

record disk =
  dk_stamp :: string
  dk_denied :: "nat \<Rightarrow> bool"
  dk_snapshot :: bool

text \<open>\<open>_ACCOUNT_ID_PATTERN\<close>, and the constructor.\<close>

definition is_alnum :: "char \<Rightarrow> bool" where
  "is_alnum c = (let n = of_char c :: nat
     in (48 \<le> n \<and> n \<le> 57) \<or> (65 \<le> n \<and> n \<le> 90) \<or> (97 \<le> n \<and> n \<le> 122))"

definition valid_account_id :: "string \<Rightarrow> bool" where
  "valid_account_id s =
     (case s of
        [] \<Rightarrow> False
      | c # cs \<Rightarrow> is_alnum c \<and> length cs \<le> 127 \<and> list_all (\<lambda>c. is_alnum c \<or> c \<in> set ''._-'') cs)"

definition validate_paper_account_id :: "string \<Rightarrow> string result" where
  "validate_paper_account_id account_id =
     (if valid_account_id account_id then Inr account_id
      else Inl (ValueError (''invalid paper account id; use 1-128 letters, numbers, dots, ''
        @ ''underscores, or hyphens, starting with a letter or number'')))"

text \<open>The directory of an account holds its files, none at first.\<close>

definition open_storage :: "string \<Rightarrow> file_store result" where
  "open_storage account_id =
     rbind (validate_paper_account_id account_id) (\<lambda>account_id.
       Inr \<lparr>as_account_id = account_id, as_primary = None, as_backup = None, as_archive = [],
            as_corrupt = [], as_snapshot = None, as_warning = None\<rparr>)"

definition validate_paper_account_identity :: "string \<Rightarrow> paper_account \<Rightarrow> paper_account result" where
  "validate_paper_account_identity expected a =
     (if pa_id a \<noteq> expected
      then Inl (ValueError (''paper account id mismatch: repository='' @ repr_str expected @ '' payload='' @ repr_str (pa_id a)))
      else Inr a)"

definition load_account_file :: "runtime \<Rightarrow> string \<Rightarrow> string \<Rightarrow> account_file \<Rightarrow> paper_account result" where
  "load_account_file rt now account_id f =
     (case f of
        Json (VDict d) \<Rightarrow> rbind (validate_account rt now d) (validate_paper_account_identity account_id)
      | Json _ \<Rightarrow> Inl ValidationError
      | Undecodable \<Rightarrow> Inl (ValueError ''not a JSON document''))"

definition load_backup_account :: "runtime \<Rightarrow> string \<Rightarrow> file_store \<Rightarrow> paper_account option" where
  "load_backup_account rt now st =
     (case as_backup st of
        None \<Rightarrow> None
      | Some f \<Rightarrow> (case load_account_file rt now (as_account_id st) f of Inl _ \<Rightarrow> None | Inr a \<Rightarrow> Some a))"

definition primary_corrupt :: string where
  "primary_corrupt = ''paper_account_primary_corrupt_using_backup''"

definition storage_corrupt :: string where
  "storage_corrupt = ''paper_account_storage_corrupt''"

definition store_load :: "runtime \<Rightarrow> string \<Rightarrow> file_store \<Rightarrow> file_store \<times> paper_account option" where
  "store_load rt now st =
     (let st = st\<lparr>as_warning := None\<rparr>
      in case as_primary st of
           None \<Rightarrow> (st, None)
         | Some f \<Rightarrow>
             (case load_account_file rt now (as_account_id st) f of
                Inr a \<Rightarrow> (st, Some a)
              | Inl _ \<Rightarrow>
                  let backup = load_backup_account rt now st
                  in (st\<lparr>as_warning := Some (if backup \<noteq> None then primary_corrupt else storage_corrupt)\<rparr>, backup)))"

section \<open>Positions snapshot\<close>

type_synonym price_metadata = "(string, string option \<times> string option) dict"

fun add_entry_prices :: "ledger_entry list \<Rightarrow> price_metadata \<Rightarrow> price_metadata" where
  "add_entry_prices [] metadata = metadata"
| "add_entry_prices (e # es) metadata =
     (case (le_symbol e, le_price_kind e) of
        (Some s, Some kind) \<Rightarrow>
          add_entry_prices es
            (if s \<noteq> [] \<and> kind \<noteq> [] \<and> map_of metadata (upper s) = None
             then AList.update (upper s) (Some kind, Some (le_timestamp e)) metadata else metadata)
      | _ \<Rightarrow> add_entry_prices es metadata)"

definition snapshot_price_metadata :: "paper_account \<Rightarrow> price_metadata \<Rightarrow> price_metadata" where
  "snapshot_price_metadata a metadata =
     add_entry_prices (rev (pa_ledger a)) (dict_of (map (\<lambda>(k, v). (upper k, v)) metadata))"

definition position_row_of ::
    "(string, rat) dict \<Rightarrow> price_metadata \<Rightarrow> rat \<Rightarrow> string \<times> account_position \<Rightarrow> position_row" where
  "position_row_of prices metadata eq entry =
     (let (symbol, p) = entry;
          last_price = dict_get prices symbol (ap_avg_cost p);
          value = ap_market_value p last_price
      in \<lparr>pr_symbol = symbol, pr_quantity = ap_quantity p, pr_avg_cost = ap_avg_cost p,
          pr_last_price = last_price, pr_market_value = value,
          pr_weight = (if eq \<noteq> 0 then value / eq else 0), pr_unrealized_pnl = ap_unrealized_pnl p last_price,
          pr_source_breakdown = source_breakdown p,
          pr_kind = fst (dict_get metadata symbol (None, None)),
          pr_as_of = snd (dict_get metadata symbol (None, None))\<rparr>)"

definition positions_snapshot :: "(string, rat) dict \<Rightarrow> price_metadata \<Rightarrow> paper_account \<Rightarrow> position_row list" where
  "positions_snapshot prices metadata a =
     (let normalized = upper_dict prices
      in map (position_row_of normalized (snapshot_price_metadata a metadata) (equity a normalized))
           (sort_key fst (pa_positions a)))"

section \<open>Writes\<close>

text \<open>\<open>_atomic_replace\<close>: ten attempts.\<close>

fun replace_attempts :: "(nat \<Rightarrow> bool) \<Rightarrow> nat \<Rightarrow> nat \<Rightarrow> bool" where
  "replace_attempts denied attempt 0 = False"
| "replace_attempts denied attempt (Suc left) =
     (if denied attempt then replace_attempts denied (Suc attempt) left else True)"

definition atomic_replace :: "disk \<Rightarrow> bool" where
  "atomic_replace dk = replace_attempts (dk_denied dk) 0 10"

text \<open>What becomes of the primary before it is overwritten.\<close>

definition keep_previous :: "runtime \<Rightarrow> string \<Rightarrow> disk \<Rightarrow> file_store \<Rightarrow> file_store" where
  "keep_previous rt now dk st =
     (case as_primary st of
        None \<Rightarrow> st
      | Some f \<Rightarrow>
          (case load_account_file rt now (as_account_id st) f of
             Inl _ \<Rightarrow> st\<lparr>as_primary := None, as_corrupt := as_corrupt st @ [(dk_stamp dk, f)]\<rparr>
           | Inr _ \<Rightarrow> st\<lparr>as_backup := Some f\<rparr>))"

definition store_save ::
    "runtime \<Rightarrow> string \<Rightarrow> disk \<Rightarrow> (string, rat) dict \<Rightarrow> price_metadata \<Rightarrow> paper_account \<Rightarrow> file_store
      \<Rightarrow> file_store \<times> unit result" where
  "store_save rt now dk prices metadata a st =
     (case validate_paper_account_identity (as_account_id st) a of
        Inl e \<Rightarrow> (st, Inl e)
      | Inr _ \<Rightarrow>
          let st = keep_previous rt now dk st
          in if \<not> atomic_replace dk then (st, Inl (OSError ''PermissionError''))
             else
               let st = st\<lparr>as_primary := Some (Json (VDict (account_document a)))\<rparr>
               in if dk_snapshot dk
                  then (st\<lparr>as_snapshot := Some (positions_snapshot prices metadata a), as_warning := None\<rparr>, Inr ())
                  else (st, Inl (OSError ''positions_snapshot.parquet'')))"

text \<open>\<open>env\<close> and \<open>opened\<close> are the ids and the clock of a new account.\<close>

definition open_and_save ::
    "runtime \<Rightarrow> string \<Rightarrow> disk \<Rightarrow> rat \<Rightarrow> (paper_account \<Rightarrow> paper_account) \<Rightarrow> environment \<Rightarrow> file_store
      \<Rightarrow> file_store \<times> paper_account result" where
  "open_and_save rt now dk initial_cash event env st =
     (case open_new env (as_account_id st) initial_cash ''USD'' now of
        Inl e \<Rightarrow> (st, Inl e)
      | Inr a \<Rightarrow> (case store_save rt now dk [] [] (event a) st of
            (st, Inl e) \<Rightarrow> (st, Inl e)
          | (st, Inr _) \<Rightarrow> (st, Inr (event a))))"

definition store_load_or_open ::
    "runtime \<Rightarrow> string \<Rightarrow> disk \<Rightarrow> environment \<Rightarrow> rat \<Rightarrow> file_store \<Rightarrow> file_store \<times> paper_account result" where
  "store_load_or_open rt now dk env initial_cash st =
     (case store_load rt now st of
        (st, Some a) \<Rightarrow>
          if as_warning st = Some primary_corrupt
          then (case store_save rt now dk [] [] a st of
                  (st, Inl e) \<Rightarrow> (st, Inl e) | (st, Inr _) \<Rightarrow> (st, Inr a))
          else (st, Inr a)
      | (st, None) \<Rightarrow> open_and_save rt now dk initial_cash id env st)"

definition store_reset ::
    "runtime \<Rightarrow> string \<Rightarrow> disk \<Rightarrow> environment \<Rightarrow> rat \<Rightarrow> file_store \<Rightarrow> file_store \<times> paper_account result" where
  "store_reset rt now dk env initial_cash st =
     (let (st, existing) = store_load rt now st;
          st = (case existing of None \<Rightarrow> st
                | Some a \<Rightarrow> st\<lparr>as_archive := as_archive st @ [(dk_stamp dk, account_document a)]\<rparr>)
      in open_and_save rt now dk initial_cash
           (record_event env ''reset'' ''system'' None None None None None ''account reset to initial cash'') env st)"

definition store_allocation_integrity ::
    "runtime \<Rightarrow> (string \<Rightarrow> pyval option) \<Rightarrow> (pyval \<Rightarrow> string) \<Rightarrow> file_store \<Rightarrow> allocation_integrity" where
  "store_allocation_integrity rt loads sha256 st =
     (case as_primary st of
        None \<Rightarrow> integrity_result ''missing'' (as_account_id st) None
      | Some Undecodable \<Rightarrow> integrity_result ''corrupt'' (as_account_id st) None
      | Some (Json raw) \<Rightarrow> inspect_allocation rt loads sha256 raw (as_account_id st) VNone)"

section \<open>The lock\<close>

text \<open>
  \<open>mutation_lock\<close>: \<open>free n\<close> is whether the n-th attempt takes the lock and \<open>clock n\<close> the time after it
  fails. The result is the number of the last attempt and whether it succeeded (a \<open>TimeoutError\<close> is an
  \<open>OSError\<close>); a wait that never ends is \<open>None\<close>.
\<close>

partial_function (option) wait_lock ::
    "string \<Rightarrow> (nat \<Rightarrow> bool) \<Rightarrow> (nat \<Rightarrow> rat) \<Rightarrow> rat \<Rightarrow> nat \<Rightarrow> (nat \<times> unit result) option" where
  "wait_lock lock_path free clock deadline n =
     (if free n then Some (n, Inr ())
      else if deadline \<le> clock n then Some (n, Inl (OSError (''timed out waiting for paper account lock '' @ lock_path)))
      else wait_lock lock_path free clock deadline (Suc n))"

section \<open>Dual writes\<close>

record reconciliation =
  rc_status :: string
  rc_account_id :: string
  rc_source :: string
  rc_target :: "string option"
  rc_checked_at :: string
  rc_expected :: metadata
  rc_actual :: metadata
  rc_differences :: "(string \<times> pyval \<times> pyval) list"

definition reconciliation_result ::
    "string \<Rightarrow> string \<Rightarrow> string \<Rightarrow> string option \<Rightarrow> string \<Rightarrow> (string \<times> pyval \<times> pyval) list \<Rightarrow> reconciliation" where
  "reconciliation_result status account_id source target now differences =
     \<lparr>rc_status = status, rc_account_id = account_id, rc_source = source, rc_target = target,
      rc_checked_at = now, rc_expected = [], rc_actual = [], rc_differences = differences\<rparr>"

definition file_reconciliation :: "string \<Rightarrow> file_store \<Rightarrow> reconciliation" where
  "file_reconciliation now st = reconciliation_result ''not_applicable'' (as_account_id st) ''file'' None now []"

text \<open>
  The mirror: its saves may fail, and it can compare itself with an account or cannot
  (\<open>mi_reconcile = None\<close>, where the object has no such method).
\<close>

record 'm mirror =
  mi_save :: "(string, rat) dict \<Rightarrow> price_metadata \<Rightarrow> paper_account \<Rightarrow> 'm \<Rightarrow> 'm \<times> unit result"
  mi_reconcile :: "(paper_account option \<Rightarrow> 'm \<Rightarrow> reconciliation result) option"

record 'm dual_store =
  dw_file :: file_store
  dw_mirror :: 'm
  dw_warning :: "string option"
  dw_reconciliation :: "reconciliation option"

definition mirror_unavailable :: string where
  "mirror_unavailable = ''paper_account_db_mirror_unavailable''"

definition open_dual :: "file_store \<Rightarrow> 'm \<Rightarrow> 'm dual_store" where
  "open_dual st m = \<lparr>dw_file = st, dw_mirror = m, dw_warning = None, dw_reconciliation = None\<rparr>"

definition mirror_account ::
    "'m mirror \<Rightarrow> (string, rat) dict \<Rightarrow> price_metadata \<Rightarrow> paper_account \<Rightarrow> 'm dual_store \<Rightarrow> 'm dual_store" where
  "mirror_account mi prices metadata a d =
     (let (m, r) = mi_save mi prices metadata a (dw_mirror d)
      in d\<lparr>dw_mirror := m, dw_reconciliation := None,
           dw_warning := (case r of Inl _ \<Rightarrow> Some mirror_unavailable | Inr _ \<Rightarrow> None)\<rparr>)"

definition dual_load :: "runtime \<Rightarrow> string \<Rightarrow> 'm dual_store \<Rightarrow> 'm dual_store \<times> paper_account option" where
  "dual_load rt now d =
     (let (st, r) = store_load rt now (dw_file d);
          d = d\<lparr>dw_file := st\<rparr>
      in (if as_warning st \<noteq> None then d\<lparr>dw_warning := as_warning st\<rparr>
          else if dw_warning d \<noteq> Some mirror_unavailable then d\<lparr>dw_warning := None\<rparr> else d, r))"

definition dual_save ::
    "'m mirror \<Rightarrow> runtime \<Rightarrow> string \<Rightarrow> disk \<Rightarrow> (string, rat) dict \<Rightarrow> price_metadata \<Rightarrow> paper_account
      \<Rightarrow> 'm dual_store \<Rightarrow> 'm dual_store \<times> unit result" where
  "dual_save mi rt now dk prices metadata a d =
     (case store_save rt now dk prices metadata a (dw_file d) of
        (st, Inl e) \<Rightarrow> (d\<lparr>dw_file := st\<rparr>, Inl e)
      | (st, Inr _) \<Rightarrow> (mirror_account mi prices metadata a (d\<lparr>dw_file := st\<rparr>), Inr ()))"

definition dual_load_or_open ::
    "'m mirror \<Rightarrow> runtime \<Rightarrow> string \<Rightarrow> disk \<Rightarrow> environment \<Rightarrow> rat \<Rightarrow> 'm dual_store
      \<Rightarrow> 'm dual_store \<times> paper_account result" where
  "dual_load_or_open mi rt now dk env initial_cash d =
     (let (st, existing) = store_load rt now (dw_file d)
      in case store_load_or_open rt now dk env initial_cash st of
           (st, Inl e) \<Rightarrow> (d\<lparr>dw_file := st\<rparr>, Inl e)
         | (st, Inr a) \<Rightarrow>
             (let d = d\<lparr>dw_file := st\<rparr>
              in if existing = None then mirror_account mi [] [] a d else d, Inr a))"

definition dual_reset ::
    "'m mirror \<Rightarrow> runtime \<Rightarrow> string \<Rightarrow> disk \<Rightarrow> environment \<Rightarrow> rat \<Rightarrow> 'm dual_store
      \<Rightarrow> 'm dual_store \<times> paper_account result" where
  "dual_reset mi rt now dk env initial_cash d =
     (case store_reset rt now dk env initial_cash (dw_file d) of
        (st, Inl e) \<Rightarrow> (d\<lparr>dw_file := st\<rparr>, Inl e)
      | (st, Inr a) \<Rightarrow> (mirror_account mi [] [] a (d\<lparr>dw_file := st\<rparr>), Inr a))"

definition dual_reconciliation :: "'m mirror \<Rightarrow> runtime \<Rightarrow> string \<Rightarrow> 'm dual_store \<Rightarrow> 'm dual_store \<times> reconciliation" where
  "dual_reconciliation mi rt now d =
     (case dw_reconciliation d of
        Some r \<Rightarrow> (d, r)
      | None \<Rightarrow>
          let (st, expected) = store_load rt now (dw_file d);
              unavailable = (\<lambda>field wanted. reconciliation_result ''unavailable'' (as_account_id st) ''file''
                (Some ''postgres'') now [(field, VStr wanted, VStr ''unavailable'')]);
              r = (case mi_reconcile mi of
                     None \<Rightarrow> unavailable ''reconciliation'' ''supported''
                   | Some reconcile \<Rightarrow>
                       (case reconcile expected (dw_mirror d) of
                          Inl _ \<Rightarrow> unavailable ''database'' ''available''
                        | Inr r \<Rightarrow> r))
          in (d\<lparr>dw_file := st, dw_reconciliation := Some r\<rparr>, r))"

definition dual_is_stale :: "'m mirror \<Rightarrow> runtime \<Rightarrow> string \<Rightarrow> 'm dual_store \<Rightarrow> 'm dual_store \<times> bool" where
  "dual_is_stale mi rt now d =
     (let (d, r) = dual_reconciliation mi rt now d in (d, rc_status r \<in> {''different'', ''unavailable''}))"

section \<open>The contract of a repository\<close>

text \<open>
  What the callers of either repository rely on. \<open>stored\<close> is the account on file; a repository is
  \<open>healthy\<close> while that account is the one last saved and needs no repair; \<open>writable w\<close> is whether a
  write reaches the account file. A save that reaches it may still raise, when something after it
  fails.
\<close>

locale account_repository =
  fixes account_id :: "'s \<Rightarrow> string"
    and stored :: "'s \<Rightarrow> paper_account option"
    and healthy :: "'s \<Rightarrow> bool"
    and load :: "'s \<Rightarrow> 's \<times> paper_account option"
    and save :: "'w \<Rightarrow> paper_account \<Rightarrow> 's \<Rightarrow> 's \<times> unit result"
    and writable :: "'w \<Rightarrow> bool"
  assumes load_reads: "load s = (s', x) \<Longrightarrow>
      x = stored s \<and> stored s' = stored s \<and> healthy s' = healthy s \<and> account_id s' = account_id s"
    and save_writes: "pa_id a = account_id s \<Longrightarrow> writable w \<Longrightarrow> save w a s = (s', r) \<Longrightarrow>
      stored s' = Some (ensure_manual_sleeve_cash a) \<and> healthy s' \<and> account_id s' = account_id s"
    and save_refused: "pa_id a \<noteq> account_id s \<Longrightarrow> save w a s = (s', r) \<Longrightarrow> s' = s \<and> (\<exists>e. r = Inl e)"
    and save_fails: "pa_id a = account_id s \<Longrightarrow> \<not> writable w \<Longrightarrow> save w a s = (s', r) \<Longrightarrow> healthy s \<Longrightarrow>
      (\<exists>e. r = Inl e) \<and> stored s' = stored s \<and> healthy s' \<and> account_id s' = account_id s"
    and stored_id: "stored s = Some a \<Longrightarrow> pa_id a = account_id s"

text \<open>One request: load the account, change it, save it.\<close>

definition request ::
    "('s \<Rightarrow> 's \<times> paper_account option) \<Rightarrow> ('w \<Rightarrow> paper_account \<Rightarrow> 's \<Rightarrow> 's \<times> unit result)
      \<Rightarrow> 's \<Rightarrow> 'w \<times> (paper_account \<Rightarrow> paper_account) \<Rightarrow> 's" where
  "request load save s r =
     (case load s of (s, None) \<Rightarrow> s | (s, Some a) \<Rightarrow> fst (save (fst r) (snd r a) s))"

text \<open>The same request on the account itself.\<close>

definition request_spec ::
    "('w \<Rightarrow> bool) \<Rightarrow> paper_account \<Rightarrow> 'w \<times> (paper_account \<Rightarrow> paper_account) \<Rightarrow> paper_account" where
  "request_spec writable a r = (if writable (fst r) then ensure_manual_sleeve_cash (snd r a) else a)"

definition keeps_id :: "'w \<times> (paper_account \<Rightarrow> paper_account) \<Rightarrow> bool" where
  "keeps_id r \<longleftrightarrow> (\<forall>a. pa_id (snd r a) = pa_id a)"

context account_repository
begin

lemma request_refines:
  assumes "healthy s" and "stored s = Some a" and "keeps_id r"
  shows "healthy (request load save s r)"
    and "stored (request load save s r) = Some (request_spec writable a r)"
proof -
  obtain s1 x where load: "load s = (s1, x)" by fastforce
  note l = load_reads [OF load]
  obtain s2 y where save: "save (fst r) (snd r a) s1 = (s2, y)" by fastforce
  have id: "pa_id (snd r a) = account_id s1"
    using assms(2,3) l stored_id [of s1 a] by (simp add: keeps_id_def)
  have run: "request load save s r = s2"
    using assms(2) l load save by (simp add: request_def)
  show "healthy (request load save s r)"
    using save_writes [OF id _ save] save_fails [OF id _ save] l assms(1) unfolding run by blast
  show "stored (request load save s r) = Some (request_spec writable a r)"
    using save_writes [OF id _ save] save_fails [OF id _ save] l assms(1,2) unfolding run
    by (auto simp: request_spec_def)
qed

lemma requests_refine:
  "healthy s \<Longrightarrow> stored s = Some a \<Longrightarrow> list_all keeps_id rs \<Longrightarrow>
     healthy (foldl (request load save) s rs)
     \<and> stored (foldl (request load save) s rs) = Some (foldl (request_spec writable) a rs)"
  by (induction rs arbitrary: s a) (simp_all add: request_refines)

end

section \<open>The files keep the contract\<close>

definition stored_account :: "runtime \<Rightarrow> string \<Rightarrow> file_store \<Rightarrow> paper_account option" where
  "stored_account rt now st = snd (store_load rt now st)"

definition readable_primary :: "runtime \<Rightarrow> string \<Rightarrow> file_store \<Rightarrow> bool" where
  "readable_primary rt now st =
     (case as_primary st of
        None \<Rightarrow> False
      | Some f \<Rightarrow> (case load_account_file rt now (as_account_id st) f of Inl _ \<Rightarrow> False | Inr _ \<Rightarrow> True))"

type_synonym file_write = "disk \<times> (string, rat) dict \<times> price_metadata"

definition file_save :: "runtime \<Rightarrow> string \<Rightarrow> file_write \<Rightarrow> paper_account \<Rightarrow> file_store \<Rightarrow> file_store \<times> unit result" where
  "file_save rt now w a st = (case w of (dk, prices, metadata) \<Rightarrow> store_save rt now dk prices metadata a st)"

definition goes_through :: "file_write \<Rightarrow> bool" where
  "goes_through w = atomic_replace (fst w)"

lemma load_account_file_id:
  "load_account_file rt now account_id f = Inr a \<Longrightarrow> pa_id a = account_id"
  by (auto simp: load_account_file_def validate_paper_account_identity_def rbind_Inr
      split: account_file.splits pyval.splits if_splits)

lemma load_saved_file:
  assumes "pa_id a = account_id"
  shows "load_account_file rt now account_id (Json (VDict (account_document a))) = Inr (ensure_manual_sleeve_cash a)"
proof -
  have "pa_id (ensure_manual_sleeve_cash a) = pa_id a"
    by (simp add: ensure_manual_sleeve_cash_def)
  then show ?thesis
    using assms by (simp add: load_account_file_def validate_account_document validate_paper_account_identity_def)
qed

lemma store_load_files:
  assumes "store_load rt now st = (st', r)"
  shows "as_account_id st' = as_account_id st" and "as_primary st' = as_primary st"
    and "as_backup st' = as_backup st" and "as_archive st' = as_archive st" and "as_corrupt st' = as_corrupt st"
    and "as_snapshot st' = as_snapshot st"
  using assms by (auto simp: store_load_def Let_def split: option.splits sum.splits)

lemma stored_account_eq:
  "stored_account rt now st =
    (case as_primary st of
       None \<Rightarrow> None
     | Some f \<Rightarrow> (case load_account_file rt now (as_account_id st) f of
         Inr a \<Rightarrow> Some a | Inl _ \<Rightarrow> load_backup_account rt now st))"
  by (simp add: stored_account_def store_load_def Let_def load_backup_account_def split: option.splits sum.splits)

lemma stored_same_files:
  "as_account_id st' = as_account_id st \<Longrightarrow> as_primary st' = as_primary st \<Longrightarrow> as_backup st' = as_backup st \<Longrightarrow>
     stored_account rt now st' = stored_account rt now st"
  by (simp add: stored_account_eq load_backup_account_def split: option.split sum.split)

lemma readable_same_files:
  "as_account_id st' = as_account_id st \<Longrightarrow> as_primary st' = as_primary st \<Longrightarrow>
     readable_primary rt now st' = readable_primary rt now st"
  by (simp add: readable_primary_def split: option.split)

lemma load_backup_updates [simp]:
  "load_backup_account rt now (st\<lparr>as_primary := p\<rparr>) = load_backup_account rt now st"
  "load_backup_account rt now (st\<lparr>as_corrupt := c\<rparr>) = load_backup_account rt now st"
  "load_backup_account rt now (st\<lparr>as_warning := x\<rparr>) = load_backup_account rt now st"
  by (simp_all add: load_backup_account_def split: option.split)

lemma keep_previous_id [simp]: "as_account_id (keep_previous rt now dk st) = as_account_id st"
  by (simp add: keep_previous_def split: option.splits sum.splits)

lemma file_load_reads:
  assumes "store_load rt now st = (st', x)"
  shows "x = stored_account rt now st \<and> stored_account rt now st' = stored_account rt now st
    \<and> readable_primary rt now st' = readable_primary rt now st \<and> as_account_id st' = as_account_id st"
proof -
  note files = store_load_files(1-3) [OF assms]
  have "x = stored_account rt now st"
    by (simp add: stored_account_def assms)
  then show ?thesis
    using files by (simp only: stored_same_files [OF files] readable_same_files [OF files(1,2)] simp_thms)
qed

lemma file_save_writes:
  assumes "pa_id a = as_account_id st" and "goes_through w" and "file_save rt now w a st = (st', r)"
  shows "stored_account rt now st' = Some (ensure_manual_sleeve_cash a)
    \<and> readable_primary rt now st' \<and> as_account_id st' = as_account_id st"
  using assms
  by (auto simp: file_save_def goes_through_def store_save_def validate_paper_account_identity_def Let_def
      stored_account_eq readable_primary_def load_saved_file split: prod.splits if_splits)

lemma file_save_refused:
  "pa_id a \<noteq> as_account_id st \<Longrightarrow> file_save rt now w a st = (st', r) \<Longrightarrow> st' = st \<and> (\<exists>e. r = Inl e)"
  by (auto simp: file_save_def store_save_def validate_paper_account_identity_def split: prod.splits)

lemma file_save_fails:
  assumes id: "pa_id a = as_account_id st" and "\<not> goes_through w" and save: "file_save rt now w a st = (st', r)"
    and "readable_primary rt now st"
  shows "(\<exists>e. r = Inl e) \<and> stored_account rt now st' = stored_account rt now st
    \<and> readable_primary rt now st' \<and> as_account_id st' = as_account_id st"
proof -
  obtain f b where f: "as_primary st = Some f" "load_account_file rt now (as_account_id st) f = Inr b"
    using assms(4) by (auto simp: readable_primary_def split: option.splits sum.splits)
  have "keep_previous rt now dk st = st\<lparr>as_backup := Some f\<rparr>" for dk
    using f by (simp add: keep_previous_def)
  then have "st' = st\<lparr>as_backup := Some f\<rparr> \<and> (\<exists>e. r = Inl e)"
    using save id assms(2)
    by (auto simp: file_save_def goes_through_def store_save_def validate_paper_account_identity_def Let_def
        split: prod.splits if_splits)
  then show ?thesis
    using f by (auto simp: stored_account_eq readable_primary_def)
qed

lemma file_stored_id:
  "stored_account rt now st = Some a \<Longrightarrow> pa_id a = as_account_id st"
  by (auto simp: stored_account_eq load_backup_account_def load_account_file_id split: option.splits sum.splits)

interpretation file_repo: account_repository as_account_id "stored_account rt now" "readable_primary rt now"
  "store_load rt now" "file_save rt now" goes_through for rt now
  by unfold_locales
    (blast dest: file_load_reads, blast dest: file_save_writes, blast dest: file_save_refused,
      blast dest: file_save_fails, rule file_stored_id)

section \<open>The dual-write repository keeps it too\<close>

definition dual_write_save ::
    "'m mirror \<Rightarrow> runtime \<Rightarrow> string \<Rightarrow> file_write \<Rightarrow> paper_account \<Rightarrow> 'm dual_store \<Rightarrow> 'm dual_store \<times> unit result" where
  "dual_write_save mi rt now w a d = (case w of (dk, prices, metadata) \<Rightarrow> dual_save mi rt now dk prices metadata a d)"

lemma mirror_account_file [simp]: "dw_file (mirror_account mi prices metadata a d) = dw_file d"
  by (simp add: mirror_account_def split: prod.splits)

lemma dual_load_file:
  assumes "dual_load rt now d = (d', r)"
  shows "store_load rt now (dw_file d) = (dw_file d', r)"
  using assms by (auto simp: dual_load_def Let_def split: prod.splits if_splits)

lemma dual_save_file:
  assumes "dual_write_save mi rt now w a d = (d', r)"
  shows "file_save rt now w a (dw_file d) = (dw_file d', r)"
  using assms
  by (auto simp: dual_write_save_def dual_save_def file_save_def split: prod.splits sum.splits)

lemma dual_save_refused:
  assumes "pa_id a \<noteq> as_account_id (dw_file d)" and "dual_write_save mi rt now w a d = (d', r)"
  shows "d' = d \<and> (\<exists>e. r = Inl e)"
  using assms
  by (auto simp: dual_write_save_def dual_save_def store_save_def validate_paper_account_identity_def
      split: prod.splits sum.splits)

interpretation dual_repo: account_repository "\<lambda>d. as_account_id (dw_file d)" "\<lambda>d. stored_account rt now (dw_file d)"
  "\<lambda>d. readable_primary rt now (dw_file d)" "dual_load rt now" "dual_write_save mi rt now" goes_through
  for mi :: "'m mirror" and rt now
proof unfold_locales
  fix d d' :: "'m dual_store" and x
  assume "dual_load rt now d = (d', x)"
  then show "x = stored_account rt now (dw_file d) \<and> stored_account rt now (dw_file d') = stored_account rt now (dw_file d)
    \<and> readable_primary rt now (dw_file d') = readable_primary rt now (dw_file d)
    \<and> as_account_id (dw_file d') = as_account_id (dw_file d)"
    by (rule file_load_reads [OF dual_load_file])
next
  fix a and d d' :: "'m dual_store" and w r
  assume "pa_id a = as_account_id (dw_file d)" "goes_through w" "dual_write_save mi rt now w a d = (d', r)"
  then show "stored_account rt now (dw_file d') = Some (ensure_manual_sleeve_cash a)
    \<and> readable_primary rt now (dw_file d') \<and> as_account_id (dw_file d') = as_account_id (dw_file d)"
    by (rule file_save_writes [OF _ _ dual_save_file])
next
  fix a and d d' :: "'m dual_store" and w r
  assume "pa_id a \<noteq> as_account_id (dw_file d)" "dual_write_save mi rt now w a d = (d', r)"
  then show "d' = d \<and> (\<exists>e. r = Inl e)"
    by (rule dual_save_refused)
next
  fix a and d d' :: "'m dual_store" and w r
  assume "pa_id a = as_account_id (dw_file d)" "\<not> goes_through w" "dual_write_save mi rt now w a d = (d', r)"
    "readable_primary rt now (dw_file d)"
  then show "(\<exists>e. r = Inl e) \<and> stored_account rt now (dw_file d') = stored_account rt now (dw_file d)
    \<and> readable_primary rt now (dw_file d') \<and> as_account_id (dw_file d') = as_account_id (dw_file d)"
    by (rule file_save_fails [OF _ _ dual_save_file])
qed (rule file_stored_id)

section \<open>Properties\<close>

text \<open>C32: Requests on a stored account are requests on the account: where the primary is readable, any
  sequence of load-change-save requests, whichever of their writes are denied or raise after the account is written and
  whatever the database mirror does, leaves on file the account that the changes whose writes reached the file make
  of the first one, each followed by the reconstruction of the manual cash.\<close>

theorem stored_requests_refine:
  assumes "readable_primary rt now (dw_file d)" and "stored_account rt now (dw_file d) = Some a"
    and "list_all keeps_id rs"
  shows "stored_account rt now (dw_file (foldl (request (dual_load rt now) (dual_write_save mi rt now)) d rs))
    = Some (foldl (request_spec goes_through) a rs)"
  using dual_repo.requests_refine [OF assms] by simp

lemma store_load_again: "store_load rt now (fst (store_load rt now st)) = store_load rt now st"
  by (simp add: store_load_def Let_def load_backup_account_def split: option.splits sum.splits)

lemma load_or_open_again:
  "store_load_or_open rt now dk env cash (fst (store_load rt now st)) = store_load_or_open rt now dk env cash st"
  unfolding store_load_or_open_def store_load_again by (rule refl)

lemma dual_write_files:
  "map_prod dw_file id (dual_load rt now d) = store_load rt now (dw_file d)"
  "map_prod dw_file id (dual_save mi rt now dk prices metadata a d) = store_save rt now dk prices metadata a (dw_file d)"
  "map_prod dw_file id (dual_load_or_open mi rt now dk env cash d) = store_load_or_open rt now dk env cash (dw_file d)"
  "map_prod dw_file id (dual_reset mi rt now dk env cash d) = store_reset rt now dk env cash (dw_file d)"
proof -
  show "map_prod dw_file id (dual_load rt now d) = store_load rt now (dw_file d)"
    by (simp add: dual_load_def Let_def split: prod.splits)
  show "map_prod dw_file id (dual_save mi rt now dk prices metadata a d) = store_save rt now dk prices metadata a (dw_file d)"
    by (auto simp: dual_save_def split: prod.splits sum.splits)
  show "map_prod dw_file id (dual_load_or_open mi rt now dk env cash d) = store_load_or_open rt now dk env cash (dw_file d)"
    using load_or_open_again [of rt now dk env cash "dw_file d"]
    by (auto simp: dual_load_or_open_def Let_def split: prod.splits sum.splits)
  show "map_prod dw_file id (dual_reset mi rt now dk env cash d) = store_reset rt now dk env cash (dw_file d)"
    by (auto simp: dual_reset_def split: prod.splits sum.splits)
qed

text \<open>C38: A dual-write repository is the file repository: whatever its mirror does, loads, saves, opening
  and reset have the results and the files of the file repository, errors included.\<close>

theorem dual_write_is_file_store:
  "map_prod dw_file id (dual_load rt now d) = store_load rt now (dw_file d)
    \<and> map_prod dw_file id (dual_save mi rt now dk prices metadata a d) = store_save rt now dk prices metadata a (dw_file d)
    \<and> map_prod dw_file id (dual_load_or_open mi rt now dk env cash d) = store_load_or_open rt now dk env cash (dw_file d)
    \<and> map_prod dw_file id (dual_reset mi rt now dk env cash d) = store_reset rt now dk env cash (dw_file d)"
  by (simp add: dual_write_files)

lemma save_goes_through:
  assumes "store_save rt now dk prices metadata a st = (st', Inr u)"
  shows "pa_id a = as_account_id st" and "as_account_id st' = as_account_id st"
    and "as_primary st' = Some (Json (VDict (account_document a)))" and "as_warning st' = None"
    and "atomic_replace dk" and "dk_snapshot dk"
    and "readable_primary rt now st \<Longrightarrow> as_backup st' = as_primary st \<and> as_corrupt st' = as_corrupt st"
  using assms
  by (auto simp: store_save_def validate_paper_account_identity_def Let_def keep_previous_def readable_primary_def
      split: if_splits option.splits sum.splits)

text \<open>C37: A corrupt primary costs one save: after two saves, whatever unreadable content the primary is
  given, a load answers the account of the first save with the warning for callers. Opening repairs the
  files as long as the disk lets the new primary be renamed into place and the positions file be written:
  the primary holds that account again and the unreadable file is preserved.\<close>

theorem corruption_costs_one_save:
  assumes first: "store_save rt now dk1 p1 m1 a st = (st1, Inr ())"
    and second: "store_save rt now dk2 p2 m2 b st1 = (st2, Inr ())"
    and bad: "load_account_file rt now (as_account_id st) f = Inl e" and dk: "atomic_replace dk3" "dk_snapshot dk3"
  shows "snd (store_load rt now (st2\<lparr>as_primary := Some f\<rparr>)) = Some (ensure_manual_sleeve_cash a)
    \<and> as_warning (fst (store_load rt now (st2\<lparr>as_primary := Some f\<rparr>))) = Some primary_corrupt
    \<and> (\<exists>st3. store_load_or_open rt now dk3 env cash (st2\<lparr>as_primary := Some f\<rparr>) = (st3, Inr (ensure_manual_sleeve_cash a))
        \<and> as_primary st3 = Some (Json (VDict (account_document (ensure_manual_sleeve_cash a))))
        \<and> as_warning st3 = None \<and> (dk_stamp dk3, f) \<in> set (as_corrupt st3))"
proof -
  let ?st = "st2\<lparr>as_primary := Some f\<rparr>" and ?a = "ensure_manual_sleeve_cash a"
  note s1 = save_goes_through [OF first] and s2 = save_goes_through [OF second]
  have "load_account_file rt now (as_account_id st1) (Json (VDict (account_document a))) = Inr ?a"
    using s1 by (intro load_saved_file) simp
  then have readable: "readable_primary rt now st1"
    using s1 by (simp add: readable_primary_def)
  have backup: "load_backup_account rt now ?st = Some ?a"
    using s1 s2(2,7) readable load_saved_file [of a "as_account_id st" rt now] by (simp add: load_backup_account_def)
  have load: "store_load rt now ?st = (?st\<lparr>as_warning := Some primary_corrupt\<rparr>, Some ?a)"
    using bad backup s1(2) s2(2) by (simp add: store_load_def Let_def)
  let ?w = "?st\<lparr>as_warning := Some primary_corrupt\<rparr>"
  have id: "pa_id ?a = as_account_id ?w"
    using s1 s2 by (simp add: ensure_manual_sleeve_cash_def)
  have kept: "keep_previous rt now dk3 ?w = ?w\<lparr>as_primary := None, as_corrupt := as_corrupt ?w @ [(dk_stamp dk3, f)]\<rparr>"
    using bad s1(2) s2(2) by (simp add: keep_previous_def)
  have open': "store_load_or_open rt now dk3 env cash ?st = (case store_save rt now dk3 [] [] ?a ?w of
      (st, Inl e) \<Rightarrow> (st, Inl e) | (st, Inr _) \<Rightarrow> (st, Inr ?a))"
    unfolding store_load_or_open_def load by simp
  show ?thesis
    using load dk id unfolding open'
    by (simp add: store_save_def validate_paper_account_identity_def kept Let_def)
qed

text \<open>A repair that fails forgets the account: with an unreadable primary and a good backup, a save
  whose ten renames are denied (a file held open elsewhere) has already moved the primary away, so
  the next load finds no account and no warning although the backup is still good; opening then
  starts a new account with the initial cash, and the save after that overwrites the backup.\<close>

theorem failed_repair_forgets_account:
  assumes primary: "as_primary st = Some f" and bad: "load_account_file rt now (as_account_id st) f = Inl e"
    and backup: "load_backup_account rt now st = Some a" and denied: "\<not> atomic_replace dk"
    and later: "atomic_replace dk2" "atomic_replace dk3" "dk_snapshot dk2" "dk_snapshot dk3" and id: "pa_id b = as_account_id st" and cash: "0 \<le> cash"
  shows "\<exists>st1. \<exists>st2. \<exists>st3. \<exists>fresh. store_load_or_open rt now dk env cash st = (st1, Inl (OSError ''PermissionError''))
    \<and> snd (store_load rt now st1) = None \<and> as_warning (fst (store_load rt now st1)) = None
    \<and> load_backup_account rt now st1 = Some a
    \<and> store_load_or_open rt now dk2 env cash st1 = (st2, Inr fresh)
    \<and> pa_cash fresh = cash \<and> pa_positions fresh = []
    \<and> store_save rt now dk3 [] [] b st2 = (st3, Inr ())
    \<and> load_backup_account rt now st3 = Some fresh"
proof -
  let ?w = "st\<lparr>as_warning := Some primary_corrupt\<rparr>"
  let ?st1 = "?w\<lparr>as_primary := None, as_corrupt := as_corrupt st @ [(dk_stamp dk, f)]\<rparr>"
  have warned: "load_backup_account rt now (st\<lparr>as_warning := x\<rparr>) = Some a" for x
    using backup by simp
  have load: "store_load rt now st = (?w, Some a)"
    using primary bad warned by (simp add: store_load_def Let_def)
  have a_id: "pa_id a = as_account_id st"
    using backup load_account_file_id [of rt now "as_account_id st"]
    by (auto simp: load_backup_account_def split: option.splits sum.splits)
  have kept: "keep_previous rt now dk ?w = ?st1"
    using primary bad by (simp add: keep_previous_def)
  have run1: "store_load_or_open rt now dk env cash st = (?st1, Inl (OSError ''PermissionError''))"
    unfolding store_load_or_open_def load
    using denied a_id by (simp add: store_save_def validate_paper_account_identity_def kept Let_def)
  have load1: "store_load rt now ?st1 = (?st1\<lparr>as_warning := None\<rparr>, None)"
    by (simp add: store_load_def)
  obtain fresh where fresh: "open_new env (as_account_id st) cash ''USD'' now = Inr fresh"
    using cash by (auto simp: open_new_def)
  note new = open_new_funded [OF fresh]
  let ?st2 = "?st1\<lparr>as_warning := None, as_primary := Some (Json (VDict (account_document fresh))),
    as_snapshot := Some (positions_snapshot [] [] fresh)\<rparr>"
  have run2: "store_load_or_open rt now dk2 env cash ?st1 = (?st2, Inr fresh)"
    unfolding store_load_or_open_def load1 open_and_save_def
    using fresh new(3) later
    by (simp add: store_save_def validate_paper_account_identity_def keep_previous_def Let_def)
  have good: "load_account_file rt now (as_account_id st) (Json (VDict (account_document fresh))) = Inr fresh"
    using load_saved_file [of fresh "as_account_id st"] new(2,3) by simp
  obtain st3 where run3: "store_save rt now dk3 [] [] b ?st2 = (st3, Inr ())"
    using later id by (simp add: store_save_def validate_paper_account_identity_def Let_def)
  have "readable_primary rt now ?st2"
    using good by (simp add: readable_primary_def)
  then have "load_backup_account rt now st3 = Some fresh"
    using save_goes_through(2,7) [OF run3] good by (simp add: load_backup_account_def)
  moreover have "load_backup_account rt now ?st1 = Some a"
    using backup by simp
  ultimately show ?thesis
    using run1 load1 run2 run3 new(6,8) by auto
qed

text \<open>C40: Waiting for the account lock ends: once the clock passes the deadline after some attempt, the
  wait returns no later than at that attempt, with the lock exactly when its last attempt got it,
  and it gives up only after the deadline.\<close>

theorem lock_wait_ends:
  assumes "deadline \<le> clock (n + k)"
  shows "\<exists>i. \<exists>r. n \<le> i \<and> i \<le> n + k \<and> wait_lock lock_path free clock deadline n = Some (i, r)
    \<and> (r = Inr () \<longleftrightarrow> free i) \<and> (free i \<or> deadline \<le> clock i) \<and> (\<forall>j. n \<le> j \<and> j < i \<longrightarrow> \<not> free j)"
  using assms
proof (induction k arbitrary: n)
  case 0
  then show ?case
    by (intro exI [of _ n]) (auto simp: wait_lock.simps [of lock_path free clock deadline n])
next
  case (Suc k)
  consider "free n" | "\<not> free n" "deadline \<le> clock n" | "\<not> free n" "\<not> deadline \<le> clock n" by blast
  then show ?case
  proof cases
    case 3
    obtain i r where i: "Suc n \<le> i" "i \<le> Suc n + k" "wait_lock lock_path free clock deadline (Suc n) = Some (i, r)"
      "r = Inr () \<longleftrightarrow> free i" "free i \<or> deadline \<le> clock i" "\<forall>j. Suc n \<le> j \<and> j < i \<longrightarrow> \<not> free j"
      using Suc.IH [of "Suc n"] Suc.prems by auto
    have "wait_lock lock_path free clock deadline n = Some (i, r)"
      using 3 i(3) wait_lock.simps [of lock_path free clock deadline n] by simp
    moreover have "\<forall>j. n \<le> j \<and> j < i \<longrightarrow> \<not> free j"
      using 3(1) i(6) by (metis le_antisym not_less_eq_eq)
    ultimately show ?thesis
      using i by (intro exI [of _ i] exI [of _ r]) auto
  qed (intro exI [of _ n], auto simp: wait_lock.simps [of lock_path free clock deadline n])+
qed

section \<open>Witnesses\<close>

definition good_disk :: disk where
  "good_disk = \<lparr>dk_stamp = ''20260102T000000_000000Z-abc123'', dk_denied = (\<lambda>n. n < 3),
     dk_snapshot = True\<rparr>"

definition bad_disk :: disk where
  "bad_disk = good_disk\<lparr>dk_denied := (\<lambda>n. True)\<rparr>"

definition example_files :: file_store where
  "example_files =
     \<lparr>as_account_id = pa_id example_account, as_primary = Some (Json (VDict (account_document example_account))),
      as_backup = None, as_archive = [], as_corrupt = [], as_snapshot = None, as_warning = None\<rparr>"

definition broken_mirror :: "unit mirror" where
  "broken_mirror = \<lparr>mi_save = (\<lambda>_ _ _ m. (m, Inl (OSError ''connection refused''))), mi_reconcile = None\<rparr>"

lemma example_files_load:
  "stored_account no_runtime ''t1'' example_files = Some (ensure_manual_sleeve_cash example_account)"
  "readable_primary no_runtime ''t1'' example_files"
  by (simp_all add: stored_account_eq readable_primary_def example_files_def load_saved_file)

lemma disks: "atomic_replace good_disk" "\<not> atomic_replace bad_disk" "dk_snapshot good_disk"
  by code_simp+

theorem stored_requests_refine_witness:
  "map_option pa_kill_switch (stored_account no_runtime ''t1'' (dw_file
     (foldl (request (dual_load no_runtime ''t1'') (dual_write_save broken_mirror no_runtime ''t1''))
       (open_dual example_files ())
       [((bad_disk, [], []), pa_cash_update (\<lambda>_. 5)), ((good_disk, [], []), pa_kill_switch_update (\<lambda>_. True))])))
    = Some True"
proof -
  let ?rs = "[((bad_disk, [], []), pa_cash_update (\<lambda>_. 5)), ((good_disk, [], []), pa_kill_switch_update (\<lambda>_. True))]
    :: (file_write \<times> (paper_account \<Rightarrow> paper_account)) list"
  have "readable_primary no_runtime ''t1'' (dw_file (open_dual example_files ()))"
    "stored_account no_runtime ''t1'' (dw_file (open_dual example_files ())) = Some (ensure_manual_sleeve_cash example_account)"
    "list_all keeps_id ?rs"
    by (simp_all add: open_dual_def example_files_load keeps_id_def)
  from stored_requests_refine [OF this, where mi = broken_mirror] show ?thesis
    by (simp add: request_spec_def goes_through_def disks ensure_manual_sleeve_cash_def)
qed

theorem corruption_costs_one_save_witness:
  "\<exists>st1. \<exists>st2. store_save no_runtime ''t1'' good_disk [] [] example_account example_files = (st1, Inr ())
    \<and> store_save no_runtime ''t1'' good_disk [] [] (example_account\<lparr>pa_cash := 5\<rparr>) st1 = (st2, Inr ())
    \<and> snd (store_load no_runtime ''t1'' (st2\<lparr>as_primary := Some Undecodable\<rparr>))
      = Some (ensure_manual_sleeve_cash example_account)"
proof -
  have saves: "\<exists>st'. store_save no_runtime ''t1'' good_disk [] [] a st = (st', Inr ())"
    if "pa_id a = as_account_id st" for a st
    using that disks by (simp add: store_save_def validate_paper_account_identity_def Let_def)
  obtain st1 where first: "store_save no_runtime ''t1'' good_disk [] [] example_account example_files = (st1, Inr ())"
    using saves [of example_account example_files] by (auto simp: example_files_def)
  obtain st2 where second: "store_save no_runtime ''t1'' good_disk [] [] (example_account\<lparr>pa_cash := 5\<rparr>) st1 = (st2, Inr ())"
    using saves [of "example_account\<lparr>pa_cash := 5\<rparr>" st1] save_goes_through(1,2) [OF first] by auto
  have "load_account_file no_runtime ''t1'' (as_account_id example_files) Undecodable
      = Inl (ValueError ''not a JSON document'')"
    by (simp add: load_account_file_def)
  from corruption_costs_one_save [OF first second this disks(1,3)] first second show ?thesis
    by blast
qed

theorem failed_repair_forgets_account_witness:
  "\<exists>st1. store_load_or_open no_runtime ''t1'' bad_disk example_env 1000000
      (example_files\<lparr>as_primary := Some Undecodable, as_backup := as_primary example_files\<rparr>)
        = (st1, Inl (OSError ''PermissionError''))
    \<and> snd (store_load no_runtime ''t1'' st1) = None"
proof -
  let ?st = "example_files\<lparr>as_primary := Some Undecodable, as_backup := as_primary example_files\<rparr>"
  have "as_primary ?st = Some Undecodable"
    "load_account_file no_runtime ''t1'' (as_account_id ?st) Undecodable = Inl (ValueError ''not a JSON document'')"
    "load_backup_account no_runtime ''t1'' ?st = Some (ensure_manual_sleeve_cash example_account)"
    by (simp_all add: load_account_file_def [of _ _ _ Undecodable] load_backup_account_def example_files_def load_saved_file)
  from failed_repair_forgets_account [OF this disks(2,1,1,3,3), of example_account 1000000 example_env]
  show ?thesis by (auto simp: example_files_def)
qed

theorem lock_wait_ends_witness:
  "\<exists>i. \<exists>r. i \<le> 5 \<and> wait_lock ''account.lock'' (\<lambda>n. n = 3) of_nat 5 0 = Some (i, r)"
  using lock_wait_ends [of 5 of_nat 0 5 "''account.lock''" "\<lambda>n. n = 3"] by auto

end
