(* ===== verification/AccountView.thy ===== *)
theory AccountView
  imports AccountStore AccountService Execution
begin

text \<open>
  The read models of the paper account: quotes and the account view
  (\<open>src/quant_system/execution/account_snapshot.py\<close>), the equity curve replayed from the ledger and
  the activity lists (\<open>src/quant_system/api/routes/paper.py\<close>). Market data is an argument: the batch
  of the Futu snapshot, already normalised, and the price of one symbol. The lemmas show that
  the curve replayed from the ledger ends in the account it came from, and that the view adds up.
\<close>

section \<open>Quotes\<close>

record observed_quote =
  ob_symbol :: string
  ob_price :: rat
  ob_price_kind :: string
  ob_as_of :: string
  ob_source :: string
  ob_previous_close :: "rat option"

type_synonym quotes = "(string, observed_quote) dict"

text \<open>The exceptions of a price source the resolution swallows.\<close>

definition price_miss :: "py_error \<Rightarrow> bool" where
  "price_miss e \<longleftrightarrow> is_price_unavailable e \<or> is_value_error e \<or> (case e of TypeError _ \<Rightarrow> True | _ \<Rightarrow> False)"

definition positive_price :: "pyfloat \<Rightarrow> bool" where
  "positive_price x \<longleftrightarrow> isfinite x \<and> \<not> le_zero x"

definition fallback_quote :: "paper_account \<Rightarrow> string \<Rightarrow> account_position \<Rightarrow> observed_quote" where
  "fallback_quote a symbol p =
     \<lparr>ob_symbol = symbol, ob_price = ap_avg_cost p, ob_price_kind = ''avg_cost_fallback'',
      ob_as_of = pa_updated_at a, ob_source = ''account'', ob_previous_close = None\<rparr>"

definition resolve_quote ::
    "quotes \<Rightarrow> (string \<Rightarrow> priced_quote result) \<Rightarrow> paper_account \<Rightarrow> string \<times> account_position
      \<Rightarrow> (string \<times> observed_quote) result" where
  "resolve_quote batch get_price a entry =
     (let (symbol, p) = entry
      in case map_of batch symbol of
           Some q \<Rightarrow> Inr (symbol, q)
         | None \<Rightarrow>
             (case get_price symbol of
                Inr q \<Rightarrow>
                  if positive_price (pq_price q)
                  then Inr (symbol, \<lparr>ob_symbol = pq_symbol q, ob_price = fin (pq_price q),
                              ob_price_kind = pq_price_kind q, ob_as_of = pq_as_of q, ob_source = pq_source q,
                              ob_previous_close = None\<rparr>)
                  else Inr (symbol, fallback_quote a symbol p)
              | Inl e \<Rightarrow> if price_miss e then Inr (symbol, fallback_quote a symbol p) else Inl e))"

definition resolve_account_quotes ::
    "quotes \<Rightarrow> (string \<Rightarrow> priced_quote result) \<Rightarrow> paper_account \<Rightarrow> quotes result" where
  "resolve_account_quotes batch get_price a = map_result (resolve_quote batch get_price a) (pa_positions a)"

text \<open>One row of the batch snapshot, with its symbol normalised.\<close>

record snapshot_quote_row =
  sr_symbol :: "string option"
  sr_last :: pyval
  sr_prev_close :: pyval
  sr_update_time :: pyval

fun batch_quotes :: "runtime \<Rightarrow> paper_account \<Rightarrow> snapshot_quote_row list \<Rightarrow> quotes \<Rightarrow> quotes" where
  "batch_quotes rt a [] quotes = quotes"
| "batch_quotes rt a (row # rows) quotes =
     batch_quotes rt a rows
       (case (sr_symbol row, py_float rt (sr_last row)) of
          (Some symbol, Some price) \<Rightarrow>
            if positive_price price
            then AList.update symbol
              \<lparr>ob_symbol = symbol, ob_price = fin price, ob_price_kind = ''futu_snapshot'',
               ob_as_of = (if truthy (sr_update_time row) then py_str rt (sr_update_time row) else pa_updated_at a),
               ob_source = ''futu'',
               ob_previous_close = (case py_float rt (sr_prev_close row) of
                   Some x \<Rightarrow> if positive_price x then Some (fin x) else None | None \<Rightarrow> None)\<rparr> quotes
            else quotes
        | _ \<Rightarrow> quotes)"

record price_source_view =
  ps_kind :: string
  ps_as_of :: "string option"

definition price_source_from_quotes :: "quotes \<Rightarrow> price_source_view" where
  "price_source_from_quotes quotes =
     (let kinds = remdups (map (\<lambda>(_, q). ob_price_kind q) quotes)
      in \<lparr>ps_kind = (case kinds of [] \<Rightarrow> ''none'' | [k] \<Rightarrow> k | _ \<Rightarrow> ''mixed''),
          ps_as_of = (case quotes of [(_, q)] \<Rightarrow> Some (ob_as_of q) | _ \<Rightarrow> None)\<rparr>)"

definition quote_prices :: "quotes \<Rightarrow> (string, rat) dict" where
  "quote_prices quotes = map (\<lambda>(symbol, q). (symbol, ob_price q)) quotes"

section \<open>The account view\<close>

record position_view =
  pv_symbol :: string
  pv_quantity :: rat
  pv_avg_cost :: rat
  pv_last_price :: rat
  pv_market_value :: rat
  pv_weight :: rat
  pv_unrealized_pnl :: rat
  pv_source_breakdown :: "(string, rat) dict"
  pv_price_kind :: string
  pv_price_as_of :: string
  pv_previous_close :: "rat option"
  pv_day_change_ratio :: "rat option"
  pv_day_change_source :: "string option"
  pv_day_change_as_of :: "string option"

definition position_view_of :: "paper_account \<Rightarrow> quotes \<Rightarrow> rat \<Rightarrow> string \<times> account_position \<Rightarrow> position_view" where
  "position_view_of a quotes eq entry =
     (let (symbol, p) = entry;
          quote = map_of quotes symbol;
          last_price = (case quote of None \<Rightarrow> ap_avg_cost p | Some q \<Rightarrow> ob_price q);
          kind = (case quote of None \<Rightarrow> ''avg_cost_fallback'' | Some q \<Rightarrow> ob_price_kind q);
          previous = (case quote of None \<Rightarrow> None | Some q \<Rightarrow> ob_previous_close q);
          previous = (case previous of None \<Rightarrow> None | Some x \<Rightarrow> if x \<le> 0 \<or> last_price \<le> 0 then None else Some x)
      in \<lparr>pv_symbol = symbol, pv_quantity = ap_quantity p, pv_avg_cost = ap_avg_cost p,
          pv_last_price = last_price, pv_market_value = ap_market_value p last_price,
          pv_weight = (if eq \<noteq> 0 then ap_market_value p last_price / eq else 0),
          pv_unrealized_pnl = ap_unrealized_pnl p last_price, pv_source_breakdown = source_breakdown p,
          pv_price_kind = kind,
          pv_price_as_of = (case quote of None \<Rightarrow> pa_updated_at a | Some q \<Rightarrow> ob_as_of q),
          pv_previous_close = previous,
          pv_day_change_ratio = map_option (\<lambda>x. last_price / x - 1) previous,
          pv_day_change_source = map_option (\<lambda>_. kind) previous,
          pv_day_change_as_of = (case previous of None \<Rightarrow> None | Some _ \<Rightarrow> map_option ob_as_of quote)\<rparr>)"

record account_view =
  av_account_id :: string
  av_base_currency :: string
  av_initial_cash :: rat
  av_cash :: rat
  av_reserved_cash :: rat
  av_available_cash :: rat
  av_manual_available_cash :: rat
  av_equity :: rat
  av_realized_pnl :: rat
  av_unrealized_pnl :: rat
  av_pnl_abs :: rat
  av_pnl_pct :: rat
  av_invested_pct :: rat
  av_kill_switch :: bool
  av_price_source :: price_source_view
  av_positions :: "position_view list"
  av_pending_orders :: "pending_order list"
  av_created_at :: string
  av_updated_at :: string
  av_valuation_status :: string
  av_unpriced_symbols :: "string list"
  av_market_equity :: "rat option"
  av_cost_basis_equity :: "rat option"
  av_storage_mode :: string
  av_stale :: bool
  av_warnings :: "string list"
  av_reconciliation :: "reconciliation option"

text \<open>\<open>list(dict.fromkeys(xs))\<close>: the first occurrences.\<close>

definition unique :: "'a list \<Rightarrow> 'a list" where
  "unique xs = rev (remdups (rev xs))"

text \<open>The repository is its last warning and its reconciliation, where the view is given one.\<close>

definition view_warnings :: "(string option \<times> reconciliation) option \<Rightarrow> bool \<Rightarrow> string list" where
  "view_warnings repository fallback =
     (case repository of
        None \<Rightarrow> []
      | Some (last_warning, r) \<Rightarrow>
          (case last_warning of Some w \<Rightarrow> if w \<noteq> [] then [w] else [] | None \<Rightarrow> [])
          @ (if rc_status r = ''different'' then [''paper_account_repository_out_of_sync'']
             else if rc_status r = ''unavailable'' then [''paper_account_reconciliation_unavailable''] else []))
     @ (if fallback then [''paper_account_price_unavailable''] else [])"

definition materialize_account_view ::
    "string \<Rightarrow> (string option \<times> reconciliation) option \<Rightarrow> quotes \<Rightarrow> paper_account \<Rightarrow> account_view" where
  "materialize_account_view db_mode repository quotes a =
     (let prices = quote_prices quotes;
          eq = equity a prices;
          positions = map (position_view_of a quotes eq) (sort_key fst (pa_positions a));
          unpriced = map pv_symbol (filter (\<lambda>v. pv_price_kind v = ''avg_cost_fallback'') positions);
          pnl = eq - pa_initial_cash a
      in \<lparr>av_account_id = pa_id a, av_base_currency = pa_currency a, av_initial_cash = pa_initial_cash a,
          av_cash = pa_cash a, av_reserved_cash = reserved_cash a None, av_available_cash = available_cash a None,
          av_manual_available_cash = manual_available_cash a None, av_equity = eq,
          av_realized_pnl = pa_realized_pnl a, av_unrealized_pnl = unrealized_pnl a prices, av_pnl_abs = pnl,
          av_pnl_pct = (if pa_initial_cash a \<noteq> 0 then pnl / pa_initial_cash a else 0),
          av_invested_pct = (if eq \<noteq> 0 then market_value a prices / eq else 0),
          av_kill_switch = pa_kill_switch a, av_price_source = price_source_from_quotes quotes,
          av_positions = positions, av_pending_orders = pa_pending a, av_created_at = pa_created_at a,
          av_updated_at = pa_updated_at a,
          av_valuation_status = (if unpriced \<noteq> [] then ''incomplete'' else ''complete''),
          av_unpriced_symbols = unpriced, av_market_equity = (if unpriced \<noteq> [] then None else Some eq),
          av_cost_basis_equity = (if unpriced \<noteq> [] then Some eq else None), av_storage_mode = db_mode,
          av_stale = (case repository of None \<Rightarrow> False
                      | Some (_, r) \<Rightarrow> rc_status r \<in> {''different'', ''unavailable''}),
          av_warnings = unique (view_warnings repository (unpriced \<noteq> [])),
          av_reconciliation = map_option snd repository\<rparr>)"

datatype snapshot_read =
    StorageCorrupt string
  | BootstrapRequired string
  | SnapshotMissing string
  | SnapshotRead account_view

text \<open>\<open>PaperAccountSnapshotReader.read\<close> on the files, with the quotes of the account it loads.\<close>

definition read_snapshot ::
    "runtime \<Rightarrow> string \<Rightarrow> string \<Rightarrow> quotes \<Rightarrow> (string \<Rightarrow> priced_quote result) \<Rightarrow> file_store
      \<Rightarrow> file_store \<times> snapshot_read result" where
  "read_snapshot rt now db_mode batch get_price st =
     (case store_load rt now st of
        (st, None) \<Rightarrow>
          (st, Inr (if as_warning st = Some storage_corrupt then StorageCorrupt storage_corrupt
                    else if db_mode = ''canonical'' then BootstrapRequired (as_account_id st)
                    else SnapshotMissing (as_account_id st)))
      | (st, Some a) \<Rightarrow>
          (st, rbind (resolve_account_quotes batch get_price a) (\<lambda>quotes.
             Inr (SnapshotRead (materialize_account_view db_mode (Some (as_warning st, file_reconciliation now st)) quotes a)))))"

section \<open>The equity curve\<close>

definition curve_fill_kinds :: "string set" where
  "curve_fill_kinds = {''fill'', ''rebalance_fill'', ''sleeve_execution_fill''}"

text \<open>Positions of the replay are their quantity and average cost.\<close>

record replay_state =
  rs_cash :: rat
  rs_realized :: rat
  rs_positions :: "(string, rat \<times> rat) dict"
  rs_marks :: "(string, rat) dict"

definition replay_start :: replay_state where
  "replay_start = \<lparr>rs_cash = 0, rs_realized = 0, rs_positions = [], rs_marks = []\<rparr>"

definition side_of :: "string \<Rightarrow> side" where
  "side_of s = (if s = ''buy'' then Buy else Sell)"

definition replay_fill :: "string \<Rightarrow> string \<Rightarrow> rat \<Rightarrow> rat \<Rightarrow> ledger_entry \<Rightarrow> replay_state \<Rightarrow> replay_state" where
  "replay_fill symbol sd quantity price e s =
     (let symbol = upper symbol;
          (held, cost) = dict_get (rs_positions s) symbol (0, 0);
          gross = (case le_gross e of None \<Rightarrow> quantity * price | Some g \<Rightarrow> g);
          (new_quantity, new_cost, realized, _) =
            roll_position_on_fill (side_of sd) held cost quantity price gross (le_commission e);
          s = s\<lparr>rs_realized := rs_realized s + realized\<rparr>
      in if \<bar>new_quantity\<bar> < account_dust
         then s\<lparr>rs_positions := AList.delete symbol (rs_positions s), rs_marks := AList.delete symbol (rs_marks s)\<rparr>
         else s\<lparr>rs_positions := AList.update symbol (new_quantity, new_cost) (rs_positions s),
                rs_marks := AList.update symbol price (rs_marks s)\<rparr>)"

definition replay_entry :: "replay_state \<Rightarrow> ledger_entry \<Rightarrow> replay_state" where
  "replay_entry s e =
     (let s = (if le_kind e = ''reset'' then s\<lparr>rs_positions := [], rs_marks := [], rs_realized := 0\<rparr> else s);
          s = (case (le_symbol e, le_side e, le_quantity e, le_price e) of
                 (Some symbol, Some sd, Some quantity, Some price) \<Rightarrow>
                   if le_kind e \<in> curve_fill_kinds \<and> symbol \<noteq> [] \<and> sd \<noteq> []
                   then replay_fill symbol sd quantity price e s
                   else s\<lparr>rs_realized := rs_realized s + le_realized_delta e\<rparr>
               | _ \<Rightarrow> s\<lparr>rs_realized := rs_realized s + le_realized_delta e\<rparr>)
      in s\<lparr>rs_cash := le_cash_after e\<rparr>)"

definition replay_value :: "replay_state \<Rightarrow> rat" where
  "replay_value s = (\<Sum>(symbol, (q, cost)) \<leftarrow> rs_positions s. q * dict_get (rs_marks s) symbol cost)"

record curve_point =
  cp_timestamp :: string
  cp_equity :: rat
  cp_cash :: rat
  cp_market_value :: rat
  cp_realized :: rat
  cp_source :: string
  cp_event_id :: "string option"
  cp_event_kind :: string
  cp_price_kind :: string

definition ledger_point :: "replay_state \<Rightarrow> ledger_entry \<Rightarrow> curve_point" where
  "ledger_point s e =
     \<lparr>cp_timestamp = le_timestamp e, cp_equity = rs_cash s + replay_value s, cp_cash = rs_cash s,
      cp_market_value = replay_value s, cp_realized = rs_realized s, cp_source = ''ledger'',
      cp_event_id = Some (le_id e), cp_event_kind = le_kind e, cp_price_kind = str_or (le_price_kind e) ''ledger''\<rparr>"

fun replay_points :: "replay_state \<Rightarrow> ledger_entry list \<Rightarrow> curve_point list" where
  "replay_points s [] = []"
| "replay_points s (e # es) = (let s = replay_entry s e in ledger_point s e # replay_points s es)"

definition current_point :: "string \<Rightarrow> quotes \<Rightarrow> paper_account \<Rightarrow> curve_point" where
  "current_point now quotes a =
     (let source = price_source_from_quotes quotes; value = market_value a (quote_prices quotes)
      in \<lparr>cp_timestamp = str_or (ps_as_of source) now, cp_equity = pa_cash a + value, cp_cash = pa_cash a,
          cp_market_value = value, cp_realized = pa_realized_pnl a, cp_source = ''current_quote'',
          cp_event_id = None, cp_event_kind = ''current'', cp_price_kind = ps_kind source\<rparr>)"

definition replay_account_equity_curve :: "string \<Rightarrow> quotes \<Rightarrow> paper_account \<Rightarrow> curve_point list" where
  "replay_account_equity_curve now quotes a =
     replay_points replay_start (pa_ledger a) @ [current_point now quotes a]"

text \<open>\<open>parse\<close> reads an ISO timestamp as a point in time and \<open>cutoff\<close> is \<open>days\<close> before the present.\<close>

definition filter_recent_equity_points ::
    "(string \<Rightarrow> rat option) \<Rightarrow> rat \<Rightarrow> int \<Rightarrow> curve_point list \<Rightarrow> curve_point list" where
  "filter_recent_equity_points parse cutoff days points =
     (if days \<le> 0 then points
      else filter (\<lambda>p. cp_source p = ''current_quote''
             \<or> (case parse (cp_timestamp p) of None \<Rightarrow> True | Some t \<Rightarrow> cutoff \<le> t)) points)"

definition window_rows :: "int \<Rightarrow> int \<Rightarrow> 'a list \<Rightarrow> 'a list" where
  "window_rows limit offset rows = take (nat (max limit 0)) (drop (nat (max offset 0)) rows)"

section \<open>Activity\<close>

text \<open>Cash after each entry and the change since the one before.\<close>

fun balance_rows :: "rat option \<Rightarrow> ledger_entry list \<Rightarrow> (string \<times> rat \<times> rat) list" where
  "balance_rows previous [] = []"
| "balance_rows previous (e # es) =
     (le_id e, le_cash_after e, (case previous of None \<Rightarrow> 0 | Some c \<Rightarrow> le_cash_after e - c))
       # balance_rows (Some (le_cash_after e)) es"

definition has_strategy_sleeve_positions :: "string list \<Rightarrow> paper_account \<Rightarrow> bool" where
  "has_strategy_sleeve_positions sleeve_ids a \<longleftrightarrow>
     (\<exists>(_, p) \<in> set (pa_positions a). \<exists>(source, quantity) \<in> set (ap_sources p).
        source \<in> set (map (\<lambda>k. ''strategy:'' @ k) sleeve_ids) \<and> account_dust < quantity)"

section \<open>The curve replays the account\<close>

definition replayed :: "replay_state \<Rightarrow> paper_account \<Rightarrow> bool" where
  "replayed s a \<longleftrightarrow> rs_cash s = pa_cash a \<and> rs_realized s = pa_realized_pnl a
     \<and> rs_positions s = map (\<lambda>(k, p). (k, (ap_quantity p, ap_avg_cost p))) (pa_positions a)"

definition curve_matches :: "paper_account \<Rightarrow> bool" where
  "curve_matches a \<longleftrightarrow> replayed (foldl replay_entry replay_start (pa_ledger a)) a"

text \<open>The events the account service and the sleeve executions produce.\<close>

definition curve_event :: "account_event \<Rightarrow> bool" where
  "curve_event e = (case e of
     FillEvent f source pk kind \<Rightarrow> account_dust < fill_quantity f \<and> fill_symbol f \<noteq> [] \<and> kind \<in> curve_fill_kinds
   | NoteEvent kind source symbol sd q price pk msg \<Rightarrow>
       kind \<noteq> ''reset'' \<and> (kind \<notin> curve_fill_kinds \<or> symbol = None))"

lemma booked_get:
  "dict_get (map (\<lambda>(k, p). (k, (ap_quantity p, ap_avg_cost p))) (pa_positions a)) k (0, 0)
    = (ap_quantity (position_of a k), ap_avg_cost (position_of a k))"
  by (simp add: dict_get_def position_of_def map_of_map [of "\<lambda>p. (ap_quantity p, ap_avg_cost p)" "pa_positions a"]
      new_position_def split: option.split)

lemma map_values_update: "map (\<lambda>(k, p). (k, f p)) (AList.update s p d) = AList.update s (f p) (map (\<lambda>(k, p). (k, f p)) d)"
  by (induction d) auto

lemma map_values_delete: "map (\<lambda>(k, p). (k, f p)) (AList.delete s d) = AList.delete s (map (\<lambda>(k, p). (k, f p)) d)"
  by (induction d) (auto simp: AList.delete_eq)

lemma side_of_str [simp]: "side_of (side_str s) = s"
  by (cases s) (simp_all add: side_of_def)

lemma replay_fill_positions:
  assumes "le_gross e = Some (fill_gross f)" "le_commission e = fill_commission f" and "replayed s a"
  shows "rs_realized (replay_fill (upper (fill_symbol f)) (side_str (fill_side f)) (fill_quantity f) (ef_price f) e s)
      = pa_realized_pnl a + realized_delta a f
    \<and> rs_positions (replay_fill (upper (fill_symbol f)) (side_str (fill_side f)) (fill_quantity f) (ef_price f) e s)
      = (if \<bar>ap_quantity (rolled_position a f)\<bar> < account_dust
         then AList.delete (upper (fill_symbol f)) (rs_positions s)
         else AList.update (upper (fill_symbol f)) (ap_quantity (rolled_position a f), ap_avg_cost (rolled_position a f))
                (rs_positions s))"
  using assms roll_eq [of f a]
  by (simp add: replay_fill_def replayed_def booked_get Let_def)

lemma curve_step:
  assumes "curve_matches a" and "curve_event e"
  shows "curve_matches (account_step env a e)"
proof (cases e)
  case (FillEvent f source pk kind)
  obtain a' r where run: "apply_fill env f source pk kind a = (a', r)" by fastforce
  have step: "account_step env a e = a'"
    using run FillEvent by (simp add: account_step_def)
  have event: "account_dust < fill_quantity f" "upper (fill_symbol f) \<noteq> []" "kind \<in> curve_fill_kinds"
    using assms(2) FillEvent by (simp_all add: curve_event_def)
  show ?thesis
  proof (cases r)
    case (Inl err)
    then show ?thesis
      using apply_fill_refused [of env f source pk kind a a' err] run event(1) assms(1) step by simp
  next
    case (Inr u)
    note run' = run [unfolded Inr] and ap = apply_fill_applied [OF run [unfolded Inr]]
    let ?s = "foldl replay_entry replay_start (pa_ledger a)"
    let ?e = "(ledger_draft kind source (ef_order_id f))
      \<lparr>le_symbol := Some (upper (fill_symbol f)), le_side := Some (side_str (fill_side f)),
       le_quantity := Some (fill_quantity f), le_price := Some (ef_price f),
       le_gross := Some (fill_gross f), le_commission := fill_commission f,
       le_price_kind := pk, le_realized_delta := realized_delta a f,
       le_id := env_entry_id env (length (pa_ledger a)), le_timestamp := env_now env (length (pa_ledger a)),
       le_cash_after := pa_cash a'\<rparr>"
    obtain p where p: "attributed_position a f source kind = Inr p"
      and pos: "pa_positions a' = (if \<bar>ap_quantity p\<bar> < account_dust then AList.delete (upper (fill_symbol f)) (pa_positions a)
                            else AList.update (upper (fill_symbol f)) p (pa_positions a))"
      using ap(8) by blast
    have q: "ap_quantity p = ap_quantity (rolled_position a f)" "ap_avg_cost p = ap_avg_cost (rolled_position a f)"
      using attributed_fields [OF p] by simp_all
    have ledger: "pa_ledger a' = pa_ledger a @ [?e]"
      using run' ap(1,2) p by (auto simp: apply_fill_eq)
    have s: "replayed ?s a"
      using assms(1) by (simp add: curve_matches_def)
    have kind: "kind \<noteq> ''reset''" "side_str (fill_side f) \<noteq> []"
      using event(3) by (auto simp: curve_fill_kinds_def side_str_def split: side.splits)
    have entry: "replay_entry ?s ?e
        = (replay_fill (upper (fill_symbol f)) (side_str (fill_side f)) (fill_quantity f) (ef_price f) ?e ?s)
          \<lparr>rs_cash := pa_cash a'\<rparr>"
      using event(2,3) kind by (simp add: replay_entry_def ledger_draft_def)
    have "replayed (replay_entry ?s ?e) a'"
      unfolding entry replayed_def
      using replay_fill_positions [OF _ _ s, of ?e f] s ap(3)
      by (simp add: ledger_draft_def pos q replayed_def map_values_update map_values_delete
          map_values_update [of "\<lambda>p. (ap_quantity p, ap_avg_cost p)"]
          map_values_delete [of "\<lambda>p. (ap_quantity p, ap_avg_cost p)"])
    then show ?thesis
      by (simp add: step curve_matches_def ledger)
  qed
next
  case (NoteEvent kind source symbol sd q price pk msg)
  let ?a = "record_event env kind source symbol sd q price pk msg a"
  obtain e' where e': "pa_ledger ?a = pa_ledger a @ [e']" "le_kind e' = kind" "le_realized_delta e' = 0"
    "le_cash_after e' = pa_cash a" "le_symbol e' = symbol"
    by (simp add: record_event_def ledger_draft_def)
  let ?s = "foldl replay_entry replay_start (pa_ledger a)"
  have "kind \<noteq> ''reset''" "kind \<notin> curve_fill_kinds \<or> symbol = None"
    using assms(2) NoteEvent by (simp_all add: curve_event_def)
  then have "replay_entry ?s e' = ?s\<lparr>rs_cash := pa_cash a\<rparr>"
    using e' by (auto simp: replay_entry_def Let_def split: option.split)
  then show ?thesis
    using assms(1) NoteEvent e' by (simp add: account_step_def curve_matches_def replayed_def)
qed

interpretation equity_curve: invariant_machine "account_step env" curve_event curve_matches for env
  by unfold_locales (rule curve_step)

lemma open_new_curve: "open_new env i cash cur now = Inr a \<Longrightarrow> curve_matches a"
  by (auto simp: open_new_def curve_matches_def replayed_def replay_start_def replay_entry_def ledger_draft_def
      split: if_splits)

section \<open>The view adds up\<close>

lemma sum_list_sorted: "sum_list (map f (sort_key k xs)) = (sum_list (map f xs) :: rat)"
proof -
  have "mset (map f (sort_key k xs)) = mset (map f xs)" by simp
  then show ?thesis by (metis sum_mset_sum_list)
qed

lemma map_of_dict_of_upper:
  assumes "\<forall>k \<in> fst ` set d. upper k = k" and "wf_dict d"
  shows "upper_dict d = d"
proof -
  have "map (\<lambda>(s, x). (upper s, x)) d = d"
    using assms(1) by (induction d) auto
  then show ?thesis using assms(2) by (simp add: upper_dict_def dict_of_distinct)
qed

lemma map_result_keys:
  "map_result f xs = Inr ys \<Longrightarrow> (\<And>x y. f x = Inr y \<Longrightarrow> fst y = fst x) \<Longrightarrow> map fst ys = map fst xs"
  by (induction xs arbitrary: ys) (auto simp: rbind_Inr)

lemma resolved_keys:
  assumes "resolve_account_quotes batch get_price a = Inr quotes"
  shows "map fst quotes = map fst (pa_positions a)"
  using assms unfolding resolve_account_quotes_def
  by (rule map_result_keys) (auto simp: resolve_quote_def split: option.splits sum.splits if_splits)

definition upper_positions :: "paper_account \<Rightarrow> bool" where
  "upper_positions a \<longleftrightarrow> wf_dict (pa_positions a) \<and> (\<forall>k \<in> fst ` set (pa_positions a). upper k = k)"

lemma view_price:
  assumes "resolve_account_quotes batch get_price a = Inr quotes" and "upper_positions a"
  shows "dict_get (upper_dict (quote_prices quotes)) k x = (case map_of quotes k of None \<Rightarrow> x | Some q \<Rightarrow> ob_price q)"
proof -
  note keys = resolved_keys [OF assms(1)]
  have same: "map fst (quote_prices quotes) = map fst quotes"
    by (auto simp: quote_prices_def)
  then have "upper_dict (quote_prices quotes) = quote_prices quotes"
    using keys assms(2) unfolding upper_positions_def
    by (intro map_of_dict_of_upper) (metis list.set_map, metis)
  then show ?thesis
    by (simp add: quote_prices_def dict_get_def map_of_map [of ob_price quotes] split: option.split)
qed

definition view_price_of :: "quotes \<Rightarrow> string \<times> account_position \<Rightarrow> rat" where
  "view_price_of quotes entry =
     (case map_of quotes (fst entry) of None \<Rightarrow> ap_avg_cost (snd entry) | Some q \<Rightarrow> ob_price q)"

lemma position_view_values:
  "pv_market_value (position_view_of a quotes eq entry) = ap_market_value (snd entry) (view_price_of quotes entry)"
  "pv_unrealized_pnl (position_view_of a quotes eq entry) = ap_unrealized_pnl (snd entry) (view_price_of quotes entry)"
  "pv_weight (position_view_of a quotes eq entry) =
     (if eq \<noteq> 0 then ap_market_value (snd entry) (view_price_of quotes entry) / eq else 0)"
  "pv_symbol (position_view_of a quotes eq entry) = fst entry"
  "pv_price_kind (position_view_of a quotes eq entry) =
     (case map_of quotes (fst entry) of None \<Rightarrow> ''avg_cost_fallback'' | Some q \<Rightarrow> ob_price_kind q)"
  unfolding position_view_of_def view_price_of_def Let_def split_beta by simp_all

lemma view_sums:
  assumes "resolve_account_quotes batch get_price a = Inr quotes" and "upper_positions a"
  shows "market_value a (quote_prices quotes) = (\<Sum>e \<leftarrow> pa_positions a. ap_market_value (snd e) (view_price_of quotes e))"
    and "unrealized_pnl a (quote_prices quotes) = (\<Sum>e \<leftarrow> pa_positions a. ap_unrealized_pnl (snd e) (view_price_of quotes e))"
  unfolding market_value_def unrealized_pnl_def Let_def
  by (simp_all add: view_price [OF assms] view_price_of_def case_prod_unfold)

lemma unrealized_split:
  "(\<Sum>e \<leftarrow> d. ap_unrealized_pnl (snd e) (f e)) = (\<Sum>e \<leftarrow> d. ap_market_value (snd e) (f e)) - cost_basis d"
  by (induction d) (auto simp: ap_unrealized_pnl_def ap_market_value_def cost_basis_def algebra_simps)

lemma sum_list_divide: "(\<Sum>e \<leftarrow> xs. f e / c) = (\<Sum>e \<leftarrow> xs. f e) / (c :: rat)"
  by (induction xs) (simp_all add: add_divide_distrib)

section \<open>Properties\<close>

text \<open>C35: The equity curve replays the account: after any sequence of fills of the services (applied or
  refused) and notes on a new account, replaying the ledger from nothing gives the account's cash,
  its realised profit and, position by position, its quantities and average costs.\<close>

theorem equity_curve_replays_account:
  assumes "open_new env account_id cash cur now = Inr a0" and "list_all curve_event es"
  shows "replayed (foldl replay_entry replay_start (pa_ledger (foldl (account_step env) a0 es)))
    (foldl (account_step env) a0 es)"
  using equity_curve.run_inv [OF open_new_curve [OF assms(1)] assms(2), of env] by (simp add: curve_matches_def)

theorem equity_curve_replays_account_witness:
  "\<exists>a0. open_new example_env ''default'' 1000 ''USD'' ''t'' = Inr a0 \<and>
     (let a = foldl (account_step example_env) a0
        [FillEvent (example_sell\<lparr>fill_side := Buy\<rparr>) ''manual'' None ''fill'',
         FillEvent example_sell ''strategy:s1'' None ''sleeve_execution_fill'',
         FillEvent example_sell ''manual'' None ''fill'']
      in replayed (foldl replay_entry replay_start (pa_ledger a)) a)"
proof -
  have "\<not> isl (open_new example_env ''default'' 1000 ''USD'' ''t'')"
    by (simp add: open_new_def)
  then obtain a0 where a0: "open_new example_env ''default'' 1000 ''USD'' ''t'' = Inr a0"
    by (cases "open_new example_env ''default'' 1000 ''USD'' ''t''") auto
  have "list_all curve_event
      [FillEvent (example_sell\<lparr>fill_side := Buy\<rparr>) ''manual'' None ''fill'',
       FillEvent example_sell ''strategy:s1'' None ''sleeve_execution_fill'',
       FillEvent example_sell ''manual'' None ''fill'']"
    by (simp add: curve_event_def account_dust_def example_sell_def curve_fill_kinds_def)
  from equity_curve_replays_account [OF a0 this] a0 show ?thesis by (auto simp: Let_def)
qed

text \<open>The account view adds up: its equity is the cash plus the market values of its rows, its
  unrealised profit the sum of theirs, the weights sum to the invested share, and profit since
  opening is realised plus unrealised profit wherever the account's books balance; the view is
  marked complete exactly when no position had to be valued at its cost.\<close>

theorem account_view_adds_up:
  assumes quotes: "resolve_account_quotes batch get_price a = Inr quotes" and upper: "upper_positions a"
    and v: "v = materialize_account_view db_mode repository quotes a"
  shows "av_equity v = av_cash v + sum_list (map pv_market_value (av_positions v))
    \<and> av_unrealized_pnl v = sum_list (map pv_unrealized_pnl (av_positions v))
    \<and> (av_equity v \<noteq> 0 \<longrightarrow> sum_list (map pv_weight (av_positions v)) = av_invested_pct v)
    \<and> (account_book a = pa_initial_cash a \<longrightarrow> av_pnl_abs v = av_realized_pnl v + av_unrealized_pnl v)
    \<and> (av_valuation_status v = ''complete'' \<longleftrightarrow>
        (\<forall>(symbol, q) \<in> set quotes. ob_price_kind q \<noteq> ''avg_cost_fallback''))"
proof -
  let ?d = "pa_positions a" and ?price = "view_price_of quotes"
  let ?eq = "equity a (quote_prices quotes)"
  note sums = view_sums [OF quotes upper]
  have positions: "av_positions v = map (position_view_of a quotes ?eq) (sort_key fst ?d)"
    by (simp add: v materialize_account_view_def Let_def)
  have vals: "av_equity v = pa_cash a + market_value a (quote_prices quotes)" "av_cash v = pa_cash a"
    "av_unrealized_pnl v = unrealized_pnl a (quote_prices quotes)" "av_realized_pnl v = pa_realized_pnl a"
    "av_pnl_abs v = av_equity v - pa_initial_cash a"
    "av_equity v \<noteq> 0 \<Longrightarrow> av_invested_pct v = market_value a (quote_prices quotes) / av_equity v"
    by (simp_all add: v materialize_account_view_def equity_def Let_def)
  have mv: "sum_list (map pv_market_value (av_positions v)) = market_value a (quote_prices quotes)"
    unfolding positions sums map_map comp_def position_view_values sum_list_sorted by (rule refl)
  have up: "sum_list (map pv_unrealized_pnl (av_positions v)) = unrealized_pnl a (quote_prices quotes)"
    unfolding positions sums map_map comp_def position_view_values sum_list_sorted by (rule refl)
  have w: "sum_list (map pv_weight (av_positions v)) = market_value a (quote_prices quotes) / ?eq" if "?eq \<noteq> 0"
    unfolding positions sums map_map comp_def position_view_values sum_list_sorted
    using that by (simp add: sum_list_divide)
  have pnl: "av_pnl_abs v = av_realized_pnl v + av_unrealized_pnl v" if "account_book a = pa_initial_cash a"
    using that vals(1,3,4,5) sums unrealized_split [of ?price ?d] by (simp add: account_book_def)
  have keys: "map fst quotes = map fst ?d"
    by (rule resolved_keys [OF quotes])
  then have wf: "wf_dict quotes"
    using upper by (simp add: upper_positions_def)
  have "(\<forall>e \<in> set ?d. (case map_of quotes (fst e) of None \<Rightarrow> ''avg_cost_fallback'' | Some q \<Rightarrow> ob_price_kind q)
        \<noteq> ''avg_cost_fallback'')
      \<longleftrightarrow> (\<forall>k \<in> set (map fst quotes). (case map_of quotes k of None \<Rightarrow> ''avg_cost_fallback'' | Some q \<Rightarrow> ob_price_kind q)
        \<noteq> ''avg_cost_fallback'')"
    unfolding keys by auto
  also have "\<dots> \<longleftrightarrow> (\<forall>(symbol, q) \<in> set quotes. ob_price_kind q \<noteq> ''avg_cost_fallback'')"
    using wf by (auto simp: map_of_eq_Some_iff)
  finally have complete: "av_valuation_status v = ''complete'' \<longleftrightarrow>
      (\<forall>(symbol, q) \<in> set quotes. ob_price_kind q \<noteq> ''avg_cost_fallback'')"
    by (auto simp: v materialize_account_view_def Let_def filter_empty_conv position_view_values)
  show ?thesis
    using mv up w pnl vals complete by (simp add: equity_def)
qed

theorem account_view_adds_up_witness:
  "\<exists>quotes. resolve_account_quotes [] (\<lambda>_. Inl (PriceUnavailableError ''no quote'')) example_account = Inr quotes
    \<and> av_equity (materialize_account_view ''file'' None quotes example_account)
      = pa_cash example_account + sum_list (map pv_market_value
          (av_positions (materialize_account_view ''file'' None quotes example_account)))"
proof -
  let ?r = "resolve_account_quotes [] (\<lambda>_. Inl (PriceUnavailableError ''no quote'')) example_account"
  have "case ?r of Inl _ \<Rightarrow> False | Inr _ \<Rightarrow> True"
    by code_simp
  then obtain quotes where quotes: "?r = Inr quotes"
    by (auto split: sum.splits)
  have "upper_positions example_account"
    unfolding upper_positions_def by code_simp
  from account_view_adds_up [OF quotes this refl, of "''file''" None] quotes show ?thesis
    by (auto simp: materialize_account_view_def Let_def)
qed

end
