(* ===== verification/AccountRequests.thy ===== *)
theory AccountRequests
  imports AccountView Commit
begin

text \<open>
  The requests that change the paper account (\<open>src/quant_system/api/routes/paper.py\<close>): reset, kill
  switch, manual orders and their cancellation, pending orders, rebalance and the creation of a
  sleeve, each from the load of the account to its save, under the account's lock. The repository
  is the record of the operations the handlers call; HTTP errors are values. The database mode is
  file or mirror. The lemmas show that a request that answers has saved exactly what the service
  did to the account and a refused one has saved nothing, that the creation of a sleeve leaves
  the account and the sleeve files agreeing, and the two ways they come apart.
\<close>

section \<open>Repositories and requests\<close>

record 's repository =
  rp_load :: "'s \<Rightarrow> 's \<times> paper_account option"
  rp_load_or_open :: "disk \<Rightarrow> environment \<Rightarrow> rat \<Rightarrow> 's \<Rightarrow> 's \<times> paper_account result"
  rp_save :: "disk \<Rightarrow> (string, rat) dict \<Rightarrow> price_metadata \<Rightarrow> paper_account \<Rightarrow> 's \<Rightarrow> 's \<times> unit result"
  rp_reset :: "disk \<Rightarrow> environment \<Rightarrow> rat \<Rightarrow> 's \<Rightarrow> 's \<times> paper_account result"

definition file_repository :: "runtime \<Rightarrow> string \<Rightarrow> file_store repository" where
  "file_repository rt now =
     \<lparr>rp_load = store_load rt now, rp_load_or_open = store_load_or_open rt now, rp_save = store_save rt now,
      rp_reset = store_reset rt now\<rparr>"

definition dual_repository :: "'m mirror \<Rightarrow> runtime \<Rightarrow> string \<Rightarrow> 'm dual_store repository" where
  "dual_repository mi rt now =
     \<lparr>rp_load = dual_load rt now, rp_load_or_open = dual_load_or_open mi rt now, rp_save = dual_save mi rt now,
      rp_reset = dual_reset mi rt now\<rparr>"

text \<open>
  What one request meets: the ids and clock of the account, its writes in order, the prices of
  orders and of the account's quotes, and the market of pending orders.
\<close>

record request_world =
  rq_env :: environment
  rq_disk :: "nat \<Rightarrow> disk"
  rq_costs :: cost_settings
  rq_price :: "string \<Rightarrow> quote result"
  rq_batch :: quotes
  rq_observed :: "string \<Rightarrow> priced_quote result"
  rq_market :: market
  rq_checked_at :: string
  rq_checked_day :: int

datatype request_error = HttpError nat string | Raised py_error

definition account_quotes :: "request_world \<Rightarrow> paper_account \<Rightarrow> quotes result" where
  "account_quotes w a = resolve_account_quotes (rq_batch w) (rq_observed w) a"

definition save_account ::
    "'s repository \<Rightarrow> disk \<Rightarrow> quotes \<Rightarrow> paper_account \<Rightarrow> 's \<Rightarrow> 's \<times> unit result" where
  "save_account repo dk quotes a s =
     rp_save repo dk (quote_prices quotes)
       (map (\<lambda>(symbol, q). (symbol, (Some (ob_price_kind q), Some (ob_as_of q)))) quotes) a s"

text \<open>What the handlers share: quotes, save, answer.\<close>

definition quote_and_save ::
    "'s repository \<Rightarrow> request_world \<Rightarrow> 'a \<Rightarrow> paper_account \<Rightarrow> 's
      \<Rightarrow> 's \<times> (request_error + 'a \<times> paper_account \<times> quotes)" where
  "quote_and_save repo w out a s =
     (case account_quotes w a of
        Inl e \<Rightarrow> (s, Inl (Raised e))
      | Inr quotes \<Rightarrow>
          (case save_account repo (rq_disk w 1) quotes a s of
             (s, Inl e) \<Rightarrow> (s, Inl (Raised e))
           | (s, Inr _) \<Rightarrow> (s, Inr (out, a, quotes))))"

definition with_account ::
    "'s repository \<Rightarrow> request_world \<Rightarrow> (paper_account \<Rightarrow> paper_account \<times> (request_error + 'a)) \<Rightarrow> 's
      \<Rightarrow> 's \<times> (request_error + 'a \<times> paper_account \<times> quotes)" where
  "with_account repo w change s =
     (case rp_load_or_open repo (rq_disk w 0) (rq_env w) default_initial_cash s of
        (s, Inl e) \<Rightarrow> (s, Inl (Raised e))
      | (s, Inr a) \<Rightarrow>
          (case change a of
             (_, Inl e) \<Rightarrow> (s, Inl e)
           | (a, Inr out) \<Rightarrow> quote_and_save repo w out a s))"

text \<open>The service's exceptions as HTTP errors.\<close>

definition order_error :: "py_error \<Rightarrow> request_error" where
  "order_error e =
     (case e of
        AccountFrozenError _ \<Rightarrow> HttpError 409 ''account_frozen''
      | PriceUnavailableError _ \<Rightarrow> HttpError 422 ''price_unavailable''
      | _ \<Rightarrow> if is_value_error e then HttpError 400 ''invalid_account_order'' else Raised e)"

definition answer :: "(py_error \<Rightarrow> request_error) \<Rightarrow> 'b \<times> 'a result \<Rightarrow> 'b \<times> (request_error + 'a)" where
  "answer err r = (case r of (x, Inl e) \<Rightarrow> (x, Inl (err e)) | (x, Inr y) \<Rightarrow> (x, Inr y))"

definition place_account_order ::
    "'s repository \<Rightarrow> request_world \<Rightarrow> string \<Rightarrow> string \<Rightarrow> rat option \<Rightarrow> rat option \<Rightarrow> rat option \<Rightarrow> 's
      \<Rightarrow> 's \<times> (request_error + order_outcome \<times> paper_account \<times> quotes)" where
  "place_account_order repo w symbol sd quantity notional limit_price =
     with_account repo w (\<lambda>a. answer order_error
       (place_manual_order (rq_costs w) (rq_env w) (rq_price w) symbol sd quantity notional limit_price a))"

definition cancel_error :: "py_error \<Rightarrow> request_error" where
  "cancel_error e = (case e of PendingOrderNotFoundError _ \<Rightarrow> HttpError 404 ''pending_order_not_found'' | _ \<Rightarrow> Raised e)"

definition cancel_pending_account_order ::
    "'s repository \<Rightarrow> request_world \<Rightarrow> string \<Rightarrow> 's
      \<Rightarrow> 's \<times> (request_error + order_outcome \<times> paper_account \<times> quotes)" where
  "cancel_pending_account_order repo w order_id =
     with_account repo w (\<lambda>a. answer cancel_error (cancel_pending_order (rq_env w) order_id a))"

definition bool_str :: "bool \<Rightarrow> string" where
  "bool_str b = (if b then ''True'' else ''False'')"

definition switch_account :: "environment \<Rightarrow> bool \<Rightarrow> paper_account \<Rightarrow> paper_account" where
  "switch_account env enabled a =
     record_event env (if enabled then ''freeze'' else ''unfreeze'') ''system'' None None None None None
       (''account kill switch set to '' @ bool_str enabled) (a\<lparr>pa_kill_switch := enabled\<rparr>)"

definition set_account_kill_switch ::
    "'s repository \<Rightarrow> request_world \<Rightarrow> bool \<Rightarrow> 's \<Rightarrow> 's \<times> (request_error + unit \<times> paper_account \<times> quotes)" where
  "set_account_kill_switch repo w enabled =
     with_account repo w (\<lambda>a. (switch_account (rq_env w) enabled a, Inr ()))"

definition reset_account ::
    "'s repository \<Rightarrow> request_world \<Rightarrow> rat \<Rightarrow> 's \<Rightarrow> 's \<times> (request_error + paper_account)" where
  "reset_account repo w initial_cash s = answer Raised (rp_reset repo (rq_disk w 0) (rq_env w) initial_cash s)"

text \<open>\<open>_process_pending_account_orders\<close>; the mapping of its errors is the endpoint's.\<close>

definition process_error :: "py_error \<Rightarrow> request_error" where
  "process_error e =
     (case e of
        AccountFrozenError _ \<Rightarrow> HttpError 409 ''account_frozen''
      | PriceUnavailableError _ \<Rightarrow> HttpError 422 ''price_unavailable''
      | _ \<Rightarrow> Raised e)"

definition process_orders ::
    "'s repository \<Rightarrow> request_world \<Rightarrow> bool \<Rightarrow> paper_account \<Rightarrow> 's
      \<Rightarrow> 's \<times> (py_error + order_outcome list \<times> paper_account \<times> quotes)" where
  "process_orders repo w quote_when_idle a s =
     (if pa_pending a = []
      then (s, if quote_when_idle then rbind (account_quotes w a) (\<lambda>q. Inr ([], a, q)) else Inr ([], a, []))
      else case process_pending_orders (rq_costs w) (rq_env w) (rq_market w) (rq_checked_at w) (rq_checked_day w) a of
        (_, Inl e) \<Rightarrow> (s, Inl e)
      | (a, Inr outcomes) \<Rightarrow>
          (case account_quotes w a of
             Inl e \<Rightarrow> (s, Inl e)
           | Inr quotes \<Rightarrow>
               (case save_account repo (rq_disk w 1) quotes a s of
                  (s, Inl e) \<Rightarrow> (s, Inl e)
                | (s, Inr _) \<Rightarrow> (s, Inr (outcomes, a, quotes)))))"

definition process_pending_account_orders ::
    "'s repository \<Rightarrow> request_world \<Rightarrow> 's \<Rightarrow> 's \<times> (request_error + order_outcome list \<times> paper_account \<times> quotes)" where
  "process_pending_account_orders repo w s =
     (case rp_load_or_open repo (rq_disk w 0) (rq_env w) default_initial_cash s of
        (s, Inl e) \<Rightarrow> (s, Inl (process_error e))
      | (s, Inr a) \<Rightarrow> answer process_error (process_orders repo w True a s))"

definition process_pending_account_orders_once ::
    "'s repository \<Rightarrow> request_world \<Rightarrow> 's \<Rightarrow> 's \<times> order_outcome list result" where
  "process_pending_account_orders_once repo w s =
     (case rp_load repo s of
        (s, None) \<Rightarrow> (s, Inr [])
      | (s, Some a) \<Rightarrow>
          (case process_orders repo w False a s of (s, Inl e) \<Rightarrow> (s, Inl e) | (s, Inr (out, _)) \<Rightarrow> (s, Inr out)))"

section \<open>Requests on sleeves\<close>

text \<open>
  \<open>_reconcile_pending_strategy_sleeves\<close>: pending sleeves and journals are settled against the stored
  account, which is saved when a journal was recovered, and only then are the journals committed.
\<close>

fun commit_recovered :: "execution_plan list \<Rightarrow> sleeve_store \<Rightarrow> sleeve_store \<times> unit result" where
  "commit_recovered [] ss = (ss, Inr ())"
| "commit_recovered (p # ps) ss =
     (case commit_plan_journal p ss of (ss, Inl e) \<Rightarrow> (ss, Inl e) | (ss, Inr _) \<Rightarrow> commit_recovered ps ss)"

definition reconcile_pending_strategy_sleeves ::
    "'s repository \<Rightarrow> disk \<Rightarrow> string \<Rightarrow> 's \<Rightarrow> sleeve_store \<Rightarrow> 's \<times> sleeve_store \<times> unit result" where
  "reconcile_pending_strategy_sleeves repo dk now s ss =
     (case rp_load repo s of
        (s, account) \<Rightarrow>
          (case reconcile_pending_sleeves account ss of
             (ss, Inl e) \<Rightarrow> (s, ss, Inl e)
           | (ss, Inr _) \<Rightarrow>
               (case account of
                  None \<Rightarrow> (s, ss, Inr ())
                | Some a \<Rightarrow>
                    (case reconcile_execution_journals now False a ss of
                       (a, ss, Inl e) \<Rightarrow> (s, ss, Inl e)
                     | (a, ss, Inr recovered) \<Rightarrow>
                         if recovered = [] then (s, ss, Inr ())
                         else (case rp_save repo dk [] [] a s of
                             (s, Inl e) \<Rightarrow> (s, ss, Inl e)
                           | (s, Inr _) \<Rightarrow> (s, commit_recovered recovered ss))))))"

definition rebalance_error :: "py_error \<Rightarrow> request_error" where
  "rebalance_error e =
     (case e of
        AccountFrozenError _ \<Rightarrow> HttpError 409 ''account_frozen''
      | PriceUnavailableError _ \<Rightarrow> HttpError 422 ''price_unavailable''
      | StrategyDataUnavailableError _ \<Rightarrow> HttpError 422 ''strategy_data_unavailable''
      | _ \<Rightarrow> if is_value_error e then HttpError 400 ''invalid_account_rebalance'' else Raised e)"

definition rebalance_account ::
    "'s repository \<Rightarrow> request_world \<Rightarrow> environment \<Rightarrow> ((string, rat) dict \<times> string option) result
      \<Rightarrow> (string list \<Rightarrow> (string, quote) dict) \<Rightarrow> string \<Rightarrow> 's \<Rightarrow> sleeve_store
      \<Rightarrow> 's \<times> sleeve_store \<times> (request_error + rebalance_outcome \<times> paper_account \<times> quotes)" where
  "rebalance_account repo w trial_env targets get_prices strategy_id s ss =
     (case rp_load_or_open repo (rq_disk w 0) (rq_env w) default_initial_cash s of
        (s, Inl e) \<Rightarrow> (s, ss, Inl (Raised e))
      | (s, Inr a) \<Rightarrow>
          (case reconcile_pending_sleeves (Some a) ss of
             (ss, Inl e) \<Rightarrow> (s, ss, Inl (Raised e))
           | (ss, Inr _) \<Rightarrow>
               if has_strategy_sleeve_positions (map sv_id (list_sleeves ss)) a
               then (s, ss, Inl (HttpError 409 ''strategy_sleeve_positions_present''))
               else (case answer rebalance_error
                       (rebalance_to_strategy (rq_costs w) trial_env (rq_env w) targets get_prices strategy_id a) of
                   (_, Inl e) \<Rightarrow> (s, ss, Inl e)
                 | (a, Inr out) \<Rightarrow> (case quote_and_save repo w out a s of (s, r) \<Rightarrow> (s, ss, r)))))"

text \<open>\<open>create_strategy_sleeve\<close>, after the reconciliation: the sleeve is written as pending, the account is
  saved, and the sleeve becomes final; when the save raises, the pending sleeve is discarded.\<close>

definition io_or_value :: "py_error \<Rightarrow> bool" where
  "io_or_value e \<longleftrightarrow> is_os_error e \<or> is_value_error e"

definition persist_sleeve ::
    "'s repository \<Rightarrow> disk \<Rightarrow> quotes \<Rightarrow> strategy_sleeve \<Rightarrow> paper_account \<Rightarrow> 's \<Rightarrow> sleeve_store
      \<Rightarrow> 's \<times> sleeve_store \<times> (request_error + strategy_sleeve)" where
  "persist_sleeve repo dk quotes sleeve a s ss =
     (if sv_mode sleeve = Allocated
      then
        let ss = save_pending_sleeve sleeve ss
        in case save_account repo dk quotes a s of
             (s, Inl e) \<Rightarrow>
               if io_or_value e
               then (s, discard_pending_sleeve (sv_id sleeve) ss, Inl (HttpError 500 ''strategy_sleeve_storage_error''))
               else (s, ss, Inl (Raised e))
           | (s, Inr _) \<Rightarrow>
               (case finalize_pending_sleeve (sv_id sleeve) ss of
                  (ss, Inl e) \<Rightarrow>
                    (s, ss, Inl (if io_or_value e then HttpError 500 ''strategy_sleeve_storage_pending'' else Raised e))
                | (ss, Inr _) \<Rightarrow> (s, ss, Inr sleeve))
      else
        let ss = save_sleeve sleeve ss
        in case save_account repo dk quotes a s of
             (s, Inl e) \<Rightarrow>
               (s, ss, Inl (if io_or_value e then HttpError 500 ''strategy_sleeve_storage_error'' else Raised e))
           | (s, Inr _) \<Rightarrow> (s, ss, Inr sleeve))"

definition sleeve_error :: "py_error \<Rightarrow> request_error" where
  "sleeve_error e =
     (case e of
        FileNotFoundError _ \<Rightarrow> HttpError 404 ''not_found''
      | CashAllocationError _ \<Rightarrow> HttpError 400 ''cash_allocation_error''
      | _ \<Rightarrow> Raised e)"

definition new_sleeve_on_account ::
    "'s repository \<Rightarrow> request_world \<Rightarrow> (pyval \<Rightarrow> strategy_definition result) \<Rightarrow> string \<Rightarrow> int option \<Rightarrow> sleeve_mode
      \<Rightarrow> rat \<Rightarrow> metadata \<Rightarrow> string \<Rightarrow> string \<Rightarrow> 's \<Rightarrow> sleeve_store
      \<Rightarrow> 's \<times> sleeve_store \<times> (request_error + strategy_sleeve)" where
  "new_sleeve_on_account repo w read_definition config_id version mode allocated metadata sleeve_id now s ss =
     (case rp_load_or_open repo (rq_disk w 0) (rq_env w) default_initial_cash s of
        (s, Inl e) \<Rightarrow> (s, ss, Inl (Raised e))
      | (s, Inr a) \<Rightarrow>
          (case load_strategy_config read_definition config_id version ss of
             Inl e \<Rightarrow> (s, ss, Inl (sleeve_error e))
           | Inr config \<Rightarrow>
               (case create_sleeve (rq_env w) config mode allocated metadata sleeve_id now a of
                  (_, Inl e) \<Rightarrow> (s, ss, Inl (sleeve_error e))
                | (a, Inr sleeve) \<Rightarrow>
                    (case account_quotes w a of
                       Inl e \<Rightarrow> (s, ss, Inl (Raised e))
                     | Inr quotes \<Rightarrow> persist_sleeve repo (rq_disk w 1) quotes sleeve a s ss))))"

definition create_strategy_sleeve ::
    "'s repository \<Rightarrow> request_world \<Rightarrow> (pyval \<Rightarrow> strategy_definition result) \<Rightarrow> string \<Rightarrow> int option \<Rightarrow> sleeve_mode
      \<Rightarrow> rat \<Rightarrow> metadata \<Rightarrow> string \<Rightarrow> string \<Rightarrow> 's \<Rightarrow> sleeve_store
      \<Rightarrow> 's \<times> sleeve_store \<times> (request_error + strategy_sleeve)" where
  "create_strategy_sleeve repo w read_definition config_id version mode allocated metadata sleeve_id now s ss =
     (case reconcile_pending_strategy_sleeves repo (rq_disk w 2) now s ss of
        (s, ss, Inl e) \<Rightarrow> (s, ss, Inl (Raised e))
      | (s, ss, Inr _) \<Rightarrow>
          new_sleeve_on_account repo w read_definition config_id version mode allocated metadata sleeve_id now s ss)"

section \<open>The id of the account\<close>

lemma account_id_kept [simp]:
  "pa_id (append_ledger env e a) = pa_id a"
  "pa_id (record_event env kind source symbol sd quantity price pk msg a) = pa_id a"
  "pa_id (ensure_manual_sleeve_cash a) = pa_id a"
  "pa_id (sync_manual_sleeve_cash d source kind a) = pa_id a"
  "pa_id (order_note env oa kind text a) = pa_id a"
  "pa_id (switch_account env enabled a) = pa_id a"
  by (simp_all add: append_ledger_def record_event_def ensure_manual_sleeve_cash_def sync_manual_sleeve_cash_def
      order_note_def switch_account_def Let_def)

lemma apply_fill_id: "pa_id (fst (apply_fill env f source pk kind a)) = pa_id a"
  by (simp add: apply_fill_eq cash_settled_def split: sum.split)

lemma apply_fills_id: "pa_id (fst (apply_fills env oa fs a)) = pa_id a"
proof (induction fs arbitrary: a)
  case Nil
  then show ?case by simp
next
  case (Cons f fs)
  obtain a1 r where run: "apply_fill env f (oa_source oa) (Some (oa_price_kind oa)) (oa_kind oa) a = (a1, r)" by fastforce
  then have "pa_id a1 = pa_id a"
    using apply_fill_id [of env f "oa_source oa" "Some (oa_price_kind oa)" "oa_kind oa" a] by simp
  then show ?case
    using run Cons.IH [of a1] by (simp split: sum.split)
qed

lemma settle_outcome_id: "pa_id (fst (settle_outcome costs env now order_id oa filled a)) = pa_id a"
  by (simp add: settle_outcome_def queue_order_def Let_def split: option.split)

lemma execute_single_id: "pa_id (fst (execute_single costs env oa a)) = pa_id a"
proof -
  let ?now = "draw_now env a" and ?id = "draw_order_id env oa a"
  have "pa_id (fst (case apply_fills env oa fills a of
        (a, Inl e) \<Rightarrow> (a, Inl e)
      | (a, Inr _) \<Rightarrow>
          (case settle_outcome costs env ?now ?id oa (sum_list (map fill_quantity fills)) a of
             (a, status, reason) \<Rightarrow>
               (a, Inr (outcome_of oa status (oa_quantity oa) (sum_list (map fill_quantity fills)) reason (Some ?id)))))) = pa_id a" for fills
  proof -
    obtain a1 r where run: "apply_fills env oa fills a = (a1, r)" by fastforce
    obtain a2 st rs where settle: "settle_outcome costs env ?now ?id oa (sum_list (map fill_quantity fills)) a1 = (a2, st, rs)"
      using prod_cases3 by blast
    show ?thesis
      using run settle apply_fills_id [of env oa fills a]
        settle_outcome_id [of costs env ?now ?id oa "sum_list (map fill_quantity fills)" a1]
      by (simp add: Let_def split: sum.split)
  qed
  then show ?thesis
    by (simp add: execute_single_def Let_def split: sum.split)
qed

lemma place_manual_order_id: "pa_id (fst (place_manual_order costs env price symbol sd q n l a)) = pa_id a"
  by (simp add: place_manual_order_def execute_single_id split: sum.split option.split)

lemma cancel_pending_order_id: "pa_id (fst (cancel_pending_order env order_id a)) = pa_id a"
  by (simp add: cancel_pending_order_def Let_def split: option.split prod.split)

lemma answer_fst [simp]: "fst (answer err r) = fst r"
  by (cases r; cases "snd r") (auto simp: answer_def)

section \<open>What a served repository promises\<close>

text \<open>The contract of \<open>account_repository\<close>, of opening a stored account, and of what a save reports.\<close>

locale served_repository =
  account_repository account_id stored healthy "rp_load repo" "\<lambda>(dk, prices, metadata). rp_save repo dk prices metadata" goes_through
  for account_id :: "'s \<Rightarrow> string" and stored :: "'s \<Rightarrow> paper_account option" and healthy :: "'s \<Rightarrow> bool"
    and repo :: "'s repository" +
  assumes opens: "healthy s \<Longrightarrow> stored s = Some a \<Longrightarrow> rp_load_or_open repo dk env cash s = (s', x) \<Longrightarrow>
      x = Inr a \<and> stored s' = Some a \<and> healthy s' \<and> account_id s' = account_id s"
    and reports: "pa_id a = account_id s \<Longrightarrow> rp_save repo dk prices metadata a s = (s', r) \<Longrightarrow>
      (r = Inr () \<longleftrightarrow> atomic_replace dk \<and> dk_snapshot dk) \<and> (\<forall>e. r = Inl e \<longrightarrow> io_or_value e)"

text \<open>A request either leaves the stored account or stores what the change made of it, and when it answers it did
  the latter; a refused change has changed nothing.\<close>

definition settled ::
    "('s \<Rightarrow> paper_account option) \<Rightarrow> paper_account \<Rightarrow> paper_account \<times> (request_error + 'a)
      \<Rightarrow> 's \<times> (request_error + 'a \<times> paper_account \<times> quotes) \<Rightarrow> bool" where
  "settled stored a changed run =
     (case snd changed of
        Inl e \<Rightarrow> snd run = Inl e \<and> stored (fst run) = Some a
      | Inr out \<Rightarrow>
          (case snd run of
             Inr (out', a', _) \<Rightarrow> out' = out \<and> a' = fst changed
               \<and> stored (fst run) = Some (ensure_manual_sleeve_cash (fst changed))
           | Inl _ \<Rightarrow> stored (fst run) \<in> {Some a, Some (ensure_manual_sleeve_cash (fst changed))}))"

context served_repository
begin

lemma save_account_settles:
  assumes "healthy s" and "stored s = Some a0" and "pa_id a = account_id s"
    and "save_account repo dk quotes a s = (s', r)"
  shows "r = Inr () \<longleftrightarrow> atomic_replace dk \<and> dk_snapshot dk" and "r = Inl e \<Longrightarrow> io_or_value e"
    and "stored s' = (if atomic_replace dk then Some (ensure_manual_sleeve_cash a) else Some a0)" and "healthy s'"
proof -
  let ?m = "map (\<lambda>(symbol, q). (symbol, (Some (ob_price_kind q), Some (ob_as_of q)))) quotes"
  have save: "rp_save repo dk (quote_prices quotes) ?m a s = (s', r)"
    using assms(4) by (simp add: save_account_def)
  have w: "(\<lambda>(dk, prices, metadata). rp_save repo dk prices metadata) (dk, quote_prices quotes, ?m) a s = (s', r)"
    using save by simp
  show "r = Inr () \<longleftrightarrow> atomic_replace dk \<and> dk_snapshot dk" "r = Inl e \<Longrightarrow> io_or_value e"
    using reports [OF assms(3) save] by blast+
  show "stored s' = (if atomic_replace dk then Some (ensure_manual_sleeve_cash a) else Some a0)" "healthy s'"
    using save_writes [OF assms(3) _ w] save_fails [OF assms(3) _ w assms(1)] assms(2)
    by (auto simp: goes_through_def)
qed

lemma with_account_settles:
  assumes "healthy s" and "stored s = Some a" and "pa_id (fst (change a)) = pa_id a"
  shows "settled stored a (change a) (with_account repo w change s)"
proof -
  obtain s1 x where open': "rp_load_or_open repo (rq_disk w 0) (rq_env w) default_initial_cash s = (s1, x)" by fastforce
  note o = opens [OF assms(1,2) open']
  obtain a' y where change: "change a = (a', y)" by fastforce
  show ?thesis
  proof (cases y)
    case (Inl e)
    then show ?thesis using o open' change by (simp add: settled_def with_account_def)
  next
    case (Inr out)
    have run: "with_account repo w change s = quote_and_save repo w out a' s1"
      using o open' change Inr by (simp add: with_account_def)
    show ?thesis
    proof (cases "account_quotes w a'")
      case (Inl e)
      then show ?thesis using o change Inr run by (simp add: settled_def quote_and_save_def)
    next
      case quotes: (Inr q)
      obtain s2 z where save: "save_account repo (rq_disk w 1) q a' s1 = (s2, z)" by fastforce
      have "pa_id a' = account_id s1"
        using assms(2,3) change o stored_id [of s a] by simp
      note saved = save_account_settles [OF _ _ this save, of a]
      show ?thesis
        using saved o change \<open>y = Inr out\<close> quotes save unfolding run
        by (cases z) (auto simp: settled_def quote_and_save_def)
    qed
  qed
qed

lemma persist_sleeve_settles:
  assumes "healthy s" and "stored s = Some a0" and id: "pa_id a = account_id s" and mode: "sv_mode sleeve = Allocated"
    and fresh: "map_of (ss_sleeves ss) (sv_id sleeve) = None"
    and run: "persist_sleeve repo dk quotes sleeve a s ss = (s', ss', r)"
  shows "r = Inr sleeve \<longleftrightarrow> atomic_replace dk \<and> dk_snapshot dk"
    and "r = Inr sleeve \<or> r = Inl (HttpError 500 ''strategy_sleeve_storage_error'')"
    and "stored s' = (if atomic_replace dk then Some (ensure_manual_sleeve_cash a) else Some a0)"
    and "map_of (ss_sleeves ss') (sv_id sleeve) = (if r = Inr sleeve then Some sleeve else None)"
    and "map_of (ss_pending ss') (sv_id sleeve) = None"
proof -
  obtain s1 z where save: "save_account repo dk quotes a s = (s1, z)" by fastforce
  note saved = save_account_settles [OF assms(1,2) id save]
  have final: "finalize_pending_sleeve (sv_id sleeve) (save_pending_sleeve sleeve ss)
      = (discard_pending_sleeve (sv_id sleeve)
          ((save_pending_sleeve sleeve ss)\<lparr>ss_sleeves := AList.update (sv_id sleeve) sleeve (ss_sleeves ss)\<rparr>), Inr ())"
    using fresh by (simp add: finalize_pending_sleeve_def save_pending_sleeve_def discard_pending_sleeve_def save_sleeve_def)
  have s': "s' = s1"
    using run save mode saved(2) final by (cases z) (auto simp: persist_sleeve_def Let_def)
  then show "stored s' = (if atomic_replace dk then Some (ensure_manual_sleeve_cash a) else Some a0)"
    using saved(3) by simp
  consider (ok) "z = Inr ()" | (bad) e where "z = Inl e" "io_or_value e"
    using saved(2) by (cases z) auto
  then have "(r = Inr sleeve \<longleftrightarrow> atomic_replace dk \<and> dk_snapshot dk)
    \<and> (r = Inr sleeve \<or> r = Inl (HttpError 500 ''strategy_sleeve_storage_error''))
    \<and> map_of (ss_sleeves ss') (sv_id sleeve) = (if r = Inr sleeve then Some sleeve else None)
    \<and> map_of (ss_pending ss') (sv_id sleeve) = None"
  proof cases
    case ok
    then show ?thesis
      using run save mode final saved(1) by (auto simp: persist_sleeve_def discard_pending_sleeve_def)
  next
    case bad
    then show ?thesis
      using run save mode saved(1) fresh
      by (auto simp: persist_sleeve_def discard_pending_sleeve_def save_pending_sleeve_def)
  qed
  then show "r = Inr sleeve \<longleftrightarrow> atomic_replace dk \<and> dk_snapshot dk"
    and "r = Inr sleeve \<or> r = Inl (HttpError 500 ''strategy_sleeve_storage_error'')"
    and "map_of (ss_sleeves ss') (sv_id sleeve) = (if r = Inr sleeve then Some sleeve else None)"
    and "map_of (ss_pending ss') (sv_id sleeve) = None"
    by blast+
qed

end

section \<open>Both repositories are served\<close>

lemma file_save_eq: "(\<lambda>(dk, prices, metadata). store_save rt now dk prices metadata) = file_save rt now"
  by (auto simp: file_save_def fun_eq_iff)

lemma dual_save_eq: "(\<lambda>(dk, prices, metadata). dual_save mi rt now dk prices metadata) = dual_write_save mi rt now"
  by (auto simp: dual_write_save_def fun_eq_iff)

lemma readable_stored:
  "readable_primary rt now st \<Longrightarrow> stored_account rt now st = Some a \<Longrightarrow>
     store_load rt now st = (st\<lparr>as_warning := None\<rparr>, Some a)"
  by (auto simp: readable_primary_def stored_account_eq store_load_def Let_def split: option.splits sum.splits)

lemma file_opens:
  assumes "readable_primary rt now st" and "stored_account rt now st = Some a"
    and "store_load_or_open rt now dk env cash st = (st', x)"
  shows "x = Inr a \<and> stored_account rt now st' = Some a \<and> readable_primary rt now st'
    \<and> as_account_id st' = as_account_id st"
proof -
  note load = readable_stored [OF assms(1,2)]
  have "st' = st\<lparr>as_warning := None\<rparr>" "x = Inr a"
    using assms(3) load by (simp_all add: store_load_or_open_def primary_corrupt_def)
  then show ?thesis
    using file_load_reads [OF load] assms(1,2) by simp
qed

lemma file_reports:
  assumes "pa_id a = as_account_id st" and "store_save rt now dk prices metadata a st = (st', r)"
  shows "(r = Inr () \<longleftrightarrow> atomic_replace dk \<and> dk_snapshot dk) \<and> (\<forall>e. r = Inl e \<longrightarrow> io_or_value e)"
  using assms
  by (auto simp: store_save_def validate_paper_account_identity_def Let_def io_or_value_def split: if_splits)

interpretation file_requests: served_repository as_account_id "stored_account rt now" "readable_primary rt now"
  "file_repository rt now" for rt now
  by (unfold_locales, unfold file_repository_def repository.simps file_save_eq)
    (blast dest: file_load_reads, blast dest: file_save_writes, blast dest: file_save_refused,
      blast dest: file_save_fails, rule file_stored_id, assumption, blast dest: file_opens, rule file_reports)

lemma dual_opens:
  assumes "readable_primary rt now (dw_file d)" and "stored_account rt now (dw_file d) = Some a"
    and "dual_load_or_open mi rt now dk env cash d = (d', x)"
  shows "x = Inr a \<and> stored_account rt now (dw_file d') = Some a \<and> readable_primary rt now (dw_file d')
    \<and> as_account_id (dw_file d') = as_account_id (dw_file d)"
proof -
  have "store_load_or_open rt now dk env cash (dw_file d) = (dw_file d', x)"
    using dual_write_files(3) [of mi rt now dk env cash d] assms(3) by simp
  then show ?thesis by (rule file_opens [OF assms(1,2)])
qed

lemma dual_reports:
  assumes "pa_id a = as_account_id (dw_file d)" and "dual_save mi rt now dk prices metadata a d = (d', r)"
  shows "(r = Inr () \<longleftrightarrow> atomic_replace dk \<and> dk_snapshot dk) \<and> (\<forall>e. r = Inl e \<longrightarrow> io_or_value e)"
proof -
  have "store_save rt now dk prices metadata a (dw_file d) = (dw_file d', r)"
    using dual_write_files(2) [of mi rt now dk prices metadata a d] assms(2) by simp
  then show ?thesis by (rule file_reports [OF assms(1)])
qed

interpretation dual_requests: served_repository "\<lambda>d. as_account_id (dw_file d)" "\<lambda>d. stored_account rt now (dw_file d)"
  "\<lambda>d. readable_primary rt now (dw_file d)" "dual_repository mi rt now" for mi :: "'m mirror" and rt now
proof -
  have eqs: "rp_load (dual_repository mi rt now) = dual_load rt now"
    "(\<lambda>(dk, prices, metadata). rp_save (dual_repository mi rt now) dk prices metadata) = dual_write_save mi rt now"
    by (simp_all add: dual_repository_def dual_save_eq)
  show "served_repository (\<lambda>d. as_account_id (dw_file d)) (\<lambda>d. stored_account rt now (dw_file d))
      (\<lambda>d. readable_primary rt now (dw_file d)) (dual_repository mi rt now)"
    unfolding served_repository_def served_repository_axioms_def eqs
  proof (intro conjI allI impI)
    show "account_repository (\<lambda>d. as_account_id (dw_file d)) (\<lambda>d. stored_account rt now (dw_file d))
      (\<lambda>d. readable_primary rt now (dw_file d)) (dual_load rt now) (dual_write_save mi rt now) goes_through"
      by (rule dual_repo.account_repository_axioms)
  qed (auto simp: dual_repository_def dest: dual_opens dual_reports)
qed

section \<open>Properties\<close>

text \<open>C33: An order request settles: on a stored account, placing or cancelling an order, or switching the
  account off and on, answers with the account the service made, which is then the account on
  file; a request the service refuses leaves the stored account as it was and answers with the
  HTTP error of the refusal; and when quotes or files fail the stored account is the one before or
  the one after. This holds with a mirror whatever the mirror does.\<close>

theorem account_requests_settle:
  assumes "readable_primary rt now (dw_file d)" and "stored_account rt now (dw_file d) = Some a"
  shows "settled (\<lambda>d. stored_account rt now (dw_file d)) a
      (answer order_error (place_manual_order (rq_costs w) (rq_env w) (rq_price w) symbol sd quantity notional limit_price a))
      (place_account_order (dual_repository mi rt now) w symbol sd quantity notional limit_price d)
    \<and> settled (\<lambda>d. stored_account rt now (dw_file d)) a
      (answer cancel_error (cancel_pending_order (rq_env w) order_id a))
      (cancel_pending_account_order (dual_repository mi rt now) w order_id d)
    \<and> settled (\<lambda>d. stored_account rt now (dw_file d)) a (switch_account (rq_env w) enabled a, Inr ())
      (set_account_kill_switch (dual_repository mi rt now) w enabled d)"
  unfolding place_account_order_def cancel_pending_account_order_def set_account_kill_switch_def
  by (intro conjI; rule dual_requests.with_account_settles [OF assms];
      simp add: place_manual_order_id cancel_pending_order_id)

lemma new_sleeve_run:
  assumes "readable_primary rt now st" and "stored_account rt now st = Some a"
  shows "new_sleeve_on_account (file_repository rt now) w read_definition config_id version mode allocated metadata
      sleeve_id created st ss =
    (case load_strategy_config read_definition config_id version ss of
       Inl e \<Rightarrow> (st\<lparr>as_warning := None\<rparr>, ss, Inl (sleeve_error e))
     | Inr config \<Rightarrow>
         (case create_sleeve (rq_env w) config mode allocated metadata sleeve_id created a of
            (_, Inl e) \<Rightarrow> (st\<lparr>as_warning := None\<rparr>, ss, Inl (sleeve_error e))
          | (a, Inr sleeve) \<Rightarrow>
              (case account_quotes w a of
                 Inl e \<Rightarrow> (st\<lparr>as_warning := None\<rparr>, ss, Inl (Raised e))
               | Inr quotes \<Rightarrow> persist_sleeve (file_repository rt now) (rq_disk w 1) quotes sleeve a
                   (st\<lparr>as_warning := None\<rparr>) ss)))"
proof -
  have "rp_load_or_open (file_repository rt now) (rq_disk w 0) (rq_env w) default_initial_cash st
      = (st\<lparr>as_warning := None\<rparr>, Inr a)"
    using readable_stored [OF assms]
    by (simp add: file_repository_def store_load_or_open_def primary_corrupt_def)
  then show ?thesis by (simp add: new_sleeve_on_account_def)
qed

lemma created_sleeve:
  assumes "create_sleeve env config mode allocated metadata sleeve_id created a = (a', Inr sleeve)"
  shows "sv_id sleeve = sleeve_id" and "sv_mode sleeve = mode" and "pa_id a' = pa_id a"
    and "mode = Allocated \<Longrightarrow> sv_cash sleeve = allocated \<and> 0 < allocated"
  using assms
  by (auto simp: create_sleeve_def new_sleeve_def allocate_cash_def Let_def split: if_splits)

lemma quiet_store [simp]:
  "readable_primary rt now (st\<lparr>as_warning := x\<rparr>) = readable_primary rt now st"
  "stored_account rt now (st\<lparr>as_warning := x\<rparr>) = stored_account rt now st"
  by (simp_all add: readable_primary_def stored_account_eq split: option.split sum.split)

text \<open>C34: The creation of an allocated sleeve is all or nothing as long as the positions file can be
  written. Either it answers with a sleeve made from the requested version of its configuration: the
  sleeve is on file, no pending copy is left, and the stored account is the one that funded it, in which
  the new sleeve's entry (any id but \<open>manual\<close>) grew by exactly the positive amount allocated. Or it
  answers with an error, and then there is no sleeve under the id, no pending copy, and the stored account
  is as it was.\<close>

theorem sleeve_creation_is_all_or_nothing:
  assumes "readable_primary rt now st" and "stored_account rt now st = Some a"
    and fresh: "map_of (ss_sleeves ss) sleeve_id = None" "map_of (ss_pending ss) sleeve_id = None"
    and disk: "dk_snapshot (rq_disk w 1)"
    and run: "new_sleeve_on_account (file_repository rt now) w read_definition config_id version Allocated allocated
      metadata sleeve_id created st ss = (st', ss', r)"
  shows "map_of (ss_pending ss') sleeve_id = None
    \<and> (case r of
         Inr sleeve \<Rightarrow> map_of (ss_sleeves ss') sleeve_id = Some sleeve
           \<and> sv_cash sleeve = allocated \<and> 0 < allocated
           \<and> (\<exists>config funded. load_strategy_config read_definition config_id version ss = Inr config
                \<and> create_sleeve (rq_env w) config Allocated allocated metadata sleeve_id created a = (funded, Inr sleeve)
                \<and> stored_account rt now st' = Some (ensure_manual_sleeve_cash funded)
                \<and> (sleeve_id \<noteq> ''manual'' \<longrightarrow>
                    dict_get (pa_sleeve_cash (ensure_manual_sleeve_cash funded)) sleeve_id 0
                      = dict_get (pa_sleeve_cash a) sleeve_id 0 + allocated))
       | Inl _ \<Rightarrow> map_of (ss_sleeves ss') sleeve_id = None \<and> stored_account rt now st' = Some a)"
proof -
  note run' = run [unfolded new_sleeve_run [OF assms(1,2)]]
  show ?thesis
  proof (cases "load_strategy_config read_definition config_id version ss")
    case (Inl e)
    then show ?thesis using run' fresh assms(2) by auto
  next
    case config: (Inr config)
    obtain a1 x where create: "create_sleeve (rq_env w) config Allocated allocated metadata sleeve_id created a = (a1, x)"
      by fastforce
    show ?thesis
    proof (cases x)
      case (Inl e)
      then show ?thesis using run' config create fresh assms(2) by auto
    next
      case x: (Inr sleeve)
      note sl = created_sleeve [OF create [unfolded x]]
      show ?thesis
      proof (cases "account_quotes w a1")
        case (Inl e)
        then show ?thesis using run' config create x fresh assms(2) by auto
      next
        case quotes: (Inr quotes)
        have persist: "persist_sleeve (file_repository rt now) (rq_disk w 1) quotes sleeve a1 (st\<lparr>as_warning := None\<rparr>) ss
            = (st', ss', r)"
          using run' config create x quotes by simp
        have id: "pa_id a1 = as_account_id (st\<lparr>as_warning := None\<rparr>)"
          using sl(3) file_stored_id [OF assms(2)] by simp
        have h: "readable_primary rt now (st\<lparr>as_warning := None\<rparr>)" "stored_account rt now (st\<lparr>as_warning := None\<rparr>) = Some a"
          using assms(1,2) by simp_all
        have new: "map_of (ss_sleeves ss) (sv_id sleeve) = None"
          using fresh(1) sl(1) by simp
        note p = file_requests.persist_sleeve_settles [OF h id sl(2) new persist]
        have reached: "r = Inr sleeve \<longleftrightarrow> atomic_replace (rq_disk w 1)"
          using p(1) disk by simp
        show ?thesis
        proof (cases "atomic_replace (rq_disk w 1)")
          case True
          have entry: "dict_get (pa_sleeve_cash (ensure_manual_sleeve_cash a1)) sleeve_id 0
              = dict_get (pa_sleeve_cash a) sleeve_id 0 + allocated" if "sleeve_id \<noteq> ''manual''"
            using created_sleeve_funded [OF create [unfolded x] that] that
            by (auto simp: ensure_manual_sleeve_cash_def dict_get_def)
          from True show ?thesis
            using reached p(3-5) sl(1) sl(4) [OF refl] create x config entry by auto
        next
          case False
          then show ?thesis using reached p(2-5) sl(1) by auto
        qed
      qed
    qed
  qed
qed

text \<open>The rollback of a sleeve creation strands its cash: when the account was saved but the positions
  file after it could not be written, the handler discards the pending sleeve and answers with an
  error, while the account on file has already given the cash to the id of the discarded sleeve.\<close>

theorem rollback_strands_cash:
  assumes "readable_primary rt now st" and "stored_account rt now st = Some a"
    and books: "wf_dict (pa_sleeve_cash a)" "allocated_cash (pa_sleeve_cash a) \<le> pa_cash a" "0 \<le> pa_cash a"
    and id: "sleeve_id \<noteq> ''manual''" and fresh: "map_of (ss_sleeves ss) sleeve_id = None"
    and config: "load_strategy_config read_definition config_id version ss = Inr config"
    and create: "create_sleeve (rq_env w) config Allocated allocated metadata sleeve_id created a = (a1, Inr sleeve)"
    and quotes: "account_quotes w a1 = Inr quotes"
    and disk: "atomic_replace (rq_disk w 1)" "\<not> dk_snapshot (rq_disk w 1)"
  shows "\<exists>st'. \<exists>ss'. \<exists>b. new_sleeve_on_account (file_repository rt now) w read_definition config_id version Allocated
      allocated metadata sleeve_id created st ss = (st', ss', Inl (HttpError 500 ''strategy_sleeve_storage_error''))
    \<and> map_of (ss_sleeves ss') sleeve_id = None \<and> map_of (ss_pending ss') sleeve_id = None
    \<and> stored_account rt now st' = Some b
    \<and> dict_get (pa_sleeve_cash b) sleeve_id 0 = dict_get (pa_sleeve_cash a) sleeve_id 0 + allocated \<and> 0 < allocated"
proof -
  note sl = created_sleeve [OF create]
  obtain st' ss' r where persist: "persist_sleeve (file_repository rt now) (rq_disk w 1) quotes sleeve a1
      (st\<lparr>as_warning := None\<rparr>) ss = (st', ss', r)"
    using prod_cases3 by blast
  have aid: "pa_id a1 = as_account_id (st\<lparr>as_warning := None\<rparr>)"
    using sl(3) file_stored_id [OF assms(2)] by simp
  have h: "readable_primary rt now (st\<lparr>as_warning := None\<rparr>)" "stored_account rt now (st\<lparr>as_warning := None\<rparr>) = Some a"
    using assms(1,2) by simp_all
  have new: "map_of (ss_sleeves ss) (sv_id sleeve) = None"
    using fresh sl(1) by simp
  note p = file_requests.persist_sleeve_settles [OF h aid sl(2) new persist]
  have r: "r = Inl (HttpError 500 ''strategy_sleeve_storage_error'')"
    using p(1,2) disk by auto
  have cash: "dict_get (pa_sleeve_cash a1) sleeve_id 0 = dict_get (pa_sleeve_cash a) sleeve_id 0 + allocated"
    using created_sleeve_funded [OF create id] by simp
  have kept: "dict_get (pa_sleeve_cash (ensure_manual_sleeve_cash a1)) sleeve_id 0 = dict_get (pa_sleeve_cash a1) sleeve_id 0"
    using id by (auto simp: ensure_manual_sleeve_cash_def dict_get_def)
  have "new_sleeve_on_account (file_repository rt now) w read_definition config_id version Allocated
      allocated metadata sleeve_id created st ss = (st', ss', Inl (HttpError 500 ''strategy_sleeve_storage_error''))"
    unfolding new_sleeve_run [OF assms(1,2)] using config create quotes persist r by simp
  moreover have "map_of (ss_sleeves ss') sleeve_id = None" "map_of (ss_pending ss') sleeve_id = None"
    using p(4,5) sl(1) r by simp_all
  moreover have "stored_account rt now st' = Some (ensure_manual_sleeve_cash a1)"
    using p(3) disk(1) by simp
  ultimately show ?thesis
    using cash kept sl(4)
    by (intro exI [of _ st'] exI [of _ ss'] exI [of _ "ensure_manual_sleeve_cash a1"]) simp
qed

section \<open>Witnesses\<close>

definition quiet_market :: market where
  "quiet_market = \<lparr>mk_price = (\<lambda>_ _. Inl (PriceUnavailableError ''closed'')), mk_range = (\<lambda>_ _ _. None), mk_day = (\<lambda>_. None),
     mk_date = (\<lambda>_. [])\<rparr>"

definition example_request :: request_world where
  "example_request =
     \<lparr>rq_env = example_env, rq_disk = (\<lambda>_. good_disk), rq_costs = \<lparr>cs_commission_bps = 1, cs_slippage_bps = 5\<rparr>,
      rq_price = (\<lambda>s. Inr \<lparr>q_symbol = s, q_price = 10, q_price_kind = ''last_close''\<rparr>),
      rq_batch = [], rq_observed = (\<lambda>_. Inl (PriceUnavailableError ''closed'')), rq_market = quiet_market,
      rq_checked_at = ''t1'', rq_checked_day = 0\<rparr>"

text \<open>A reset does not know the sleeves: the account is opened anew with all its cash in the manual book
  while the sleeves keep their cash and their pending plans, and the plan of a sleeve with 100 in
  cash is then filled against an account reset to 50, whose cash goes below zero.\<close>

theorem reset_lets_sleeves_overdraw:
  "case snd (reset_account (file_repository no_runtime ''t1'') example_request 50
       (example_files\<lparr>as_account_id := ''acct''\<rparr>)) of
     Inl _ \<Rightarrow> False
   | Inr a \<Rightarrow> pa_cash a = 50 \<and> pa_sleeve_cash a = [(''manual'', 50)]
       \<and> (case prepare_and_commit (example_state\<lparr>xt_account := a\<rparr>) of
            (_, x', Inr plan) \<Rightarrow> xp_status plan = PlanFilled \<and> pa_cash (xt_account x') < 0
          | _ \<Rightarrow> False)"
  by code_simp

theorem account_requests_settle_witness:
  "settled (\<lambda>d. stored_account no_runtime ''t1'' (dw_file d)) (ensure_manual_sleeve_cash example_account)
     (switch_account example_env True (ensure_manual_sleeve_cash example_account), Inr ())
     (set_account_kill_switch (dual_repository broken_mirror no_runtime ''t1'') example_request True (open_dual example_files ()))"
  using account_requests_settle [of no_runtime "''t1''" "open_dual example_files ()" "ensure_manual_sleeve_cash example_account"
      example_request _ _ _ _ _ broken_mirror]
  by (simp add: open_dual_def example_files_load example_request_def)

definition sleeve_request :: "disk \<Rightarrow> request_world" where
  "sleeve_request dk = example_request\<lparr>rq_disk := (\<lambda>_. dk)\<rparr>"

definition torn_disk :: disk where
  "torn_disk = good_disk\<lparr>dk_snapshot := False\<rparr>"

definition config_store :: sleeve_store where
  "config_store = save_configs empty_store example_config"

theorem sleeve_creation_is_all_or_nothing_witness:
  "\<exists>st'. \<exists>ss'. \<exists>r. new_sleeve_on_account (file_repository no_runtime ''t1'') (sleeve_request good_disk)
      (\<lambda>_. Inl ValidationError) ''cfg'' None Allocated 30 [] ''s9'' ''t1'' example_files config_store = (st', ss', r)
    \<and> map_of (ss_pending ss') ''s9'' = None"
proof -
  obtain st' ss' r where run: "new_sleeve_on_account (file_repository no_runtime ''t1'') (sleeve_request good_disk)
      (\<lambda>_. Inl ValidationError) ''cfg'' None Allocated 30 [] ''s9'' ''t1'' example_files config_store = (st', ss', r)"
    using prod_cases3 by blast
  have fresh: "map_of (ss_sleeves config_store) ''s9'' = None" "map_of (ss_pending config_store) ''s9'' = None"
    "dk_snapshot (rq_disk (sleeve_request good_disk) 1)"
    by code_simp+
  from sleeve_creation_is_all_or_nothing [OF example_files_load(2,1) fresh run] run show ?thesis
    by blast
qed

theorem rollback_strands_cash_witness:
  "\<exists>st'. \<exists>ss'. \<exists>b. new_sleeve_on_account (file_repository no_runtime ''t1'') (sleeve_request torn_disk)
      (\<lambda>_. Inl ValidationError) ''cfg'' None Allocated 30 [] ''s9'' ''t1'' example_files config_store
        = (st', ss', Inl (HttpError 500 ''strategy_sleeve_storage_error''))
    \<and> map_of (ss_sleeves ss') ''s9'' = None \<and> stored_account no_runtime ''t1'' st' = Some b
    \<and> dict_get (pa_sleeve_cash b) ''s9'' 0 = 30"
proof -
  let ?a = "ensure_manual_sleeve_cash example_account" and ?w = "sleeve_request torn_disk"
  let ?create = "create_sleeve (rq_env ?w) example_config Allocated 30 [] ''s9'' ''t1'' ?a"
  have "case ?create of (a1, Inr sleeve) \<Rightarrow> (case account_quotes ?w a1 of Inl _ \<Rightarrow> False | Inr _ \<Rightarrow> True) | _ \<Rightarrow> False"
    by code_simp
  then obtain a1 sleeve quotes where create: "?create = (a1, Inr sleeve)" and quotes: "account_quotes ?w a1 = Inr quotes"
    by (auto split: prod.splits sum.splits)
  have books: "wf_dict (pa_sleeve_cash ?a)" "allocated_cash (pa_sleeve_cash ?a) \<le> pa_cash ?a" "0 \<le> pa_cash ?a"
    "''s9'' \<noteq> ''manual''" "map_of (ss_sleeves config_store) ''s9'' = None"
    "load_strategy_config (\<lambda>_. Inl ValidationError) ''cfg'' None config_store = Inr example_config"
    by code_simp+
  have disk: "atomic_replace (rq_disk ?w 1)" "\<not> dk_snapshot (rq_disk ?w 1)" and none: "dict_get (pa_sleeve_cash ?a) ''s9'' 0 = 0"
    by code_simp+
  from rollback_strands_cash [OF example_files_load(2,1) books create quotes disk] none show ?thesis
    by auto
qed

end
