(* ===== verification/Operations.thy ===== *)
theory Operations
  imports AccountRequests
begin

text \<open>
  The batch that executes the sleeves' plans (\<open>src/quant_system/execution/paper_strategy_operations.py\<close>)
  and the safety switches it asks (\<open>paper_observation.py\<close>, \<open>paper_observation_safety.py\<close>): plans are
  prepared without locks; under the locks the account is loaded and recovered, overdue plans expire,
  every prepared plan is read again and blocked or committed, and the account is saved before the
  journals are closed. The lemmas show that an interrupted batch is recovered from its journals, that
  account and sleeve files agree after a batch, that fills happen on their target date only and that
  a stopped automation fills nothing.
\<close>

section \<open>Paper observation\<close>

record safety_settings =
  sf_paper_trading :: bool
  sf_observation_enabled :: bool
  sf_live_enabled :: bool

definition authority_outage_codes :: "string list" where
  "authority_outage_codes = [''d34_authority_unavailable'', ''d34_safety_unavailable'']"

text \<open>\<open>str(metadata.get(key, default))\<close>.\<close>

definition meta_str :: "runtime \<Rightarrow> metadata \<Rightarrow> string \<Rightarrow> string \<Rightarrow> string" where
  "meta_str rt md key fallback = py_str rt (dict_get md key (VStr fallback))"

definition is_hex :: "char \<Rightarrow> bool" where
  "is_hex c \<longleftrightarrow> c \<in> set ''0123456789abcdef''"

definition official_source_digest :: "runtime \<Rightarrow> metadata \<Rightarrow> bool" where
  "official_source_digest rt md =
     (let v = meta_get md ''candidate_code_digest'';
          v = (if truthy v then v else meta_get md ''source_digest'');
          digest = (if truthy v then py_str rt v else [])
      in length digest = 64 \<and> list_all is_hex digest)"

definition hung_sleeve_eligible :: "runtime \<Rightarrow> strategy_sleeve \<Rightarrow> bool" where
  "hung_sleeve_eligible rt s =
     (let md = sv_metadata s
      in if meta_true md ''fossil'' \<or> meta_get md ''official_observation'' = VBool False then False
         else sv_mode s = Allocated \<and> sv_status s = Running \<and> meta_true md ''automation_managed''
           \<and> meta_str rt md ''promotion_scope'' [] = ''paper_only'' \<and> official_source_digest rt md)"

definition hung_observation_allows_fill :: "safety_settings \<Rightarrow> bool \<Rightarrow> bool \<Rightarrow> bool \<Rightarrow> bool" where
  "hung_observation_allows_fill sf emergency_stop authority_available sleeve_eligible \<longleftrightarrow>
     sleeve_eligible \<and> authority_available \<and> sf_paper_trading sf \<and> sf_observation_enabled sf
     \<and> \<not> sf_live_enabled sf \<and> \<not> emergency_stop"

definition context_blockers :: "runtime \<Rightarrow> metadata \<Rightarrow> string list" where
  "context_blockers rt context =
     (case meta_get context ''blockers'' of VList vs \<Rightarrow> map (py_str rt) vs | VDict d \<Rightarrow> map fst d | _ \<Rightarrow> [])"

definition hung_observation_open_for_sleeve ::
    "runtime \<Rightarrow> safety_settings \<Rightarrow> strategy_sleeve \<Rightarrow> metadata \<Rightarrow> bool" where
  "hung_observation_open_for_sleeve rt sf s context =
     (let available = dict_get context ''authority_available'' (VBool True) = VBool True;
          available = (if list_ex (\<lambda>code. code \<in> set authority_outage_codes) (context_blockers rt context)
                       then False else available)
      in hung_observation_allows_fill sf (meta_true context ''emergency_stop'') available (hung_sleeve_eligible rt s))"

text \<open>
  What the database answers about the emergency stop: nothing where it is off or fails, else the last
  event, if there is one, with its flag, its reason and its time.
\<close>

type_synonym emergency_row = "(bool \<times> string option \<times> pyval) option option"

definition valid_workspace :: "string \<Rightarrow> bool" where
  "valid_workspace s =
     (case s of
        [] \<Rightarrow> False
      | c # cs \<Rightarrow> is_alnum c \<and> length cs \<le> 127 \<and> list_all (\<lambda>c. is_alnum c \<or> c \<in> set ''._:-'') cs)"

definition observation_unavailable :: string where
  "observation_unavailable = ''paper_observation_authority_unavailable''"

definition observe_paper_emergency_stop :: "(string \<Rightarrow> emergency_row) \<Rightarrow> string \<Rightarrow> metadata result" where
  "observe_paper_emergency_stop query workspace_id =
     (if \<not> valid_workspace workspace_id then Inl (ValueError ''paper_observation_workspace_invalid'')
      else Inr (case query workspace_id of
          None \<Rightarrow> [(''active'', VBool True), (''reason'', VStr observation_unavailable), (''created_at'', VNone)]
        | Some None \<Rightarrow> [(''active'', VBool False), (''reason'', VNone), (''created_at'', VNone)]
        | Some (Some (enabled, reason, created_at)) \<Rightarrow>
            [(''active'', VBool enabled), (''reason'', opt_value VStr reason), (''created_at'', created_at)]))"

definition resolve_paper_observation_policy_context ::
    "(string \<Rightarrow> emergency_row) \<Rightarrow> string \<Rightarrow> metadata result" where
  "resolve_paper_observation_policy_context query workspace_id =
     rbind (observe_paper_emergency_stop query workspace_id) (\<lambda>emergency.
       let unavailable = meta_get emergency ''reason'' = VStr observation_unavailable
       in Inr [(''contract'', VStr ''hqa.paper_observation_policy_context/v1''),
          (''workspace_id'', VStr workspace_id), (''paper_execution_enabled'', VBool False),
          (''emergency_stop'', VBool (meta_true emergency ''active'')),
          (''authority_available'', VBool (\<not> unavailable)), (''mandate_active'', VBool False),
          (''mandate_paper_execution_allowed'', VBool False),
          (''blockers'', VList (if unavailable then [VStr observation_unavailable] else []))])"

section \<open>The runner\<close>

text \<open>
  The collaborators of one call: the settings, the policy context of a sleeve and the recorder of
  policy decisions (the code of its failure) as the n-th plan meets them, the world and clock of the
  n-th preparation, the time of the n-th decision, the quotes and writes of the call in order.
\<close>

record operations =
  op_runtime :: runtime
  op_digest :: "pyval \<Rightarrow> string"
  op_safety :: safety_settings
  op_context :: "nat \<Rightarrow> strategy_sleeve \<Rightarrow> metadata"
  op_record :: "nat \<Rightarrow> string \<Rightarrow> string \<Rightarrow> string \<Rightarrow> execution_decision \<Rightarrow> string option"
  op_world :: "nat \<Rightarrow> world"
  op_clock :: "nat \<Rightarrow> nat \<Rightarrow> string"
  op_now :: "nat \<Rightarrow> string"
  op_called_at :: string
  op_today :: string
  op_read_date :: "string \<Rightarrow> int option"
  op_show_date :: "int \<Rightarrow> string"
  op_env :: environment
  op_quotes :: "nat \<Rightarrow> string list \<Rightarrow> quotes result"
  op_disk :: "nat \<Rightarrow> disk"

definition op_target_date :: "operations \<Rightarrow> string option \<Rightarrow> string result" where
  "op_target_date op target =
     (case target of
        None \<Rightarrow> Inr (op_today op)
      | Some d \<Rightarrow>
          (case op_read_date op d of
             None \<Rightarrow> Inl (ValueError ''Invalid isoformat string'') | Some n \<Rightarrow> Inr (op_show_date op n)))"

definition automation_source :: "runtime \<Rightarrow> strategy_sleeve \<Rightarrow> string" where
  "automation_source rt s = meta_str rt (sv_metadata s) ''automation_source'' ''d33''"

text \<open>The default provider of policy contexts.\<close>

definition paper_execution_context :: "runtime \<Rightarrow> (string \<Rightarrow> emergency_row) \<Rightarrow> strategy_sleeve \<Rightarrow> metadata result" where
  "paper_execution_context rt query s =
     (if automation_source rt s \<noteq> ''d34'' then Inr []
      else resolve_paper_observation_policy_context query (meta_str rt (sv_metadata s) ''workspace_id'' ''default''))"

abbreviation hung_open :: "operations \<Rightarrow> nat \<Rightarrow> strategy_sleeve \<Rightarrow> bool" where
  "hung_open op n s \<equiv> hung_observation_open_for_sleeve (op_runtime op) (op_safety op) s (op_context op n s)"

definition current_d34_execution_blocker :: "operations \<Rightarrow> nat \<Rightarrow> strategy_sleeve \<Rightarrow> string option" where
  "current_d34_execution_blocker op n s =
     (if automation_source (op_runtime op) s \<noteq> ''d34'' then None
      else let context = op_context op n s
        in if meta_true context ''emergency_stop'' then Some ''automation_emergency_stop_active''
           else if hung_open op n s then None
           else if \<not> meta_true context ''paper_execution_enabled'' then Some ''automation_paper_execution_disabled''
           else if \<not> meta_true context ''mandate_active'' then Some ''automation_d34_mandate_inactive''
           else if \<not> meta_true context ''mandate_paper_execution_allowed''
           then Some ''automation_d34_mandate_paper_execution_not_allowed''
           else None)"

definition d34_scoped_frozen_account_authorized :: "operations \<Rightarrow> nat \<Rightarrow> strategy_sleeve \<Rightarrow> metadata \<Rightarrow> bool" where
  "d34_scoped_frozen_account_authorized op n s context =
     (let rt = op_runtime op; md = sv_metadata s
      in if hung_open op n s then True
         else if \<not> meta_true md ''automation_managed'' \<or> meta_str rt md ''automation_source'' [] \<noteq> ''d34''
           \<or> meta_str rt md ''promotion_scope'' [] \<noteq> ''paper_only'' \<or> meta_str rt md ''artifact_id'' [] = []
           \<or> meta_str rt md ''mandate_id'' [] = [] \<or> meta_true context ''emergency_stop''
           \<or> \<not> meta_true context ''paper_execution_enabled'' \<or> \<not> meta_true context ''mandate_active''
           \<or> \<not> meta_true context ''mandate_paper_execution_allowed''
         then False
         else meta_get context ''mandate_id'' = VNone
           \<or> py_str rt (meta_get context ''mandate_id'') = py_str rt (meta_get md ''mandate_id''))"

text \<open>The policy guard at execution: the batch at the execution prices, its decision recorded.\<close>

definition order_price :: "runtime \<Rightarrow> metadata \<Rightarrow> string \<times> pyfloat" where
  "order_price rt order =
     (upper (py_str rt (meta_get order ''symbol'')), float_or_nan rt (meta_get order ''execution_price''))"

definition automation_execution_blocker ::
    "operations \<Rightarrow> nat \<Rightarrow> sleeve_store \<Rightarrow> policy_guard" where
  "automation_execution_blocker op n st a s plan orders =
     (let rt = op_runtime op; md = sv_metadata s
      in if \<not> meta_true md ''automation_managed'' then (xp_metadata plan, None)
         else
           let source = automation_source rt s;
               context = (if source = ''d34'' then op_context op n s else []);
               decision = evaluate_batch rt (op_digest op) default_execution_limits
                 (account_batch rt a s (load_sleeve_lots (sv_id s) st) orders context
                   (dict_of (map (order_price rt) orders)) (hung_open op n s));
               noted = AList.update ''paper_execution_policy_decision_at_execution''
                 (VDict (decision_to_dict decision)) (xp_metadata plan);
               verdict = (if ed_allowed decision then None else Some (''automation_'' @ hd (ed_blockers decision)))
           in if source \<noteq> ''d34'' then (noted, verdict)
              else case op_record op n (meta_str rt md ''mandate_id'' []) (meta_str rt md ''workspace_id'' ''default'')
                       (xp_id plan) decision of
                None \<Rightarrow> (noted, verdict)
              | Some code \<Rightarrow>
                  (AList.update ''paper_execution_policy_audit_error'' (VStr code) noted,
                   if hung_open op n s then verdict else Some (''automation_'' @ code)))"

section \<open>Preparing without locks\<close>

text \<open>One candidate: the evidence, or the code that ended its preparation, and its record of retries.\<close>

record candidate =
  cd_sleeve_id :: string
  cd_execution_id :: string
  cd_outcome :: "string + prepared_execution"
  cd_retry :: "metadata option"

definition retry_record :: "execution_plan \<Rightarrow> metadata option result" where
  "retry_record plan =
     (let v = meta_get (xp_metadata plan) ''price_unavailable_retry''
      in if \<not> truthy v then Inr None
         else case v of VDict d \<Rightarrow> Inr (Some d) | _ \<Rightarrow> Inl (TypeError ''object is not iterable''))"

definition prepare_candidate ::
    "operations \<Rightarrow> nat \<Rightarrow> sleeve_store \<Rightarrow> strategy_sleeve \<Rightarrow> execution_plan \<Rightarrow> candidate result" where
  "prepare_candidate op n st s plan =
     (case prepare_with_retries (op_world op n) (op_clock op n) st s plan of
        (plan, r) \<Rightarrow>
          rbind (case r of
              Inr pe \<Rightarrow> Inr (Inr pe)
            | Inl e \<Rightarrow> (case error_code e of Some code \<Rightarrow> Inr (Inl code) | None \<Rightarrow> Inl e)) (\<lambda>outcome.
          rbind (retry_record plan) (\<lambda>retry.
            Inr \<lparr>cd_sleeve_id = sv_id s, cd_execution_id = xp_id plan, cd_outcome = outcome, cd_retry = retry\<rparr>)))"

fun prepare_candidates ::
    "operations \<Rightarrow> nat \<Rightarrow> sleeve_store \<Rightarrow> (strategy_sleeve \<times> execution_plan) list \<Rightarrow> candidate list result" where
  "prepare_candidates op n st [] = Inr []"
| "prepare_candidates op n st ((s, plan) # rest) =
     rbind (prepare_candidate op n st s plan) (\<lambda>c.
     rbind (prepare_candidates op (Suc n) st rest) (\<lambda>cs. Inr (c # cs)))"

section \<open>Under the locks\<close>

definition save_account_snapshot ::
    "'s repository \<Rightarrow> operations \<Rightarrow> nat \<Rightarrow> paper_account \<Rightarrow> 's \<Rightarrow> 's \<times> unit result" where
  "save_account_snapshot repo op n a s =
     (case if pa_positions a = [] then Inr [] else op_quotes op n (map fst (pa_positions a)) of
        Inl e \<Rightarrow> (s, Inl e)
      | Inr quotes \<Rightarrow> save_account repo (op_disk op n) quotes a s)"

text \<open>\<open>_load_account_after_reconcile\<close>: the account, the pending sleeves settled and the plans recovered.\<close>

definition load_account_after_reconcile ::
    "'s repository \<Rightarrow> operations \<Rightarrow> bool \<Rightarrow> 's \<Rightarrow> sleeve_store
      \<Rightarrow> 's \<times> sleeve_store \<times> (paper_account option \<times> strategy_sleeve list \<times> execution_plan list) result" where
  "load_account_after_reconcile repo op open_if_missing s ss =
     (case (if open_if_missing
            then (case rp_load_or_open repo (op_disk op 0) (op_env op) default_initial_cash s of
                    (s, r) \<Rightarrow> (s, rbind r (\<lambda>a. Inr (Some a))))
            else (case rp_load repo s of (s, account) \<Rightarrow> (s, Inr account))) of
        (s, Inl e) \<Rightarrow> (s, ss, Inl e)
      | (s, Inr account) \<Rightarrow>
          (case reconcile_pending_sleeves account ss of
             (ss, Inl e) \<Rightarrow> (s, ss, Inl e)
           | (ss, Inr sleeves) \<Rightarrow>
               (case account of
                  None \<Rightarrow> (s, ss, Inr (None, sleeves, []))
                | Some a \<Rightarrow>
                    (case reconcile_execution_journals (op_called_at op) False a ss of
                       (a, ss, Inl e) \<Rightarrow> (s, ss, Inl e)
                     | (a, ss, Inr recovered) \<Rightarrow>
                         if recovered = [] then (s, ss, Inr (Some a, sleeves, []))
                         else (case save_account_snapshot repo op 1 a s of
                             (s, Inl e) \<Rightarrow> (s, ss, Inl e)
                           | (s, Inr _) \<Rightarrow>
                               (case commit_recovered recovered ss of
                                  (ss, Inl e) \<Rightarrow> (s, ss, Inl e)
                                | (ss, Inr _) \<Rightarrow> (s, ss, Inr (Some a, sleeves, recovered))))))))"

text \<open>Overdue plans expire before anything is executed.\<close>

fun expire_plans ::
    "operations \<Rightarrow> string \<Rightarrow> paper_account \<Rightarrow> strategy_sleeve \<Rightarrow> execution_plan list \<Rightarrow> sleeve_store
      \<Rightarrow> sleeve_store \<times> execution_plan list" where
  "expire_plans op due a s [] st = (st, [])"
| "expire_plans op due a s (plan # plans) st =
     (case mark_missed_window (op_read_date op) (op_show_date op) (op_called_at op) due
             \<lparr>xt_account = a, xt_sleeve = s, xt_plan = plan, xt_store = st\<rparr> of
        (x, missed) \<Rightarrow>
          (case expire_plans op due a s plans (xt_store x) of
             (st, rest) \<Rightarrow> (st, if missed then xt_plan x # rest else rest)))"

fun expire_sleeves ::
    "operations \<Rightarrow> string \<Rightarrow> paper_account \<Rightarrow> strategy_sleeve list \<Rightarrow> sleeve_store
      \<Rightarrow> sleeve_store \<times> execution_plan list" where
  "expire_sleeves op due a [] st = (st, [])"
| "expire_sleeves op due a (s # sleeves) st =
     (case expire_plans op due a s (load_executions (sv_id s) st) st of
        (st, missed) \<Rightarrow> (case expire_sleeves op due a sleeves st of (st, rest) \<Rightarrow> (st, missed @ rest)))"

text \<open>The loop over the candidates: the account, the sleeves read so far, the files, the plans decided.\<close>

record batch =
  bt_account :: paper_account
  bt_cache :: "(string, strategy_sleeve) dict"
  bt_store :: sleeve_store
  bt_processed :: "execution_plan list"

definition batch_after :: "execution_state \<Rightarrow> string \<Rightarrow> batch \<Rightarrow> batch" where
  "batch_after x sleeve_id b =
     b\<lparr>bt_account := xt_account x, bt_cache := AList.update sleeve_id (xt_sleeve x) (bt_cache b),
       bt_store := xt_store x\<rparr>"

definition fresh_sleeve :: "string \<Rightarrow> batch \<Rightarrow> strategy_sleeve result" where
  "fresh_sleeve sleeve_id b =
     (case map_of (bt_cache b) sleeve_id of Some s \<Rightarrow> Inr s | None \<Rightarrow> load_sleeve sleeve_id (bt_store b))"

definition load_execution :: "string \<Rightarrow> string \<Rightarrow> sleeve_store \<Rightarrow> execution_plan option" where
  "load_execution sleeve_id execution_id st = find (\<lambda>p. xp_id p = execution_id) (load_executions sleeve_id st)"

text \<open>A pending plan is blocked by the switches or by its failed preparation, or committed.\<close>

definition decide_plan :: "operations \<Rightarrow> nat \<Rightarrow> candidate \<Rightarrow> execution_state \<Rightarrow> execution_state \<times> unit result" where
  "decide_plan op n c x =
     (case current_d34_execution_blocker op n (xt_sleeve x) of
        Some reason \<Rightarrow> block_plan (op_now op n) reason x
      | None \<Rightarrow>
          (case cd_outcome c of
             Inl code \<Rightarrow> block_plan (op_now op n) code x
           | Inr pe \<Rightarrow>
               let allow = pa_kill_switch (xt_account x)
                     \<and> d34_scoped_frozen_account_authorized op n (xt_sleeve x) (op_context op n (xt_sleeve x))
               in (case commit_execution (op_world op n) (op_env op)
                         (Some (automation_execution_blocker op n (xt_store x))) allow pe (op_now op n) x of
                     (x, Inl e) \<Rightarrow> (x, if error_code e = None then Inl e else Inr ())
                   | (x, Inr plan) \<Rightarrow> (x, Inr ()))))"

definition decide_candidate :: "operations \<Rightarrow> nat \<Rightarrow> candidate \<Rightarrow> batch \<Rightarrow> batch \<times> unit result" where
  "decide_candidate op n c b =
     (case fresh_sleeve (cd_sleeve_id c) b of
        Inl e \<Rightarrow> (b, Inl e)
      | Inr s \<Rightarrow>
          let b = b\<lparr>bt_cache := AList.update (cd_sleeve_id c) s (bt_cache b)\<rparr>
          in case load_execution (sv_id s) (cd_execution_id c) (bt_store b) of
               None \<Rightarrow> (b, Inr ())
             | Some plan \<Rightarrow>
                 if xp_status plan \<noteq> PlanPending then (b, Inr ())
                 else
                   let plan = (case cd_retry c of
                         None \<Rightarrow> plan
                       | Some r \<Rightarrow> plan\<lparr>xp_metadata := AList.update ''price_unavailable_retry'' (VDict r) (xp_metadata plan)\<rparr>)
                   in (case decide_plan op n c
                             \<lparr>xt_account = bt_account b, xt_sleeve = s, xt_plan = plan, xt_store = bt_store b\<rparr> of
                         (x, Inl e) \<Rightarrow> (batch_after x (cd_sleeve_id c) b, Inl e)
                       | (x, Inr _) \<Rightarrow>
                           ((batch_after x (cd_sleeve_id c) b)\<lparr>bt_processed := bt_processed b @ [xt_plan x]\<rparr>, Inr ())))"

fun decide_candidates :: "operations \<Rightarrow> nat \<Rightarrow> candidate list \<Rightarrow> batch \<Rightarrow> batch \<times> unit result" where
  "decide_candidates op n [] b = (b, Inr ())"
| "decide_candidates op n (c # cs) b =
     (case decide_candidate op n c b of
        (b, Inl e) \<Rightarrow> (b, Inl e)
      | (b, Inr _) \<Rightarrow> decide_candidates op (Suc n) cs b)"

record operation_result =
  or_filled_count :: nat
  or_blocked_count :: nat
  or_recovered :: "execution_plan list"
  or_executions :: "execution_plan list"
  or_account :: paper_account
  or_missed :: "execution_plan list"

definition with_status :: "plan_status \<Rightarrow> execution_plan list \<Rightarrow> execution_plan list" where
  "with_status status plans = filter (\<lambda>p. xp_status p = status) plans"

text \<open>The account is saved, then the journals of the filled plans are closed.\<close>

definition finish_batch ::
    "'s repository \<Rightarrow> operations \<Rightarrow> batch \<Rightarrow> 's \<Rightarrow> 's \<times> sleeve_store \<times> unit result" where
  "finish_batch repo op b s =
     (case (if bt_processed b = [] then (s, Inr ()) else save_account_snapshot repo op 2 (bt_account b) s) of
        (s, Inl e) \<Rightarrow> (s, bt_store b, Inl e)
      | (s, Inr _) \<Rightarrow> (s, commit_recovered (with_status PlanFilled (bt_processed b)) (bt_store b)))"

text \<open>
  Phase C, on whatever files the prepared candidates meet. The error of an account that could not be
  opened is unreachable, as \<open>load_or_open\<close> answers one.
\<close>

definition run_candidates ::
    "'s repository \<Rightarrow> operations \<Rightarrow> string \<Rightarrow> string option \<Rightarrow> candidate list \<Rightarrow> 's \<Rightarrow> sleeve_store
      \<Rightarrow> 's \<times> sleeve_store \<times> operation_result result" where
  "run_candidates repo op due sleeve_id cs s ss =
     (case load_account_after_reconcile repo op True s ss of
        (s, ss, Inl e) \<Rightarrow> (s, ss, Inl e)
      | (s, ss, Inr (None, _)) \<Rightarrow> (s, ss, Inl (ValueError ''paper account could not be opened''))
      | (s, ss, Inr (Some a, _, recovered)) \<Rightarrow>
          (case (case sleeve_id of None \<Rightarrow> Inr (list_sleeves ss) | Some i \<Rightarrow> rbind (load_sleeve i ss) (\<lambda>s. Inr [s])) of
             Inl e \<Rightarrow> (s, ss, Inl e)
           | Inr scanned \<Rightarrow>
               (case expire_sleeves op due a scanned ss of
                  (ss, missed) \<Rightarrow>
                    (case decide_candidates op 0 cs \<lparr>bt_account = a, bt_cache = [], bt_store = ss, bt_processed = []\<rparr> of
                       (b, Inl e) \<Rightarrow> (s, bt_store b, Inl e)
                     | (b, Inr _) \<Rightarrow>
                         (case finish_batch repo op b s of
                            (s, ss, Inl e) \<Rightarrow> (s, ss, Inl e)
                          | (s, ss, Inr _) \<Rightarrow>
                              (s, ss, Inr \<lparr>or_filled_count = length (with_status PlanFilled (bt_processed b)),
                                 or_blocked_count = length (with_status PlanBlocked (bt_processed b)),
                                 or_recovered = recovered, or_executions = bt_processed b,
                                 or_account = bt_account b, or_missed = missed\<rparr>))))))"

definition process_pending_executions_once ::
    "'s repository \<Rightarrow> operations \<Rightarrow> string option \<Rightarrow> string \<Rightarrow> string option \<Rightarrow> int \<Rightarrow> 's \<Rightarrow> sleeve_store
      \<Rightarrow> 's \<times> sleeve_store \<times> operation_result result" where
  "process_pending_executions_once repo op sleeve_id window target limit s ss =
     (case rbind (op_target_date op target) (\<lambda>due.
             rbind (pending_plans (op_today op) sleeve_id window (Some due) limit ss) (\<lambda>plans.
             rbind (prepare_candidates op 0 ss plans) (\<lambda>cs. Inr (due, cs)))) of
        Inl e \<Rightarrow> (s, ss, Inl e)
      | Inr (due, cs) \<Rightarrow> run_candidates repo op due sleeve_id cs s ss)"

section \<open>The other operations of the runner\<close>

record ops_status =
  st_target_date :: string
  st_sleeve_count :: nat
  st_pending_sleeve_count :: nat
  st_running_sleeve_count :: nat
  st_pending_execution_count :: nat
  st_pending_due_count :: nat
  st_filled_count :: nat
  st_blocked_count :: nat
  st_recovery_required_count :: nat
  st_pending_journal_count :: nat
  st_corrupt_journal_count :: nat

definition observe_operations :: "operations \<Rightarrow> string option \<Rightarrow> string \<Rightarrow> sleeve_store \<Rightarrow> ops_status result" where
  "observe_operations op target window st =
     (if window \<noteq> ''next_open'' then Inl (ValueError ''execution_window must be next_open'')
      else rbind (op_target_date op target) (\<lambda>due.
        let sleeves = list_sleeves st;
            executions = concat (map (\<lambda>s. load_executions (sv_id s) st) sleeves);
            pending = with_status PlanPending executions
        in Inr \<lparr>st_target_date = due, st_sleeve_count = length sleeves,
             st_pending_sleeve_count = count_pending_sleeve_files st,
             st_running_sleeve_count = length (filter (\<lambda>s. sv_status s = Running) sleeves),
             st_pending_execution_count = length pending,
             st_pending_due_count = length (filter (\<lambda>p. xp_window p = window \<and> xp_target_date p = Some due) pending),
             st_filled_count = length (with_status PlanFilled executions),
             st_blocked_count = length (filter (\<lambda>p. xp_target_date p = Some due) (with_status PlanBlocked executions)),
             st_recovery_required_count =
               length (filter (\<lambda>p. xp_blocked_reason p = Some ''recovery_required'') executions),
             st_pending_journal_count = count_pending_execution_journal_files st,
             st_corrupt_journal_count = count_corrupt_execution_journal_files st\<rparr>))"

record recovery_result =
  rr_reconciled_sleeves :: nat
  rr_discarded_sleeves :: nat
  rr_recovered_executions :: nat
  rr_remaining_sleeves :: nat
  rr_remaining_journals :: nat
  rr_corrupt_journals :: nat

definition recover_pending_once ::
    "'s repository \<Rightarrow> operations \<Rightarrow> 's \<Rightarrow> sleeve_store \<Rightarrow> 's \<times> sleeve_store \<times> recovery_result result" where
  "recover_pending_once repo op s ss =
     (let earlier = count_pending_sleeve_files ss
      in case load_account_after_reconcile repo op False s ss of
           (s, ss, Inl e) \<Rightarrow> (s, ss, Inl e)
         | (s, ss, Inr (_, sleeves, recovered)) \<Rightarrow>
             (s, ss, Inr \<lparr>rr_reconciled_sleeves = length sleeves,
                rr_discarded_sleeves = earlier - count_pending_sleeve_files ss - length sleeves,
                rr_recovered_executions = length recovered, rr_remaining_sleeves = count_pending_sleeve_files ss,
                rr_remaining_journals = count_pending_execution_journal_files ss,
                rr_corrupt_journals = count_corrupt_execution_journal_files ss\<rparr>))"

definition load_signal :: "string \<Rightarrow> string \<Rightarrow> sleeve_store \<Rightarrow> strategy_signal result" where
  "load_signal sleeve_id signal_id st =
     (case find (\<lambda>g. sg_id g = signal_id) (load_signals sleeve_id st) of
        None \<Rightarrow> Inl (FileNotFoundError (''strategy signal not found: '' @ signal_id)) | Some g \<Rightarrow> Inr g)"

text \<open>\<open>create_execution_once\<close>; the definitions, the replacement evidence and the plan's id are arguments.\<close>

definition plan_context_metadata :: "operations \<Rightarrow> strategy_sleeve \<Rightarrow> metadata \<Rightarrow> metadata \<Rightarrow> metadata" where
  "plan_context_metadata op s context metadata =
     AList.update ''paper_execution_policy_context''
       (VDict (AList.update ''hung_observation'' (VBool (hung_open op 0 s)) context)) metadata"

definition create_execution_once ::
    "'s repository \<Rightarrow> operations \<Rightarrow> (pyval \<Rightarrow> strategy_definition result) \<Rightarrow> (strategy_sleeve \<Rightarrow> bool) \<Rightarrow> string
      \<Rightarrow> string \<Rightarrow> string \<Rightarrow> string \<Rightarrow> string \<Rightarrow> string option \<Rightarrow> metadata \<Rightarrow> 's \<Rightarrow> sleeve_store
      \<Rightarrow> 's \<times> sleeve_store \<times> execution_plan result" where
  "create_execution_once repo op read_definition evidence account_id execution_id sleeve_id signal_id window target
       metadata s ss =
     (case load_account_after_reconcile repo op False s ss of
        (s, ss, Inl e) \<Rightarrow> (s, ss, Inl e)
      | (s, ss, Inr (account, _)) \<Rightarrow>
          (case (case account of
                   Some a \<Rightarrow> Inr a
                 | None \<Rightarrow> open_new (op_env op) account_id default_initial_cash ''USD'' (op_called_at op)) of
             Inl e \<Rightarrow> (s, ss, Inl e)
           | Inr a \<Rightarrow>
               (case rbind (load_sleeve sleeve_id ss) (\<lambda>sleeve.
                       rbind (load_signal sleeve_id signal_id ss) (\<lambda>signal.
                       rbind (op_target_date op target) (\<lambda>due. Inr (sleeve, signal, due)))) of
                  Inl e \<Rightarrow> (s, ss, Inl e)
                | Inr (sleeve, signal, due) \<Rightarrow>
                    let context = (if automation_source (op_runtime op) sleeve = ''d34'' then op_context op 0 sleeve else [])
                    in (s, create_execution_plan (op_runtime op) (op_digest op) read_definition evidence execution_id
                             (op_called_at op) (op_today op) a sleeve signal window (Some due)
                             (plan_context_metadata op sleeve context metadata)
                             (d34_scoped_frozen_account_authorized op 0 sleeve context) ss))))"

section \<open>What a decision needs\<close>

lemma order_plan_target: "order_plan w ds h c ps qs i plan = Inr plan' \<Longrightarrow> xp_target_date plan' = xp_target_date plan"
  by (auto simp: order_plan_def reraise_def rbind_Inr split: sum.splits if_splits)

lemma planned_steps_target: "planned_steps w x pe = Inr (plan, steps) \<Longrightarrow> xp_target_date plan = xp_target_date (xt_plan x)"
  using order_plan_target
  by (auto simp: planned_steps_def recompute_definition_def rbind_Inr Let_def split: if_splits option.splits)

lemma apply_steps_target:
  "apply_steps w env now a s plan lots steps = Inr (a', s', plan', lots') \<Longrightarrow> xp_target_date plan' = xp_target_date plan"
  by (auto simp: apply_steps_def rbind_Inr Let_def)

lemma block_plan_kept: "block_plan now reason x = (x', r) \<Longrightarrow> xp_status (xt_plan x) \<noteq> PlanFilled \<Longrightarrow> xp_status (xt_plan x') \<noteq> PlanFilled"
  by (auto simp: block_plan_def split: if_splits)

lemma decide_plan_fills:
  assumes run: "decide_plan op n c x = (x', r)" and pending: "xp_status (xt_plan x) = PlanPending"
    and filled: "xp_status (xt_plan x') = PlanFilled"
  obtains pe plan0 plan steps where "cd_outcome c = Inr pe" and "current_d34_execution_blocker op n (xt_sleeve x) = None"
    and "xp_target_date (xt_plan x) = pe_target_date pe" and "xp_target_date (xt_plan x') = xp_target_date (xt_plan x)"
    and "pa_kill_switch (xt_account x) \<longrightarrow>
      d34_scoped_frozen_account_authorized op n (xt_sleeve x) (op_context op n (xt_sleeve x))"
    and "planned_steps (op_world op n) x pe = Inr (plan0, steps)" and "steps \<noteq> []"
    and "consult_guard (Some (automation_execution_blocker op n (xt_store x))) (xt_account x) (xt_sleeve x) plan0 steps = (plan, Inr ())"
    and "\<exists>lots. apply_steps (op_world op n) (op_env op) (op_now op n) (xt_account x) (xt_sleeve x) plan
      (load_sleeve_lots (sv_id (xt_sleeve x)) (xt_store x)) steps = Inr (xt_account x', xt_sleeve x', xt_plan x', lots)"
proof -
  let ?allow = "pa_kill_switch (xt_account x)
    \<and> d34_scoped_frozen_account_authorized op n (xt_sleeve x) (op_context op n (xt_sleeve x))"
  let ?guard = "Some (automation_execution_blocker op n (xt_store x))"
  have unblocked: "current_d34_execution_blocker op n (xt_sleeve x) = None"
    using run pending filled block_plan_kept [of "op_now op n" _ x x' r]
    by (cases "current_d34_execution_blocker op n (xt_sleeve x)") (auto simp: decide_plan_def)
  moreover obtain pe where pe: "cd_outcome c = Inr pe"
    using run pending filled block_plan_kept [of "op_now op n" _ x x' r] unblocked
    by (cases "cd_outcome c") (auto simp: decide_plan_def)
  ultimately obtain z where "commit_execution (op_world op n) (op_env op) ?guard ?allow pe (op_now op n) x = (x', z)"
    using run by (auto simp: decide_plan_def Let_def split: prod.splits sum.splits)
  then show thesis
  proof (cases rule: commit_cases)
    case (refused e m)
    then show ?thesis
      using pending filled by (cases rule: block_pending_cases [of "op_now op n" e "shown x m"]) auto
  next
    case (filled plan steps a s plan' lots m)
    from commit_checks_Inr [OF filled(1)] obtain plan0
      where checks: "verify_prepared_binding (xt_plan x) pe = Inr ()"
        "validate_execution_context (xt_account x) (xt_sleeve x) (xt_plan x) ?allow = Inr ()"
        "planned_steps (op_world op n) x pe = Inr (plan0, steps)"
        "consult_guard ?guard (xt_account x) (xt_sleeve x) plan0 steps = (plan, Inr ())"
      by metis
    have "xp_target_date (xt_plan x) = pe_target_date pe"
      using checks(1) by (simp add: verify_prepared_binding_def split: if_splits)
    moreover have "xp_target_date (xt_plan x') = xp_target_date (xt_plan x)"
      using planned_steps_target [OF checks(3)] consult_guard_notes [OF checks(4)] apply_steps_target [OF filled(3)] filled(4)
      by (auto simp: noted_def)
    moreover have "pa_kill_switch (xt_account x) \<longrightarrow> ?allow"
      using validate_execution_context_Inr(7) [OF checks(2)] .
    ultimately show ?thesis
      using that [OF pe unblocked _ _ _ checks(3) filled(2) checks(4)] filled(3,4) by auto
  qed (use pending filled in \<open>auto simp: skip_execution_def Let_def\<close>)
qed

lemma hung_openE:
  assumes "hung_observation_open_for_sleeve rt sf s context"
  shows "sv_mode s = Allocated" and "sv_status s = Running" and "meta_true (sv_metadata s) ''automation_managed''"
    and "meta_str rt (sv_metadata s) ''promotion_scope'' [] = ''paper_only''"
    and "\<not> meta_true context ''emergency_stop''" and "sf_paper_trading sf" and "sf_observation_enabled sf" and "\<not> sf_live_enabled sf"
  using assms
  by (auto simp: hung_observation_open_for_sleeve_def hung_observation_allows_fill_def hung_sleeve_eligible_def Let_def
      split: if_splits)

text \<open>The batch the guard of an automated sleeve judges: all the steps of the plan, at their prices.\<close>

definition guarded_batch :: "operations \<Rightarrow> nat \<Rightarrow> execution_state \<Rightarrow> execution_step list \<Rightarrow> execution_batch" where
  "guarded_batch op n x steps =
     account_batch (op_runtime op) (xt_account x) (xt_sleeve x)
       (load_sleeve_lots (sv_id (xt_sleeve x)) (xt_store x)) (map guarded_order steps)
       (if automation_source (op_runtime op) (xt_sleeve x) = ''d34'' then op_context op n (xt_sleeve x) else [])
       (dict_of (map (order_price (op_runtime op)) (map guarded_order steps)))
       (hung_open op n (xt_sleeve x))"

text \<open>C29: A fill is authorised. A plan is filled only by applying the steps planned from evidence prepared for
  its own target date. A sleeve of the automation fills only while no emergency stop is active, either as a
  paper observation (allocated and running, with paper trading and observation on and live trading off) or
  under an active mandate that allows execution. With the account frozen only a managed paper-only sleeve
  without an emergency stop fills. And a managed sleeve fills only when the policy allows the batch of
  exactly those steps, every one of them at its price, on the account, lots and context of the moment.\<close>

theorem fills_are_authorised:
  assumes "decide_plan op n c x = (x', r)" and "xp_status (xt_plan x) = PlanPending"
    and "xp_status (xt_plan x') = PlanFilled"
  shows "\<exists>pe plan0 plan steps lots. cd_outcome c = Inr pe \<and> xp_target_date (xt_plan x) = pe_target_date pe
    \<and> planned_steps (op_world op n) x pe = Inr (plan0, steps) \<and> steps \<noteq> []
    \<and> apply_steps (op_world op n) (op_env op) (op_now op n) (xt_account x) (xt_sleeve x) plan
        (load_sleeve_lots (sv_id (xt_sleeve x)) (xt_store x)) steps
      = Inr (xt_account x', xt_sleeve x', xt_plan x', lots)
    \<and> (automation_source (op_runtime op) (xt_sleeve x) = ''d34'' \<longrightarrow>
        \<not> meta_true (op_context op n (xt_sleeve x)) ''emergency_stop''
        \<and> (sv_mode (xt_sleeve x) = Allocated \<and> sv_status (xt_sleeve x) = Running \<and> sf_paper_trading (op_safety op)
             \<and> sf_observation_enabled (op_safety op) \<and> \<not> sf_live_enabled (op_safety op)
           \<or> meta_true (op_context op n (xt_sleeve x)) ''paper_execution_enabled''
             \<and> meta_true (op_context op n (xt_sleeve x)) ''mandate_active''
             \<and> meta_true (op_context op n (xt_sleeve x)) ''mandate_paper_execution_allowed''))
    \<and> (pa_kill_switch (xt_account x) \<longrightarrow>
        meta_true (sv_metadata (xt_sleeve x)) ''automation_managed''
        \<and> meta_str (op_runtime op) (sv_metadata (xt_sleeve x)) ''promotion_scope'' [] = ''paper_only''
        \<and> \<not> meta_true (op_context op n (xt_sleeve x)) ''emergency_stop'')
    \<and> (meta_true (sv_metadata (xt_sleeve x)) ''automation_managed'' \<longrightarrow>
        ed_allowed (evaluate_batch (op_runtime op) (op_digest op) default_execution_limits
          (guarded_batch op n x steps)))"
proof -
  obtain pe plan0 plan steps where pe: "cd_outcome c = Inr pe"
    and open': "current_d34_execution_blocker op n (xt_sleeve x) = None"
    and date: "xp_target_date (xt_plan x) = pe_target_date pe"
    and frozen: "pa_kill_switch (xt_account x) \<longrightarrow>
      d34_scoped_frozen_account_authorized op n (xt_sleeve x) (op_context op n (xt_sleeve x))"
    and steps: "planned_steps (op_world op n) x pe = Inr (plan0, steps)" "steps \<noteq> []"
    and guard: "consult_guard (Some (automation_execution_blocker op n (xt_store x))) (xt_account x) (xt_sleeve x) plan0 steps = (plan, Inr ())"
    and applied: "\<exists>lots. apply_steps (op_world op n) (op_env op) (op_now op n) (xt_account x) (xt_sleeve x) plan
      (load_sleeve_lots (sv_id (xt_sleeve x)) (xt_store x)) steps = Inr (xt_account x', xt_sleeve x', xt_plan x', lots)"
    by (rule decide_plan_fills [OF assms])
  have switches: "\<not> meta_true (op_context op n (xt_sleeve x)) ''emergency_stop''
      \<and> (hung_open op n (xt_sleeve x) \<or> meta_true (op_context op n (xt_sleeve x)) ''paper_execution_enabled''
             \<and> meta_true (op_context op n (xt_sleeve x)) ''mandate_active''
             \<and> meta_true (op_context op n (xt_sleeve x)) ''mandate_paper_execution_allowed'')"
    if "automation_source (op_runtime op) (xt_sleeve x) = ''d34''"
    using open' that by (auto simp: current_d34_execution_blocker_def Let_def split: if_splits)
  have kill: "meta_true (sv_metadata (xt_sleeve x)) ''automation_managed''
        \<and> meta_str (op_runtime op) (sv_metadata (xt_sleeve x)) ''promotion_scope'' [] = ''paper_only''
        \<and> \<not> meta_true (op_context op n (xt_sleeve x)) ''emergency_stop''"
    if "pa_kill_switch (xt_account x)"
    using frozen that hung_openE(3,4,5) [of "op_runtime op" "op_safety op" "xt_sleeve x" "op_context op n (xt_sleeve x)"]
    by (auto simp: d34_scoped_frozen_account_authorized_def Let_def split: if_splits)
  have policy: "ed_allowed (evaluate_batch (op_runtime op) (op_digest op) default_execution_limits (guarded_batch op n x steps))"
    if "meta_true (sv_metadata (xt_sleeve x)) ''automation_managed''"
    using guard that
    by (auto simp: consult_guard_def automation_execution_blocker_def guarded_batch_def Let_def
        split: prod.splits option.splits if_splits)
  show ?thesis
    using pe date steps applied switches kill policy
      hung_openE(1,2,6,7,8) [of "op_runtime op" "op_safety op" "xt_sleeve x" "op_context op n (xt_sleeve x)"]
    by blast
qed

text \<open>The context of a valid workspace, from what the database answered.\<close>

definition recorded_stop :: "emergency_row \<Rightarrow> bool" where
  "recorded_stop row = (case row of None \<Rightarrow> True | Some None \<Rightarrow> False | Some (Some (enabled, _)) \<Rightarrow> enabled)"

definition recorded_outage :: "emergency_row \<Rightarrow> bool" where
  "recorded_outage row =
     (case row of None \<Rightarrow> True | Some None \<Rightarrow> False | Some (Some (_, reason, _)) \<Rightarrow> reason = Some observation_unavailable)"

definition observation_context :: "string \<Rightarrow> emergency_row \<Rightarrow> metadata" where
  "observation_context ws row =
     [(''contract'', VStr ''hqa.paper_observation_policy_context/v1''), (''workspace_id'', VStr ws),
      (''paper_execution_enabled'', VBool False), (''emergency_stop'', VBool (recorded_stop row)),
      (''authority_available'', VBool (\<not> recorded_outage row)), (''mandate_active'', VBool False),
      (''mandate_paper_execution_allowed'', VBool False),
      (''blockers'', VList (if recorded_outage row then [VStr observation_unavailable] else []))]"

lemma resolve_context:
  "resolve_paper_observation_policy_context query ws
    = (if valid_workspace ws then Inr (observation_context ws (query ws))
       else Inl (ValueError ''paper_observation_workspace_invalid''))"
proof (cases "valid_workspace ws")
  case True
  note defs = resolve_paper_observation_policy_context_def observe_paper_emergency_stop_def observation_context_def
    recorded_stop_def recorded_outage_def meta_get_def meta_true_def dict_get_def
  show ?thesis
  proof (cases "query ws")
    case None
    with True show ?thesis by (simp add: defs)
  next
    case (Some event)
    show ?thesis
    proof (cases event)
      case None
      with True Some show ?thesis by (simp add: defs)
    next
      case event: (Some e)
      obtain enabled reason t where e: "e = (enabled, reason, t)"
        using prod_cases3 by blast
      show ?thesis
        using True Some event e by (cases reason) (simp_all add: defs opt_value_def)
    qed
  qed
qed (simp add: resolve_paper_observation_policy_context_def observe_paper_emergency_stop_def)

text \<open>C31: The default authority decides as its stop and the settings say: for a sleeve of the automation the
  context read from the database blocks with the emergency stop where one is recorded or the
  database does not answer, lets an eligible paper observation through while paper trading and
  observation are on and live trading is off, and blocks everything else as disabled.\<close>

theorem default_authority_decides:
  assumes "automation_source (op_runtime op) s = ''d34''"
    and "paper_execution_context (op_runtime op) query s = Inr (op_context op n s)"
  shows "current_d34_execution_blocker op n s =
    (let row = query (meta_str (op_runtime op) (sv_metadata s) ''workspace_id'' ''default'')
     in if recorded_stop row then Some ''automation_emergency_stop_active''
        else if hung_sleeve_eligible (op_runtime op) s \<and> \<not> recorded_outage row \<and> sf_paper_trading (op_safety op)
          \<and> sf_observation_enabled (op_safety op) \<and> \<not> sf_live_enabled (op_safety op)
        then None else Some ''automation_paper_execution_disabled'')"
proof -
  let ?ws = "meta_str (op_runtime op) (sv_metadata s) ''workspace_id'' ''default''"
  have form: "op_context op n s = observation_context ?ws (query ?ws)"
    using assms by (auto simp: paper_execution_context_def resolve_context split: if_splits)
  let ?stop = "recorded_stop (query ?ws)" and ?down = "recorded_outage (query ?ws)"
  have fields: "meta_true (op_context op n s) ''emergency_stop'' = ?stop"
    "\<not> meta_true (op_context op n s) ''paper_execution_enabled''"
    "dict_get (op_context op n s) ''authority_available'' (VBool True) = VBool (\<not> ?down)"
    "meta_get (op_context op n s) ''blockers'' = VList (if ?down then [VStr observation_unavailable] else [])"
    unfolding form by (simp_all add: observation_context_def meta_get_def meta_true_def dict_get_def)
  have hung: "hung_open op n s \<longleftrightarrow> hung_sleeve_eligible (op_runtime op) s \<and> \<not> ?down \<and> sf_paper_trading (op_safety op)
      \<and> sf_observation_enabled (op_safety op) \<and> \<not> sf_live_enabled (op_safety op) \<and> \<not> ?stop"
    using fields
    by (auto simp: hung_observation_open_for_sleeve_def hung_observation_allows_fill_def context_blockers_def py_str_def
        authority_outage_codes_def observation_unavailable_def Let_def split: if_splits)
  show ?thesis
    using assms(1) fields(1,2) hung
    by (simp add: current_d34_execution_blocker_def Let_def)
qed

section \<open>Fills and their date\<close>

lemma record_price_retry_target: "record_price_retry w now n code plan = Inr plan' \<Longrightarrow> xp_target_date plan' = xp_target_date plan"
  by (auto simp: record_price_retry_def Let_def split: pyval.splits if_splits)

lemma prepare_target: "prepare_execution w n now st s plan = Inr pe \<Longrightarrow> pe_target_date pe = xp_target_date plan"
  using prepared_evidence_is_bound_parts(2) by blast

lemma retry_loop_target:
  "retry_loop w clock st s n plan = (plan', Inr pe) \<Longrightarrow> pe_target_date pe = xp_target_date plan"
proof (induction w clock st s n plan rule: retry_loop.induct)
  case (1 w clock st s retries plan)
  show ?case
  proof (cases "prepare_execution w retries (clock retries) st s plan")
    case (Inl e)
    then obtain code plan1 where next': "retryable e = Some code" "retries < xw_max_retries w"
      "record_price_retry w (clock retries) (Suc retries) code plan = Inr plan1"
      "retry_loop w clock st s (Suc retries) plan1 = (plan', Inr pe)"
      using "1.prems" by (subst (asm) retry_loop.simps) (auto split: option.splits if_splits sum.splits)
    then show ?thesis
      using "1.IH" [OF Inl next'(1-3)] record_price_retry_target by metis
  next
    case (Inr pe')
    then have "pe' = pe"
      using "1.prems" by (subst (asm) retry_loop.simps) simp
    then show ?thesis using prepare_target [OF Inr] by simp
  qed
qed

text \<open>Candidates whose evidence is for a date.\<close>

definition prepared_for :: "string \<Rightarrow> candidate \<Rightarrow> bool" where
  "prepared_for due c \<longleftrightarrow> (\<forall>pe. cd_outcome c = Inr pe \<longrightarrow> pe_target_date pe = Some due)"

lemma prepare_candidate_for:
  assumes "prepare_candidate op n st s plan = Inr c" and "xp_target_date plan = Some due"
  shows "prepared_for due c"
proof -
  obtain plan' r where run: "prepare_with_retries (op_world op n) (op_clock op n) st s plan = (plan', r)"
    by fastforce
  then show ?thesis
    using assms retry_loop_target [of "op_world op n" "op_clock op n" st s 0 plan plan']
    by (cases r) (auto simp: prepare_candidate_def rbind_Inr prepared_for_def prepare_with_retries_def split: option.splits)
qed

lemma prepare_candidates_for:
  "prepare_candidates op n st plans = Inr cs \<Longrightarrow> \<forall>(s, plan) \<in> set plans. xp_target_date plan = Some due
    \<Longrightarrow> \<forall>c \<in> set cs. prepared_for due c"
proof (induction plans arbitrary: n cs)
  case Nil
  then show ?case by simp
next
  case (Cons x plans)
  obtain s plan where x: "x = (s, plan)" by fastforce
  then obtain c cs' where c: "prepare_candidate op n st s plan = Inr c" and cs': "prepare_candidates op (Suc n) st plans = Inr cs'"
    and cs: "cs = c # cs'"
    using Cons.prems(1) by (auto simp: rbind_Inr)
  show ?case
    using prepare_candidate_for [OF c] Cons.IH [OF cs'] Cons.prems(2) x cs by simp
qed

text \<open>One turn of the loop: no sleeve, nothing pending, or a decision.\<close>

lemma decide_candidate_cases:
  assumes run: "decide_candidate op n c b = (b', r)"
  obtains (missing) "b' = b"
  | (settled) s where "fresh_sleeve (cd_sleeve_id c) b = Inr s" "b' = b\<lparr>bt_cache := AList.update (cd_sleeve_id c) s (bt_cache b)\<rparr>"
  | (decided) s x x' z where "fresh_sleeve (cd_sleeve_id c) b = Inr s" "xt_account x = bt_account b" "xt_sleeve x = s"
      "xt_store x = bt_store b" "xp_status (xt_plan x) = PlanPending" "xp_id (xt_plan x) = cd_execution_id c"
      "decide_plan op n c x = (x', z)" "bt_account b' = xt_account x'" "bt_store b' = xt_store x'"
      "bt_cache b' = AList.update (cd_sleeve_id c) (xt_sleeve x') (AList.update (cd_sleeve_id c) s (bt_cache b))"
      "bt_processed b' = (case z of Inl e \<Rightarrow> bt_processed b | Inr _ \<Rightarrow> bt_processed b @ [xt_plan x'])"
proof (cases "fresh_sleeve (cd_sleeve_id c) b")
  case (Inl e)
  then show ?thesis using run missing by (simp add: decide_candidate_def)
next
  case (Inr s)
  show ?thesis
  proof (cases "load_execution (sv_id s) (cd_execution_id c) (bt_store b)")
    case None
    then show ?thesis using run Inr settled by (simp add: decide_candidate_def)
  next
    case (Some plan)
    show ?thesis
    proof (cases "xp_status plan = PlanPending")
      case False
      then show ?thesis using run Inr Some settled by (simp add: decide_candidate_def)
    next
      case True
      define plan' where "plan' = (case cd_retry c of None \<Rightarrow> plan
        | Some r \<Rightarrow> plan\<lparr>xp_metadata := AList.update ''price_unavailable_retry'' (VDict r) (xp_metadata plan)\<rparr>)"
      let ?x = "\<lparr>xt_account = bt_account b, xt_sleeve = s, xt_plan = plan', xt_store = bt_store b\<rparr>"
      have plan': "xp_status plan' = PlanPending" "xp_id plan' = cd_execution_id c"
        using True Some by (auto simp: plan'_def load_execution_def find_Some_iff split: option.split)
      obtain x z where decide: "decide_plan op n c ?x = (x, z)" by fastforce
      have "b' = (let b' = batch_after x (cd_sleeve_id c) (b\<lparr>bt_cache := AList.update (cd_sleeve_id c) s (bt_cache b)\<rparr>)
          in case z of Inl e \<Rightarrow> b' | Inr _ \<Rightarrow> b'\<lparr>bt_processed := bt_processed b @ [xt_plan x]\<rparr>)"
        using run Inr Some True decide by (auto simp: decide_candidate_def plan'_def Let_def split: sum.splits)
      then show ?thesis
        using plan' decide Inr by (intro decided [of s ?x x z]) (auto simp: batch_after_def Let_def split: sum.split)
    qed
  qed
qed

lemma decide_candidates_date:
  assumes "decide_candidates op n cs b = (b', r)" and "\<forall>c \<in> set cs. prepared_for due c"
    and "\<forall>p \<in> set (bt_processed b). xp_status p = PlanFilled \<longrightarrow> xp_target_date p = Some due"
  shows "\<forall>p \<in> set (bt_processed b'). xp_status p = PlanFilled \<longrightarrow> xp_target_date p = Some due"
  using assms
proof (induction cs arbitrary: n b)
  case Nil
  then show ?case by simp
next
  case (Cons c cs)
  obtain b1 z where step: "decide_candidate op n c b = (b1, z)" by fastforce
  have "\<forall>p \<in> set (bt_processed b1). xp_status p = PlanFilled \<longrightarrow> xp_target_date p = Some due"
    using step
  proof (cases rule: decide_candidate_cases)
    case (decided s x x' y)
    have "xp_target_date (xt_plan x') = Some due" if "xp_status (xt_plan x') = PlanFilled"
      by (rule decide_plan_fills [OF decided(7,5) that]) (use Cons.prems(2) in \<open>simp add: prepared_for_def\<close>)
    then show ?thesis using Cons.prems(3) decided(11) by (auto split: sum.splits)
  qed (use Cons.prems(3) in auto)
  then show ?case
    using Cons.IH [of "Suc n" b1] Cons.prems(1,2) step by (cases z) auto
qed

lemma run_candidates_decides:
  assumes "run_candidates repo op due only cs s ss = (s', ss', Inr res)"
  obtains b0 b where "decide_candidates op 0 cs b0 = (b, Inr ())" and "bt_processed b0 = []"
    and "or_executions res = bt_processed b"
proof -
  obtain s1 ss1 a x recovered where load: "load_account_after_reconcile repo op True s ss = (s1, ss1, Inr (Some a, x, recovered))"
    using assms by (auto simp: run_candidates_def split: prod.splits sum.splits option.splits)
  let ?scan = "case only of None \<Rightarrow> Inr (list_sleeves ss1) | Some i \<Rightarrow> rbind (load_sleeve i ss1) (\<lambda>s. Inr [s])"
  obtain scanned where scan: "?scan = Inr scanned"
    using assms load by (cases ?scan) (auto simp: run_candidates_def)
  obtain st missed where expire: "expire_sleeves op due a scanned ss1 = (st, missed)" by fastforce
  let ?b0 = "\<lparr>bt_account = a, bt_cache = [], bt_store = st, bt_processed = []\<rparr>"
  obtain b z where decide: "decide_candidates op 0 cs ?b0 = (b, z)" by fastforce
  obtain u where z: "z = Inr u"
    using assms load scan expire decide by (cases z) (auto simp: run_candidates_def)
  obtain s2 st2 y where finish: "finish_batch repo op b s1 = (s2, st2, y)" using prod_cases3 by blast
  have "or_executions res = bt_processed b"
    using assms load scan expire decide z finish by (cases y) (auto simp: run_candidates_def)
  with decide z show thesis by (intro that [of ?b0 b]) simp_all
qed

text \<open>The filled plans on file are those of \<open>base\<close>, or have the batch's date.\<close>

definition fills_dated :: "string \<Rightarrow> sleeve_store \<Rightarrow> sleeve_store \<Rightarrow> bool" where
  "fills_dated day base st \<longleftrightarrow>
     (\<forall>k p. p \<in> set (load_executions k st) \<and> xp_status p = PlanFilled \<longrightarrow>
        xp_target_date p = Some day \<or> p \<in> set (load_executions k base))"

lemma fills_dated_refl [simp]: "fills_dated day st st"
  by (simp add: fills_dated_def)

lemma fills_dated_files:
  "ss_executions st' = ss_executions st \<Longrightarrow> fills_dated day base st' \<longleftrightarrow> fills_dated day base st"
  by (simp add: fills_dated_def load_executions_def)

lemma replace_first_members: "set (replace_first ident x ys) \<subseteq> insert x (set ys)"
  by (induction ys) auto

lemma fills_dated_replace:
  assumes "fills_dated day base st" and "xp_status q = PlanFilled \<Longrightarrow> xp_target_date q = Some day"
  shows "fills_dated day base (replace_execution q st)"
  unfolding fills_dated_def
proof (intro allI impI, elim conjE)
  fix k p
  assume p: "p \<in> set (load_executions k (replace_execution q st))" "xp_status p = PlanFilled"
  then have "p = q \<or> p \<in> set (load_executions k st)"
    using replace_first_members [of xp_id q "load_executions k st"] by (auto simp: load_replace_execution split: if_splits)
  then show "xp_target_date p = Some day \<or> p \<in> set (load_executions k base)"
    using p(2) assms by (auto simp: fills_dated_def)
qed

lemma expire_plans_dated:
  "expire_plans op due a s plans st = (st', missed) \<Longrightarrow> fills_dated day base st \<Longrightarrow> fills_dated day base st'"
proof (induction plans arbitrary: st st' missed)
  case Nil
  then show ?case by simp
next
  case (Cons plan plans)
  let ?x = "\<lparr>xt_account = a, xt_sleeve = s, xt_plan = plan, xt_store = st\<rparr>"
  obtain x m where mark: "mark_missed_window (op_read_date op) (op_show_date op) (op_called_at op) due ?x = (x, m)"
    by fastforce
  consider "xt_store x = st" | q where "xt_store x = replace_execution q st" "xp_status q = PlanMissedWindow"
    using mark by (auto simp: mark_missed_window_def Let_def split: if_splits option.splits)
  then have "fills_dated day base (xt_store x)"
  proof cases
    case 2
    then show ?thesis using fills_dated_replace [OF Cons.prems(2), of q] by simp
  qed (use Cons.prems(2) in simp)
  moreover obtain st'' rest where "expire_plans op due a s plans (xt_store x) = (st'', rest)" by fastforce
  ultimately show ?case
    using Cons mark by simp
qed

lemma expire_sleeves_dated:
  "expire_sleeves op due a sleeves st = (st', missed) \<Longrightarrow> fills_dated day base st \<Longrightarrow> fills_dated day base st'"
proof (induction sleeves arbitrary: st st' missed)
  case Nil
  then show ?case by simp
next
  case (Cons s sleeves)
  obtain st1 m1 where one: "expire_plans op due a s (load_executions (sv_id s) st) st = (st1, m1)" by fastforce
  obtain st2 m2 where rest: "expire_sleeves op due a sleeves st1 = (st2, m2)" by fastforce
  have "st' = st2" using Cons.prems(1) one rest by simp
  then show ?case
    using Cons.IH [OF rest expire_plans_dated [OF one Cons.prems(2)]] by simp
qed

text \<open>A decision writes its plan, or no plan.\<close>

lemma replace_execution_cong:
  "ss_executions st = ss_executions st' \<Longrightarrow>
     ss_executions (replace_execution p st) = ss_executions (replace_execution p st')"
  by (simp add: replace_execution_def save_executions_def load_executions_def)

lemma write_execution_files:
  "ss_executions (write_execution s k lots plan (journal_written now x a s' plan' lots'))
     = ss_executions (replace_execution plan (xt_store x))"
  unfolding write_execution_def
  by (rule replace_execution_cong)
    (simp add: save_sleeve_def save_sleeve_lots_def journal_written_def save_execution_journal_pending_def)

lemma block_plan_files:
  "block_plan now reason x = (x', r) \<Longrightarrow>
     xt_store x' = xt_store x \<or> xt_store x' = replace_execution (xt_plan x') (xt_store x)"
  by (auto simp: block_plan_def split: if_splits)

lemma commit_files:
  assumes "commit_execution w env guard allow pe now x = (x', r)"
  shows "ss_executions (xt_store x') \<in> {ss_executions (xt_store x), ss_executions (replace_execution (xt_plan x') (xt_store x))}"
  using assms
proof (cases rule: commit_cases)
  case (refused e m)
  then show ?thesis by (cases rule: block_pending_cases [of now e "shown x m"]) auto
next
  case (filled plan steps a s plan' lots m)
  then show ?thesis using write_execution_files by (simp add: shown_def)
qed (simp_all add: skip_execution_def Let_def)

lemma decide_plan_files:
  assumes "decide_plan op n c x = (x', r)"
  shows "ss_executions (xt_store x') \<in> {ss_executions (xt_store x), ss_executions (replace_execution (xt_plan x') (xt_store x))}"
  using assms
  by (auto simp: decide_plan_def Let_def dest: commit_files dest!: block_plan_files
      split: option.splits sum.splits prod.splits)

text \<open>What a decision leaves of its plan, where reading the time of a fill raises no error of the service.\<close>

lemma apply_fill_error:
  "apply_fill env f source pk kind a = (a', Inl e) \<Longrightarrow> error_code e = None"
  by (auto simp: apply_fill_eq attributed_position_def reduce_source_quantity_def Let_def error_code_def
      split: if_splits sum.splits side.splits option.splits)

lemma book_error:
  "book_sell now k symbol q book = (book', Inl e) \<Longrightarrow> error_code e = None"
  "book_buy i now acct k symbol q price source book = (book', Inl e) \<Longrightarrow> error_code e = None"
  by (auto simp: book_sell_def book_buy_def require_positive_def require_non_negative_def new_lot_def rbind_def
      Let_def error_code_def split: if_splits sum.splits option.splits prod.splits)

lemma apply_step_error:
  assumes "apply_step w env now plan k x wk = Inl e" and "\<And>t e. xw_timestamp w t = Inl e \<Longrightarrow> error_code e = None"
  shows "error_code e = None"
proof -
  have to_account: "error_code e' = None" if "fill_to_account env k x f a = Inl e'" for f a e'
    using that by (auto simp: fill_to_account_def split: prod.splits sum.splits dest: apply_fill_error)
  have sell: "error_code e' = None" if "apply_sell env now k x f wk = Inl e'" for f e'
    using that by (auto simp: apply_sell_def rbind_def Let_def split: prod.splits sum.splits dest: to_account book_error)
  have buy: "error_code e' = None" if "apply_buy env i now k x f wk = Inl e'" for i f e'
    using that by (auto simp: apply_buy_def rbind_def Let_def split: prod.splits sum.splits dest: to_account book_error)
  have fill: "error_code e' = None" if "account_fill w plan x = Inl e'" for e'
    using that assms(2) by (auto simp: account_fill_def new_execution_fill_def rbind_def error_code_def
        split: sum.splits if_splits)
  have step: "error_code e' = None" if "step_fill w i now x = Inl e'" for i e'
    using that by (auto simp: step_fill_def new_strategy_fill_def Let_def error_code_def split: if_splits)
  show ?thesis
    using assms(1) fill sell buy step
    by (auto simp: apply_step_def rbind_def Let_def split: sum.splits side.splits)
qed

lemma apply_steps_error:
  assumes "apply_steps w env now a s plan lots steps = Inl e" and "\<And>t e. xw_timestamp w t = Inl e \<Longrightarrow> error_code e = None"
  shows "error_code e = None"
proof -
  have "error_code e = None" if "apply_all w env now plan k xs wk = Inl e" for k xs wk
    using that
  proof (induction xs arbitrary: wk)
    case Nil
    then show ?case by simp
  next
    case (Cons x xs)
    show ?case
    proof (cases "apply_step w env now plan k x wk")
      case (Inr wk')
      then show ?thesis using Cons by simp
    next
      case (Inl e')
      then have "error_code e' = None"
        using assms(2) by (rule apply_step_error)
      then show ?thesis using Cons.prems Inl by simp
    qed
  qed
  then show ?thesis
    using assms(1) by (auto simp: apply_steps_def rbind_def Let_def split: sum.splits)
qed

lemma decide_plan_status:
  assumes "decide_plan op n c x = (x', Inr u)" and "xp_status (xt_plan x) = PlanPending"
    and "\<And>t e. xw_timestamp (op_world op n) t = Inl e \<Longrightarrow> error_code e = None"
  shows "xp_status (xt_plan x') \<in> {PlanFilled, PlanBlocked, PlanSkipped}"
proof -
  have blocked: "xp_status (xt_plan x') = PlanBlocked" if "block_plan now reason x = (x', Inr u)" for now reason
    using that by (auto simp: block_plan_def split: if_splits)
  show ?thesis
  proof (cases "current_d34_execution_blocker op n (xt_sleeve x)")
    case (Some reason)
    then show ?thesis using assms(1) blocked by (simp add: decide_plan_def)
  next
    case None
    show ?thesis
    proof (cases "cd_outcome c")
      case (Inl code)
      then show ?thesis using assms(1) blocked None by (simp add: decide_plan_def)
    next
      case (Inr pe)
      then obtain allow z where run: "commit_execution (op_world op n) (op_env op)
          (Some (automation_execution_blocker op n (xt_store x))) allow pe (op_now op n) x = (x', z)"
        and code: "\<And>e. z = Inl e \<Longrightarrow> error_code e \<noteq> None"
        using assms(1) None by (auto simp: decide_plan_def Let_def split: prod.splits sum.splits if_splits)
      from run show ?thesis
      proof (cases rule: commit_cases)
        case (refused e m)
        then show ?thesis
          using code [OF refused(3)] assms(2) by (auto simp: block_pending_def shown_def)
      next
        case (failed e m)
        have "error_code e = None"
          by (rule apply_steps_error [OF failed(4)]) (rule assms(3))
        then show ?thesis using code [OF failed(2)] by blast
      next
        case (filled plan steps a s plan' lots m)
        then show ?thesis using apply_steps_Inr(10) [OF filled(3)] by simp
      qed (simp add: skip_execution_def Let_def)
    qed
  qed
qed

text \<open>The loop, whether it ends or raises.\<close>

lemma decide_candidate_dated:
  assumes "decide_candidate op n c b = (b', r)" and "prepared_for day c" and "fills_dated day base (bt_store b)"
  shows "fills_dated day base (bt_store b')"
  using assms(1)
proof (cases rule: decide_candidate_cases)
  case (decided s x x' z)
  have date: "xp_target_date (xt_plan x') = Some day" if "xp_status (xt_plan x') = PlanFilled"
    by (rule decide_plan_fills [OF decided(7,5) that]) (use assms(2) in \<open>simp add: prepared_for_def\<close>)
  have "fills_dated day base (replace_execution (xt_plan x') (xt_store x))"
    using fills_dated_replace [OF assms(3) date] decided(4) by simp
  moreover have "fills_dated day base (xt_store x)"
    using assms(3) decided(4) by simp
  moreover have "ss_executions (xt_store x') = ss_executions (xt_store x)
      \<or> ss_executions (xt_store x') = ss_executions (replace_execution (xt_plan x') (xt_store x))"
    using decide_plan_files [OF decided(7)] by simp
  ultimately have "fills_dated day base (xt_store x')"
    by (metis fills_dated_files)
  then show ?thesis by (simp only: decided(9))
qed (use assms(3) in simp_all)

lemma decide_candidates_dated:
  "decide_candidates op n cs b = (b', r) \<Longrightarrow> \<forall>c \<in> set cs. prepared_for day c \<Longrightarrow>
     fills_dated day base (bt_store b) \<Longrightarrow> fills_dated day base (bt_store b')"
proof (induction cs arbitrary: n b)
  case Nil
  then show ?case by simp
next
  case (Cons c cs)
  obtain b1 z where step: "decide_candidate op n c b = (b1, z)" by fastforce
  have one: "fills_dated day base (bt_store b1)"
    using decide_candidate_dated [OF step] Cons.prems(2,3) by simp
  show ?case
    using Cons.IH [OF _ _ one] Cons.prems(1,2) step one by (cases z) auto
qed

lemma decide_candidates_status:
  assumes "decide_candidates op n cs b = (b', r)"
    and "\<And>k t e. xw_timestamp (op_world op k) t = Inl e \<Longrightarrow> error_code e = None"
    and "list_all (\<lambda>p. xp_status p \<in> {PlanFilled, PlanBlocked, PlanSkipped}) (bt_processed b)"
  shows "list_all (\<lambda>p. xp_status p \<in> {PlanFilled, PlanBlocked, PlanSkipped}) (bt_processed b')"
  using assms
proof (induction cs arbitrary: n b)
  case Nil
  then show ?case by simp
next
  case (Cons c cs)
  obtain b1 z where step: "decide_candidate op n c b = (b1, z)" by fastforce
  have one: "list_all (\<lambda>p. xp_status p \<in> {PlanFilled, PlanBlocked, PlanSkipped}) (bt_processed b1)"
    using step
  proof (cases rule: decide_candidate_cases)
    case (decided s x x' y)
    show ?thesis
    proof (cases y)
      case (Inr u)
      then show ?thesis
        using decide_plan_status [OF decided(7) [unfolded Inr] decided(5) Cons.prems(2)] decided(11) Cons.prems(3) by simp
    qed (use decided(11) Cons.prems(3) in simp)
  qed (use Cons.prems(3) in simp_all)
  show ?case
    using Cons.IH [OF _ Cons.prems(2) one] Cons.prems(1) step one by (cases z) auto
qed

lemma commit_recovered_files: "ss_executions (fst (commit_recovered ps ss)) = ss_executions ss"
proof (induction ps arbitrary: ss)
  case (Cons p ps)
  have "ss_executions (fst (commit_plan_journal p ss)) = ss_executions ss"
    by (auto simp: commit_plan_journal_def commit_execution_journal_def Let_def split: option.split)
  then show ?case
    using Cons by (auto split: prod.splits sum.splits)
qed simp

lemma finish_batch_files:
  assumes "finish_batch repo op b s = (s', ss', r)"
  shows "ss_executions ss' = ss_executions (bt_store b)"
proof -
  obtain s1 z where save: "(if bt_processed b = [] then (s, Inr ()) else save_account_snapshot repo op 2 (bt_account b) s) = (s1, z)"
    by fastforce
  then show ?thesis
    using assms commit_recovered_files [of "with_status PlanFilled (bt_processed b)" "bt_store b"]
    by (cases z) (auto simp: finish_batch_def split: prod.splits)
qed

definition reconciled_files :: "'s repository \<Rightarrow> operations \<Rightarrow> 's \<Rightarrow> sleeve_store \<Rightarrow> sleeve_store" where
  "reconciled_files repo op s ss = fst (snd (load_account_after_reconcile repo op True s ss))"

lemma run_candidates_dated:
  assumes "run_candidates repo op due only cs s ss = (s', ss', r)" and "\<forall>c \<in> set cs. prepared_for day c"
  shows "fills_dated day (reconciled_files repo op s ss) ss'"
proof -
  obtain s1 ss1 x where load: "load_account_after_reconcile repo op True s ss = (s1, ss1, x)" using prod_cases3 by blast
  have base: "reconciled_files repo op s ss = ss1" by (simp add: reconciled_files_def load)
  let ?scan = "case only of None \<Rightarrow> Inr (list_sleeves ss1) | Some i \<Rightarrow> rbind (load_sleeve i ss1) (\<lambda>s. Inr [s])"
  consider (stopped) "ss' = ss1" | (scanned) a y recovered scanned where "x = Inr (Some a, y, recovered)" "?scan = Inr scanned"
    using assms(1) load by (auto simp: run_candidates_def split: sum.splits option.splits)
  then show ?thesis
  proof cases
    case stopped
    then show ?thesis by (simp add: base)
  next
    case scanned
    obtain st missed where expire: "expire_sleeves op due a scanned ss1 = (st, missed)" by fastforce
    let ?b0 = "\<lparr>bt_account = a, bt_cache = [], bt_store = st, bt_processed = []\<rparr>"
    obtain b z where decide: "decide_candidates op 0 cs ?b0 = (b, z)" by fastforce
    have "fills_dated day ss1 (bt_store b)"
      using decide_candidates_dated [OF decide assms(2)] expire_sleeves_dated [OF expire] by simp
    moreover have "ss_executions ss' = ss_executions (bt_store b)"
    proof (cases z)
      case (Inl e)
      then show ?thesis using assms(1) load scanned expire decide by (simp add: run_candidates_def)
    next
      case (Inr u)
      obtain s2 ss2 w where finish: "finish_batch repo op b s1 = (s2, ss2, w)" using prod_cases3 by blast
      then have "ss' = ss2"
        using assms(1) load scanned expire decide Inr by (cases w) (auto simp: run_candidates_def)
      then show ?thesis using finish_batch_files [OF finish] by simp
    qed
    ultimately show ?thesis using fills_dated_files base by blast
  qed
qed

text \<open>C30: Nothing is filled late or early. A date that cannot be read ends the batch before it touches
  anything. Otherwise, of the plans a batch decided each was filled, blocked or skipped, and the filled ones
  have the batch's date (the one asked for, or today's) as their target date. Even when the batch raises,
  every filled plan on file afterwards has that date, or was filled before the batch decided anything: on
  file already, or recovered from an earlier journal. (Reading the time of a fill is taken not to raise the
  service's own error.)\<close>

theorem fills_on_target_date:
  assumes run: "process_pending_executions_once repo op only window target limit s ss = (s', ss', r)"
    and times: "\<And>k t e. xw_timestamp (op_world op k) t = Inl e \<Longrightarrow> error_code e = None"
  shows "case op_target_date op target of
      Inl e \<Rightarrow> s' = s \<and> ss' = ss \<and> r = Inl e
    | Inr due \<Rightarrow>
        let day = (if due = [] then op_today op else due)
        in (\<forall>res. r = Inr res \<longrightarrow> list_all (\<lambda>p. xp_status p = PlanFilled \<and> xp_target_date p = Some day
               \<or> xp_status p \<in> {PlanBlocked, PlanSkipped}) (or_executions res))
           \<and> (\<forall>k p. p \<in> set (load_executions k ss') \<and> xp_status p = PlanFilled \<longrightarrow>
               xp_target_date p = Some day \<or> p \<in> set (load_executions k ss)
               \<or> p \<in> set (load_executions k (reconciled_files repo op s ss)))"
proof (cases "op_target_date op target")
  case (Inl e)
  then show ?thesis using run by (simp add: process_pending_executions_once_def)
next
  case (Inr due)
  let ?day = "if due = [] then op_today op else due"
  show ?thesis
  proof (cases "rbind (pending_plans (op_today op) only window (Some due) limit ss) (\<lambda>plans. prepare_candidates op 0 ss plans)")
    case (Inl e)
    then have "ss' = ss" "r = Inl e"
      using run Inr by (auto simp: process_pending_executions_once_def rbind_def split: sum.splits)
    then show ?thesis using Inr by (simp add: Let_def)
  next
    case cs: (Inr cs)
    then obtain plans where plans: "pending_plans (op_today op) only window (Some due) limit ss = Inr plans"
      and prepared: "prepare_candidates op 0 ss plans = Inr cs"
      by (auto simp: rbind_Inr)
    have batch: "run_candidates repo op due only cs s ss = (s', ss', r)"
      using run Inr plans prepared by (simp add: process_pending_executions_once_def)
    have "\<forall>(s, plan) \<in> set plans. xp_target_date plan = Some ?day"
      using plans by (auto simp: pending_plans_def rbind_Inr Let_def dest!: in_set_takeD split: option.splits if_splits)
    then have dates: "\<forall>c \<in> set cs. prepared_for ?day c"
      by (rule prepare_candidates_for [OF prepared])
    have decided: "list_all (\<lambda>p. xp_status p = PlanFilled \<and> xp_target_date p = Some ?day
        \<or> xp_status p \<in> {PlanBlocked, PlanSkipped}) (or_executions res)" if answer: "r = Inr res" for res
    proof -
      obtain b0 b where b: "decide_candidates op 0 cs b0 = (b, Inr ())" "bt_processed b0 = []"
        "or_executions res = bt_processed b"
        by (rule run_candidates_decides [OF batch [unfolded answer]])
      have "list_all (\<lambda>p. xp_status p \<in> {PlanFilled, PlanBlocked, PlanSkipped}) (bt_processed b)"
        by (rule decide_candidates_status [OF b(1)]) (rule times, assumption, simp add: b(2))
      moreover have "\<forall>p \<in> set (bt_processed b). xp_status p = PlanFilled \<longrightarrow> xp_target_date p = Some ?day"
        using decide_candidates_date [OF b(1) dates] b(2) by simp
      ultimately show ?thesis
        using b(3) by (auto simp: list_all_iff)
    qed
    have "fills_dated ?day (reconciled_files repo op s ss) ss'"
      by (rule run_candidates_dated [OF batch dates])
    then show ?thesis unfolding Inr sum.case Let_def fills_dated_def using decided by blast
  qed
qed

section \<open>A batch on concrete files\<close>

definition example_operations :: operations where
  "example_operations = \<lparr>op_runtime = no_runtime, op_digest = (\<lambda>_. ''digest''),
     op_safety = \<lparr>sf_paper_trading = True, sf_observation_enabled = True, sf_live_enabled = False\<rparr>,
     op_context = (\<lambda>_ _. observation_context ''default'' (Some None)), op_record = (\<lambda>_ _ _ _ _. None),
     op_world = (\<lambda>_. example_world), op_clock = (\<lambda>_. nat_str), op_now = (\<lambda>n. replicate n CHR ''0''),
     op_called_at = ''later'', op_today = ''2026-01-05'', op_read_date = (\<lambda>s. Some (int (length s))),
     op_show_date = (\<lambda>_. ''2026-01-05''), op_env = example_env,
     op_quotes = (\<lambda>_ _. Inl (PriceUnavailableError ''offline'')), op_disk = (\<lambda>_. good_disk)\<rparr>"

definition example_sleeves :: sleeve_store where
  "example_sleeves = empty_store\<lparr>ss_sleeves := [(''s1'', example_sleeve)], ss_executions := [(''s1'', [example_plan])]\<rparr>"

lemma example_clock: "\<forall>i k. i < k \<longrightarrow> op_now example_operations i < op_now example_operations k"
proof -
  have "replicate i CHR ''0'' < replicate k CHR ''0''" if "i < k" for i k
    using that
  proof (induction i arbitrary: k)
    case 0
    then show ?case by (cases k) simp_all
  next
    case (Suc i)
    then show ?case by (cases k) simp_all
  qed
  then show ?thesis by (simp add: example_operations_def)
qed

lemma example_candidates:
  obtains c pe where "prepare_candidates example_operations 0 example_sleeves [(example_sleeve, example_plan)] = Inr [c]"
    and "cd_outcome c = Inr pe" and "cd_execution_id c = ''x1''" and "cd_sleeve_id c = ''s1''"
    and "xp_status (xt_plan (fst (decide_plan example_operations 0 c (example_state\<lparr>xt_store := example_sleeves\<rparr>)))) = PlanFilled"
proof -
  have "case prepare_candidates example_operations 0 example_sleeves [(example_sleeve, example_plan)] of
      Inr [c] \<Rightarrow> (case cd_outcome c of Inr pe \<Rightarrow> cd_execution_id c = ''x1'' \<and> cd_sleeve_id c = ''s1''
        \<and> xp_status (xt_plan (fst (decide_plan example_operations 0 c (example_state\<lparr>xt_store := example_sleeves\<rparr>)))) = PlanFilled
        | _ \<Rightarrow> False)
    | _ \<Rightarrow> False"
    by code_simp
  then show ?thesis
    using that by (auto split: sum.splits list.splits prod.splits)
qed

definition example_account_files :: file_store where
  "example_account_files = example_files\<lparr>as_account_id := ''acct'',
     as_primary := Some (Json (VDict (account_document (example_account\<lparr>pa_id := ''acct''\<rparr>))))\<rparr>"

definition online :: "operations \<Rightarrow> operations" where
  "online op = op\<lparr>op_quotes := (\<lambda>_ _. Inr [])\<rparr>"

theorem fills_are_authorised_witness:
  "\<exists>c x' r pe. decide_plan example_operations 0 c (example_state\<lparr>xt_store := example_sleeves\<rparr>) = (x', r)
    \<and> xp_status (xt_plan x') = PlanFilled \<and> cd_outcome c = Inr pe \<and> pe_target_date pe = Some ''2026-01-05''"
proof -
  let ?x = "example_state\<lparr>xt_store := example_sleeves\<rparr>"
  obtain c where c: "xp_status (xt_plan (fst (decide_plan example_operations 0 c ?x))) = PlanFilled"
    by (rule example_candidates)
  obtain x' r where run: "decide_plan example_operations 0 c ?x = (x', r)" by fastforce
  have "xp_status (xt_plan ?x) = PlanPending" "xp_target_date (xt_plan ?x) = Some ''2026-01-05''"
    by (simp_all add: example_state_def example_plan_def)
  moreover have "xp_status (xt_plan x') = PlanFilled"
    using c run by simp
  ultimately obtain pe where "cd_outcome c = Inr pe" "pe_target_date pe = Some ''2026-01-05''"
    using fills_are_authorised [OF run] by auto
  then show ?thesis
    using run \<open>xp_status (xt_plan x') = PlanFilled\<close> by blast
qed

theorem default_authority_decides_witness:
  "current_d34_execution_blocker example_operations 0 (example_sleeve\<lparr>sv_metadata := [(''automation_source'', VStr ''d34'')]\<rparr>)
    = Some ''automation_paper_execution_disabled''"
proof -
  let ?s = "example_sleeve\<lparr>sv_metadata := [(''automation_source'', VStr ''d34'')]\<rparr>" and ?query = "\<lambda>_. Some None"
  have "automation_source (op_runtime example_operations) ?s = ''d34''" "\<not> hung_sleeve_eligible (op_runtime example_operations) ?s"
    by code_simp+
  moreover have "paper_execution_context (op_runtime example_operations) ?query ?s = Inr (op_context example_operations 0 ?s)"
  proof -
    have "meta_str (op_runtime example_operations) (sv_metadata ?s) ''workspace_id'' ''default'' = ''default''"
      "valid_workspace ''default''"
      by code_simp+
    then show ?thesis
      using calculation(1) by (simp add: paper_execution_context_def resolve_context example_operations_def)
  qed
  ultimately show ?thesis
    using default_authority_decides [of example_operations ?s ?query 0] by (simp add: recorded_stop_def recorded_outage_def)
qed

theorem fills_on_target_date_witness:
  "\<exists>s' ss' res p. process_pending_executions_once (file_repository no_runtime ''t1'') (online example_operations) None
      ''next_open'' None 50 example_account_files example_sleeves = (s', ss', Inr res)
    \<and> or_executions res = [p] \<and> xp_status p = PlanFilled \<and> xp_target_date p = Some ''2026-01-05''"
proof -
  let ?run = "process_pending_executions_once (file_repository no_runtime ''t1'') (online example_operations) None
      ''next_open'' None 50 example_account_files example_sleeves"
  have "case ?run of (s', ss', Inr res) \<Rightarrow> map xp_status (or_executions res) = [PlanFilled] | _ \<Rightarrow> False"
    by code_simp
  then obtain s' ss' res p where run: "?run = (s', ss', Inr res)" and p: "or_executions res = [p]" "xp_status p = PlanFilled"
    by (auto split: prod.splits sum.splits)
  have day: "op_today (online example_operations) = ''2026-01-05''"
    by (simp add: online_def example_operations_def)
  have "error_code e = None" if "xw_timestamp (op_world (online example_operations) k) t = Inl e" for k t e
    using that by (simp add: online_def example_operations_def example_world_def)
  from fills_on_target_date [OF run this] p run show ?thesis
    by (simp add: op_target_date_def Let_def day)
qed

end
