(* ===== verification/Recovery.thy ===== *)
theory Recovery
  imports Operations
begin

text \<open>
  What a batch of \<open>src/quant_system/execution/paper_strategy_operations.py\<close> leaves behind: the journals
  of its filled plans form a chain from the account it loaded to the account it made, and the
  sleeve files hold what the last journal of each sleeve says. The lemmas show that reconciling
  the journals replays the chain, and, over any served repository, that account and sleeve files
  agree after a batch that answers and after the recovery of one that raised.
\<close>

section \<open>Journals of a batch\<close>

definition journal_key :: "journal \<Rightarrow> string \<times> string" where
  "journal_key j = (jr_sleeve_id j, jr_execution_id j)"

text \<open>What one filled commit leaves: the account it found and the one it made, with its fills noted.\<close>

definition journal_step :: "paper_account \<Rightarrow> journal \<Rightarrow> paper_account \<Rightarrow> bool" where
  "journal_step a j b \<longleftrightarrow>
     jr_before_account j = a \<and> jr_after_account j = b
     \<and> (\<exists>es. pa_ledger b = pa_ledger a @ es \<and> es \<noteq> []
          \<and> (\<forall>e \<in> set es. le_kind e = ''sleeve_execution_fill'' \<and> le_note e = jr_execution_id j))
     \<and> pa_id b = pa_id a
     \<and> sv_id (jr_after_sleeve j) = jr_sleeve_id j \<and> xp_id (jr_after_execution j) = jr_execution_id j
     \<and> xp_sleeve_id (jr_after_execution j) = jr_sleeve_id j \<and> xp_status (jr_after_execution j) = PlanFilled
     \<and> pa_sleeve_cash b = AList.update (jr_sleeve_id j) (sv_cash (jr_after_sleeve j)) (pa_sleeve_cash a)"

fun journal_chain :: "paper_account \<Rightarrow> journal list \<Rightarrow> paper_account \<Rightarrow> bool" where
  "journal_chain a [] b \<longleftrightarrow> b = a"
| "journal_chain a (j # js) b \<longleftrightarrow> journal_step a j (jr_after_account j) \<and> journal_chain (jr_after_account j) js b"

lemma journal_chain_append:
  "journal_chain a (js @ ks) c \<longleftrightarrow> (\<exists>b. journal_chain a js b \<and> journal_chain b ks c)"
  by (induction js arbitrary: a) auto

lemma journal_chain_snoc: "journal_chain a js b \<Longrightarrow> journal_step b j c \<Longrightarrow> journal_chain a (js @ [j]) c"
  by (auto simp: journal_chain_append journal_step_def)

text \<open>The files of one journal, and of several in order.\<close>

definition replay_journal :: "journal \<Rightarrow> sleeve_store \<Rightarrow> sleeve_store" where
  "replay_journal j st = write_execution (jr_after_sleeve j) (jr_sleeve_id j) (jr_after_lots j) (jr_after_execution j) st"

definition replay_journals :: "journal list \<Rightarrow> sleeve_store \<Rightarrow> sleeve_store" where
  "replay_journals js st = fold replay_journal js st"

lemma fill_to_account_id: "fill_to_account env i x f a = Inr b \<Longrightarrow> pa_id b = pa_id a"
  using apply_fill_id [of env f "sleeve_source i" "Some (pq_price_kind (es_quote x))" "''sleeve_execution_fill''" a]
  by (auto simp: fill_to_account_def split: prod.splits sum.splits)

lemma apply_sell_id: "apply_sell env now i x f k = Inr k' \<Longrightarrow> pa_id (wk_account k') = pa_id (wk_account k)"
  by (auto simp: apply_sell_def set_source_after_sell_def rbind_Inr Let_def dest!: fill_to_account_id
      split: sum.splits prod.splits)

lemma apply_buy_id:
  assumes "apply_buy env l now i x f k = Inr k'"
  shows "pa_id (wk_account k') = pa_id (wk_account k)"
proof -
  obtain a where a: "fill_to_account env i x f (wk_account k) = Inr a"
    using assms by (cases "fill_to_account env i x f (wk_account k)") (auto simp: apply_buy_def)
  obtain book z where buy: "book_buy l now (pa_id a) i (es_symbol x) (Fin (es_quantity x)) (Fin (es_price x))
      (sleeve_source i) (wk_book k) = (book, z)" by fastforce
  show ?thesis
    using assms a buy fill_to_account_id [OF a] by (cases z) (auto simp: apply_buy_def)
qed

lemma apply_step_id: "apply_step w env now plan i x k = Inr k' \<Longrightarrow> pa_id (wk_account k') = pa_id (wk_account k)"
  by (cases "es_side x") (auto simp: apply_step_def rbind_Inr Let_def dest: apply_sell_id apply_buy_id)

lemma apply_all_id: "apply_all w env now plan i xs k = Inr k' \<Longrightarrow> pa_id (wk_account k') = pa_id (wk_account k)"
  by (induction xs arbitrary: k) (auto simp: rbind_Inr dest: apply_step_id)

lemma apply_steps_id: "apply_steps w env now a s plan lots steps = Inr (b, out) \<Longrightarrow> pa_id b = pa_id a"
  by (auto simp: apply_steps_def rbind_Inr Let_def dest!: apply_all_id)

lemma pending_kept [simp]:
  "ss_pending (replace_execution plan st) = ss_pending st"
  "ss_pending (xt_store (block_pending now e x)) = ss_pending (xt_store x)"
  by (simp_all add: replace_execution_def save_executions_def block_pending_def block_execution_def Let_def split: option.split)

lemma commit_journals:
  assumes run: "commit_execution w env guard allow pe now x = (x', r)" and pending: "xp_status (xt_plan x) = PlanPending"
  obtains (kept) "same_books x' x" "xp_status (xt_plan x') \<noteq> PlanFilled" "ss_pending (xt_store x') = ss_pending (xt_store x)"
  | (filled) j where "journal_step (xt_account x) j (xt_account x')" "jr_created_at j = now"
      "journal_key j = (sv_id (xt_sleeve x), xp_id (xt_plan x))" "xt_plan x' = jr_after_execution j"
      "xt_sleeve x' = jr_after_sleeve j" "r = Inr (xt_plan x')"
      "xt_store x' = replay_journal j (save_execution_journal_pending (jr_sleeve_id j) (jr_execution_id j) j (xt_store x))"
  using run
proof (cases rule: commit_cases)
  case (refused e m)
  then show ?thesis
    using pending by (cases rule: block_pending_cases [of now e "shown x m"]) (auto intro!: kept)
next
  case (failed e m)
  then show ?thesis using pending by (auto intro!: kept)
next
  case (skipped plan m)
  have "same_books x' x" "xp_status (xt_plan x') \<noteq> PlanFilled" "ss_pending (xt_store x') = ss_pending (xt_store x)"
    by (simp add: skipped(2), simp_all add: skipped(2) skip_execution_def Let_def)
  then show ?thesis by (rule kept)
next
  case (filled plan steps a s plan' lots m)
  note keep = commit_checks_pending [OF filled(1)]
  note applied = apply_steps_Inr [OF filled(3)]
  let ?j = "execution_journal now (shown x m) a s plan' lots"
  have ids: "sv_id s = sv_id (xt_sleeve x)" "xp_id plan' = xp_id (xt_plan x)" "xp_sleeve_id plan' = sv_id (xt_sleeve x)"
    using keep applied(7-9) by simp_all
  obtain es where es: "pa_ledger a = pa_ledger (xt_account x) @ es" "length es = length steps"
    "\<forall>e \<in> set es. le_kind e = ''sleeve_execution_fill'' \<and> le_note e = xp_id (xt_plan x)"
    using applied(5,8) ids by auto
  show ?thesis
  proof (rule that(2) [of ?j])
    show "journal_step (xt_account x) ?j (xt_account x')"
      using es filled(2,4) applied(3,10) ids apply_steps_id [OF filled(3)]
      by (auto simp: journal_step_def execution_journal_def)
  qed (use filled ids in \<open>auto simp: execution_journal_def journal_key_def replay_journal_def journal_written_def\<close>)
qed

lemma decide_plan_journals:
  assumes run: "decide_plan op n c x = (x', r)" and pending: "xp_status (xt_plan x) = PlanPending"
  obtains (kept) "same_books x' x" "xp_status (xt_plan x') \<noteq> PlanFilled" "ss_pending (xt_store x') = ss_pending (xt_store x)"
  | (filled) j where "journal_step (xt_account x) j (xt_account x')" "jr_created_at j = op_now op n"
      "journal_key j = (sv_id (xt_sleeve x), xp_id (xt_plan x))" "xt_plan x' = jr_after_execution j"
      "xt_sleeve x' = jr_after_sleeve j" "r = Inr ()"
      "xt_store x' = replay_journal j (save_execution_journal_pending (jr_sleeve_id j) (jr_execution_id j) j (xt_store x))"
proof -
  have block: thesis if "block_plan (op_now op n) code x = (x', r)" for code
    using that pending by (intro kept) (auto simp: block_plan_def split: if_splits)
  show thesis
  proof (cases "current_d34_execution_blocker op n (xt_sleeve x)")
    case (Some reason)
    then show ?thesis using run block [of reason] by (simp add: decide_plan_def)
  next
    case None
    show ?thesis
    proof (cases "cd_outcome c")
      case (Inl code)
      then show ?thesis using run None block [of code] by (simp add: decide_plan_def)
    next
      case (Inr pe)
      let ?allow = "pa_kill_switch (xt_account x)
        \<and> d34_scoped_frozen_account_authorized op n (xt_sleeve x) (op_context op n (xt_sleeve x))"
      obtain z where commit: "commit_execution (op_world op n) (op_env op)
          (Some (automation_execution_blocker op n (xt_store x))) ?allow pe (op_now op n) x = (x', z)"
        and r: "r = (case z of Inl e \<Rightarrow> if error_code e = None then Inl e else Inr () | Inr plan \<Rightarrow> Inr ())"
        using run None Inr by (auto simp: decide_plan_def Let_def split: prod.splits sum.splits)
      from commit pending show ?thesis
      proof (cases rule: commit_journals)
        case kept
        then show ?thesis by (rule that(1))
      next
        case (filled j)
        then show ?thesis using r by (intro that(2) [of j]) auto
      qed
    qed
  qed
qed

section \<open>The journals of a run\<close>

definition last_write :: "string \<Rightarrow> journal list \<Rightarrow> journal option" where
  "last_write i js = find (\<lambda>j. jr_sleeve_id j = i) (rev js)"

lemma last_write_simps [simp]:
  "last_write i [] = None" "last_write i (js @ [j]) = (if jr_sleeve_id j = i then Some j else last_write i js)"
  by (simp_all add: last_write_def)

text \<open>The sleeve and lot files hold what the last journal of the sleeve says.\<close>

definition journals_written :: "journal list \<Rightarrow> sleeve_store \<Rightarrow> bool" where
  "journals_written js st \<longleftrightarrow> (\<forall>i j. last_write i js = Some j \<longrightarrow>
     load_sleeve i st = Inr (jr_after_sleeve j) \<and> load_sleeve_lots i st = jr_after_lots j)"

lemma replay_journal_loads:
  assumes "sv_id (jr_after_sleeve j) = jr_sleeve_id j"
  shows "load_sleeve i (replay_journal j st) = (if i = jr_sleeve_id j then Inr (jr_after_sleeve j) else load_sleeve i st)"
    and "load_sleeve_lots i (replay_journal j st) = (if i = jr_sleeve_id j then jr_after_lots j else load_sleeve_lots i st)"
    and "ss_journals (replay_journal j st) = ss_journals st"
    and "ss_committed (replay_journal j st) = ss_committed st"
    and "ss_pending (replay_journal j st) = ss_pending st"
  using assms
  by (auto simp: replay_journal_def write_execution_def save_sleeve_def save_sleeve_lots_def load_sleeve_def
      load_sleeve_lots_def replace_execution_def save_executions_def)

lemma find_replace_first:
  "find (\<lambda>p. ident p = k) (replace_first ident x ys) = (if k = ident x then Some x else find (\<lambda>p. ident p = k) ys)"
  by (induction ys) auto

lemma replay_journal_execution:
  assumes "journal_step a j b"
  shows "load_execution i k (replay_journal j st)
    = (if (i, k) = journal_key j then Some (jr_after_execution j) else load_execution i k st)"
  using assms
  by (auto simp: replay_journal_def write_execution_def load_execution_def load_replace_execution find_replace_first
      journal_step_def journal_key_def)

lemma replay_journals_simps [simp]:
  "replay_journals [] st = st" "replay_journals (js @ [j]) st = replay_journal j (replay_journals js st)"
  "replay_journals (j # js) st = replay_journals js (replay_journal j st)"
  by (simp_all add: replay_journals_def)

text \<open>A journal of a chain.\<close>

lemma chain_member:
  assumes "journal_chain a js b" and "j \<in> set js"
  shows "sv_id (jr_after_sleeve j) = jr_sleeve_id j" "xp_status (jr_after_execution j) = PlanFilled"
    "xp_id (jr_after_execution j) = jr_execution_id j" "xp_sleeve_id (jr_after_execution j) = jr_sleeve_id j"
proof -
  have "\<exists>a b. journal_step a j b"
    using assms by (induction js arbitrary: a) auto
  then show "sv_id (jr_after_sleeve j) = jr_sleeve_id j" "xp_status (jr_after_execution j) = PlanFilled"
    "xp_id (jr_after_execution j) = jr_execution_id j" "xp_sleeve_id (jr_after_execution j) = jr_sleeve_id j"
    by (auto simp: journal_step_def)
qed

lemma chain_id: "journal_chain a js b \<Longrightarrow> pa_id b = pa_id a"
  by (induction js arbitrary: a) (auto simp: journal_step_def)

lemma chain_ledger:
  assumes "journal_chain a js b"
  shows "\<exists>es. pa_ledger b = pa_ledger a @ es \<and> (\<forall>e \<in> set es. le_note e \<in> jr_execution_id ` set js)
    \<and> (\<forall>j \<in> set js. \<exists>e \<in> set es. le_kind e = ''sleeve_execution_fill'' \<and> le_note e = jr_execution_id j)"
  using assms
proof (induction js arbitrary: a)
  case Nil
  then show ?case by simp
next
  case (Cons j js)
  then obtain es where es: "pa_ledger (jr_after_account j) = pa_ledger a @ es" "es \<noteq> []"
    "\<forall>e \<in> set es. le_kind e = ''sleeve_execution_fill'' \<and> le_note e = jr_execution_id j"
    by (auto simp: journal_step_def)
  from Cons.IH [of "jr_after_account j"] Cons.prems obtain fs where fs: "pa_ledger b = pa_ledger (jr_after_account j) @ fs"
    "\<forall>e \<in> set fs. le_note e \<in> jr_execution_id ` set js"
    "\<forall>j \<in> set js. \<exists>e \<in> set fs. le_kind e = ''sleeve_execution_fill'' \<and> le_note e = jr_execution_id j"
    by auto
  show ?case
    using es fs by (intro exI [of _ "es @ fs"]) (auto simp: neq_Nil_conv)
qed

lemma replay_journals_loads:
  assumes "journal_chain a js b"
  shows "load_sleeve i (replay_journals js st)
      = (case last_write i js of None \<Rightarrow> load_sleeve i st | Some j \<Rightarrow> Inr (jr_after_sleeve j))"
    and "load_sleeve_lots i (replay_journals js st)
      = (case last_write i js of None \<Rightarrow> load_sleeve_lots i st | Some j \<Rightarrow> jr_after_lots j)"
    and "ss_journals (replay_journals js st) = ss_journals st"
    and "ss_committed (replay_journals js st) = ss_committed st"
    and "ss_pending (replay_journals js st) = ss_pending st"
  using assms
proof (induction js arbitrary: b rule: rev_induct)
  case Nil
  { case 1 then show ?case by simp }
  { case 2 then show ?case by simp }
  { case 3 then show ?case by simp }
  { case 4 then show ?case by simp }
  { case 5 then show ?case by simp }
next
  case (snoc j js)
  have key: "journal_chain a (js @ [j]) b \<Longrightarrow> sv_id (jr_after_sleeve j) = jr_sleeve_id j" for b
    by (auto dest: chain_member)
  have pre: "journal_chain a (js @ [j]) b \<Longrightarrow> \<exists>c. journal_chain a js c" for b
    by (auto simp: journal_chain_append)
  { case 1 then show ?case using key pre snoc.IH(1) by (auto simp: replay_journal_loads) }
  { case 2 then show ?case using key pre snoc.IH(2) by (auto simp: replay_journal_loads) }
  { case 3 then show ?case using key pre snoc.IH(3) by (auto simp: replay_journal_loads) }
  { case 4 then show ?case using key pre snoc.IH(4) by (auto simp: replay_journal_loads) }
  { case 5 then show ?case using key pre snoc.IH(5) by (auto simp: replay_journal_loads) }
qed

lemma replay_written:
  assumes "journal_chain a js b" and "journals_written js st"
  shows "load_sleeve i (replay_journals js st) = load_sleeve i st"
    and "load_sleeve_lots i (replay_journals js st) = load_sleeve_lots i st"
  using assms(2) replay_journals_loads(1,2) [OF assms(1)] by (auto simp: journals_written_def split: option.split)

text \<open>A run from the account \<open>a\<close> that has written the journals \<open>js\<close>.\<close>

definition batch_run :: "paper_account \<Rightarrow> journal list \<Rightarrow> batch \<Rightarrow> bool" where
  "batch_run a js b \<longleftrightarrow>
     journal_chain a js (bt_account b) \<and> journals_written js (bt_store b)
     \<and> ss_journals (bt_store b) = map (\<lambda>j. (journal_key j, Some j)) js
     \<and> sorted_wrt (<) (map jr_created_at js) \<and> distinct (map jr_execution_id js)
     \<and> with_status PlanFilled (bt_processed b) = map jr_after_execution js"

lemma update_fresh: "k \<notin> fst ` set d \<Longrightarrow> AList.update k v d = d @ [(k, v)]"
  by (induction d) auto

lemma with_status_append [simp]:
  "with_status st (xs @ [p]) = with_status st xs @ (if xp_status p = st then [p] else [])"
  by (simp add: with_status_def)

lemma journals_written_kept:
  assumes "journals_written js st" and "ss_sleeves st' = ss_sleeves st" and "ss_lots st' = ss_lots st"
  shows "journals_written js st'"
  using assms by (simp add: journals_written_def load_sleeve_def load_sleeve_lots_def)

lemma batch_run_decide:
  assumes run: "decide_candidate op n c b = (b', r)" and inv: "batch_run a js b"
    and fresh: "cd_execution_id c \<notin> jr_execution_id ` set js" and late: "\<forall>j \<in> set js. jr_created_at j < op_now op n"
  shows "batch_run a js b' \<or> (\<exists>j. batch_run a (js @ [j]) b' \<and> jr_execution_id j = cd_execution_id c
    \<and> jr_created_at j = op_now op n)"
  using run
proof (cases rule: decide_candidate_cases)
  case (decided s x x' z)
  from decided(7,5) show ?thesis
  proof (cases rule: decide_plan_journals)
    case kept
    then have "batch_run a js b'"
      using inv decided(2,4,8,9,11) journals_written_kept [of js "bt_store b" "xt_store x'"]
      by (auto simp: batch_run_def same_books_def split: sum.split)
    then show ?thesis ..
  next
    case (filled j)
    let ?st = "save_execution_journal_pending (jr_sleeve_id j) (jr_execution_id j) j (bt_store b)"
    have key: "jr_execution_id j = cd_execution_id c" "xp_status (jr_after_execution j) = PlanFilled"
      using filled(1,3) decided(6) by (simp_all add: journal_key_def journal_step_def)
    have "journal_key j \<notin> fst ` set (ss_journals (bt_store b))"
      using inv fresh key(1) by (auto simp: batch_run_def journal_key_def)
    then have update: "AList.update (journal_key j) (Some j) (ss_journals (bt_store b))
        = ss_journals (bt_store b) @ [(journal_key j, Some j)]"
      by (rule update_fresh)
    have store: "bt_store b' = replay_journal j ?st"
      using filled(7) decided(4,9) by simp
    have step: "sv_id (jr_after_sleeve j) = jr_sleeve_id j"
      using filled(1) by (simp add: journal_step_def)
    have loads: "load_sleeve i (bt_store b') = (if i = jr_sleeve_id j then Inr (jr_after_sleeve j) else load_sleeve i (bt_store b))"
      "load_sleeve_lots i (bt_store b') = (if i = jr_sleeve_id j then jr_after_lots j else load_sleeve_lots i (bt_store b))" for i
      unfolding store replay_journal_loads(1,2) [OF step]
      by (simp_all add: save_execution_journal_pending_def load_sleeve_def load_sleeve_lots_def)
    have journals: "ss_journals (bt_store b') = ss_journals (bt_store b) @ [(journal_key j, Some j)]"
      unfolding store replay_journal_loads(3) [OF step]
      using update by (simp add: save_execution_journal_pending_def journal_key_def)
    have chain: "journal_chain a (js @ [j]) (bt_account b')"
      using inv filled(1) decided(2,8) by (auto simp: batch_run_def intro: journal_chain_snoc)
    have written: "journals_written (js @ [j]) (bt_store b')"
      using inv by (auto simp: batch_run_def journals_written_def loads)
    have "batch_run a (js @ [j]) b'"
      using inv chain written journals late fresh key filled(2,4,6) decided(11)
      by (auto simp: batch_run_def sorted_wrt_append)
    then show ?thesis
      using key(1) filled(2) by auto
  qed
qed (use inv in \<open>auto simp: batch_run_def\<close>)

lemma batch_run_all:
  assumes "decide_candidates op n cs b = (b', r)" and "batch_run a js b"
    and "distinct (map cd_execution_id cs)" and "\<forall>j \<in> set js. jr_execution_id j \<notin> cd_execution_id ` set cs"
    and "\<forall>j \<in> set js. jr_created_at j < op_now op n" and "\<forall>i k. i < k \<longrightarrow> op_now op i < op_now op k"
  shows "\<exists>ks. batch_run a (js @ ks) b' \<and> jr_execution_id ` set ks \<subseteq> cd_execution_id ` set cs"
  using assms(1-5)
proof (induction cs arbitrary: n b js)
  case Nil
  then show ?case by (intro exI [of _ "[]"]) simp
next
  case (Cons c cs)
  obtain b1 z where step: "decide_candidate op n c b = (b1, z)" by fastforce
  have later: "op_now op n < op_now op (Suc n)"
    using assms(6) by simp
  have "batch_run a js b1 \<or> (\<exists>j. batch_run a (js @ [j]) b1 \<and> jr_execution_id j = cd_execution_id c
      \<and> jr_created_at j = op_now op n)"
    by (rule batch_run_decide [OF step Cons.prems(2)]) (use Cons.prems(4,5) in auto)
  then obtain ls where ls: "batch_run a (js @ ls) b1" "jr_execution_id ` set ls \<subseteq> {cd_execution_id c}"
    "\<forall>j \<in> set ls. jr_created_at j = op_now op n"
  proof (elim disjE exE conjE)
    assume "batch_run a js b1"
    then show thesis by (intro that [of "[]"]) simp_all
  next
    fix j
    assume "batch_run a (js @ [j]) b1" "jr_execution_id j = cd_execution_id c" "jr_created_at j = op_now op n"
    then show thesis by (intro that [of "[j]"]) simp_all
  qed
  show ?case
  proof (cases z)
    case (Inl e)
    then show ?thesis using ls step Cons.prems(1) by (intro exI [of _ ls]) auto
  next
    case (Inr u)
    then have rest: "decide_candidates op (Suc n) cs b1 = (b', r)"
      using step Cons.prems(1) by simp
    have ids: "distinct (map cd_execution_id cs)" "\<forall>j \<in> set (js @ ls). jr_execution_id j \<notin> cd_execution_id ` set cs"
      using Cons.prems(3,4) ls(2) by auto
    have clock: "\<forall>j \<in> set (js @ ls). jr_created_at j < op_now op (Suc n)"
      using Cons.prems(5) ls(3) later by (metis Un_iff less_trans set_append)
    obtain ks where "batch_run a ((js @ ls) @ ks) b'" "jr_execution_id ` set ks \<subseteq> cd_execution_id ` set cs"
      using Cons.IH [OF rest ls(1) ids clock] by blast
    then show ?thesis using ls(2) by (intro exI [of _ "ls @ ks"]) auto
  qed
qed

section \<open>Recovering the journals\<close>

lemma load_journals_of_run:
  assumes "ss_journals st = map (\<lambda>j. (journal_key j, Some j)) js" and "sorted_wrt (<) (map jr_created_at js)"
  shows "load_pending_execution_journals st = (st, js)"
proof -
  let ?kv = "map (\<lambda>j. (journal_key j, j)) js"
  have readable: "concat (map (\<lambda>(k, j). case j of None \<Rightarrow> [] | Some p \<Rightarrow> [(k, p)]) (ss_journals st)) = ?kv"
    unfolding assms(1) by (induction js) auto
  have strict: "sorted (map jr_created_at js)" "distinct (map jr_created_at js)"
    using assms(2) strict_sorted_iff by blast+
  then have "inj_on (\<lambda>(k, p). jr_created_at p) (set ?kv)"
    by (auto simp: inj_on_def distinct_map)
  moreover have "sorted (map (\<lambda>(k, p). jr_created_at p) ?kv)"
    using strict(1) by (simp add: comp_def)
  ultimately have "sort_key (\<lambda>(k, p). jr_created_at p) (sort_key (\<lambda>(k, p). journal_path k) ?kv) = ?kv"
    by (intro sort_key_inj_key_eq) simp_all
  then have "map snd (sort_key (\<lambda>(k, p). jr_created_at p) (sort_key (\<lambda>(k, p). journal_path k) ?kv)) = js"
    by (simp add: comp_def)
  moreover have "filter (\<lambda>(k, j). j = None) (ss_journals st) = []" "filter (\<lambda>(k, j). j \<noteq> None) (ss_journals st) = ss_journals st"
    unfolding assms(1) by (auto simp: filter_empty_conv filter_id_conv)
  ultimately show ?thesis
    by (simp add: load_pending_execution_journals_def Let_def readable)
qed

lemma reconcile_step:
  assumes "journal_step a j b" and "\<not> account_has_execution a (jr_execution_id j)"
  shows "reconcile_journal t False j (ensure_manual_sleeve_cash a) st
    = (ensure_manual_sleeve_cash b, replay_journal j st, Inr (jr_after_execution j))"
  using assms
  by (simp add: reconcile_journal_def journal_step_def account_has_execution_def replay_journal_def write_execution_def Let_def)

lemma reconcile_seen:
  assumes "journal_step a j b" and "account_has_execution c (jr_execution_id j)"
  shows "reconcile_journal t False j c st = (c, replay_journal j st, Inr (jr_after_execution j))"
  using assms
  by (simp add: reconcile_journal_def journal_step_def replay_journal_def write_execution_def Let_def)

lemma reconcile_run:
  assumes "journal_chain a js b" and "distinct (map jr_execution_id js)"
    and "\<forall>j \<in> set js. \<not> account_has_execution a (jr_execution_id j)"
  shows "reconcile_journals t False js (ensure_manual_sleeve_cash a) st
    = (ensure_manual_sleeve_cash b, replay_journals js st, Inr (map jr_after_execution js))"
  using assms
proof (induction js arbitrary: a st)
  case Nil
  then show ?case by simp
next
  case (Cons j js)
  have step: "journal_step a j (jr_after_account j)"
    using Cons.prems(1) by simp
  have other: "jr_execution_id k \<noteq> jr_execution_id j" if "k \<in> set js" for k
    using Cons.prems(2) image_eqI [OF _ that, of "jr_execution_id j" jr_execution_id] by auto
  have "\<forall>k \<in> set js. \<not> account_has_execution (jr_after_account j) (jr_execution_id k)"
    using step Cons.prems(3) other by (fastforce simp: journal_step_def account_has_execution_def list_ex_iff)
  then show ?case
    using Cons.IH [of "jr_after_account j" "replay_journal j st"] Cons.prems reconcile_step [OF step] by simp
qed

lemma reconcile_run_seen:
  assumes "journal_chain a js b" and "\<forall>j \<in> set js. account_has_execution c (jr_execution_id j)"
  shows "reconcile_journals t False js c st = (c, replay_journals js st, Inr (map jr_after_execution js))"
  using assms by (induction js arbitrary: a st) (auto simp: reconcile_seen)

text \<open>Journals cannot be told apart by recovery but by their key, which is the plan's.\<close>

lemma chain_seen:
  assumes "journal_chain a js b" and "j \<in> set js"
  shows "account_has_execution b (jr_execution_id j)"
  using chain_ledger [OF assms(1)] assms(2) by (fastforce simp: account_has_execution_def list_ex_iff)

lemma replay_executions:
  assumes "journal_chain a js b" and "distinct (map jr_execution_id js)" and "j \<in> set js"
  shows "load_execution (jr_sleeve_id j) (jr_execution_id j) (replay_journals js st) = Some (jr_after_execution j)"
  using assms
proof (induction js arbitrary: b rule: rev_induct)
  case Nil
  then show ?case by simp
next
  case (snoc k js)
  then obtain c where c: "journal_chain a js c" "journal_step c k (jr_after_account k)"
    by (auto simp: journal_chain_append)
  have "jr_execution_id j \<noteq> jr_execution_id k" if "j \<in> set js"
    using snoc.prems(2) image_eqI [OF _ that, of "jr_execution_id k" jr_execution_id] by auto
  then show ?case
    using snoc.IH [OF c(1)] snoc.prems(2,3) replay_journal_execution [OF c(2), of "jr_sleeve_id j" "jr_execution_id j"]
    by (auto simp: journal_key_def)
qed

text \<open>C28: An interrupted batch is recovered: whether the loop over the prepared plans ends or raises, and
  before its account is saved, reconciling the journals it left with the account it started from
  gives the account it had made (as a load validates it), the sleeve and lot files it had written,
  and exactly its filled plans, each on file as filled. The plans are different and new to the
  account, no journal was open, and the clock moves between decisions.\<close>

theorem interrupted_batch_is_recovered:
  assumes "decide_candidates op n cs b = (b', r)" and "ss_journals (bt_store b) = []" and "bt_processed b = []"
    and "ensure_manual_sleeve_cash (bt_account b) = bt_account b" and "distinct (map cd_execution_id cs)"
    and "\<forall>c \<in> set cs. \<not> account_has_execution (bt_account b) (cd_execution_id c)"
    and "\<forall>i k. i < k \<longrightarrow> op_now op i < op_now op k"
  shows "\<exists>st. reconcile_execution_journals t False (bt_account b) (bt_store b')
      = (ensure_manual_sleeve_cash (bt_account b'), st, Inr (with_status PlanFilled (bt_processed b')))
    \<and> (\<forall>i. load_sleeve i st = load_sleeve i (bt_store b') \<and> load_sleeve_lots i st = load_sleeve_lots i (bt_store b'))
    \<and> (\<forall>p \<in> set (with_status PlanFilled (bt_processed b')).
        load_execution (xp_sleeve_id p) (xp_id p) st = Some p)"
proof -
  have "batch_run (bt_account b) [] b"
    using assms(2,3) by (simp add: batch_run_def with_status_def journals_written_def)
  from batch_run_all [OF assms(1) this assms(5) _ _ assms(7)]
  obtain js where run: "batch_run (bt_account b) js b'" and ids: "jr_execution_id ` set js \<subseteq> cd_execution_id ` set cs"
    by auto
  then have chain: "journal_chain (bt_account b) js (bt_account b')" "distinct (map jr_execution_id js)"
    "with_status PlanFilled (bt_processed b') = map jr_after_execution js" "journals_written js (bt_store b')"
    by (simp_all add: batch_run_def)
  have new: "\<forall>j \<in> set js. \<not> account_has_execution (bt_account b) (jr_execution_id j)"
    using ids assms(6) by auto
  show ?thesis
    using reconcile_run [OF chain(1,2) new] load_journals_of_run [of "bt_store b'" js] run assms(4)
      replay_written [OF chain(1,4)] replay_executions [OF chain(1,2)] chain_member(3,4) [OF chain(1)]
    by (intro exI [of _ "replay_journals js (bt_store b')"])
      (auto simp: reconcile_execution_journals_def chain(3) batch_run_def)
qed

section \<open>Account and sleeve files agree\<close>

text \<open>Every sleeve is filed under its id, and an allocated one has its cash in the account's book.\<close>

definition books_agree :: "paper_account \<Rightarrow> sleeve_store \<Rightarrow> bool" where
  "books_agree a st \<longleftrightarrow> (\<forall>i s. load_sleeve i st = Inr s \<longrightarrow>
     sv_id s = i \<and> i \<noteq> ''manual'' \<and> (sv_mode s = Allocated \<longrightarrow> map_of (pa_sleeve_cash a) i = Some (sv_cash s)))"

lemma books_agree_kept: "books_agree a st \<Longrightarrow> ss_sleeves st' = ss_sleeves st \<Longrightarrow> books_agree a st'"
  by (simp add: books_agree_def load_sleeve_def)

lemma books_agree_loads: "books_agree a st \<Longrightarrow> (\<And>i. load_sleeve i st' = load_sleeve i st) \<Longrightarrow> books_agree a st'"
  by (simp add: books_agree_def)

lemma books_agree_ensure: "books_agree a st \<Longrightarrow> books_agree (ensure_manual_sleeve_cash a) st"
  by (auto simp: books_agree_def ensure_manual_sleeve_cash_def)

lemma books_agree_filled:
  assumes "books_agree a st" and "journal_step a j b" and "jr_sleeve_id j \<noteq> ''manual''"
    and "ss_sleeves st' = ss_sleeves st"
  shows "books_agree b (replay_journal j st')"
  using assms replay_journal_loads(1) [of j _ st']
  by (auto simp: books_agree_def journal_step_def load_sleeve_def [of _ st] load_sleeve_def [of _ st'])

definition batch_agrees :: "batch \<Rightarrow> bool" where
  "batch_agrees b \<longleftrightarrow> books_agree (bt_account b) (bt_store b) \<and> ss_pending (bt_store b) = []
     \<and> (\<forall>i s. map_of (bt_cache b) i = Some s \<longrightarrow> sv_id s = i \<and> i \<noteq> ''manual'')"

lemma fresh_sleeve_agrees:
  assumes "fresh_sleeve i b = Inr s" and "batch_agrees b"
  shows "sv_id s = i" and "i \<noteq> ''manual''"
  using assms by (auto simp: fresh_sleeve_def batch_agrees_def books_agree_def split: option.splits)

lemma batch_agrees_decide:
  assumes run: "decide_candidate op n c b = (b', r)" and inv: "batch_agrees b"
  shows "batch_agrees b'"
  using run
proof (cases rule: decide_candidate_cases)
  case missing
  then show ?thesis using inv by simp
next
  case (settled s)
  then show ?thesis using inv fresh_sleeve_agrees [OF settled(1) inv] by (auto simp: batch_agrees_def)
next
  case (decided s x x' z)
  note s = fresh_sleeve_agrees [OF decided(1) inv]
  from decided(7,5) have "sv_id (xt_sleeve x') = cd_sleeve_id c \<and> books_agree (xt_account x') (xt_store x')
      \<and> ss_pending (xt_store x') = []"
  proof (cases rule: decide_plan_journals)
    case kept
    then show ?thesis
      using inv s decided(2-4) books_agree_kept [of "bt_account b" "bt_store b" "xt_store x'"]
      by (simp add: same_books_def batch_agrees_def)
  next
    case (filled j)
    let ?st = "save_execution_journal_pending (jr_sleeve_id j) (jr_execution_id j) j (bt_store b)"
    have "books_agree (xt_account x') (replay_journal j ?st)"
      using books_agree_filled [of "bt_account b" "bt_store b" j "xt_account x'" ?st] inv filled(1,3) s decided(2,3)
      by (simp add: batch_agrees_def journal_key_def save_execution_journal_pending_def)
    then show ?thesis
      using filled s inv replay_journal_loads(5) [of j] decided(3,4)
      by (simp add: journal_key_def journal_step_def batch_agrees_def save_execution_journal_pending_def)
  qed
  then show ?thesis
    using inv s decided(8,9,10) by (auto simp: batch_agrees_def)
qed

lemma batch_agrees_all: "decide_candidates op n cs b = (b', r) \<Longrightarrow> batch_agrees b \<Longrightarrow> batch_agrees b'"
proof (induction cs arbitrary: n b)
  case (Cons c cs)
  then show ?case
    by (auto split: prod.splits sum.splits dest: batch_agrees_decide)
qed simp

section \<open>Closing the journals\<close>

lemma delete_missing: "k \<notin> fst ` set d \<Longrightarrow> AList.delete k d = d"
  by (induction d) auto

lemma commit_plan_journal_closes:
  assumes "map_of (ss_journals st) (xp_sleeve_id p, xp_id p) = Some j"
  shows "\<exists>st'. commit_plan_journal p st = (st', Inr ())
    \<and> ss_journals st' = AList.delete (xp_sleeve_id p, xp_id p) (ss_journals st) \<and> ss_sleeves st' = ss_sleeves st
    \<and> ss_pending st' = ss_pending st"
  using assms by (simp add: commit_plan_journal_def commit_execution_journal_def Let_def)

lemma commit_recovered_run:
  assumes "journal_chain a js b" and "distinct (map jr_execution_id js)"
    and "ss_journals st = map (\<lambda>j. (journal_key j, Some j)) js"
  shows "\<exists>st'. commit_recovered (map jr_after_execution js) st = (st', Inr ()) \<and> ss_journals st' = []
    \<and> ss_sleeves st' = ss_sleeves st \<and> ss_pending st' = ss_pending st"
  using assms
proof (induction js arbitrary: a st)
  case Nil
  then show ?case by simp
next
  case (Cons j js)
  have step: "xp_sleeve_id (jr_after_execution j) = jr_sleeve_id j" "xp_id (jr_after_execution j) = jr_execution_id j"
    using Cons.prems(1) by (simp_all add: journal_step_def)
  have others: "AList.delete (journal_key j) (map (\<lambda>j. (journal_key j, Some j)) js) = map (\<lambda>j. (journal_key j, Some j)) js"
    using Cons.prems(2) by (intro delete_missing) (auto simp: journal_key_def image_iff)
  have "map_of (ss_journals st) (xp_sleeve_id (jr_after_execution j), xp_id (jr_after_execution j)) = Some (Some j)"
    using Cons.prems(3) step by (simp add: journal_key_def)
  from commit_plan_journal_closes [OF this] obtain st1 where commit:
    "commit_plan_journal (jr_after_execution j) st = (st1, Inr ())"
    "ss_journals st1 = AList.delete (journal_key j) (ss_journals st)" "ss_sleeves st1 = ss_sleeves st"
    "ss_pending st1 = ss_pending st"
    by (auto simp: step journal_key_def)
  have "ss_journals st1 = map (\<lambda>j. (journal_key j, Some j)) js"
    using commit(2) Cons.prems(3) others by simp
  with Cons.IH [of "jr_after_account j" st1] Cons.prems(1,2) obtain st2
    where "commit_recovered (map jr_after_execution js) st1 = (st2, Inr ())" "ss_journals st2 = []" "ss_sleeves st2 = ss_sleeves st1"
      "ss_pending st2 = ss_pending st1"
    by auto
  then show ?case using commit by simp
qed

section \<open>A batch on stored files\<close>

lemma expire_plans_books: "expire_plans op due a s plans st = (st', missed) \<Longrightarrow>
    ss_sleeves st' = ss_sleeves st \<and> ss_journals st' = ss_journals st \<and> ss_pending st' = ss_pending st"
  by (induction plans arbitrary: st st' missed)
    (auto simp: mark_missed_window_def replace_execution_def save_executions_def Let_def split: if_splits option.splits prod.splits)

lemma expire_sleeves_books: "expire_sleeves op due a sleeves st = (st', missed) \<Longrightarrow>
    ss_sleeves st' = ss_sleeves st \<and> ss_journals st' = ss_journals st \<and> ss_pending st' = ss_pending st"
  by (induction sleeves arbitrary: st st' missed) (auto split: prod.splits dest!: expire_plans_books)

text \<open>What a batch leaves for the next run: a chain of journals from the stored account.\<close>

definition open_run :: "paper_account \<Rightarrow> journal list \<Rightarrow> paper_account \<Rightarrow> sleeve_store \<Rightarrow> bool" where
  "open_run a js b st \<longleftrightarrow>
     journal_chain a js b \<and> journals_written js st \<and> ss_journals st = map (\<lambda>j. (journal_key j, Some j)) js
     \<and> sorted_wrt (<) (map jr_created_at js) \<and> distinct (map jr_execution_id js)
     \<and> (\<forall>j \<in> set js. \<not> account_has_execution a (jr_execution_id j))
     \<and> books_agree b st \<and> ss_pending st = []"

lemma reconcile_open_run:
  assumes "open_run a js b st" and "ensure_manual_sleeve_cash a = a" and "c \<in> {a, ensure_manual_sleeve_cash b}"
  shows "\<exists>c' st'. reconcile_execution_journals t False c st = (c', st', Inr (map jr_after_execution js))
    \<and> books_agree c' st' \<and> ss_journals st' = ss_journals st \<and> ss_pending st' = [] \<and> pa_id c' = pa_id a
    \<and> (js = [] \<longrightarrow> c' = c)"
proof -
  have chain: "journal_chain a js b" "distinct (map jr_execution_id js)" "journals_written js st"
    "\<forall>j \<in> set js. \<not> account_has_execution a (jr_execution_id j)"
    and load: "load_pending_execution_journals st = (st, js)"
    using assms(1) load_journals_of_run by (auto simp: open_run_def)
  have agree: "books_agree (ensure_manual_sleeve_cash b) (replay_journals js st)"
    using books_agree_loads [OF books_agree_ensure replay_written(1) [OF chain(1,3)]] assms(1)
    by (simp add: open_run_def)
  have kept: "ss_journals (replay_journals js st) = ss_journals st" "ss_pending (replay_journals js st) = []"
    using replay_journals_loads(3,5) [OF chain(1)] assms(1) by (simp_all add: open_run_def)
  have id: "pa_id (ensure_manual_sleeve_cash b) = pa_id a"
    using chain_id [OF chain(1)] by simp
  from assms(3) consider (before) "c = a" | (after) "c = ensure_manual_sleeve_cash b" by blast
  then show ?thesis
  proof cases
    case before
    have "js = [] \<longrightarrow> ensure_manual_sleeve_cash b = c"
      using chain(1) assms(2) before by auto
    then show ?thesis
      using reconcile_run [OF chain(1,2,4), of t st] load agree kept id assms(2) before
      by (auto simp: reconcile_execution_journals_def)
  next
    case after
    have "\<forall>j \<in> set js. account_has_execution c (jr_execution_id j)"
      using chain_seen [OF chain(1)] after by (auto simp: account_has_execution_def)
    from reconcile_run_seen [OF chain(1) this, of t st] show ?thesis
      using load agree kept id after by (auto simp: reconcile_execution_journals_def)
  qed
qed

context served_repository
begin

lemma save_snapshot_settles:
  assumes "healthy s" and "stored s = Some a0" and "pa_id a = pa_id a0"
    and "save_account_snapshot repo op n a s = (s', r)"
  shows "healthy s'" and "r = Inr u \<Longrightarrow> stored s' = Some (ensure_manual_sleeve_cash a)"
    and "r = Inl e \<Longrightarrow> stored s' \<in> {Some a0, Some (ensure_manual_sleeve_cash a)}"
    and "(\<And>symbols. \<exists>q. op_quotes op n symbols = Inr q) \<Longrightarrow> atomic_replace (op_disk op n) \<Longrightarrow> dk_snapshot (op_disk op n) \<Longrightarrow> r = Inr ()"
proof -
  have id: "pa_id a = account_id s"
    using stored_id [OF assms(2)] assms(3) by simp
  let ?q = "if pa_positions a = [] then Inr [] else op_quotes op n (map fst (pa_positions a))"
  have all: "healthy s' \<and> (\<forall>u. r = Inr u \<longrightarrow> stored s' = Some (ensure_manual_sleeve_cash a))
    \<and> (\<forall>e. r = Inl e \<longrightarrow> stored s' \<in> {Some a0, Some (ensure_manual_sleeve_cash a)})
    \<and> ((\<exists>q. ?q = Inr q) \<longrightarrow> atomic_replace (op_disk op n) \<longrightarrow> dk_snapshot (op_disk op n) \<longrightarrow> r = Inr ())"
  proof (cases ?q)
    case (Inl e)
    then show ?thesis using assms(1,2,4) by (auto simp: save_account_snapshot_def)
  next
    case (Inr q)
    have "save_account repo (op_disk op n) q a s = (s', r)"
      using assms(4) Inr by (simp add: save_account_snapshot_def)
    note saved = save_account_settles [OF assms(1,2) id this]
    show ?thesis using saved(1,3,4) Inr by (cases r) auto
  qed
  then show "healthy s'" "r = Inr u \<Longrightarrow> stored s' = Some (ensure_manual_sleeve_cash a)"
    "r = Inl e \<Longrightarrow> stored s' \<in> {Some a0, Some (ensure_manual_sleeve_cash a)}"
    by blast+
  show "r = Inr ()" if "\<And>symbols. \<exists>q. op_quotes op n symbols = Inr q" "atomic_replace (op_disk op n)" "dk_snapshot (op_disk op n)"
    using all that by simp
qed

lemma load_settled_files:
  assumes "healthy s" and "stored s = Some a" and "ss_pending ss = []" and "ss_journals ss = []"
  shows "\<exists>s'. load_account_after_reconcile repo op True s ss = (s', ss, Inr (Some a, [], []))
    \<and> healthy s' \<and> stored s' = Some a"
proof -
  obtain s1 x where open': "rp_load_or_open repo (op_disk op 0) (op_env op) default_initial_cash s = (s1, x)" by fastforce
  show ?thesis
    using opens [OF assms(1,2) open'] open' assms(3,4)
    by (simp add: load_account_after_reconcile_def reconcile_pending_sleeves_def list_pending_sleeves_def values_sorted_def
        reconcile_execution_journals_def load_pending_execution_journals_def)
qed

lemma run_leaves:
  assumes "healthy s" and "stored s = Some a" and "ss_pending ss = []" and "ss_journals ss = []"
    and "ensure_manual_sleeve_cash a = a" and "books_agree a ss" and "distinct (map cd_execution_id cs)"
    and "\<forall>c \<in> set cs. \<not> account_has_execution a (cd_execution_id c)"
    and "\<forall>i k. i < k \<longrightarrow> op_now op i < op_now op k"
    and run: "run_candidates repo op due only cs s ss = (s', ss', r)"
  shows "healthy s' \<and> (\<exists>js b c. stored s' = Some c \<and>
     (open_run a js b ss' \<and> c \<in> {a, ensure_manual_sleeve_cash b} \<and> (\<exists>e. r = Inl e)
      \<or> ss_journals ss' = [] \<and> ss_pending ss' = [] \<and> books_agree c ss'
        \<and> (\<forall>res. r = Inr res \<longrightarrow> c = ensure_manual_sleeve_cash (or_account res))))"
proof -
  obtain s1 where load: "load_account_after_reconcile repo op True s ss = (s1, ss, Inr (Some a, [], []))"
    "healthy s1" "stored s1 = Some a"
    using load_settled_files [OF assms(1-4)] by blast
  have quiet: "open_run a [] a ss"
    using assms(3,4,6) by (simp add: open_run_def journals_written_def)
  let ?scan = "case only of None \<Rightarrow> Inr (list_sleeves ss) | Some i \<Rightarrow> rbind (load_sleeve i ss) (\<lambda>s. Inr [s])"
  show ?thesis
  proof (cases ?scan)
    case (Inl e)
    then have "s' = s1" "ss' = ss" "r = Inl e"
      using run load by (simp_all add: run_candidates_def)
    then show ?thesis using load assms(3,4,6) by auto
  next
    case (Inr scanned)
    obtain st missed where expire: "expire_sleeves op due a scanned ss = (st, missed)" by fastforce
    note books = expire_sleeves_books [OF expire]
    let ?b = "\<lparr>bt_account = a, bt_cache = [], bt_store = st, bt_processed = []\<rparr>"
    obtain b z where decide: "decide_candidates op 0 cs ?b = (b, z)" by fastforce
    have agrees: "batch_agrees b"
      using batch_agrees_all [OF decide] books assms(3,6) books_agree_kept [of a ss st] by (simp add: batch_agrees_def)
    have "batch_run a [] ?b"
      using books assms(4) by (simp add: batch_run_def with_status_def journals_written_def)
    from batch_run_all [OF decide this assms(7) _ _ assms(9)]
    obtain js where js: "batch_run a js b" "jr_execution_id ` set js \<subseteq> cd_execution_id ` set cs"
      by auto
    then have left: "open_run a js (bt_account b) (bt_store b)"
      using agrees assms(8) by (auto simp: open_run_def batch_run_def batch_agrees_def)
    show ?thesis
    proof (cases z)
      case (Inl e)
      then have "s' = s1" "ss' = bt_store b" "r = Inl e"
        using run load Inr expire decide by (simp_all add: run_candidates_def)
      then show ?thesis using load left by auto
    next
      case z: (Inr u)
      define saved where "saved = (if bt_processed b = [] then (s1, Inr ()) else save_account_snapshot repo op 2 (bt_account b) s1)"
      obtain s2 y where y: "saved = (s2, y)" by fastforce
      have id: "pa_id (bt_account b) = pa_id a"
        using js(1) chain_id by (auto simp: batch_run_def)
      have none: "bt_processed b = [] \<Longrightarrow> bt_account b = a \<and> js = []"
        using js(1) by (auto simp: batch_run_def with_status_def)
      have s2: "healthy s2 \<and> (\<forall>v. y = Inr v \<longrightarrow> stored s2 = Some (ensure_manual_sleeve_cash (bt_account b)))
        \<and> (\<forall>e. y = Inl e \<longrightarrow> stored s2 \<in> {Some a, Some (ensure_manual_sleeve_cash (bt_account b))})"
      proof (cases "bt_processed b = []")
        case True
        then have "s2 = s1" "y = Inr ()" "ensure_manual_sleeve_cash (bt_account b) = a"
          using y none assms(5) by (simp_all add: saved_def)
        then show ?thesis using load(2,3) by simp
      next
        case False
        then have "save_account_snapshot repo op 2 (bt_account b) s1 = (s2, y)"
          using y by (simp add: saved_def)
        note saved = save_snapshot_settles [OF load(2,3) id this]
        show ?thesis using saved(1-3) by blast
      qed
      show ?thesis
      proof (cases y)
        case (Inl e)
        then have "s' = s2" "ss' = bt_store b" "r = Inl e"
          using run load Inr expire decide z y
          by (simp_all add: run_candidates_def finish_batch_def saved_def)
        then show ?thesis using s2 Inl left by blast
      next
        case y': (Inr v)
        have chain: "journal_chain a js (bt_account b)" "distinct (map jr_execution_id js)"
          "ss_journals (bt_store b) = map (\<lambda>j. (journal_key j, Some j)) js"
          "with_status PlanFilled (bt_processed b) = map jr_after_execution js"
          using js(1) by (simp_all add: batch_run_def)
        obtain st' where st': "commit_recovered (map jr_after_execution js) (bt_store b) = (st', Inr ())"
          "ss_journals st' = []" "ss_sleeves st' = ss_sleeves (bt_store b)" "ss_pending st' = ss_pending (bt_store b)"
          using commit_recovered_run [OF chain(1-3)] by blast
        have finish: "finish_batch repo op b s1 = (s2, st', Inr ())"
          using y y' st'(1) by (simp add: finish_batch_def saved_def chain(4))
        have "s' = s2" "ss' = st'" "\<exists>res. r = Inr res \<and> or_account res = bt_account b"
          using run load Inr expire decide z finish by (auto simp: run_candidates_def)
        moreover have "books_agree (ensure_manual_sleeve_cash (bt_account b)) st'"
          using agrees st'(3) books_agree_ensure books_agree_kept by (auto simp: batch_agrees_def)
        ultimately show ?thesis
          using s2 y' st'(2,4) agrees by (auto simp: batch_agrees_def)
      qed
    qed
  qed
qed

lemma recovery_settles:
  assumes "healthy s" and "stored s = Some c" and "open_run a js b ss" and "ensure_manual_sleeve_cash a = a"
    and "c \<in> {a, ensure_manual_sleeve_cash b}" and quotes: "\<And>symbols. \<exists>q. op_quotes op 1 symbols = Inr q"
    and disk: "atomic_replace (op_disk op 1)" "dk_snapshot (op_disk op 1)"
  shows "\<exists>s' ss' rr c'. recover_pending_once repo op s ss = (s', ss', Inr rr) \<and> stored s' = Some c'
    \<and> books_agree c' ss' \<and> ss_journals ss' = [] \<and> rr_recovered_executions rr = length js"
proof -
  obtain s1 where load: "rp_load repo s = (s1, Some c)" "healthy s1" "stored s1 = Some c"
    using load_reads [of s "fst (rp_load repo s)" "snd (rp_load repo s)"] assms(1,2) by (cases "rp_load repo s") auto
  obtain c' st' where reconcile: "reconcile_execution_journals (op_called_at op) False c ss = (c', st', Inr (map jr_after_execution js))"
    "books_agree c' st'" "ss_journals st' = ss_journals ss" "ss_pending st' = []" "pa_id c' = pa_id a" "js = [] \<Longrightarrow> c' = c"
    using reconcile_open_run [OF assms(3-5)] by blast
  have chain: "journal_chain a js b" "distinct (map jr_execution_id js)" "ss_pending ss = []"
    "ss_journals ss = map (\<lambda>j. (journal_key j, Some j)) js"
    using assms(3) by (simp_all add: open_run_def)
  have none: "reconcile_pending_sleeves account ss = (ss, Inr [])" for account
    by (simp add: reconcile_pending_sleeves_def list_pending_sleeves_def values_sorted_def chain(3))
  have id: "pa_id c' = pa_id c"
    using reconcile(5) assms(5) chain_id [OF chain(1)] by auto
  show ?thesis
  proof (cases "js = []")
    case True
    then have "load_account_after_reconcile repo op False s ss = (s1, st', Inr (Some c', [], []))"
      using load(1) none reconcile(1) by (simp add: load_account_after_reconcile_def)
    then show ?thesis
      using True load reconcile chain(4) by (auto simp: recover_pending_once_def Let_def)
  next
    case False
    obtain s2 y where save: "save_account_snapshot repo op 1 c' s1 = (s2, y)" by fastforce
    note saved = save_snapshot_settles [OF load(2,3) id save]
    have y: "y = Inr ()"
      by (rule saved(4)) (use quotes disk in auto)
    have "ss_journals st' = map (\<lambda>j. (journal_key j, Some j)) js"
      using reconcile(3) chain(4) by simp
    then obtain st2 where st2: "commit_recovered (map jr_after_execution js) st' = (st2, Inr ())"
      "ss_journals st2 = []" "ss_sleeves st2 = ss_sleeves st'"
      using commit_recovered_run [OF chain(1,2)] by blast
    have "load_account_after_reconcile repo op False s ss = (s2, st2, Inr (Some c', [], map jr_after_execution js))"
      using load(1) none reconcile(1) False save y st2(1) by (simp add: load_account_after_reconcile_def)
    moreover have "books_agree (ensure_manual_sleeve_cash c') st2"
      using reconcile(2) st2(3) books_agree_ensure books_agree_kept by blast
    ultimately show ?thesis
      using saved(2) [OF y] st2(2) by (auto simp: recover_pending_once_def Let_def)
  qed
qed

lemma recovery_quiet:
  assumes "healthy s" and "stored s = Some c" and "ss_pending ss = []" and "ss_journals ss = []" and "books_agree c ss"
  shows "\<exists>s' ss' rr c'. recover_pending_once repo op s ss = (s', ss', Inr rr) \<and> stored s' = Some c'
    \<and> books_agree c' ss' \<and> ss_journals ss' = []"
proof -
  obtain s1 where load: "rp_load repo s = (s1, Some c)" "stored s1 = Some c"
    using load_reads [of s "fst (rp_load repo s)" "snd (rp_load repo s)"] assms(1,2) by (cases "rp_load repo s") auto
  then have "load_account_after_reconcile repo op False s ss = (s1, ss, Inr (Some c, [], []))"
    using assms(3,4)
    by (simp add: load_account_after_reconcile_def reconcile_pending_sleeves_def list_pending_sleeves_def values_sorted_def
        reconcile_execution_journals_def load_pending_execution_journals_def)
  then show ?thesis
    using load assms(4,5) by (simp add: recover_pending_once_def Let_def)
qed

end

text \<open>C27: A batch and its recovery settle the books. The batch starts on files without pending sleeves or
  journals whose account and sleeves agree, with plans that are different and new to the account, and its
  clock moves between two decisions (two fills in one tick would leave journals in the order of their paths,
  which recovery cannot replay). If it answers, the account it answers with is on file, no journal is open,
  and account and sleeve files agree. Whatever it raises and wherever (prices, files, a plan), the next
  recovery with prices and a disk answers and leaves no journal open and account and sleeve files agreeing.
  This holds with a mirror whatever the mirror does.\<close>

theorem batch_and_recovery_settle:
  assumes "readable_primary rt now (dw_file d)" and "stored_account rt now (dw_file d) = Some a"
    and "ss_pending ss = []" and "ss_journals ss = []" and "ensure_manual_sleeve_cash a = a" and "books_agree a ss"
    and "distinct (map cd_execution_id cs)" and "\<forall>c \<in> set cs. \<not> account_has_execution a (cd_execution_id c)"
    and "\<forall>i k. i < k \<longrightarrow> op_now op i < op_now op k"
    and run: "run_candidates (dual_repository mi rt now) op due only cs d ss = (d1, ss1, r)"
    and "\<forall>symbols. \<exists>q. op_quotes op' 1 symbols = Inr q" and "atomic_replace (op_disk op' 1)" and "dk_snapshot (op_disk op' 1)"
  shows "(\<forall>res. r = Inr res \<longrightarrow>
      stored_account rt now (dw_file d1) = Some (ensure_manual_sleeve_cash (or_account res)) \<and> ss_journals ss1 = []
      \<and> books_agree (ensure_manual_sleeve_cash (or_account res)) ss1)
    \<and> (\<exists>d2 ss2 rr c. recover_pending_once (dual_repository mi rt now) op' d1 ss1 = (d2, ss2, Inr rr)
      \<and> stored_account rt now (dw_file d2) = Some c \<and> books_agree c ss2 \<and> ss_journals ss2 = [])"
proof -
  from dual_requests.run_leaves [OF assms(1-10)] obtain js b c where
    ok: "readable_primary rt now (dw_file d1)" "stored_account rt now (dw_file d1) = Some c" and
    left: "open_run a js b ss1 \<and> c \<in> {a, ensure_manual_sleeve_cash b} \<and> (\<exists>e. r = Inl e)
      \<or> ss_journals ss1 = [] \<and> ss_pending ss1 = [] \<and> books_agree c ss1
        \<and> (\<forall>res. r = Inr res \<longrightarrow> c = ensure_manual_sleeve_cash (or_account res))"
    by blast
  from left show ?thesis
  proof
    assume "open_run a js b ss1 \<and> c \<in> {a, ensure_manual_sleeve_cash b} \<and> (\<exists>e. r = Inl e)"
    then show ?thesis
      using dual_requests.recovery_settles [OF ok, of a js b ss1 op' mi] assms(5,11-13) by blast
  next
    assume "ss_journals ss1 = [] \<and> ss_pending ss1 = [] \<and> books_agree c ss1
        \<and> (\<forall>res. r = Inr res \<longrightarrow> c = ensure_manual_sleeve_cash (or_account res))"
    then show ?thesis
      using dual_requests.recovery_quiet [OF ok, of ss1 mi op'] ok(2) by blast
  qed
qed

section \<open>An interrupted batch on concrete files\<close>

definition example_run :: batch where
  "example_run = \<lparr>bt_account = xt_account example_state, bt_cache = [], bt_store = example_sleeves, bt_processed = []\<rparr>"

lemma example_start:
  "ensure_manual_sleeve_cash (xt_account example_state) = xt_account example_state"
  "ss_journals example_sleeves = []" "ss_pending example_sleeves = []"
  "\<not> account_has_execution (xt_account example_state) ''x1''"
  "books_agree (xt_account example_state) example_sleeves"
  by (rule example_books, simp_all add: example_sleeves_def empty_store_def account_has_execution_def example_state_def
      example_account_def books_agree_def load_sleeve_def example_sleeve_def split: option.splits)

theorem interrupted_batch_is_recovered_witness:
  "\<exists>c b' st plans. decide_candidates example_operations 0 [c] example_run = (b', Inr ())
    \<and> reconcile_execution_journals ''later'' False (xt_account example_state) (bt_store b')
        = (ensure_manual_sleeve_cash (bt_account b'), st, Inr plans)
    \<and> map xp_id plans = [''x1''] \<and> (\<forall>i. load_sleeve i st = load_sleeve i (bt_store b'))"
proof -
  obtain c where c: "cd_execution_id c = ''x1''" "cd_sleeve_id c = ''s1''"
    "prepare_candidates example_operations 0 example_sleeves [(example_sleeve, example_plan)] = Inr [c]"
    by (rule example_candidates)
  have "case prepare_candidates example_operations 0 example_sleeves [(example_sleeve, example_plan)] of
      Inr cs \<Rightarrow> (case decide_candidates example_operations 0 cs example_run of
          (b', Inr u) \<Rightarrow> map xp_id (with_status PlanFilled (bt_processed b')) = [''x1''] | _ \<Rightarrow> False)
    | _ \<Rightarrow> False"
    by code_simp
  then obtain b' where run: "decide_candidates example_operations 0 [c] example_run = (b', Inr ())"
    and plans: "map xp_id (with_status PlanFilled (bt_processed b')) = [''x1'']"
    using c(3) by (auto split: prod.splits sum.splits)
  have "ss_journals (bt_store example_run) = []" "bt_processed example_run = []"
    "ensure_manual_sleeve_cash (bt_account example_run) = bt_account example_run"
    "distinct (map cd_execution_id [c])"
    "\<forall>c \<in> set [c]. \<not> account_has_execution (bt_account example_run) (cd_execution_id c)"
    using example_start c(1) by (simp_all add: example_run_def)
  moreover have account: "bt_account example_run = xt_account example_state"
    by (simp add: example_run_def)
  ultimately obtain st where "reconcile_execution_journals ''later'' False (xt_account example_state) (bt_store b')
        = (ensure_manual_sleeve_cash (bt_account b'), st, Inr (with_status PlanFilled (bt_processed b')))"
    "\<forall>i. load_sleeve i st = load_sleeve i (bt_store b')"
    using interrupted_batch_is_recovered [OF run _ _ _ _ _ example_clock, of "''later''"] unfolding account by blast
  then show ?thesis
    using plans run
    by (intro exI [of _ c] exI [of _ b'] exI [of _ st] exI [of _ "with_status PlanFilled (bt_processed b')"] conjI)
qed

theorem batch_and_recovery_settle_witness:
  "\<exists>c d1 ss1 r d2 ss2 rr a. run_candidates (dual_repository broken_mirror no_runtime ''t1'') example_operations ''2026-01-05'' None [c]
      (open_dual example_account_files ()) example_sleeves = (d1, ss1, r) \<and> cd_execution_id c = ''x1''
    \<and> recover_pending_once (dual_repository broken_mirror no_runtime ''t1'') (online example_operations) d1 ss1 = (d2, ss2, Inr rr)
    \<and> stored_account no_runtime ''t1'' (dw_file d2) = Some a \<and> books_agree a ss2 \<and> ss_journals ss2 = []"
proof -
  obtain c :: candidate where c: "cd_execution_id c = ''x1''" "cd_sleeve_id c = ''s1''"
    by (rule example_candidates)
  have files: "readable_primary no_runtime ''t1'' (dw_file (open_dual example_account_files ()))"
    "stored_account no_runtime ''t1'' (dw_file (open_dual example_account_files ())) = Some (xt_account example_state)"
    using load_saved_file [of "example_account\<lparr>pa_id := ''acct''\<rparr>"] example_start(1)
    by (simp_all add: stored_account_eq readable_primary_def example_account_files_def open_dual_def example_state_def)
  have ids: "distinct (map cd_execution_id [c])" "\<forall>c \<in> set [c]. \<not> account_has_execution (xt_account example_state) (cd_execution_id c)"
    using c example_start(4) by simp_all
  have world: "\<forall>symbols. \<exists>q. op_quotes (online example_operations) 1 symbols = Inr q"
    "atomic_replace (op_disk (online example_operations) 1)" "dk_snapshot (op_disk (online example_operations) 1)"
    using disks by (simp_all add: online_def example_operations_def)
  obtain d1 ss1 r where run: "run_candidates (dual_repository broken_mirror no_runtime ''t1'') example_operations ''2026-01-05'' None [c]
      (open_dual example_account_files ()) example_sleeves = (d1, ss1, r)"
    using prod_cases3 by blast
  show ?thesis
    using batch_and_recovery_settle [OF files example_start(3,2,1,5) ids example_clock run world] run c(1) by blast
qed

end
