(* ===== verification/ReplacementJournal.thy ===== *)
theory ReplacementJournal
  imports Recovery
begin

text \<open>
  The journals of strategy replacements (\<open>src/quant_system/execution/strategy_replacement.py\<close>): the
  write-ahead record of one replacement, the guard that freezes a sleeve while one is open, the
  snapshot of everything a replacement must leave alone, and the audits that read the finished
  records back: the edges of a sleeve's identity, the search that bridges two observations of it and
  its version timeline. A record is a typed model; its canonical hashes are arguments. The lemmas show
  that only evidence naming a sleeve can freeze it, that the search decides reachability over the
  audited edges and always ends, and that a verified timeline is one chain of versions.
\<close>

section \<open>Records\<close>

datatype replacement_phase = PhPrepared | PhPaused | PhConfigSaved | PhBookBound | PhReadyToResume
  | PhCommitted | PhBindingRestored | PhNeedsPreflight | PhAborting | PhReadyToAbort | PhAborted
  | PhRecoveryRequired

fun phase_str :: "replacement_phase \<Rightarrow> string" where
  "phase_str PhPrepared = ''prepared''"
| "phase_str PhPaused = ''paused''"
| "phase_str PhConfigSaved = ''config_saved''"
| "phase_str PhBookBound = ''book_bound''"
| "phase_str PhReadyToResume = ''ready_to_resume''"
| "phase_str PhCommitted = ''committed''"
| "phase_str PhBindingRestored = ''binding_restored_for_recheck''"
| "phase_str PhNeedsPreflight = ''needs_preflight''"
| "phase_str PhAborting = ''aborting''"
| "phase_str PhReadyToAbort = ''ready_to_abort''"
| "phase_str PhAborted = ''aborted''"
| "phase_str PhRecoveryRequired = ''recovery_required''"

definition replacement_schema :: string where
  "replacement_schema = ''same_contract_strategy_replacement/v1''"

definition marker :: string where
  "marker = ''strategy_replacement_id''"

definition performance_scope :: string where
  "performance_scope = ''cumulative_sleeve_history_across_versions''"

definition same_fields :: "string list" where
  "same_fields = [''symbols'', ''benchmark_symbol'', ''provider'', ''price_adjustment'', ''execution_price'',
     ''rebalance'', ''commission_bps'', ''slippage_bps'', ''whole_share_orders'', ''min_order_value'']"

record replacement_request =
  rq_target_candidate :: string
  rq_target_sleeve :: string
  rq_old_digest :: string
  rq_old_version :: int
  rq_new_candidate :: string
  rq_new_source :: string
  rq_admission :: string

definition request_document :: "replacement_request \<Rightarrow> metadata" where
  "request_document rq =
     [(''target_candidate_id'', VStr (rq_target_candidate rq)), (''target_sleeve_id'', VStr (rq_target_sleeve rq)),
      (''expected_old_definition_digest'', VStr (rq_old_digest rq)),
      (''expected_old_config_version'', VInt (rq_old_version rq)),
      (''new_candidate_id'', VStr (rq_new_candidate rq)), (''expected_new_source_digest'', VStr (rq_new_source rq)),
      (''expected_admission_sha256'', VStr (rq_admission rq))]"

text \<open>What a replacement must leave alone; \<open>ec_history\<close> holds the hash of each file of the sleeve.\<close>

record economics =
  ec_account_id :: string
  ec_sleeve_id :: string
  ec_initial_cash :: rat
  ec_sleeve_cash :: rat
  ec_account_sleeve_cash :: "rat option"
  ec_owned :: "(string, rat) dict"
  ec_ledger :: "ledger_entry list"
  ec_history :: "(string, string) dict"

text \<open>The record; \<open>rp_abort\<close> is \<open>recovery_action == "abort"\<close>, the only value ever written.\<close>

record replacement =
  rp_schema :: string
  rp_id :: string
  rp_request :: replacement_request
  rp_phase :: replacement_phase
  rp_events :: "(string \<times> string) list"
  rp_admission :: metadata
  rp_old_candidate :: metadata
  rp_new_candidate :: metadata
  rp_old_sleeve :: strategy_sleeve
  rp_old_config :: strategy_config
  rp_latest_before :: strategy_config
  rp_new_config :: strategy_config
  rp_economic :: economics
  rp_lots :: "sleeve_lot list"
  rp_lots_digest :: string
  rp_committed_at :: "string option"
  rp_new_sleeve :: "strategy_sleeve option"
  rp_abort :: bool
  rp_restored :: "strategy_sleeve option"
  rp_aborted_at :: "string option"
  rp_blocker :: "string option"
  rp_error :: "string option"
  rp_digest :: string

text \<open>
  What a file \<open>replacement-*.json\<close> holds: nothing that can be read, text that is not JSON (with the
  target ids the text names), a JSON object that is no record (with its target), or a record.
\<close>

datatype journal_file = Unreadable | Garbled "string list" | Foreign "string option" | Record replacement

type_synonym journal_files = "(string, journal_file) dict"

text \<open>
  The collaborators: the canonical hash of a document, the hash of a record's fields but
  \<open>journal_digest\<close>, the hash of a sleeve's file, the strict and the historical reader of a definition,
  and the owner's library: the resolved path, whether it lies inside the library, the hash of the file
  there and what it parses to.
\<close>

datatype sleeve_file = LotsFile "sleeve_lot list" | SignalsFile "strategy_signal list"
  | ExecutionsFile "execution_plan list" | DemotedFile metadata | JournalFile "journal option" | CorruptFile

record replacement_env =
  re_runtime :: runtime
  re_sha256 :: "pyval \<Rightarrow> string"
  re_seal :: "replacement \<Rightarrow> string"
  re_file_sha :: "sleeve_file \<Rightarrow> string"
  re_validate :: "pyval \<Rightarrow> strategy_definition result"
  re_model :: "pyval \<Rightarrow> strategy_definition result"
  re_resolve :: "string \<Rightarrow> string"
  re_owned :: "string \<Rightarrow> bool"
  re_file :: "string \<Rightarrow> (string \<times> pyval option) option"
  re_config_inside :: "string \<Rightarrow> bool"
  re_offset :: "string \<Rightarrow> bool result"

definition require :: "bool \<Rightarrow> string \<Rightarrow> unit result" where
  "require condition reason = (if condition then Inr () else Inl (ValueError reason))"

text \<open>\<open>d[k]\<close>.\<close>

definition need :: "metadata \<Rightarrow> string \<Rightarrow> pyval result" where
  "need d k = (case map_of d k of None \<Rightarrow> Inl (KeyError (repr_str k)) | Some v \<Rightarrow> Inr v)"

definition given :: "'a option \<Rightarrow> string \<Rightarrow> 'a result" where
  "given x k = (case x of None \<Rightarrow> Inl (KeyError (repr_str k)) | Some y \<Rightarrow> Inr y)"

text \<open>\<open>d == e\<close> of two dicts.\<close>

definition same_document :: "metadata \<Rightarrow> metadata \<Rightarrow> bool" where
  "same_document d e \<longleftrightarrow> py_eq (VDict d) (VDict e)"

text \<open>The exceptions the audits turn into a verdict.\<close>

fun is_os_error :: "py_error \<Rightarrow> bool" where
  "is_os_error (FileNotFoundError _) = True"
| "is_os_error (FileExistsError _) = True"
| "is_os_error (OSError _) = True"
| "is_os_error _ = False"

fun is_value_error :: "py_error \<Rightarrow> bool" where
  "is_value_error (ValueError _) = True"
| "is_value_error ValidationError = True"
| "is_value_error _ = False"

fun evidence_error :: "py_error \<Rightarrow> bool" where
  "evidence_error (KeyError _) = True"
| "evidence_error (TypeError _) = True"
| "evidence_error e = (is_os_error e \<or> is_value_error e)"

definition valid_replacement_id :: "string \<Rightarrow> bool" where
  "valid_replacement_id s \<longleftrightarrow> starts_with ''replacement-'' s \<and> length s = 36 \<and> list_all is_hex (drop 12 s)"

definition replacement_identity :: "replacement_env \<Rightarrow> replacement_request \<Rightarrow> string" where
  "replacement_identity re rq = ''replacement-'' @ take 24 (re_sha256 re (VDict (request_document rq)))"

definition sealed :: "replacement_env \<Rightarrow> replacement \<Rightarrow> bool" where
  "sealed re r \<longleftrightarrow> rp_digest r = re_seal re (r\<lparr>rp_digest := []\<rparr>)"

text \<open>\<open>_journal_matches\<close>, of a record under the stem of its file.\<close>

definition journal_matches :: "replacement_env \<Rightarrow> replacement \<Rightarrow> string \<Rightarrow> bool" where
  "journal_matches re r identity \<longleftrightarrow> rp_schema r = replacement_schema \<and> rp_id r = identity \<and> sealed re r"

definition load_journal :: "replacement_env \<Rightarrow> string \<Rightarrow> journal_files \<Rightarrow> replacement result" where
  "load_journal re identity files =
     (if \<not> valid_replacement_id identity then Inl (ValueError ''replacement_id_invalid'')
      else case map_of files identity of
        None \<Rightarrow> Inl (FileNotFoundError (identity @ ''.json''))
      | Some Unreadable \<Rightarrow> Inl (OSError (identity @ ''.json''))
      | Some (Garbled _) \<Rightarrow> Inl (ValueError ''not a JSON document'')
      | Some (Foreign _) \<Rightarrow> Inl (ValueError ''replacement_journal_changed'')
      | Some (Record r) \<Rightarrow>
          rbind (require (journal_matches re r identity \<and> identity = replacement_identity re (rp_request r))
                   ''replacement_journal_changed'') (\<lambda>_. Inr r))"

section \<open>The guard\<close>

lemma unvisited_decreases:
  assumes "map_of files k = Some f" and "k \<notin> set visited"
  shows "length (filter (\<lambda>j. j \<notin> set (k # visited)) (map fst files))
    < length (filter (\<lambda>j. j \<notin> set visited) (map fst files))"
proof -
  have "k \<in> set (filter (\<lambda>j. j \<notin> set visited) (map fst files))"
    using assms by (force dest: map_of_SomeD)
  then have "length (filter (\<lambda>j. j \<noteq> k) (filter (\<lambda>j. j \<notin> set visited) (map fst files)))
      < length (filter (\<lambda>j. j \<notin> set visited) (map fst files))"
    by (rule length_filter_less) simp
  then show ?thesis
    by (simp add: conj_commute)
qed

text \<open>
  \<open>_aborted_history_contains\<close>: back through the aborted records of the sleeve; \<open>visited\<close> are the ids
  read so far.
\<close>

function aborted_chain ::
    "replacement_env \<Rightarrow> journal_files \<Rightarrow> strategy_sleeve \<Rightarrow> string \<Rightarrow> pyval \<Rightarrow> string list \<Rightarrow> bool result" where
  "aborted_chain re files s ancestor current visited =
     (if \<not> truthy current then Inr False
      else case current of
        VStr identity \<Rightarrow>
          if identity \<in> set visited then Inr False
          else if \<not> valid_replacement_id identity then Inl (ValueError ''replacement_abort_history_invalid'')
          else (case map_of files identity of
              None \<Rightarrow> Inl (FileNotFoundError (identity @ ''.json''))
            | Some Unreadable \<Rightarrow> Inl (OSError (identity @ ''.json''))
            | Some (Garbled _) \<Rightarrow> Inl (ValueError ''not a JSON document'')
            | Some (Foreign _) \<Rightarrow> Inl (ValueError ''replacement_journal_changed'')
            | Some (Record r) \<Rightarrow>
                if \<not> journal_matches re r identity then Inl (ValueError ''replacement_journal_changed'')
                else if rp_phase r \<noteq> PhAborted \<or> rq_target_sleeve (rp_request r) \<noteq> sv_id s
                  \<or> sc_version (rp_old_config r) \<noteq> sv_config_version s
                then Inr False
                else if identity = ancestor then Inr True
                else aborted_chain re files s ancestor
                       (meta_get (sv_metadata (rp_old_sleeve r)) ''replacement_aborted_id'') (identity # visited))
      | _ \<Rightarrow> Inl (ValueError ''replacement_abort_history_invalid''))"
  by pat_completeness auto

termination
  by (relation "measure (\<lambda>(re, files, s, ancestor, current, visited).
        length (filter (\<lambda>j. j \<notin> set visited) (map fst files)))")
    (use unvisited_decreases in \<open>auto simp del: filter_map\<close>)

definition aborted_history_contains ::
    "replacement_env \<Rightarrow> journal_files \<Rightarrow> strategy_sleeve \<Rightarrow> string \<Rightarrow> bool result" where
  "aborted_history_contains re files s ancestor =
     aborted_chain re files s ancestor (meta_get (sv_metadata s) ''replacement_aborted_id'') []"

text \<open>Whether one file freezes the sleeve; an error of the chain does.\<close>

definition journal_freezes ::
    "replacement_env \<Rightarrow> journal_files \<Rightarrow> strategy_sleeve \<Rightarrow> string \<times> journal_file \<Rightarrow> bool" where
  "journal_freezes re files s entry =
     (case snd entry of
        Unreadable \<Rightarrow> False
      | Garbled ids \<Rightarrow> sv_id s \<in> set ids
      | Foreign target \<Rightarrow> target = Some (sv_id s)
      | Record r \<Rightarrow>
          if rq_target_sleeve (rp_request r) \<noteq> sv_id s then False
          else if \<not> journal_matches re r (fst entry) then True
          else if rp_phase r = PhCommitted then
            (let version = sc_version (rp_new_config r)
             in sv_config_version s < version \<or> sv_config_version s = version
                \<and> meta_get (sv_metadata s) ''replacement_committed_id'' \<noteq> VStr (rp_id r))
          else if rp_phase r = PhAborted then
            (let version = sc_version (rp_old_config r)
             in sv_config_version s < version \<or> sv_config_version s = version
                \<and> aborted_history_contains re files s (rp_id r) \<noteq> Inr True)
          else True)"

definition sleeve_replacement_pending ::
    "replacement_env \<Rightarrow> journal_files \<Rightarrow> strategy_sleeve \<Rightarrow> bool" where
  "sleeve_replacement_pending re files s \<longleftrightarrow>
     truthy (meta_get (sv_metadata s) marker) \<or> list_ex (journal_freezes re files s) files"

section \<open>What a replacement leaves alone\<close>

definition owned_quantities :: "string \<Rightarrow> paper_account \<Rightarrow> (string, rat) dict" where
  "owned_quantities source a =
     filter (\<lambda>(symbol, q). q \<noteq> 0) (map (\<lambda>(symbol, p). (symbol, dict_get (ap_sources p) source 0)) (pa_positions a))"

fun lot_totals ::
    "string \<Rightarrow> string \<Rightarrow> sleeve_lot list \<Rightarrow> (string, rat) dict \<Rightarrow> (string, rat) dict result" where
  "lot_totals account_id sleeve_id [] totals = Inr totals"
| "lot_totals account_id sleeve_id (l # ls) totals =
     (if lt_sleeve_id l \<noteq> sleeve_id \<or> lt_account_id l \<noteq> account_id
      then Inl (ValueError ''replacement_lot_owner_mismatch'')
      else lot_totals account_id sleeve_id ls
             (AList.update (lt_symbol l) (dict_get totals (lt_symbol l) 0 + lt_quantity l) totals))"

definition file_of :: "string \<Rightarrow> ('a \<Rightarrow> sleeve_file) \<Rightarrow> 'a option \<Rightarrow> (string \<times> sleeve_file) list" where
  "file_of name file content = (case content of None \<Rightarrow> [] | Some v \<Rightarrow> [(name, file v)])"

text \<open>The files under the sleeve's directory but \<open>sleeve.json\<close> and \<open>sleeve.pending.json\<close>.\<close>

definition sleeve_files :: "string \<Rightarrow> sleeve_store \<Rightarrow> (string \<times> sleeve_file) list" where
  "sleeve_files sleeve_id st =
     (let journal = (\<lambda>suffix d. map (\<lambda>((_, execution_id), j). (''execution_journal/'' @ execution_id @ suffix, JournalFile j))
                       (filter (\<lambda>((owner, _), _). owner = sleeve_id) d))
      in file_of ''lots.parquet'' LotsFile (map_of (ss_lots st) sleeve_id)
         @ file_of ''signals.jsonl'' SignalsFile (map_of (ss_signals st) sleeve_id)
         @ file_of ''executions.jsonl'' ExecutionsFile (map_of (ss_executions st) sleeve_id)
         @ file_of ''demoted.json'' DemotedFile (map_of (ss_demoted st) sleeve_id)
         @ journal ''.pending.json'' (ss_journals st) @ journal ''.committed.json'' (ss_committed st)
         @ map (\<lambda>(_, execution_id). (''execution_journal/'' @ execution_id @ ''.corrupt.json'', CorruptFile))
             (filter (\<lambda>(owner, _). owner = sleeve_id) (ss_corrupt st)))"

definition history_files :: "replacement_env \<Rightarrow> string \<Rightarrow> sleeve_store \<Rightarrow> (string, string) dict" where
  "history_files re sleeve_id st = map (\<lambda>(name, f). (name, re_file_sha re f)) (sleeve_files sleeve_id st)"

definition lot_dust_close :: "rat \<Rightarrow> rat \<Rightarrow> bool" where
  "lot_dust_close x y \<longleftrightarrow> \<bar>x - y\<bar> \<le> 1 / 10 ^ 8"

definition economic_snapshot ::
    "replacement_env \<Rightarrow> paper_account \<Rightarrow> sleeve_store \<Rightarrow> strategy_sleeve \<Rightarrow> economics result" where
  "economic_snapshot re a st s =
     rbind (require (pa_id a = sv_account_id s) ''replacement_account_sleeve_mismatch'') (\<lambda>_.
     rbind (lot_totals (pa_id a) (sv_id s) (load_sleeve_lots (sv_id s) st) []) (\<lambda>lots.
       let source = sleeve_source (sv_id s); owned = owned_quantities source a
       in rbind (require (set (map fst owned) = set (map fst lots)
              \<and> list_all (\<lambda>(symbol, quantity). lot_dust_close (dict_get owned symbol 0) quantity
                  \<and> quantity \<le> position_quantity a symbol + 1 / 10 ^ 8) lots)
            ''replacement_lot_account_mismatch'') (\<lambda>_.
          rbind (require (map_of (pa_sleeve_cash a) (sv_id s) = Some (sv_cash s)) ''replacement_cash_partition_mismatch'') (\<lambda>_.
            Inr \<lparr>ec_account_id = pa_id a, ec_sleeve_id = sv_id s, ec_initial_cash = sv_initial_cash s,
                 ec_sleeve_cash = sv_cash s, ec_account_sleeve_cash = map_of (pa_sleeve_cash a) (sv_id s),
                 ec_owned = owned, ec_ledger = filter (\<lambda>e. le_source e = source) (pa_ledger a),
                 ec_history = history_files re (sv_id s) st\<rparr>))))"

text \<open>\<open>==\<close> of two snapshots: the dictionaries in any order.\<close>

definition economics_same :: "economics \<Rightarrow> economics \<Rightarrow> bool" where
  "economics_same e f \<longleftrightarrow>
     e\<lparr>ec_owned := [], ec_history := []\<rparr> = f\<lparr>ec_owned := [], ec_history := []\<rparr>
     \<and> dict_same (=) (ec_owned e) (ec_owned f) \<and> dict_same (=) (ec_history e) (ec_history f)"

definition no_pending :: "paper_account \<Rightarrow> sleeve_store \<Rightarrow> strategy_sleeve \<Rightarrow> unit result" where
  "no_pending a st s =
     rbind (require (map_of (ss_pending st) (sv_id s) = None) ''replacement_sleeve_pending'') (\<lambda>_.
     rbind (require (\<not> list_ex (\<lambda>o'. po_source o' = sleeve_source (sv_id s)) (pa_pending a))
              ''replacement_pending_orders'') (\<lambda>_.
     rbind (require (\<not> list_ex (\<lambda>p. xp_status p \<in> {PlanPending, PlanBlocked, PlanPartiallyFilled})
                        (load_executions (sv_id s) st)) ''replacement_pending_execution'') (\<lambda>_.
       require (\<not> list_ex (\<lambda>((owner, _), _). owner = sv_id s) (ss_journals st))
         ''replacement_pending_execution_journal'')))"

section \<open>Audit of the finished records\<close>

text \<open>\<open>_financial_projection\<close>.\<close>

definition identity_keys :: "string list" where
  "identity_keys = [''sleeve_id'', ''account_id'', ''strategy_config_id'', ''strategy_config_version'', ''mode'',
     ''initial_allocated_cash'', ''cash'', ''created_at'', ''metadata'']"

definition stable_keys :: "string list" where
  "stable_keys = filter (\<lambda>k. k \<noteq> ''strategy_config_version'' \<and> k \<noteq> ''metadata'') identity_keys"

definition financial_projection :: "strategy_sleeve \<Rightarrow> metadata" where
  "financial_projection s = map (\<lambda>k. (k, meta_get (sleeve_document s) k)) identity_keys"

definition stable_same :: "metadata \<Rightarrow> metadata \<Rightarrow> bool" where
  "stable_same left right \<longleftrightarrow> list_all (\<lambda>k. py_eq (meta_get left k) (meta_get right k)) stable_keys"

definition lot_document :: "sleeve_lot \<Rightarrow> metadata" where
  "lot_document l =
     [(''lot_id'', VStr (lt_id l)), (''account_id'', VStr (lt_account_id l)), (''sleeve_id'', VStr (lt_sleeve_id l)),
      (''symbol'', VStr (lt_symbol l)), (''quantity'', num (lt_quantity l)), (''avg_cost'', num (lt_avg_cost l)),
      (''opened_at'', VStr (lt_opened_at l)), (''updated_at'', VStr (lt_updated_at l)), (''source'', VStr (lt_source l))]"

definition sorted_lots :: "sleeve_lot list \<Rightarrow> sleeve_lot list" where
  "sorted_lots ls = sort_key lt_symbol (sort_key lt_id ls)"

definition lots_digest :: "replacement_env \<Rightarrow> sleeve_lot list \<Rightarrow> string" where
  "lots_digest re ls = re_sha256 re (VList (map (\<lambda>l. VDict (lot_document l)) ls))"

definition checked_sleeve :: "strategy_sleeve \<Rightarrow> strategy_sleeve result" where
  "checked_sleeve s = (if valid_sleeve s then Inr s else Inl ValidationError)"

definition not_evaluated :: pyval where
  "not_evaluated = VDict [(''status'', VStr ''not_evaluated''), (''reason'', VStr ''version_partitioned_observations_required'')]"

definition version_metadata :: "replacement \<Rightarrow> string \<Rightarrow> metadata" where
  "version_metadata r committed_at =
     [(''version_transition'', VDict
         [(''replacement_id'', VStr (rp_id r)), (''from_config_version'', VInt (sc_version (rp_old_config r))),
          (''to_config_version'', VInt (sc_version (rp_new_config r))), (''effective_at'', VStr committed_at)]),
      (''current_version_observation_start'', VStr committed_at),
      (''performance_scope'', VStr performance_scope), (''current_version_performance'', not_evaluated)]"

definition definition_document :: "strategy_config \<Rightarrow> metadata result" where
  "definition_document c =
     (case sc_definition c of Some (VDict d) \<Rightarrow> Inr d | _ \<Rightarrow> Inl (TypeError ''object is not subscriptable''))"

text \<open>\<open>all(old[key] == new[key] for key in keys)\<close>.\<close>

fun all_same :: "string list \<Rightarrow> metadata \<Rightarrow> metadata \<Rightarrow> bool result" where
  "all_same [] d e = Inr True"
| "all_same (k # ks) d e =
     rbind (need d k) (\<lambda>v. rbind (need e k) (\<lambda>w. if py_eq v w then all_same ks d e else Inr False))"

definition audit_economics ::
    "replacement_env \<Rightarrow> string \<Rightarrow> replacement \<Rightarrow> strategy_sleeve \<Rightarrow> strategy_sleeve \<Rightarrow> unit result" where
  "audit_economics re sleeve_id r before after =
     rbind (require (stable_same (financial_projection before) (financial_projection after) \<and> sv_id before = sleeve_id)
              ''replacement_history_economic_change'') (\<lambda>_.
     rbind (map_result (\<lambda>l. if valid_lot l then Inr l else Inl ValidationError) (rp_lots r)) (\<lambda>ls.
     rbind (require (lots_digest re (sorted_lots ls) = rp_lots_digest r
              \<and> list_all (\<lambda>l. lt_sleeve_id l = sleeve_id \<and> lt_account_id l = sv_account_id before) ls)
              ''replacement_history_lots_changed'') (\<lambda>_.
       require (Some (ec_sleeve_cash (rp_economic r)) = ec_account_sleeve_cash (rp_economic r)
              \<and> ec_account_sleeve_cash (rp_economic r) = Some (sv_cash before)
              \<and> ec_initial_cash (rp_economic r) = sv_initial_cash before)
         ''replacement_history_economic_change'')))"

text \<open>The config a record names is the one on disk, and its candidate's source is the sealed file.\<close>

definition audit_config ::
    "replacement_env \<Rightarrow> sleeve_store \<Rightarrow> strategy_config \<times> metadata \<Rightarrow> unit result" where
  "audit_config re st pair =
     (let (config, candidate) = pair
      in rbind (require (re_config_inside re (sc_id config)) ''replacement_history_config_changed'') (\<lambda>_.
         rbind (case map_of (ss_configs st) (sc_id config, sc_version config) of
                  None \<Rightarrow> Inl (FileNotFoundError ''config.json'')
                | Some stored \<Rightarrow> require (re_sha256 re (VDict (config_document stored)) = re_sha256 re (VDict (config_document config)))
                    ''replacement_history_config_changed'') (\<lambda>_.
         rbind (need candidate ''source_path'') (\<lambda>path.
           case path of
             VStr path \<Rightarrow>
               rbind (require (re_owned re (re_resolve re path)) ''replacement_history_source_changed'') (\<lambda>_.
                 case re_file re (re_resolve re path) of
                   None \<Rightarrow> Inl (FileNotFoundError path)
                 | Some (sha, content) \<Rightarrow>
                     rbind (need candidate ''source_digest'') (\<lambda>digest.
                     rbind (require (digest = VStr sha) ''replacement_history_source_changed'') (\<lambda>_.
                       case content of
                         None \<Rightarrow> Inl (ValueError ''not a JSON document'')
                       | Some v \<Rightarrow>
                           require (re_sha256 re v = re_sha256 re (opt_value id (sc_definition config)))
                             ''replacement_history_source_changed'')))
           | _ \<Rightarrow> Inl (TypeError ''expected str, bytes or os.PathLike object'')))))"

definition audit_old_identity :: "replacement \<Rightarrow> strategy_sleeve \<Rightarrow> unit result" where
  "audit_old_identity r before =
     (let rq = rp_request r; failed = ''replacement_history_old_identity_changed''
      in rbind (require (sv_config_id before = sc_id (rp_old_config r)
              \<and> sv_config_version before = sc_version (rp_old_config r)
              \<and> sc_version (rp_old_config r) = rq_old_version rq) failed) (\<lambda>_.
         rbind (need (sv_metadata before) ''candidate_id'') (\<lambda>candidate.
         rbind (require (candidate = VStr (rq_target_candidate rq)) failed) (\<lambda>_.
         rbind (definition_document (rp_old_config r)) (\<lambda>df.
         rbind (need df ''content_digest'') (\<lambda>digest.
           require (digest = VStr (rq_old_digest rq)) failed))))))"

definition audit_committed ::
    "replacement_env \<Rightarrow> replacement \<Rightarrow> strategy_sleeve \<Rightarrow> strategy_sleeve \<Rightarrow> unit result" where
  "audit_committed re r before after =
     (let rq = rp_request r; failed = ''replacement_history_new_identity_changed''
      in rbind (require (sv_config_id after = sc_id (rp_new_config r) \<and> sc_id (rp_new_config r) = sv_config_id before
              \<and> sv_config_version after = sc_version (rp_new_config r)
              \<and> sv_config_version before < sc_version (rp_new_config r)) failed) (\<lambda>_.
         rbind (need (sv_metadata after) ''candidate_id'') (\<lambda>candidate.
         rbind (require (candidate = VStr (rq_new_candidate rq)) failed) (\<lambda>_.
         rbind (need (rp_new_candidate r) ''source_digest'') (\<lambda>digest.
         rbind (require (digest = VStr (rq_new_source rq)) failed) (\<lambda>_.
         rbind (definition_document (rp_old_config r)) (\<lambda>old. rbind (definition_document (rp_new_config r)) (\<lambda>new.
         rbind (all_same same_fields old new) (\<lambda>same. rbind (require same failed) (\<lambda>_.
         rbind (given (rp_committed_at r) ''committed_at'') (\<lambda>committed_at.
         rbind (require (same_document (sv_metadata after)
                  (dict_merge (sc_metadata (rp_new_config r)) (version_metadata r committed_at)))
                  ''replacement_history_metadata_changed'') (\<lambda>_.
         rbind (re_offset re committed_at) (\<lambda>aware.
           require aware ''replacement_history_metadata_changed'')))))))))))))"

definition audit_aborted :: "replacement \<Rightarrow> strategy_sleeve \<Rightarrow> strategy_sleeve \<Rightarrow> unit result" where
  "audit_aborted r before after =
     (let expected = AList.update ''replacement_aborted_id'' (VStr (rp_id r)) (sv_metadata before);
          blocker = (case rp_blocker r of None \<Rightarrow> None | Some b \<Rightarrow> if b = [] then None else Some b);
          expected = (case blocker of None \<Rightarrow> expected
                      | Some b \<Rightarrow> AList.update ''replacement_restore_blocker'' (VStr b) expected)
      in rbind (require (blocker = None \<or> sv_status after = Paused) ''replacement_history_abort_resumed_stale'') (\<lambda>_.
           require (sv_config_version after = sv_config_version before \<and> same_document (sv_metadata after) expected)
             ''replacement_history_abort_changed''))"

record transition_edge =
  te_record :: replacement
  te_before :: metadata
  te_after :: metadata
  te_lots_digest :: string

definition audit_record ::
    "replacement_env \<Rightarrow> sleeve_store \<Rightarrow> string \<Rightarrow> replacement \<Rightarrow> transition_edge result" where
  "audit_record re st sleeve_id r =
     rbind (checked_sleeve (rp_old_sleeve r)) (\<lambda>before.
     rbind (if rp_phase r = PhCommitted then given (rp_new_sleeve r) ''new_sleeve''
            else given (rp_restored r) ''restored_sleeve'') (\<lambda>after. rbind (checked_sleeve after) (\<lambda>after.
     rbind (audit_economics re sleeve_id r before after) (\<lambda>_.
     rbind (map_result (audit_config re st)
              ((rp_old_config r, rp_old_candidate r)
               # (if rp_phase r = PhCommitted then [(rp_new_config r, rp_new_candidate r)] else []))) (\<lambda>_.
     rbind (audit_old_identity r before) (\<lambda>_.
     rbind (if rp_phase r = PhCommitted then audit_committed re r before after
            else audit_aborted r before after) (\<lambda>_.
       Inr \<lparr>te_record = r, te_before = financial_projection before, te_after = financial_projection after,
            te_lots_digest = rp_lots_digest r\<rparr>)))))))"

text \<open>Every record of the directory must verify, the ones of other sleeves too.\<close>

fun audit_files ::
    "replacement_env \<Rightarrow> sleeve_store \<Rightarrow> string \<Rightarrow> (string \<times> journal_file) list \<Rightarrow> transition_edge list result" where
  "audit_files re st sleeve_id [] = Inr []"
| "audit_files re st sleeve_id ((stem, f) # fs) =
     (case f of
        Unreadable \<Rightarrow> Inl (OSError (stem @ ''.json''))
      | Garbled _ \<Rightarrow> Inl (ValueError ''not a JSON document'')
      | Foreign _ \<Rightarrow> Inl (ValueError ''replacement_history_journal_changed'')
      | Record r \<Rightarrow>
          rbind (require (journal_matches re r stem \<and> rp_id r = replacement_identity re (rp_request r))
                   ''replacement_history_journal_changed'') (\<lambda>_.
            if rq_target_sleeve (rp_request r) \<noteq> sleeve_id \<or> rp_phase r \<notin> {PhCommitted, PhAborted}
            then audit_files re st sleeve_id fs
            else rbind (audit_record re st sleeve_id r) (\<lambda>edge.
                 rbind (audit_files re st sleeve_id fs) (\<lambda>edges. Inr (edge # edges)))))"

definition terminal_transitions ::
    "replacement_env \<Rightarrow> journal_files \<Rightarrow> sleeve_store \<Rightarrow> string \<Rightarrow> transition_edge list result" where
  "terminal_transitions re files st sleeve_id = audit_files re st sleeve_id (sort_key fst files)"

section \<open>The bridge between two observations\<close>

text \<open>A step of the search below visits a node of the frontier or of an edge, or shortens the frontier.\<close>

definition unvisited :: "('n \<times> 'n) list \<Rightarrow> 'n list \<Rightarrow> 'n list \<Rightarrow> nat" where
  "unvisited edges frontier visited = card ((set frontier \<union> snd ` set edges) - set visited)"

lemma frontier_parts: "frontier \<noteq> [] \<Longrightarrow> set frontier = insert (last frontier) (set (butlast frontier))"
  by (metis append_butlast_last_id empty_set insert_is_Un list.simps(15) set_append sup_commute)

lemma unvisited_butlast: "unvisited edges (butlast frontier) visited \<le> unvisited edges frontier visited"
  unfolding unvisited_def by (intro card_mono) (auto dest: in_set_butlastD)

lemma unvisited_visit:
  assumes "frontier \<noteq> []" and "last frontier \<notin> set visited"
  shows "unvisited edges (butlast frontier @ map snd (filter (\<lambda>e. fst e = last frontier) edges)) (last frontier # visited)
    < unvisited edges frontier visited"
proof -
  have "last frontier \<in> set frontier"
    using assms(1) by simp
  then show ?thesis
    unfolding unvisited_def using assms(2)
    by (intro psubset_card_mono) (auto dest: in_set_butlastD)
qed

text \<open>
  The search of \<open>replacement_transition_verified\<close>: \<open>frontier.pop()\<close> takes the last node, the targets of
  its edges are appended.
\<close>

function search_edges :: "('n \<times> 'n) list \<Rightarrow> 'n \<Rightarrow> 'n list \<Rightarrow> 'n list \<Rightarrow> bool" where
  "search_edges edges target frontier visited =
     (if frontier = [] then False
      else let current = last frontier; rest = butlast frontier
        in if current = target then True
           else if current \<in> set visited then search_edges edges target rest visited
           else search_edges edges target (rest @ map snd (filter (\<lambda>e. fst e = current) edges)) (current # visited))"
  by pat_completeness auto

termination
  by (relation "measures [\<lambda>(edges, target, frontier, visited). unvisited edges frontier visited,
        \<lambda>(edges, target, frontier, visited). length frontier]")
    (auto simp: unvisited_visit le_neq_implies_less [OF unvisited_butlast])

definition replacement_transition_verified ::
    "replacement_env \<Rightarrow> journal_files \<Rightarrow> sleeve_store \<Rightarrow> strategy_sleeve \<Rightarrow> strategy_sleeve
      \<Rightarrow> sleeve_lot list \<Rightarrow> sleeve_lot list \<Rightarrow> bool result" where
  "replacement_transition_verified re files st before after before_lots after_lots =
     (let left = financial_projection before; right = financial_projection after;
          digest = lots_digest re (sorted_lots before_lots);
          node = (\<lambda>d. re_sha256 re (VDict d))
      in case rbind (require (stable_same left right) ''replacement_history_economic_change'') (\<lambda>_.
              rbind (require (sorted_lots before_lots = sorted_lots after_lots) ''replacement_history_lots_changed'') (\<lambda>_.
                terminal_transitions re files st (sv_id before))) of
           Inl e \<Rightarrow> if evidence_error e then Inr False else Inl e
         | Inr edges \<Rightarrow>
             Inr (search_edges (map (\<lambda>e. (node (te_before e), node (te_after e)))
                    (filter (\<lambda>e. te_lots_digest e = digest) edges)) (node right) [node left] []))"

section \<open>The version timeline\<close>

record version_row =
  vr_id :: string
  vr_from_version :: int
  vr_to_version :: int
  vr_from_candidate :: string
  vr_to_candidate :: string
  vr_effective_at :: string

definition version_row_of :: "replacement \<Rightarrow> version_row result" where
  "version_row_of r =
     rbind (given (rp_committed_at r) ''committed_at'') (\<lambda>effective_at.
       Inr \<lparr>vr_id = rp_id r, vr_from_version = sc_version (rp_old_config r), vr_to_version = sc_version (rp_new_config r),
            vr_from_candidate = rq_target_candidate (rp_request r), vr_to_candidate = rq_new_candidate (rp_request r),
            vr_effective_at = effective_at\<rparr>)"

text \<open>The walk back from the current version, newest row first.\<close>

function commit_chain ::
    "(string, replacement) dict \<Rightarrow> pyval \<Rightarrow> string list \<Rightarrow> version_row list result" where
  "commit_chain commits current seen =
     (if \<not> truthy current then Inr []
      else case current of
        VStr identity \<Rightarrow>
          (case map_of commits identity of
             None \<Rightarrow> Inl (ValueError ''replacement_history_missing_or_cyclic'')
           | Some r \<Rightarrow>
               if identity \<in> set seen then Inl (ValueError ''replacement_history_missing_or_cyclic'')
               else rbind (version_row_of r) (\<lambda>row.
                    rbind (commit_chain commits (meta_get (sv_metadata (rp_old_sleeve r)) ''replacement_committed_id'')
                             (identity # seen)) (\<lambda>rows.
                      Inr (row # rows))))
      | VList _ \<Rightarrow> Inl (TypeError ''unhashable type'')
      | VDict _ \<Rightarrow> Inl (TypeError ''unhashable type'')
      | _ \<Rightarrow> Inl (ValueError ''replacement_history_missing_or_cyclic''))"
  by pat_completeness auto

termination
  by (relation "measure (\<lambda>(commits, current, seen). length (filter (\<lambda>j. j \<notin> set seen) (map fst commits)))")
    (use unvisited_decreases in \<open>auto simp del: filter_map\<close>)

fun rows_chained :: "version_row list \<Rightarrow> bool" where
  "rows_chained (x # y # rows) \<longleftrightarrow>
     vr_to_version x = vr_from_version y \<and> vr_effective_at x \<le> vr_effective_at y \<and> rows_chained (y # rows)"
| "rows_chained _ \<longleftrightarrow> True"

definition history_rows ::
    "(string, replacement) dict \<Rightarrow> strategy_sleeve \<Rightarrow> version_row list result" where
  "history_rows commits s =
     (let md = sv_metadata s; current = meta_get md ''replacement_committed_id''
      in if current = VNone then
           rbind (require (commits = [] \<and> \<not> truthy (meta_get md ''version_transition'')
                    \<and> \<not> truthy (meta_get md ''current_version_observation_start''))
                    ''replacement_history_unproven_metadata'') (\<lambda>_. Inr [])
         else rbind (commit_chain commits current []) (\<lambda>newest_first.
           let rows = rev newest_first
           in rbind (require (length rows = length commits \<and> rows_chained rows) ''replacement_history_chain_mismatch'') (\<lambda>_.
              if rows = [] then Inl (IndexError ''list index out of range'')
              else rbind (require (vr_to_version (last rows) = sv_config_version s
                       \<and> (case map_of commits (vr_id (last rows)) of
                            None \<Rightarrow> False | Some r \<Rightarrow> sc_id (rp_new_config r) = sv_config_id s)
                       \<and> meta_get md ''candidate_id'' = VStr (vr_to_candidate (last rows))
                       \<and> meta_get md ''current_version_observation_start'' = VStr (vr_effective_at (last rows)))
                       ''replacement_history_current_identity_mismatch'') (\<lambda>_. Inr rows))))"

definition committed_records :: "transition_edge list \<Rightarrow> (string, replacement) dict" where
  "committed_records edges =
     dict_of (map (\<lambda>e. (rp_id (te_record e), te_record e)) (filter (\<lambda>e. rp_phase (te_record e) = PhCommitted) edges))"

definition history_of ::
    "replacement_env \<Rightarrow> journal_files \<Rightarrow> sleeve_store \<Rightarrow> strategy_sleeve \<Rightarrow> version_row list result" where
  "history_of re files st s =
     rbind (require (\<not> truthy (meta_get (sv_metadata s) marker)) ''replacement_history_transition_pending'') (\<lambda>_.
     rbind (terminal_transitions re files st (sv_id s)) (\<lambda>edges.
     let aborted = meta_get (sv_metadata s) ''replacement_aborted_id''
     in rbind (require (\<not> truthy aborted \<or> list_ex (\<lambda>e. VStr (rp_id (te_record e)) = aborted
              \<and> rp_phase (te_record e) = PhAborted) edges) ''replacement_history_abort_missing'') (\<lambda>_.
          history_rows (committed_records edges) s)))"

text \<open>\<open>error_text\<close> is \<open>str(exc)\<close>.\<close>

definition verified_replacement_history ::
    "(py_error \<Rightarrow> string) \<Rightarrow> replacement_env \<Rightarrow> journal_files \<Rightarrow> sleeve_store \<Rightarrow> strategy_sleeve
      \<Rightarrow> version_row list result" where
  "verified_replacement_history error_text re files st s =
     (case history_of re files st s of
        Inl e \<Rightarrow> if evidence_error e then Inl (ValueError (''replacement_history_unverified:'' @ error_text e)) else Inl e
      | Inr rows \<Rightarrow> Inr rows)"

section \<open>What the search decides\<close>

declare search_edges.simps [simp del]
declare aborted_chain.simps [simp del]
declare commit_chain.simps [simp del]

text \<open>
  The invariant of the search: the target is not among the visited nodes, and an edge that leaves a
  visited node ends in a visited node or on the frontier.
\<close>

definition search_inv :: "('n \<times> 'n) list \<Rightarrow> 'n \<Rightarrow> 'n list \<Rightarrow> 'n list \<Rightarrow> bool" where
  "search_inv edges target frontier visited \<longleftrightarrow>
     target \<notin> set visited \<and> (\<forall>(x, y) \<in> set edges. x \<in> set visited \<longrightarrow> y \<in> set visited \<union> set frontier)"

lemma visited_is_closed:
  assumes "search_inv edges target [] visited" and "(x, y) \<in> (set edges)\<^sup>*" and "x \<in> set visited"
  shows "y \<in> set visited"
  using assms(2,3)
proof (induction rule: rtrancl_induct)
  case base
  then show ?case .
next
  case (step y z)
  then show ?case
    using assms(1) by (auto simp: search_inv_def)
qed

lemma search_inv_skip:
  "search_inv edges target frontier visited \<Longrightarrow> frontier \<noteq> [] \<Longrightarrow> last frontier \<in> set visited
    \<Longrightarrow> search_inv edges target (butlast frontier) visited"
  by (auto simp: search_inv_def frontier_parts)

lemma search_inv_visit:
  "search_inv edges target frontier visited \<Longrightarrow> frontier \<noteq> [] \<Longrightarrow> last frontier \<noteq> target
    \<Longrightarrow> search_inv edges target (butlast frontier @ map snd (filter (\<lambda>e. fst e = last frontier) edges))
          (last frontier # visited)"
  by (force simp: search_inv_def frontier_parts)

lemma search_edges_Nil [simp]: "\<not> search_edges edges target [] visited"
  by (simp add: search_edges.simps)

lemma search_edges_step:
  "frontier \<noteq> [] \<Longrightarrow> search_edges edges target frontier visited \<longleftrightarrow>
     last frontier = target
     \<or> (if last frontier \<in> set visited then search_edges edges target (butlast frontier) visited
        else search_edges edges target (butlast frontier @ map snd (filter (\<lambda>e. fst e = last frontier) edges))
               (last frontier # visited))"
  by (subst search_edges.simps) (simp add: Let_def)

lemma search_finds:
  "search_edges edges target frontier visited \<Longrightarrow> \<exists>x \<in> set frontier. (x, target) \<in> (set edges)\<^sup>*"
proof (induction edges target frontier visited rule: search_edges.induct)
  case (1 edges target frontier visited)
  show ?case
  proof (cases "frontier = [] \<or> last frontier = target")
    case True
    then show ?thesis
      using "1.prems" by (cases "frontier = []") (auto intro: last_in_set)
  next
    case False
    then have last: "last frontier \<in> set frontier"
      by simp
    show ?thesis
    proof (cases "last frontier \<in> set visited")
      case True
      then show ?thesis
        using False "1.prems" "1.IH"(1) [OF _ refl refl]
        by (auto simp: search_edges_step dest: in_set_butlastD)
    next
      case new: False
      then obtain x where x: "x \<in> set (butlast frontier @ map snd (filter (\<lambda>e. fst e = last frontier) edges))"
          "(x, target) \<in> (set edges)\<^sup>*"
        using False "1.prems" "1.IH"(2) [OF _ refl refl] by (auto simp: search_edges_step)
      then show ?thesis
        using last in_set_butlastD [of x frontier] by (auto intro: bexI [of _ "last frontier"] bexI [of _ x] converse_rtrancl_into_rtrancl)
    qed
  qed
qed

lemma search_complete:
  "search_inv edges target frontier visited \<Longrightarrow> x \<in> set frontier \<union> set visited \<Longrightarrow> (x, target) \<in> (set edges)\<^sup>*
    \<Longrightarrow> search_edges edges target frontier visited"
proof (induction edges target frontier visited arbitrary: x rule: search_edges.induct)
  case (1 edges target frontier visited)
  show ?case
  proof (cases "frontier = []")
    case True
    then have "target \<in> set visited"
      using "1.prems" visited_is_closed by (metis Un_iff empty_iff empty_set)
    then show ?thesis
      using "1.prems"(1) by (simp add: search_inv_def)
  next
    case False
    note parts = frontier_parts [OF False]
    show ?thesis
    proof (cases "last frontier = target \<or> last frontier \<in> set visited")
      case True
      then show ?thesis
        using False "1.prems" "1.IH"(1) [OF False refl refl _ _ search_inv_skip, of x]
        by (auto simp: search_edges_step parts)
    next
      case new: False
      then have "search_edges edges target
          (butlast frontier @ map snd (filter (\<lambda>e. fst e = last frontier) edges)) (last frontier # visited)"
        using False "1.prems" parts
        by (intro "1.IH"(2) [OF False refl refl _ _ search_inv_visit, of x]) auto
      then show ?thesis
        using False new by (simp add: search_edges_step)
    qed
  qed
qed

lemma search_decides: "search_edges edges target [start] [] \<longleftrightarrow> (start, target) \<in> (set edges)\<^sup>*"
  using search_finds [of edges target "[start]" "[]"] search_complete [of edges target "[start]" "[]" start]
  by (auto simp: search_inv_def)

definition node_of :: "replacement_env \<Rightarrow> metadata \<Rightarrow> string" where
  "node_of re d = re_sha256 re (VDict d)"

text \<open>C21: The bridge between two observations of a sleeve says yes exactly when they agree on every field
  but version and metadata, hold the same lots, every record on file verifies, and a path of audited
  identity changes made over exactly these lots leads from the first to the second.\<close>

theorem bridge_decides_reachability:
  "replacement_transition_verified re files st before after before_lots after_lots = Inr True \<longleftrightarrow>
     stable_same (financial_projection before) (financial_projection after)
     \<and> sorted_lots before_lots = sorted_lots after_lots
     \<and> (\<exists>edges. terminal_transitions re files st (sv_id before) = Inr edges
          \<and> (node_of re (financial_projection before), node_of re (financial_projection after))
            \<in> {(node_of re (te_before e), node_of re (te_after e)) | e.
                 e \<in> set edges \<and> te_lots_digest e = lots_digest re (sorted_lots before_lots)}\<^sup>*)"
proof -
  have nodes: "set (map (\<lambda>e. (node_of re (te_before e), node_of re (te_after e))) (filter P edges))
      = {(node_of re (te_before e), node_of re (te_after e)) | e. e \<in> set edges \<and> P e}" for P edges
    by auto
  show ?thesis
    by (auto simp: replacement_transition_verified_def require_def Let_def search_decides node_of_def [symmetric]
        nodes [symmetric] simp del: set_map set_filter split: sum.splits)
qed

section \<open>Whose evidence freezes a sleeve\<close>

definition names_sleeve :: "string \<Rightarrow> journal_file \<Rightarrow> bool" where
  "names_sleeve sleeve_id f =
     (case f of
        Unreadable \<Rightarrow> False
      | Garbled ids \<Rightarrow> sleeve_id \<in> set ids
      | Foreign target \<Rightarrow> target = Some sleeve_id
      | Record r \<Rightarrow> rq_target_sleeve (rp_request r) = sleeve_id)"

text \<open>Two directories that agree on the files naming the sleeve.\<close>

definition same_evidence :: "string \<Rightarrow> journal_files \<Rightarrow> journal_files \<Rightarrow> bool" where
  "same_evidence sleeve_id files files' \<longleftrightarrow>
     (\<forall>k f. names_sleeve sleeve_id f \<longrightarrow> map_of files k = Some f \<longleftrightarrow> map_of files' k = Some f)"

lemma same_evidence_sym: "same_evidence sleeve_id files files' \<Longrightarrow> same_evidence sleeve_id files' files"
  by (simp add: same_evidence_def)

lemma same_evidenceD:
  "same_evidence sleeve_id files files' \<Longrightarrow> map_of files k = Some f \<Longrightarrow> names_sleeve sleeve_id f \<Longrightarrow> map_of files' k = Some f"
  by (simp add: same_evidence_def)

lemma names_sleeve_Record [simp]: "names_sleeve sleeve_id (Record r) \<longleftrightarrow> rq_target_sleeve (rp_request r) = sleeve_id"
  by (simp add: names_sleeve_def)

lemma aborted_chain_step:
  "aborted_chain re files s ancestor current visited = Inr True \<longleftrightarrow>
     (\<exists>identity r. current = VStr identity \<and> identity \<noteq> [] \<and> identity \<notin> set visited \<and> valid_replacement_id identity
        \<and> map_of files identity = Some (Record r) \<and> journal_matches re r identity \<and> rp_phase r = PhAborted
        \<and> rq_target_sleeve (rp_request r) = sv_id s \<and> sc_version (rp_old_config r) = sv_config_version s
        \<and> (identity = ancestor \<or> aborted_chain re files s ancestor
               (meta_get (sv_metadata (rp_old_sleeve r)) ''replacement_aborted_id'') (identity # visited) = Inr True))"
proof (cases current)
  case (VStr identity)
  then show ?thesis
    by (subst aborted_chain.simps) (auto split: option.split journal_file.split)
qed (simp_all add: aborted_chain.simps)

lemma chain_reads_own:
  "aborted_chain re files s ancestor current visited = Inr True \<Longrightarrow> same_evidence (sv_id s) files files'
    \<Longrightarrow> aborted_chain re files' s ancestor current visited = Inr True"
proof (induction re files s ancestor current visited rule: aborted_chain.induct)
  case (1 re files s ancestor current visited)
  then obtain identity r where r: "current = VStr identity" "identity \<noteq> []" "identity \<notin> set visited"
      "valid_replacement_id identity" "map_of files identity = Some (Record r)" "journal_matches re r identity"
      "rp_phase r = PhAborted" "rq_target_sleeve (rp_request r) = sv_id s"
      "sc_version (rp_old_config r) = sv_config_version s"
    and next_step: "identity = ancestor \<or> aborted_chain re files s ancestor
               (meta_get (sv_metadata (rp_old_sleeve r)) ''replacement_aborted_id'') (identity # visited) = Inr True"
    by (auto simp: aborted_chain_step [of _ _ _ _ current])
  have "map_of files' identity = Some (Record r)"
    using same_evidenceD [OF "1.prems"(2) r(5)] r(8) by simp
  moreover have "identity = ancestor \<or> aborted_chain re files' s ancestor
               (meta_get (sv_metadata (rp_old_sleeve r)) ''replacement_aborted_id'') (identity # visited) = Inr True"
    using next_step "1.IH" [OF _ r(1) _ _ r(5)] r "1.prems"(2) by auto
  ultimately show ?case
    using r by (subst aborted_chain_step) auto
qed

lemma history_reads_own:
  assumes "same_evidence (sv_id s) files files'"
  shows "aborted_history_contains re files s ancestor = Inr True \<longleftrightarrow> aborted_history_contains re files' s ancestor = Inr True"
  unfolding aborted_history_contains_def
  by (rule iffI) (erule chain_reads_own, rule assms, erule chain_reads_own, rule same_evidence_sym [OF assms])

lemma freezes_names: "journal_freezes re files s (k, f) \<Longrightarrow> names_sleeve (sv_id s) f"
  by (auto simp: journal_freezes_def names_sleeve_def split: journal_file.splits if_splits)

lemma freezes_reads_own:
  assumes "same_evidence (sv_id s) files files'"
  shows "journal_freezes re files s entry = journal_freezes re files' s entry"
  by (auto simp: journal_freezes_def history_reads_own [OF assms] Let_def split: journal_file.splits)

lemma frozen_by_own:
  assumes own: "same_evidence (sv_id s) files files'" and "wf_dict files"
    and frozen: "list_ex (journal_freezes re files s) files"
  shows "list_ex (journal_freezes re files' s) files'"
proof -
  obtain k f where entry: "(k, f) \<in> set files" "journal_freezes re files s (k, f)"
    using frozen by (auto simp: list_ex_iff)
  then have "map_of files' k = Some f"
    using assms(2) freezes_names same_evidenceD [OF own] by (metis map_of_is_SomeI)
  then show ?thesis
    using entry(2) freezes_reads_own [OF own] by (auto simp: list_ex_iff dest: map_of_SomeD)
qed

text \<open>Only evidence that names a sleeve can freeze it: whether a replacement is pending for a sleeve
  is the same in two directories that hold the same files naming it, however many unreadable, corrupt or
  open journals of other sleeves one of them has, and also where such a file sits in the middle of the
  chain of aborted replacements the guard follows.\<close>

theorem only_own_evidence_freezes:
  assumes "wf_dict files" and "wf_dict files'" and "same_evidence (sv_id s) files files'"
  shows "sleeve_replacement_pending re files s \<longleftrightarrow> sleeve_replacement_pending re files' s"
  using frozen_by_own [of s files files' re] frozen_by_own [of s files' files re] assms same_evidence_sym
  by (auto simp: sleeve_replacement_pending_def)

text \<open>An open record of the sleeve, or one of it that fails its checks, does freeze it.\<close>

lemma open_record_freezes:
  assumes "map_of files k = Some (Record r)" and "rq_target_sleeve (rp_request r) = sv_id s"
    and "rp_phase r \<notin> {PhCommitted, PhAborted} \<or> \<not> journal_matches re r k"
  shows "sleeve_replacement_pending re files s"
proof -
  have "journal_freezes re files s (k, Record r)"
    using assms(2,3) by (auto simp: journal_freezes_def)
  then show ?thesis
    using assms(1) by (auto simp: sleeve_replacement_pending_def list_ex_iff dest: map_of_SomeD)
qed

section \<open>The verified timeline\<close>

text \<open>The committed and aborted records of a sleeve, under the stems of their files.\<close>

fun terminal_records :: "string \<Rightarrow> (string \<times> journal_file) list \<Rightarrow> (string \<times> replacement) list" where
  "terminal_records sleeve_id [] = []"
| "terminal_records sleeve_id ((stem, f) # fs) =
     (case f of
        Record r \<Rightarrow>
          if rq_target_sleeve (rp_request r) = sleeve_id \<and> rp_phase r \<in> {PhCommitted, PhAborted}
          then (stem, r) # terminal_records sleeve_id fs else terminal_records sleeve_id fs
      | _ \<Rightarrow> terminal_records sleeve_id fs)"

lemma require_Inr [simp]: "require c reason = Inr u \<longleftrightarrow> c"
  by (simp add: require_def)

lemma audit_record_edge: "audit_record re st sleeve_id r = Inr e \<Longrightarrow> te_record e = r \<and> te_lots_digest e = rp_lots_digest r"
  by (auto simp: audit_record_def rbind_Inr)

lemma audit_record_own: "audit_record re st sleeve_id r = Inr e \<Longrightarrow> audit_record re st sleeve_id (te_record e) = Inr e"
  using audit_record_edge by metis

lemma audit_record_order:
  "audit_record re st sleeve_id r = Inr e \<Longrightarrow> rp_phase r = PhCommitted
    \<Longrightarrow> sc_version (rp_old_config r) < sc_version (rp_new_config r)"
  by (auto simp: audit_record_def rbind_Inr audit_old_identity_def audit_committed_def Let_def)

lemma audit_files_records:
  "audit_files re st sleeve_id fs = Inr edges \<Longrightarrow>
     map (\<lambda>e. (rp_id (te_record e), te_record e)) edges = terminal_records sleeve_id fs
     \<and> (\<forall>e \<in> set edges. audit_record re st sleeve_id (te_record e) = Inr e)"
proof (induction fs arbitrary: edges)
  case Nil
  then show ?case by simp
next
  case (Cons entry fs)
  then show ?case
    by (cases entry) (auto simp: rbind_Inr journal_matches_def audit_record_own dest: audit_record_edge split: journal_file.splits if_splits)
qed

lemma terminal_records_mem:
  "(stem, r) \<in> set (terminal_records sleeve_id fs) \<longleftrightarrow>
     (stem, Record r) \<in> set fs \<and> rq_target_sleeve (rp_request r) = sleeve_id \<and> rp_phase r \<in> {PhCommitted, PhAborted}"
  by (induction sleeve_id fs rule: terminal_records.induct) (auto split: journal_file.splits)

lemma terminal_records_stems: "distinct (map fst fs) \<Longrightarrow> distinct (map fst (terminal_records sleeve_id fs))"
proof (induction sleeve_id fs rule: terminal_records.induct)
  case (1 sleeve_id)
  then show ?case by simp
next
  case (2 sleeve_id stem f fs)
  have "fst ` set (terminal_records sleeve_id fs) \<subseteq> fst ` set fs"
    by (force simp: terminal_records_mem)
  then show ?case
    using 2 by (auto split: journal_file.splits)
qed

lemma commit_chain_VStr:
  "commit_chain commits (VStr identity) seen = Inr rows \<Longrightarrow> identity \<noteq> [] \<Longrightarrow>
     \<exists>r row rest. map_of commits identity = Some r \<and> identity \<notin> set seen \<and> version_row_of r = Inr row
       \<and> commit_chain commits (meta_get (sv_metadata (rp_old_sleeve r)) ''replacement_committed_id'') (identity # seen) = Inr rest
       \<and> rows = row # rest"
  by (auto simp: commit_chain.simps [of _ "VStr identity"] rbind_Inr split: option.splits if_splits)

lemma commit_chain_ends: "commit_chain commits current seen = Inr rows \<Longrightarrow> truthy current \<Longrightarrow> \<exists>k. current = VStr k \<and> k \<noteq> []"
  by (cases current) (simp_all add: commit_chain.simps)

lemma commit_chain_rows:
  "commit_chain commits current seen = Inr rows \<Longrightarrow> \<forall>k r. map_of commits k = Some r \<longrightarrow> rp_id r = k \<Longrightarrow>
     distinct (map vr_id rows) \<and> set (map vr_id rows) \<inter> set seen = {} \<and>
     (\<forall>row \<in> set rows. \<exists>r. version_row_of r = Inr row \<and> map_of commits (vr_id row) = Some r)"
proof (induction commits current seen arbitrary: rows rule: commit_chain.induct)
  case (1 commits current seen)
  show ?case
  proof (cases "truthy current")
    case False
    then show ?thesis
      using "1.prems"(1) by (simp add: commit_chain.simps)
  next
    case True
    then obtain identity where current: "current = VStr identity" "identity \<noteq> []"
      using "1.prems"(1) commit_chain_ends by blast
    obtain r row rest where r: "map_of commits identity = Some r" "identity \<notin> set seen" "version_row_of r = Inr row"
        and rest: "commit_chain commits (meta_get (sv_metadata (rp_old_sleeve r)) ''replacement_committed_id'')
          (identity # seen) = Inr rest" "rows = row # rest"
      using commit_chain_VStr current "1.prems"(1) by blast
    have "vr_id row = identity"
      using r "1.prems"(2) by (auto simp: version_row_of_def rbind_Inr)
    then show ?thesis
      using "1.IH" [OF _ current(1) r(1,2) rest(1) "1.prems"(2)] True r rest(2) by auto
  qed
qed

lemma rows_chained_nth:
  "rows_chained rows \<Longrightarrow> Suc i < length rows \<Longrightarrow>
     vr_to_version (rows ! i) = vr_from_version (rows ! Suc i) \<and> vr_effective_at (rows ! i) \<le> vr_effective_at (rows ! Suc i)"
proof (induction rows arbitrary: i rule: rows_chained.induct)
  case (1 x y rows)
  then show ?case by (cases i) auto
qed simp_all

lemma map_of_terminal:
  assumes "wf_dict files"
  shows "map_of (dict_of (filter (\<lambda>(k, r). P r) (terminal_records sleeve_id (sort_key fst files)))) k = Some r \<longleftrightarrow>
     map_of files k = Some (Record r) \<and> rq_target_sleeve (rp_request r) = sleeve_id
     \<and> rp_phase r \<in> {PhCommitted, PhAborted} \<and> P r"
proof -
  have "wf_dict (terminal_records sleeve_id (sort_key fst files))"
    using assms by (intro terminal_records_stems) (metis distinct_map distinct_sort set_sort)
  then have "wf_dict (filter (\<lambda>(k, r). P r) (terminal_records sleeve_id (sort_key fst files)))"
    by (rule distinct_map_filter)
  then show ?thesis
    using assms by (auto simp: dict_of_distinct terminal_records_mem)
qed

lemma committed_records_on_file:
  assumes "wf_dict files" and "terminal_transitions re files st sleeve_id = Inr edges"
  shows "map_of (committed_records edges) k = Some r \<longleftrightarrow>
     map_of files k = Some (Record r) \<and> rq_target_sleeve (rp_request r) = sleeve_id \<and> rp_phase r = PhCommitted"
proof -
  have "map (\<lambda>e. (rp_id (te_record e), te_record e)) edges = terminal_records sleeve_id (sort_key fst files)"
    using assms(2) audit_files_records by (auto simp: terminal_transitions_def)
  moreover have "map (\<lambda>e. (rp_id (te_record e), te_record e)) (filter (\<lambda>e. rp_phase (te_record e) = PhCommitted) edges)
      = filter (\<lambda>(k, r). rp_phase r = PhCommitted) (map (\<lambda>e. (rp_id (te_record e), te_record e)) edges)"
    by (simp add: filter_map o_def)
  ultimately have "committed_records edges
      = dict_of (filter (\<lambda>(k, r). rp_phase r = PhCommitted) (terminal_records sleeve_id (sort_key fst files)))"
    by (simp add: committed_records_def)
  then show ?thesis
    using map_of_terminal [OF assms(1)] by auto
qed

lemma committed_records_own: "map_of (committed_records edges) k = Some r \<Longrightarrow> rp_id r = k"
  by (auto simp: committed_records_def map_of_dict_of dest!: map_of_SomeD)

lemma history_rows_chain:
  assumes "history_rows commits s = Inr rows" and own: "\<forall>k r. map_of commits k = Some r \<longrightarrow> rp_id r = k"
    and "wf_dict commits"
  shows "distinct (map vr_id rows) \<and> rows_chained rows \<and> set (map vr_id rows) = fst ` set commits
     \<and> (\<forall>row \<in> set rows. \<exists>r. version_row_of r = Inr row \<and> map_of commits (vr_id row) = Some r)
     \<and> (rows \<noteq> [] \<longrightarrow> vr_to_version (last rows) = sv_config_version s
          \<and> meta_get (sv_metadata s) ''candidate_id'' = VStr (vr_to_candidate (last rows)))"
proof (cases "meta_get (sv_metadata s) ''replacement_committed_id'' = VNone")
  case True
  then show ?thesis
    using assms(1) by (auto simp: history_rows_def rbind_Inr Let_def)
next
  case False
  then obtain newest where newest: "commit_chain commits (meta_get (sv_metadata s) ''replacement_committed_id'') [] = Inr newest"
      "rows = rev newest" and len: "length rows = length commits" and rest: "rows_chained rows"
      "rows \<noteq> [] \<longrightarrow> vr_to_version (last rows) = sv_config_version s
          \<and> meta_get (sv_metadata s) ''candidate_id'' = VStr (vr_to_candidate (last rows))"
    using assms(1) by (auto simp: history_rows_def rbind_Inr Let_def split: if_splits)
  have rows: "distinct (map vr_id rows)"
      "\<forall>row \<in> set rows. \<exists>r. version_row_of r = Inr row \<and> map_of commits (vr_id row) = Some r"
    using commit_chain_rows [OF newest(1) own] newest(2) by (auto simp: rev_map [symmetric])
  have "set (map vr_id rows) \<subseteq> fst ` set commits"
    using rows(2) by (force dest: map_of_SomeD)
  moreover have "card (set (map vr_id rows)) = card (fst ` set commits)"
    using rows(1) len assms(3) by (metis distinct_card length_map set_map)
  ultimately have "set (map vr_id rows) = fst ` set commits"
    by (intro card_subset_eq) auto
  then show ?thesis
    using rows rest by simp
qed

text \<open>A verified timeline is one chain: it lists every committed replacement of the sleeve on file
  exactly once, each raising the version, each starting at the version and no earlier than the time of
  the one before it, and it ends at the version and the candidate the sleeve has now.\<close>

theorem timeline_is_one_chain:
  assumes "wf_dict files" and "verified_replacement_history error_text re files st s = Inr rows"
  shows "distinct (map vr_id rows)
    \<and> set (map vr_id rows) = {k. \<exists>r. map_of files k = Some (Record r) \<and> rq_target_sleeve (rp_request r) = sv_id s
        \<and> rp_phase r = PhCommitted}
    \<and> (\<forall>row \<in> set rows. vr_from_version row < vr_to_version row)
    \<and> (\<forall>i. Suc i < length rows \<longrightarrow> vr_to_version (rows ! i) = vr_from_version (rows ! Suc i)
        \<and> vr_effective_at (rows ! i) \<le> vr_effective_at (rows ! Suc i))
    \<and> (rows \<noteq> [] \<longrightarrow> vr_to_version (last rows) = sv_config_version s
        \<and> meta_get (sv_metadata s) ''candidate_id'' = VStr (vr_to_candidate (last rows)))"
proof -
  obtain edges where edges: "terminal_transitions re files st (sv_id s) = Inr edges"
      and rows: "history_rows (committed_records edges) s = Inr rows"
    using assms(2) by (auto simp: verified_replacement_history_def history_of_def rbind_Inr Let_def split: sum.splits if_splits)
  have own: "\<forall>k r. map_of (committed_records edges) k = Some r \<longrightarrow> rp_id r = k"
    using committed_records_own by blast
  have "wf_dict (committed_records edges)"
    by (simp add: committed_records_def)
  note all = history_rows_chain [OF rows own this]
  have chain: "distinct (map vr_id rows)" "rows_chained rows" "set (map vr_id rows) = fst ` set (committed_records edges)"
      "\<forall>row \<in> set rows. \<exists>r. version_row_of r = Inr row \<and> map_of (committed_records edges) (vr_id row) = Some r"
      "rows \<noteq> [] \<longrightarrow> vr_to_version (last rows) = sv_config_version s
          \<and> meta_get (sv_metadata s) ''candidate_id'' = VStr (vr_to_candidate (last rows))"
    using all by blast+
  have "fst ` set (committed_records edges) = {k. map_of (committed_records edges) k \<noteq> None}"
    by (simp add: dom_map_of_conv_image_fst [symmetric] dom_def del: not_None_eq)
  then have ids: "set (map vr_id rows) = {k. \<exists>r. map_of files k = Some (Record r)
      \<and> rq_target_sleeve (rp_request r) = sv_id s \<and> rp_phase r = PhCommitted}"
    using chain(3) committed_records_on_file [OF assms(1) edges] by auto
  have "vr_from_version row < vr_to_version row" if "row \<in> set rows" for row
  proof -
    obtain r where r: "version_row_of r = Inr row" "map_of (committed_records edges) (vr_id row) = Some r"
      using chain(4) \<open>row \<in> set rows\<close> by blast
    then obtain e where "e \<in> set edges" "te_record e = r" "rp_phase r = PhCommitted"
      by (auto simp: committed_records_def map_of_dict_of dest!: map_of_SomeD)
    then have "sc_version (rp_old_config r) < sc_version (rp_new_config r)"
      using edges audit_files_records audit_record_order unfolding terminal_transitions_def by blast
    then show ?thesis
      using r(1) by (auto simp: version_row_of_def rbind_Inr)
  qed
  then show ?thesis
    using chain(1,5) ids rows_chained_nth [OF chain(2)] by blast
qed

end
