(* ===== verification/Replacement.thy ===== *)
theory Replacement
  imports ReplacementJournal
begin

text \<open>
  The replacement of a sleeve's strategy version
  (\<open>src/quant_system/execution/strategy_replacement.py\<close>): an operation over the account, the sleeve
  files and the book of candidates, with a write-ahead record. Every write may fail; a crash is a run
  in which every write from some moment on fails, so the states the lemmas speak of are the ones a
  crash leaves behind. \<open>ReplacementSafety\<close> holds the lemmas: no run moves money, and when an abort can no
  longer be finished.
\<close>

section \<open>Operations that may fail half way\<close>

type_synonym ('s, 'a) act = "'s \<Rightarrow> 's \<times> 'a result"

definition lift :: "'a result \<Rightarrow> ('s, 'a) act" where
  "lift x s = (s, x)"

definition reading :: "('s \<Rightarrow> 'a result) \<Rightarrow> ('s, 'a) act" where
  "reading f s = (s, f s)"

definition sbind :: "('s, 'a) act \<Rightarrow> ('a \<Rightarrow> ('s, 'b) act) \<Rightarrow> ('s, 'b) act" where
  "sbind m f s = (case m s of (s, Inl e) \<Rightarrow> (s, Inl e) | (s, Inr x) \<Rightarrow> f x s)"

definition on_error :: "('s, 'a) act \<Rightarrow> (py_error \<Rightarrow> ('s, 'a) act) \<Rightarrow> ('s, 'a) act" where
  "on_error m handler s = (case m s of (s, Inl e) \<Rightarrow> handler e s | (s, Inr x) \<Rightarrow> (s, Inr x))"

text \<open>An operation that looks at the state it starts in.\<close>

definition sees :: "('s \<Rightarrow> ('s, 'a) act) \<Rightarrow> ('s, 'a) act" where
  "sees g s = g s s"

text \<open>\<open>except (\<dots>): pass\<close>.\<close>

definition swallow :: "(py_error \<Rightarrow> bool) \<Rightarrow> ('s, unit) act \<Rightarrow> ('s, unit) act" where
  "swallow caught m = on_error m (\<lambda>e. if caught e then lift (Inr ()) else lift (Inl e))"

section \<open>The world\<close>

record assistant_book =
  bk_candidates :: "metadata list"
  bk_requests :: "pyval list"

record replacement_world =
  rw_files :: file_store
  rw_store :: sleeve_store
  rw_book :: "assistant_book option"
  rw_journals :: journal_files
  rw_tick :: nat

text \<open>What the expensive checks outside the locks are shown.\<close>

record preflight_view =
  pv_new_candidate :: metadata
  pv_target_candidate :: metadata
  pv_target_sleeve :: strategy_sleeve
  pv_target_config :: strategy_config
  pv_book :: assistant_book

text \<open>
  The collaborators of the operation: the text of an exception with and without its type; the clock and whether a write fails, both read at the number of
  writes tried so far; the safety settings and costs; the admission module, whose preflight runs
  without locks and so may find the world changed by others.
\<close>

record saga_env =
  se_audit :: replacement_env
  se_loads :: "string \<Rightarrow> pyval option"
  se_error_text :: "py_error \<Rightarrow> string"
  se_error_reason :: "py_error \<Rightarrow> string"
  se_loaded_at :: string
  se_now :: "nat \<Rightarrow> string"
  se_fails :: "nat \<Rightarrow> bool"
  se_live :: bool
  se_paper :: bool
  se_commission_bps :: rat
  se_slippage_bps :: rat
  se_authority :: bool
  se_emergency :: "string \<Rightarrow> emergency_row"
  se_verifier :: "(preflight_view \<Rightarrow> metadata result) option"
  se_preflight :: "(preflight_view \<Rightarrow> (replacement_world, unit) act) option"

definition now_of :: "saga_env \<Rightarrow> replacement_world \<Rightarrow> string" where
  "now_of se w = se_now se (rw_tick w)"

definition attempt :: "saga_env \<Rightarrow> (replacement_world \<Rightarrow> replacement_world) \<Rightarrow> (replacement_world, unit) act" where
  "attempt se f w =
     (let w' = w\<lparr>rw_tick := Suc (rw_tick w)\<rparr>
      in if se_fails se (rw_tick w) then (w', Inl (OSError ''write'')) else (f w', Inr ()))"

text \<open>The book of the remote assistant: \<open>load_book\<close>, \<open>save_book\<close> of \<open>assistant_remote.py\<close>.\<close>

definition current_request_fields :: "string list" where
  "current_request_fields = [''request_id'', ''objective'', ''status'', ''job_key'', ''created_at'', ''updated_at'',
     ''operation_id'', ''material_digest'', ''command_id'', ''platform_session_id'', ''hermes_session_id'',
     ''hermes_run_id'', ''job_id'', ''job_input_digest'', ''terminal'', ''outcome'', ''result_reply'',
     ''candidate_id'', ''source_digest'', ''universe'', ''evidence'']"

definition load_book :: "replacement_world \<Rightarrow> assistant_book" where
  "load_book w =
     (case rw_book w of
        None \<Rightarrow> \<lparr>bk_candidates = [], bk_requests = []\<rparr>
      | Some b \<Rightarrow> b\<lparr>bk_requests := map (\<lambda>v. case v of
            VDict d \<Rightarrow> VDict (filter (\<lambda>(k, _). k \<in> set current_request_fields) d) | v \<Rightarrow> v) (bk_requests b)\<rparr>)"

definition save_book :: "saga_env \<Rightarrow> assistant_book \<Rightarrow> (replacement_world, unit) act" where
  "save_book se b = attempt se (\<lambda>w. w\<lparr>rw_book := Some b\<rparr>)"

definition find_candidate :: "assistant_book \<Rightarrow> string \<Rightarrow> metadata result" where
  "find_candidate b identity =
     (case filter (\<lambda>row. meta_get row ''candidate_id'' = VStr identity) (bk_candidates b) of
        [row] \<Rightarrow> Inr row
      | _ \<Rightarrow> Inl (ValueError ''replacement_candidate_identity_missing''))"

text \<open>The rows of the two candidates of a request, put in place of the ones in the book.\<close>

definition bind_rows :: "replacement_request \<Rightarrow> metadata \<Rightarrow> metadata \<Rightarrow> assistant_book \<Rightarrow> assistant_book" where
  "bind_rows rq old new b = b\<lparr>bk_candidates := map (\<lambda>row.
       if meta_get row ''candidate_id'' = VStr (rq_target_candidate rq) then old
       else if meta_get row ''candidate_id'' = VStr (rq_new_candidate rq) then new else row) (bk_candidates b)\<rparr>"

definition save_sleeve_file :: "saga_env \<Rightarrow> strategy_sleeve \<Rightarrow> (replacement_world, unit) act" where
  "save_sleeve_file se s = attempt se (\<lambda>w. w\<lparr>rw_store := save_sleeve s (rw_store w)\<rparr>)"

text \<open>\<open>save_strategy_config\<close>: two files, the version unless it is there, and the metadata.\<close>

definition save_config_files :: "saga_env \<Rightarrow> strategy_config \<Rightarrow> (replacement_world, unit) act" where
  "save_config_files se c =
     sbind (sees (\<lambda>w. if map_of (ss_configs (rw_store w)) (sc_id c, sc_version c) = None
              then attempt se (\<lambda>w. w\<lparr>rw_store := (rw_store w)\<lparr>ss_configs :=
                     AList.update (sc_id c, sc_version c) c (ss_configs (rw_store w))\<rparr>\<rparr>)
              else lift (Inr ()))) (\<lambda>_.
     sbind (reading (\<lambda>w. snd (save_strategy_config c (rw_store w)))) (\<lambda>_.
       attempt se (\<lambda>w. w\<lparr>rw_store := fst (save_strategy_config c (rw_store w))\<rparr>)))"

definition load_account :: "saga_env \<Rightarrow> (replacement_world, paper_account option) act" where
  "load_account se w =
     (let (files, a) = store_load (re_runtime (se_audit se)) (se_loaded_at se) (rw_files w)
      in (w\<lparr>rw_files := files\<rparr>, Inr a))"

definition require_clean_allocation :: "saga_env \<Rightarrow> replacement_world \<Rightarrow> unit result" where
  "require_clean_allocation se w =
     (let status = ai_status (store_allocation_integrity (re_runtime (se_audit se)) (se_loads se)
            (re_sha256 (se_audit se)) (rw_files w))
      in if status \<in> {''in_sync'', ''missing''} then Inr ()
         else Inl (ValueError
           (if status = ''partition_invalid'' then ''paper_account_partition_invalid''
            else if status = ''allocation_ledger_invalid'' then ''paper_account_allocation_ledger_invalid''
            else if status = ''corrupt'' then ''paper_account_storage_corrupt''
            else ''paper_account_unavailable'')))"

definition existing_account :: "saga_env \<Rightarrow> (replacement_world, paper_account) act" where
  "existing_account se =
     sbind (reading (require_clean_allocation se)) (\<lambda>_.
     sbind (load_account se) (\<lambda>a.
       case a of None \<Rightarrow> lift (Inl (ValueError ''replacement_existing_account_required'')) | Some a \<Rightarrow> lift (Inr a)))"

section \<open>Candidates and their definitions\<close>

definition frozen_definition_identity ::
    "(pyval \<Rightarrow> strategy_definition result) \<Rightarrow> pyval \<Rightarrow> strategy_definition result" where
  "frozen_definition_identity model raw =
     (case raw of
        VDict d \<Rightarrow>
          if \<not> truthy (meta_get d ''content_digest'') \<or> \<not> truthy (meta_get d ''source_fingerprints'')
          then Inl (ValueError ''strategy_definition_binding_required'')
          else rbind (model raw) (\<lambda>df.
            if sd_whole_share_orders df then Inl (ValueError ''strategy_whole_share_paper_unsupported'') else Inr df)
      | _ \<Rightarrow> Inl (ValueError ''strategy_definition_binding_required''))"

abbreviation frozen_reader :: "saga_env \<Rightarrow> pyval \<Rightarrow> strategy_definition result" where
  "frozen_reader se \<equiv> frozen_definition_identity (re_model (se_audit se))"

abbreviation strict_reader :: "saga_env \<Rightarrow> pyval \<Rightarrow> strategy_definition result" where
  "strict_reader se \<equiv> paper_definition (re_validate (se_audit se))"

definition candidate_path :: "metadata \<Rightarrow> string result" where
  "candidate_path c =
     rbind (need c ''source_path'') (\<lambda>v. case v of
       VStr path \<Rightarrow> Inr path | _ \<Rightarrow> Inl (TypeError ''expected str, bytes or os.PathLike object''))"

definition candidate_definition :: "saga_env \<Rightarrow> bool \<Rightarrow> metadata \<Rightarrow> strategy_definition result" where
  "candidate_definition se historical c =
     (let re = se_audit se
      in rbind (require (meta_get c ''source'' = VStr ''strategy_definition'')
                  ''replacement_requires_frozen_strategy_definition'') (\<lambda>_.
         rbind (candidate_path c) (\<lambda>path.
         rbind (require (re_owned re (re_resolve re path)) ''replacement_source_outside_owner_root'') (\<lambda>_.
         case re_file re (re_resolve re path) of
           None \<Rightarrow> Inl (FileNotFoundError path)
         | Some (sha, content) \<Rightarrow>
             rbind (require (meta_get c ''source_digest'' = VStr sha) ''replacement_source_changed'') (\<lambda>_.
             case content of
               None \<Rightarrow> Inl (ValueError ''not a JSON document'')
             | Some raw \<Rightarrow>
                 rbind (if historical then frozen_reader se raw else re_validate re raw) (\<lambda>df.
                 rbind (require (meta_get c ''factor_id'' = VStr (''definition_'' @ take 24 (sd_content_digest df))
                          \<and> py_eq (meta_get c ''universe'') (str_values (sd_symbols df)))
                          ''replacement_candidate_definition_mismatch'') (\<lambda>_.
                   Inr df)))))))"

definition definition_fields :: "strategy_definition \<Rightarrow> metadata" where
  "definition_fields df = (case sd_dump df of VDict d \<Rightarrow> d | _ \<Rightarrow> [])"

definition same_contract :: "strategy_definition \<Rightarrow> strategy_definition \<Rightarrow> bool" where
  "same_contract old new \<longleftrightarrow>
     list_all (\<lambda>k. py_eq (meta_get (definition_fields old) k) (meta_get (definition_fields new) k)) same_fields"

text \<open>\<open>config.strategy_definition == definition.model_dump(mode="json")\<close>.\<close>

definition config_holds :: "strategy_config \<Rightarrow> strategy_definition \<Rightarrow> bool" where
  "config_holds c df \<longleftrightarrow> py_eq (opt_value id (sc_definition c)) (sd_dump df)"

definition admission_sha :: "metadata \<Rightarrow> pyval result" where
  "admission_sha c =
     (case dict_get c ''admission_v2'' (VDict []) of
        VDict d \<Rightarrow> Inr (meta_get d ''sha256'')
      | _ \<Rightarrow> Inl (AttributeError ''object has no attribute get''))"

section \<open>The target\<close>

definition target_status_allows :: "saga_env \<Rightarrow> replacement_world \<Rightarrow> strategy_sleeve \<Rightarrow> bool result" where
  "target_status_allows se w s =
     (if sv_status s = Running then Inr True
      else
        let aborted = meta_get (sv_metadata s) ''replacement_aborted_id''
        in if sv_status s \<noteq> Paused \<or> \<not> truthy (meta_get (sv_metadata s) ''replacement_restore_blocker'') \<or> \<not> truthy aborted
           then Inr False
           else rbind (terminal_transitions (se_audit se) (rw_journals w) (rw_store w) (sv_id s)) (\<lambda>edges.
             Inr (list_ex (\<lambda>e. rp_phase (te_record e) = PhAborted \<and> VStr (rp_id (te_record e)) = aborted
                    \<and> same_document (te_after e) (financial_projection s)) edges)))"

abbreviation pending_in :: "saga_env \<Rightarrow> replacement_world \<Rightarrow> strategy_sleeve \<Rightarrow> bool" where
  "pending_in se w s \<equiv> sleeve_replacement_pending (se_audit se) (rw_journals w) s"

text \<open>The guard both readings of the target share: the candidate's row and the sleeve belong together.\<close>

definition target_current ::
    "saga_env \<Rightarrow> replacement_world \<Rightarrow> metadata \<Rightarrow> string \<Rightarrow> string \<Rightarrow> strategy_sleeve \<Rightarrow> unit result" where
  "target_current se w candidate candidate_id sleeve_id s =
     (let failed = ''replacement_target_not_current''
      in rbind (require (meta_get candidate ''status'' = VStr ''hung'' \<and> meta_get candidate ''sleeve_id'' = VStr sleeve_id
                  \<and> meta_get (sv_metadata s) ''candidate_id'' = VStr candidate_id) failed) (\<lambda>_.
         rbind (target_status_allows se w s) (\<lambda>allows.
           require (allows \<and> sv_mode s = Allocated \<and> \<not> pending_in se w s) failed)))"

record target_view =
  tv_candidate :: string
  tv_sleeve :: string
  tv_digest :: string
  tv_config :: string
  tv_version :: int
  tv_definition :: pyval
  tv_source_sha :: pyval
  tv_source_path :: string

definition inspect_replacement_target ::
    "saga_env \<Rightarrow> string \<Rightarrow> string option \<Rightarrow> replacement_world \<Rightarrow> target_view result" where
  "inspect_replacement_target se candidate_id sleeve_id w =
     (let book = load_book w
      in rbind (find_candidate book candidate_id) (\<lambda>candidate.
         rbind (require (meta_get candidate ''source'' = VStr ''strategy_definition'')
                  ''replacement_requires_frozen_strategy_definition'') (\<lambda>_.
         rbind (case (case sleeve_id of None \<Rightarrow> meta_get candidate ''sleeve_id''
                      | Some i \<Rightarrow> if i = [] then meta_get candidate ''sleeve_id'' else VStr i) of
                  VStr i \<Rightarrow> rbind (require (valid_account_id i) ''replacement_target_not_current'') (\<lambda>_. Inr i)
                | _ \<Rightarrow> Inl (ValueError ''replacement_target_not_current'')) (\<lambda>selected.
         rbind (load_sleeve selected (rw_store w)) (\<lambda>s.
         rbind (target_current se w candidate candidate_id selected s) (\<lambda>_.
         rbind (require (length (filter (\<lambda>row. meta_get row ''status'' = VStr ''hung''
                    \<and> meta_get row ''sleeve_id'' = VStr selected) (bk_candidates book)) = 1)
                  ''replacement_duplicate_sleeve_binding'') (\<lambda>_.
         rbind (load_frozen_strategy_config (frozen_reader se) (sv_config_id s) (Some (sv_config_version s)) (rw_store w)) (\<lambda>config.
         rbind (candidate_definition se True candidate) (\<lambda>df.
         rbind (require (config_holds config df
                  \<and> meta_get (sv_metadata s) ''definition_digest'' = VStr (sd_content_digest df))
                  ''replacement_target_definition_mismatch'') (\<lambda>_.
         rbind (need candidate ''source_digest'') (\<lambda>sha.
         rbind (require ((let v = meta_get (sv_metadata s) ''source_digest''
                    in if truthy v then v else meta_get (sv_metadata s) ''candidate_code_digest'') = sha)
                  ''replacement_target_definition_mismatch'') (\<lambda>_.
         rbind (candidate_path candidate) (\<lambda>path.
           Inr \<lparr>tv_candidate = candidate_id, tv_sleeve = selected, tv_digest = sd_content_digest df,
                tv_config = sc_id config, tv_version = sc_version config, tv_definition = sd_dump df,
                tv_source_sha = sha, tv_source_path = re_resolve (se_audit se) path\<rparr>)))))))))))))"

section \<open>The gate\<close>

definition paper_only :: "saga_env \<Rightarrow> unit result" where
  "paper_only se = require (\<not> se_live se \<and> se_paper se) ''replacement_paper_safety_closed''"

definition emergency_clear :: "saga_env \<Rightarrow> strategy_sleeve \<Rightarrow> unit result" where
  "emergency_clear se s =
     rbind (observe_paper_emergency_stop (se_emergency se)
              (meta_str (re_runtime (se_audit se)) (sv_metadata s) ''workspace_id'' ''default'')) (\<lambda>e.
       require (meta_get e ''active'' = VBool False) ''replacement_emergency_or_authority_unavailable'')"

definition replacement_gate :: "saga_env \<Rightarrow> replacement_request \<Rightarrow> preflight_view \<Rightarrow> metadata result" where
  "replacement_gate se rq v =
     rbind (require (se_authority se) ''replacement_authority_disabled'') (\<lambda>_.
     rbind (emergency_clear se (pv_target_sleeve v)) (\<lambda>_.
     case se_verifier se of
       None \<Rightarrow> Inl (ValueError ''replacement_admission_verifier_unavailable'')
     | Some verify \<Rightarrow>
         rbind (verify v) (\<lambda>passed.
         rbind (require (meta_get passed ''status'' = VStr ''passed'' \<and> meta_get passed ''validated_tier'' = VStr ''T2''
                  \<and> py_eq (meta_get passed ''capital_delta_usd'') (VInt 0)
                  \<and> py_eq (meta_get passed ''replacement_target'')
                      (VDict [(''candidate_id'', VStr (rq_target_candidate rq)),
                         (''sleeve_id'', VStr (sv_id (pv_target_sleeve v))),
                         (''definition_digest'', VStr (rq_old_digest rq)),
                         (''config_id'', VStr (sc_id (pv_target_config v))),
                         (''config_version'', VInt (rq_old_version rq))]))
                  ''replacement_admission_target_mismatch'') (\<lambda>_.
           Inr passed))))"

definition run_preflight :: "saga_env \<Rightarrow> preflight_view \<Rightarrow> (replacement_world, unit) act" where
  "run_preflight se v =
     (case se_preflight se of
        None \<Rightarrow> lift (Inl (ValueError ''replacement_preflight_unavailable''))
      | Some operation \<Rightarrow> operation v)"

section \<open>The record of a running replacement\<close>

text \<open>
  The operation holds the record as an object and changes it in place: its state is the object beside
  the world. What it changed stays changed when the write that follows fails.
\<close>

type_synonym saga = "replacement \<times> replacement_world"

definition outside :: "(replacement_world, 'a) act \<Rightarrow> (saga, 'a) act" where
  "outside m s = (case m (snd s) of (w, x) \<Rightarrow> ((fst s, w), x))"

definition edit_record :: "(replacement \<Rightarrow> replacement_world \<Rightarrow> replacement) \<Rightarrow> (saga, unit) act" where
  "edit_record f s = ((f (fst s) (snd s), snd s), Inr ())"

definition stamped :: "saga_env \<Rightarrow> replacement_phase \<Rightarrow> replacement \<Rightarrow> replacement_world \<Rightarrow> replacement" where
  "stamped se phase r w =
     (let r = r\<lparr>rp_phase := phase, rp_events := rp_events r @ [(phase_str phase, now_of se w)]\<rparr>
      in r\<lparr>rp_digest := re_seal (se_audit se) (r\<lparr>rp_digest := []\<rparr>)\<rparr>)"

definition write_record :: "saga_env \<Rightarrow> (saga, unit) act" where
  "write_record se = sees (\<lambda>(r, _).
     if valid_replacement_id (rp_id r)
     then outside (attempt se (\<lambda>w. w\<lparr>rw_journals := AList.update (rp_id r) (Record r) (rw_journals w)\<rparr>))
     else lift (Inl (ValueError ''replacement_id_invalid'')))"

definition save_journal :: "saga_env \<Rightarrow> replacement_phase \<Rightarrow> (saga, unit) act" where
  "save_journal se phase = sbind (edit_record (stamped se phase)) (\<lambda>_. write_record se)"

definition load_target :: "(saga, strategy_sleeve) act" where
  "load_target = reading (\<lambda>(r, w). load_sleeve (rq_target_sleeve (rp_request r)) (rw_store w))"

text \<open>\<open>_hold_failed\<close>: the sleeve is paused under the marker and the record notes the error; a sleeve that
  is neither running nor paused is left, and the record with it.\<close>

definition held_sleeve :: "saga_env \<Rightarrow> saga \<Rightarrow> strategy_sleeve \<Rightarrow> strategy_sleeve" where
  "held_sleeve se x s = s\<lparr>sv_status := Paused,
     sv_metadata := AList.update marker (VStr (rp_id (fst x))) (sv_metadata s),
     sv_paused_at := (case sv_paused_at s of None \<Rightarrow> Some (now_of se (snd x))
       | Some t \<Rightarrow> if t = [] then Some (now_of se (snd x)) else Some t)\<rparr>"

definition hold_sleeve :: "saga_env \<Rightarrow> (saga, bool) act" where
  "hold_sleeve se = on_error
     (sbind load_target (\<lambda>v.
        if sv_status v \<notin> {Running, Paused} then lift (Inr False)
        else sbind (sees (\<lambda>x. outside (save_sleeve_file se (held_sleeve se x v)))) (\<lambda>_. lift (Inr True))))
     (\<lambda>e. if is_os_error e \<or> is_value_error e then lift (Inr True) else lift (Inl e))"

definition hold_failed :: "saga_env \<Rightarrow> py_error \<Rightarrow> (saga, unit) act" where
  "hold_failed se e =
     sbind (hold_sleeve se) (\<lambda>continues.
       if \<not> continues then lift (Inr ())
       else swallow is_os_error
         (sbind (edit_record (\<lambda>r _. r\<lparr>rp_error := Some (se_error_text se e)\<rparr>)) (\<lambda>_.
            save_journal se PhRecoveryRequired)))"

definition held :: "saga_env \<Rightarrow> (saga, 'a) act \<Rightarrow> (saga, 'a) act" where
  "held se m = on_error m (\<lambda>e. sbind (hold_failed se e) (\<lambda>_. lift (Inl e)))"

record replacement_result =
  rr_id :: string
  rr_status :: replacement_phase
  rr_sleeve :: string
  rr_capital_delta :: int
  rr_old_version :: int
  rr_new_version :: int
  rr_active_version :: int
  rr_old_candidate :: string
  rr_new_candidate :: string
  rr_committed_at :: "string option"

definition result_of :: "replacement \<Rightarrow> replacement_result" where
  "result_of r =
     \<lparr>rr_id = rp_id r, rr_status = rp_phase r, rr_sleeve = rq_target_sleeve (rp_request r), rr_capital_delta = 0,
      rr_old_version = sc_version (rp_old_config r), rr_new_version = sc_version (rp_new_config r),
      rr_active_version = (if rp_phase r = PhAborted then sc_version (rp_old_config r) else sc_version (rp_new_config r)),
      rr_old_candidate = rq_target_candidate (rp_request r), rr_new_candidate = rq_new_candidate (rp_request r),
      rr_committed_at = (if rp_phase r = PhCommitted then rp_committed_at r else None)\<rparr>"

datatype saga_answer = Settled replacement_result | PendingPreflight preflight_view

definition answer :: "(saga, saga_answer) act" where
  "answer = reading (\<lambda>(r, w). Inr (Settled (result_of r)))"

text \<open>The rows of both candidates once the new one is bound.\<close>

definition after_candidates :: "replacement \<Rightarrow> metadata \<times> metadata" where
  "after_candidates r =
     (let rq = rp_request r
      in (dict_merge (rp_old_candidate r)
            [(''status'', VStr ''superseded''), (''replaced_by'', VStr (rq_new_candidate rq)),
             (''replacement_id'', VStr (rp_id r))],
          dict_merge (rp_new_candidate r)
            [(''status'', VStr ''hung''), (''sleeve_id'', VStr (rq_target_sleeve rq)),
             (''replaces'', VStr (rq_target_candidate rq)), (''replacement_id'', VStr (rp_id r)),
             (''strategy_config_version'', VInt (sc_version (rp_new_config r))),
             (''performance_scope'', VStr performance_scope), (''current_version_performance'', not_evaluated)]))"

datatype binding = BookBefore | BookAfter

definition book_state :: "assistant_book \<Rightarrow> replacement \<Rightarrow> binding result" where
  "book_state b r =
     rbind (find_candidate b (rq_target_candidate (rp_request r))) (\<lambda>old.
     rbind (find_candidate b (rq_new_candidate (rp_request r))) (\<lambda>new.
       if same_document old (rp_old_candidate r) \<and> same_document new (rp_new_candidate r) then Inr BookBefore
       else rbind (require (same_document old (fst (after_candidates r)) \<and> same_document new (snd (after_candidates r)))
                     ''replacement_book_cas_changed'') (\<lambda>_. Inr BookAfter)))"

definition marked_sleeve :: "replacement \<Rightarrow> strategy_sleeve \<Rightarrow> strategy_sleeve" where
  "marked_sleeve r s = s\<lparr>sv_status := Paused, sv_metadata := AList.update marker (VStr (rp_id r)) (sv_metadata s)\<rparr>"

definition old_target_view :: "replacement \<Rightarrow> strategy_sleeve result" where
  "old_target_view r = rbind (checked_sleeve (rp_old_sleeve r)) (\<lambda>s. Inr (marked_sleeve r s))"

definition economics_unchanged :: "saga_env \<Rightarrow> strategy_sleeve \<Rightarrow> paper_account option \<Rightarrow> saga \<Rightarrow> unit result" where
  "economics_unchanged se s account x =
     (case account of
        None \<Rightarrow> Inl (AttributeError ''object has no attribute account_id'')
      | Some a \<Rightarrow>
          rbind (economic_snapshot (se_audit se) a (rw_store (snd x)) s) (\<lambda>value.
            require (economics_same value (rp_economic (fst x))) ''replacement_economics_changed''))"

section \<open>From the record to the commit\<close>

definition bind_book :: "saga_env \<Rightarrow> (saga, unit) act" where
  "bind_book se =
     sbind (reading (\<lambda>(r, w). Inr (load_book w))) (\<lambda>book.
     sbind (reading (\<lambda>(r, w). book_state book r)) (\<lambda>_.
     sbind (sees (\<lambda>(r, _). outside (save_book se
              (bind_rows (rp_request r) (fst (after_candidates r)) (snd (after_candidates r)) book)))) (\<lambda>_.
       save_journal se PhBookBound)))"

text \<open>The sleeve as it resumes under the new version.\<close>

definition resumed_sleeve :: "replacement \<Rightarrow> strategy_config \<Rightarrow> string \<Rightarrow> strategy_sleeve \<Rightarrow> strategy_sleeve" where
  "resumed_sleeve r next_config now s = s\<lparr>sv_config_version := sc_version next_config,
     sv_metadata := dict_merge (sc_metadata next_config) (version_metadata r now),
     sv_status := Running, sv_paused_at := None, sv_updated_at := now\<rparr>"

definition resume :: "saga_env \<Rightarrow> strategy_config \<Rightarrow> strategy_sleeve \<Rightarrow> (saga, saga_answer) act" where
  "resume se next_config s = sees (\<lambda>(r, w).
     let now = now_of se w; s = resumed_sleeve r next_config now s
     in sbind (edit_record (\<lambda>r _. r\<lparr>rp_committed_at := Some now, rp_new_sleeve := Some s\<rparr>)) (\<lambda>_.
        sbind (save_journal se PhReadyToResume) (\<lambda>_.
        sbind (outside (save_sleeve_file se s)) (\<lambda>_.
        sbind (save_journal se PhCommitted) (\<lambda>_. answer)))))"

definition complete_locked :: "saga_env \<Rightarrow> (saga, saga_answer) act" where
  "complete_locked se =
     sbind load_target (\<lambda>s. sees (\<lambda>(r, w).
     let s = (marked_sleeve r s)\<lparr>sv_paused_at := Some (now_of se w)\<rparr>
     in sbind (outside (save_sleeve_file se s)) (\<lambda>_.
        sbind (save_journal se PhPaused) (\<lambda>_.
        sbind (reading (\<lambda>(r, w). validate_config (strict_reader se) (rp_new_config r))) (\<lambda>next_config.
        sbind (outside (save_config_files se next_config)) (\<lambda>_.
        sbind (save_journal se PhConfigSaved) (\<lambda>_.
        sbind (bind_book se) (\<lambda>_.
        sbind (outside (load_account se)) (\<lambda>account.
        sbind (reading (economics_unchanged se s account)) (\<lambda>_.
          resume se next_config s))))))))))"

section \<open>Recovery\<close>

text \<open>What a comparison of sleeves leaves out: status and times, the marker, and this record's own abort.\<close>

definition comparable :: "replacement \<Rightarrow> strategy_sleeve \<Rightarrow> strategy_sleeve" where
  "comparable r s =
     (let md = AList.delete marker (sv_metadata s); key = ''replacement_aborted_id'';
          md = (if meta_get md key = VStr (rp_id r)
                then (case meta_get (sv_metadata (rp_old_sleeve r)) key of
                        VNone \<Rightarrow> AList.delete key md
                      | earlier \<Rightarrow> AList.update key earlier md)
                else md)
      in s\<lparr>sv_status := Running, sv_updated_at := [], sv_paused_at := None, sv_metadata := md\<rparr>)"

definition sleeve_same :: "strategy_sleeve \<Rightarrow> strategy_sleeve \<Rightarrow> bool" where
  "sleeve_same s t \<longleftrightarrow> s\<lparr>sv_metadata := []\<rparr> = t\<lparr>sv_metadata := []\<rparr> \<and> same_document (sv_metadata s) (sv_metadata t)"

definition expected_sleeve :: "replacement \<Rightarrow> strategy_sleeve \<Rightarrow> strategy_sleeve" where
  "expected_sleeve r s =
     (if sv_config_version s = sc_version (rp_new_config r)
      then (case rp_new_sleeve r of
              Some new \<Rightarrow> new
            | None \<Rightarrow> (rp_old_sleeve r)\<lparr>sv_config_version := sv_config_version s,
                        sv_metadata := sc_metadata (rp_new_config r)\<rparr>)
      else rp_old_sleeve r)"

definition own_marker :: "replacement \<Rightarrow> strategy_sleeve \<Rightarrow> bool" where
  "own_marker r s \<longleftrightarrow> meta_get (sv_metadata s) marker \<in> {VNone, VStr (rp_id r)}"

text \<open>Nothing the record was made from has changed; the old config and both definitions are returned.\<close>

definition recovery_checks ::
    "saga_env \<Rightarrow> bool \<Rightarrow> strategy_sleeve \<Rightarrow> paper_account \<Rightarrow> saga
      \<Rightarrow> (strategy_config \<times> strategy_definition \<times> strategy_definition) result" where
  "recovery_checks se aborting s account x =
     (let r = fst x; st = rw_store (snd x); rq = rp_request r; cas = ''replacement_sleeve_cas_changed''
      in rbind (require (sv_status s \<in> {Running, Paused}) ''replacement_target_stopped'') (\<lambda>_.
         rbind (require (sv_config_id s = sc_id (rp_old_config r)
                  \<and> sv_config_version s \<in> {sc_version (rp_old_config r), sc_version (rp_new_config r)}
                  \<and> own_marker r s) cas) (\<lambda>_.
         rbind (economics_unchanged se s (Some account) x) (\<lambda>_.
         rbind (no_pending account st s) (\<lambda>_.
         rbind (load_frozen_strategy_config (frozen_reader se) (sv_config_id s) (Some (sc_version (rp_old_config r))) st) (\<lambda>old_config.
         rbind (require (same_config old_config (rp_old_config r)) ''replacement_old_config_changed'') (\<lambda>_.
         rbind (load_frozen_strategy_config (frozen_reader se) (sv_config_id s) None st) (\<lambda>latest.
         rbind (require (same_config latest (rp_latest_before r) \<or> same_config latest (rp_new_config r))
                  ''replacement_config_history_changed'') (\<lambda>_.
         rbind (candidate_definition se True (rp_old_candidate r)) (\<lambda>old.
         rbind (candidate_definition se aborting (rp_new_candidate r)) (\<lambda>new.
         rbind (require (sd_content_digest old = rq_old_digest rq \<and> config_holds old_config old
                  \<and> sv_config_id (rp_old_sleeve r) = sc_id old_config
                  \<and> sv_config_version (rp_old_sleeve r) = sc_version old_config
                  \<and> sc_version old_config = rq_old_version rq) ''replacement_definition_changed'') (\<lambda>_.
         rbind (need (rp_new_candidate r) ''source_digest'') (\<lambda>source.
         rbind (admission_sha (rp_new_candidate r)) (\<lambda>admission.
         rbind (require (source = VStr (rq_new_source rq) \<and> admission = VStr (rq_admission rq)
                  \<and> py_eq (sd_dump new) (opt_value id (sc_definition (rp_new_config r))))
                  ''replacement_definition_changed'') (\<lambda>_.
         rbind (require (sleeve_same (comparable r s) (comparable r (expected_sleeve r s))) cas) (\<lambda>_.
         rbind (require (rp_abort r \<longrightarrow> aborting) ''replacement_abort_in_progress'') (\<lambda>_.
           Inr (old_config, old, new))))))))))))))))))"

text \<open>The abort: the old rows, then the old sleeve, paused where its definition no longer validates.\<close>

definition restored_sleeve :: "replacement \<Rightarrow> string option \<Rightarrow> string \<Rightarrow> strategy_sleeve \<Rightarrow> strategy_sleeve" where
  "restored_sleeve r blocker now s =
     (let s = (case blocker of None \<Rightarrow> s
               | Some b \<Rightarrow> s\<lparr>sv_status := Paused, sv_paused_at := Some now,
                     sv_metadata := AList.update ''replacement_restore_blocker'' (VStr b) (sv_metadata s)\<rparr>)
      in s\<lparr>sv_metadata := AList.update ''replacement_aborted_id'' (VStr (rp_id r)) (sv_metadata s), sv_updated_at := now\<rparr>)"

text \<open>Whether the old definition still runs: \<open>str\<close> of the \<open>ValueError\<close> its validation raises.\<close>

definition stale_definition :: "saga_env \<Rightarrow> strategy_definition \<Rightarrow> string option result" where
  "stale_definition se old =
     (case re_validate (se_audit se) (sd_dump old) of
        Inr _ \<Rightarrow> Inr None
      | Inl e \<Rightarrow> if is_value_error e then Inr (Some (se_error_reason se e)) else Inl e)"

definition abort_locked ::
    "saga_env \<Rightarrow> strategy_sleeve \<Rightarrow> strategy_definition \<Rightarrow> assistant_book \<Rightarrow> (saga, saga_answer) act" where
  "abort_locked se s old before_book =
     sbind (lift (emergency_clear se s)) (\<lambda>_.
     sbind (edit_record (\<lambda>r _. r\<lparr>rp_abort := True\<rparr>)) (\<lambda>_.
     sbind (save_journal se PhAborting) (\<lambda>_.
     sbind (outside (save_book se before_book)) (\<lambda>_.
     sbind (reading (\<lambda>(r, w). checked_sleeve (rp_old_sleeve r))) (\<lambda>restored.
     sbind (lift (stale_definition se old)) (\<lambda>blocker. sees (\<lambda>(r, w).
       let now = now_of se w; restored = restored_sleeve r blocker now restored
       in sbind (edit_record (\<lambda>r _. r\<lparr>rp_blocker := (case blocker of None \<Rightarrow> rp_blocker r | Some b \<Rightarrow> Some b),
                    rp_restored := Some restored, rp_aborted_at := Some now\<rparr>)) (\<lambda>_.
          sbind (save_journal se PhReadyToAbort) (\<lambda>_.
          sbind (outside (save_sleeve_file se restored)) (\<lambda>_.
          sbind (save_journal se PhAborted) (\<lambda>_. answer)))))))))))"

text \<open>Towards the commit again: both rows and the sleeve are put back as they were before, and the caller
  is sent to the preflight, or the gate is asked and the completion repeated.\<close>

definition recheck_view :: "replacement \<Rightarrow> strategy_sleeve \<Rightarrow> strategy_config \<Rightarrow> assistant_book \<Rightarrow> preflight_view" where
  "recheck_view r s old_config before_book =
     \<lparr>pv_new_candidate = rp_new_candidate r, pv_target_candidate = rp_old_candidate r, pv_target_sleeve = s,
      pv_target_config = old_config, pv_book = before_book\<rparr>"

definition restart_locked ::
    "saga_env \<Rightarrow> bool \<Rightarrow> binding \<Rightarrow> strategy_config \<Rightarrow> strategy_definition \<Rightarrow> assistant_book
      \<Rightarrow> (saga, saga_answer) act" where
  "restart_locked se prepare_only state old_config new before_book =
     sbind (lift (require_paper_costs new (se_commission_bps se) (se_slippage_bps se))) (\<lambda>_.
     sbind (if state = BookAfter
            then sbind (outside (save_book se before_book)) (\<lambda>_. save_journal se PhBindingRestored)
            else lift (Inr ())) (\<lambda>_.
     sbind (reading (\<lambda>(r, w). old_target_view r)) (\<lambda>view. sees (\<lambda>(_, w).
     let s = view\<lparr>sv_paused_at := Some (now_of se w)\<rparr>
     in sbind (outside (save_sleeve_file se s)) (\<lambda>_.
        if prepare_only then
          sbind (outside (save_sleeve_file se s)) (\<lambda>_.
          sbind (save_journal se PhNeedsPreflight) (\<lambda>_.
            reading (\<lambda>(r, w). Inr (PendingPreflight (recheck_view r view old_config before_book)))))
        else
          sbind (reading (\<lambda>(r, w). replacement_gate se (rp_request r) (recheck_view r view old_config before_book)))
            (\<lambda>_. complete_locked se))))))"

definition recover_open ::
    "saga_env \<Rightarrow> bool \<Rightarrow> bool \<Rightarrow> strategy_sleeve \<Rightarrow> binding \<Rightarrow> assistant_book \<Rightarrow> (saga, saga_answer) act" where
  "recover_open se aborting prepare_only s state book =
     sbind (outside (existing_account se)) (\<lambda>account.
     sbind (reading (recovery_checks se aborting s account)) (\<lambda>(old_config, old, new). sees (\<lambda>(r, _).
       let before_book = bind_rows (rp_request r) (rp_old_candidate r) (rp_new_candidate r) book
       in if aborting then abort_locked se s old before_book
          else restart_locked se prepare_only state old_config new before_book)))"

text \<open>What the files show of an end that was reached and not recorded.\<close>

definition physical_abort :: "replacement \<Rightarrow> binding \<Rightarrow> strategy_sleeve \<Rightarrow> bool" where
  "physical_abort r state s \<longleftrightarrow>
     state = BookBefore \<and> sv_config_version s = sc_version (rp_old_config r)
     \<and> meta_get (sv_metadata s) ''replacement_aborted_id'' = VStr (rp_id r)
     \<and> \<not> truthy (meta_get (sv_metadata s) marker)"

definition physical_commit :: "replacement \<Rightarrow> binding \<Rightarrow> strategy_sleeve \<Rightarrow> bool" where
  "physical_commit r state s \<longleftrightarrow>
     state = BookAfter \<and> sv_config_version s = sc_version (rp_new_config r)
     \<and> meta_get (sv_metadata s) ''replacement_committed_id'' = VStr (rp_id r)
     \<and> \<not> truthy (meta_get (sv_metadata s) marker)"

definition close_record :: "saga_env \<Rightarrow> replacement_phase \<Rightarrow> (saga, saga_answer) act" where
  "close_record se phase =
     sbind (sees (\<lambda>(r, _). if rp_phase r \<noteq> phase then save_journal se phase else lift (Inr ()))) (\<lambda>_. answer)"

definition recover_locked :: "saga_env \<Rightarrow> bool \<Rightarrow> bool \<Rightarrow> (saga, saga_answer) act" where
  "recover_locked se aborting prepare_only =
     sbind load_target (\<lambda>s.
     sbind (reading (\<lambda>(r, w). Inr (load_book w))) (\<lambda>book.
     sbind (on_error (reading (\<lambda>(r, w). book_state book r))
              (\<lambda>e. if evidence_error e then sbind (hold_failed se e) (\<lambda>_. lift (Inl e)) else lift (Inl e))) (\<lambda>state. sees (\<lambda>(r, _).
          if rp_phase r = PhAborted \<or> physical_abort r state s then
            sbind (lift (require (physical_abort r state s) ''replacement_aborted_state_changed''))
              (\<lambda>_. close_record se PhAborted)
          else if rp_phase r = PhCommitted \<or> physical_commit r state s then
            sbind (lift (require (physical_commit r state s) ''replacement_committed_state_changed''))
              (\<lambda>_. close_record se PhCommitted)
          else held se (recover_open se aborting prepare_only s state book)))))"

section \<open>The financial locks\<close>

text \<open>An acquisition, and a release, may raise; so may the exit of the account's transaction.\<close>

definition lock_step :: "saga_env \<Rightarrow> (replacement_world, unit) act" where
  "lock_step se = attempt se id"

definition read_journal :: "saga_env \<Rightarrow> string \<Rightarrow> (replacement_world, replacement) act" where
  "read_journal se identity = reading (\<lambda>w. load_journal (se_audit se) identity (rw_journals w))"

text \<open>Run an operation on a record as an operation on the world.\<close>

definition with_record :: "(saga, 'a) act \<Rightarrow> replacement \<Rightarrow> (replacement_world, 'a) act" where
  "with_record m r w = (case m (r, w) of ((_, w), x) \<Rightarrow> (w, x))"

definition ours :: "replacement \<Rightarrow> strategy_sleeve \<Rightarrow> bool" where
  "ours r s \<longleftrightarrow> own_marker r s
     \<and> (meta_get (sv_metadata s) ''replacement_committed_id'' = VStr (rp_id r)
        \<or> (sv_config_version s = sc_version (rp_old_config r)
           \<and> meta_get (sv_metadata s) ''candidate_id'' = VStr (rq_target_candidate (rp_request r))))"

text \<open>After an error whose run wrote the record: under the sleeve lock alone the sleeve is held.\<close>

definition freeze :: "saga_env \<Rightarrow> string \<Rightarrow> journal_file option \<Rightarrow> py_error \<Rightarrow> (replacement_world, unit) act" where
  "freeze se identity earlier e = sees (\<lambda>w.
     if map_of (rw_journals w) identity = None \<or> map_of (rw_journals w) identity = earlier then lift (Inr ())
     else
        sbind (lock_step se) (\<lambda>_.
        sbind (read_journal se identity) (\<lambda>r.
        sbind (reading (\<lambda>w. load_sleeve (rq_target_sleeve (rp_request r)) (rw_store w))) (\<lambda>s.
          if ours r s then with_record (hold_failed se e) r else lift (Inr ())))))"

fun lock_error :: "py_error \<Rightarrow> bool" where
  "lock_error (KeyError _) = True"
| "lock_error e = (is_os_error e \<or> is_value_error e)"

text \<open>The body, then the release, whose error replaces the one of the body.\<close>

definition released :: "saga_env \<Rightarrow> (replacement_world, 'a) act \<Rightarrow> (replacement_world, 'a) act" where
  "released se body =
     sbind (on_error body (\<lambda>e. sbind (lock_step se) (\<lambda>_. lift (Inl e)))) (\<lambda>x.
     sbind (lock_step se) (\<lambda>_. lift (Inr x)))"

definition financial_locks ::
    "saga_env \<Rightarrow> string \<Rightarrow> (replacement_world, 'a) act \<Rightarrow> (replacement_world, 'a) act" where
  "financial_locks se identity body =
     (if \<not> valid_replacement_id identity then lift (Inl (ValueError ''replacement_id_invalid''))
      else sees (\<lambda>w0. on_error
        (sbind (lock_step se) (\<lambda>_. released se body))
        (\<lambda>e. sbind (swallow lock_error (freeze se identity (map_of (rw_journals w0) identity) e)) (\<lambda>_. lift (Inl e)))))"

section \<open>The two entry points\<close>

definition recover_under_locks ::
    "saga_env \<Rightarrow> string \<Rightarrow> bool \<Rightarrow> bool \<Rightarrow> (replacement_world, saga_answer) act" where
  "recover_under_locks se identity aborting prepare_only =
     financial_locks se identity
       (sbind (read_journal se identity) (with_record (recover_locked se aborting prepare_only)))"

text \<open>The note a failed preflight leaves, where the record is still open.\<close>

definition note_preflight_failure :: "saga_env \<Rightarrow> string \<Rightarrow> py_error \<Rightarrow> (replacement_world, unit) act" where
  "note_preflight_failure se identity e =
     financial_locks se identity
       (sbind (read_journal se identity) (\<lambda>r.
          if rp_phase r \<in> {PhCommitted, PhAborted} then lift (Inr ())
          else with_record
            (sbind (edit_record (\<lambda>r _. r\<lparr>rp_error := Some (''preflight:'' @ se_error_text se e)\<rparr>))
               (\<lambda>_. save_journal se PhNeedsPreflight)) r))"

definition settled :: "saga_answer \<Rightarrow> (replacement_world, replacement_result) act" where
  "settled a = (case a of Settled r \<Rightarrow> lift (Inr r) | PendingPreflight _ \<Rightarrow> lift (Inl (KeyError ''pending_preflight'')))"

text \<open>\<open>action\<close> is the text of the caller.\<close>

definition recover_replacement ::
    "saga_env \<Rightarrow> string \<Rightarrow> string \<Rightarrow> (replacement_world, replacement_result) act" where
  "recover_replacement se identity action =
     sbind (lift (paper_only se)) (\<lambda>_.
     sbind (lift (require (action \<in> {''complete'', ''abort''}) ''replacement_recovery_action_invalid'')) (\<lambda>_.
     sbind (read_journal se identity) (\<lambda>_.
     sbind (recover_under_locks se identity (action = ''abort'') (action = ''complete'')) (\<lambda>prepared.
       case prepared of
         Settled r \<Rightarrow> lift (Inr r)
       | PendingPreflight v \<Rightarrow>
           sbind (on_error (run_preflight se v)
                    (\<lambda>e. sbind (note_preflight_failure se identity e) (\<lambda>_. lift (Inl e)))) (\<lambda>_.
           sbind (recover_under_locks se identity (action = ''abort'') False) settled)))))"

text \<open>The columns a definition gives a new version of the config.\<close>

definition definition_version ::
    "strategy_definition \<Rightarrow> string \<Rightarrow> metadata \<Rightarrow> strategy_config \<Rightarrow> strategy_config" where
  "definition_version df new_candidate metadata c =
     (let identifier = ''definition_'' @ take 24 (sd_content_digest df);
          one = (sd_factors df = [])
      in c\<lparr>sc_name := (case meta_get (definition_fields df) ''title'' of VStr t \<Rightarrow> t | _ \<Rightarrow> []),
           sc_universe_id := Some (''remote:'' @ new_candidate), sc_metadata := metadata,
           sc_strategy_id := ''strategy_definition'', sc_symbols := sd_symbols df,
           sc_factor_ids := (if one then [identifier] else map sf_factor_id (sd_factors df)),
           sc_weights := (if one then [(identifier, 1)]
             else dict_of (map (\<lambda>f. (sf_factor_id f, sf_weight f)) (sd_factors df))),
           sc_lookback := definition_lookback df, sc_top_n := sd_top_n df,
           sc_rebalance_frequency := sd_rebalance df, sc_max_weight_per_symbol := sd_max_weight_per_symbol df,
           sc_min_order_value := sd_min_order_value df, sc_data_provider := sd_provider df,
           sc_execution_timing := sd_execution_price df, sc_definition := Some (sd_dump df)\<rparr>)"

definition replacement_metadata ::
    "saga_env \<Rightarrow> string \<Rightarrow> replacement_request \<Rightarrow> metadata \<Rightarrow> strategy_definition \<Rightarrow> strategy_sleeve \<Rightarrow> metadata result" where
  "replacement_metadata se identity rq new df s =
     rbind (need new ''factor_id'') (\<lambda>factor. rbind (candidate_path new) (\<lambda>path.
       let artifact = meta_get new ''artifact_id'';
           md = dict_merge (sv_metadata s)
             [(''candidate_id'', VStr (rq_new_candidate rq)), (''source_digest'', VStr (rq_new_source rq)),
              (''candidate_code_digest'', VStr (rq_new_source rq)), (''factor_id'', factor),
              (''artifact_id'', if truthy artifact then artifact else VStr (rq_new_candidate rq)),
              (''artifact_code_path'', VStr (re_resolve (se_audit se) path)),
              (''definition_digest'', VStr (sd_content_digest df)),
              (''comparison_digest'', meta_get new ''comparison_digest''),
              (''replacement_committed_id'', VStr identity),
              (''replaces_candidate_id'', VStr (rq_target_candidate rq))]
       in Inr (foldl (\<lambda>d k. AList.delete k d) md
            [''version_transition'', ''current_version_observation_start'', ''current_version_performance'',
             ''performance_scope'', ''replacement_restore_blocker''])))"

text \<open>Under the locks everything is read and checked again, and the record is made.\<close>

definition prepare_record ::
    "saga_env \<Rightarrow> string \<Rightarrow> replacement_request \<Rightarrow> paper_account \<Rightarrow> replacement_world \<Rightarrow> replacement result" where
  "prepare_record se identity rq account w =
     (let book = load_book w; st = rw_store w
      in rbind (find_candidate book (rq_target_candidate rq)) (\<lambda>old.
         rbind (find_candidate book (rq_new_candidate rq)) (\<lambda>new.
         rbind (inspect_replacement_target se (rq_target_candidate rq) (Some (rq_target_sleeve rq)) w) (\<lambda>_.
         rbind (load_sleeve (rq_target_sleeve rq) st) (\<lambda>s.
         rbind (load_frozen_strategy_config (frozen_reader se) (sv_config_id s) (Some (sv_config_version s)) st) (\<lambda>config.
         rbind (target_current se w old (rq_target_candidate rq) (rq_target_sleeve rq) s) (\<lambda>_.
         rbind (require (meta_get new ''status'' = VStr ''verified'' \<and> \<not> truthy (meta_get new ''sleeve_id'')
                  \<and> meta_get new ''source_digest'' = VStr (rq_new_source rq)) ''replacement_new_candidate_changed'') (\<lambda>_.
         rbind (admission_sha new) (\<lambda>sha.
         rbind (require (sha = VStr (rq_admission rq)) ''replacement_new_candidate_changed'') (\<lambda>_.
         rbind (candidate_definition se True old) (\<lambda>old_df.
         rbind (candidate_definition se False new) (\<lambda>new_df.
         rbind (require_paper_costs new_df (se_commission_bps se) (se_slippage_bps se)) (\<lambda>_.
         rbind (require (sc_definition config \<noteq> None \<and> config_holds config old_df)
                  ''replacement_requires_frozen_strategy_definition'') (\<lambda>_.
         rbind (require (sd_content_digest old_df = rq_old_digest rq \<and> sc_version config = rq_old_version rq)
                  ''replacement_old_version_changed'') (\<lambda>_.
         rbind (require (same_contract old_df new_df) ''replacement_contract_change_unsupported'') (\<lambda>_.
         rbind (no_pending account st s) (\<lambda>_.
         rbind (replacement_gate se rq (\<lparr>pv_new_candidate = new, pv_target_candidate = old, pv_target_sleeve = s,
                pv_target_config = config, pv_book = book\<rparr>)) (\<lambda>passed.
         rbind (load_frozen_strategy_config (frozen_reader se) (sc_id config) None st) (\<lambda>latest.
         rbind (require (sc_version config \<le> sc_version latest) ''replacement_config_history_invalid'') (\<lambda>_.
         rbind (replacement_metadata se identity rq new new_df s) (\<lambda>md.
         rbind (new_version (strict_reader se) (definition_version new_df (rq_new_candidate rq) md) (now_of se w) latest) (\<lambda>next_config.
         rbind (economic_snapshot (se_audit se) account st s) (\<lambda>economic.
           let lots = sorted_lots (load_sleeve_lots (sv_id s) st)
           in Inr \<lparr>rp_schema = replacement_schema, rp_id = identity, rp_request = rq, rp_phase = PhPrepared, rp_events = [],
                   rp_admission = passed, rp_old_candidate = old, rp_new_candidate = new, rp_old_sleeve = s,
                   rp_old_config = config, rp_latest_before = latest, rp_new_config = next_config,
                   rp_economic = economic, rp_lots = lots, rp_lots_digest = lots_digest (se_audit se) lots,
                   rp_committed_at = None, rp_new_sleeve = None, rp_abort = False, rp_restored = None,
                   rp_aborted_at = None, rp_blocker = None, rp_error = None, rp_digest = []\<rparr>)))))))))))))))))))))))"

text \<open>The readings before the preflight, without locks.\<close>

definition preflight_reading :: "saga_env \<Rightarrow> replacement_request \<Rightarrow> replacement_world \<Rightarrow> preflight_view result" where
  "preflight_reading se rq w =
     rbind (inspect_replacement_target se (rq_target_candidate rq) (Some (rq_target_sleeve rq)) w) (\<lambda>target.
     rbind (require (tv_digest target = rq_old_digest rq \<and> tv_version target = rq_old_version rq)
              ''replacement_old_version_changed'') (\<lambda>_.
     let book = load_book w
     in rbind (load_sleeve (rq_target_sleeve rq) (rw_store w)) (\<lambda>s.
        rbind (load_frozen_strategy_config (frozen_reader se) (sv_config_id s) (Some (sv_config_version s)) (rw_store w)) (\<lambda>config.
        rbind (find_candidate book (rq_new_candidate rq)) (\<lambda>new.
        rbind (require (meta_get new ''source_digest'' = VStr (rq_new_source rq)) ''replacement_new_candidate_changed'') (\<lambda>_.
        rbind (admission_sha new) (\<lambda>sha.
        rbind (require (sha = VStr (rq_admission rq)) ''replacement_new_candidate_changed'') (\<lambda>_.
        rbind (find_candidate book (rq_target_candidate rq)) (\<lambda>old.
          Inr \<lparr>pv_new_candidate = new, pv_target_candidate = old, pv_target_sleeve = s, pv_target_config = config,
               pv_book = book\<rparr>)))))))))"

definition path_exists :: "string \<Rightarrow> replacement_world \<Rightarrow> bool" where
  "path_exists identity w \<longleftrightarrow> map_of (rw_journals w) identity \<noteq> None"

text \<open>The new record, written and completed.\<close>

definition start_replacement ::
    "saga_env \<Rightarrow> string \<Rightarrow> replacement_request \<Rightarrow> (replacement_world, saga_answer) act" where
  "start_replacement se identity rq =
     sbind (existing_account se) (\<lambda>account.
     sbind (reading (prepare_record se identity rq account)) (\<lambda>r.
       with_record (sbind (save_journal se PhPrepared) (\<lambda>_. held se (complete_locked se))) r))"

definition replace_verified_strategy ::
    "saga_env \<Rightarrow> replacement_request \<Rightarrow> (replacement_world, replacement_result) act" where
  "replace_verified_strategy se rq =
     (let identity = replacement_identity (se_audit se) rq
      in sbind (lift (paper_only se)) (\<lambda>_.
         sbind (lift (require (valid_replacement_id identity) ''replacement_id_invalid'')) (\<lambda>_. sees (\<lambda>w.
           if path_exists identity w then recover_replacement se identity ''complete''
           else
             sbind (lift (require (se_authority se) ''replacement_authority_disabled'')) (\<lambda>_.
             sbind (lift (require (rq_target_candidate rq \<noteq> rq_new_candidate rq) ''replacement_same_candidate'')) (\<lambda>_.
             sbind (on_error
                 (sbind (reading (preflight_reading se rq)) (\<lambda>v. sbind (run_preflight se v) (\<lambda>_. lift (Inr None))))
                 (\<lambda>e. sees (\<lambda>w. if (is_os_error e \<or> is_value_error e) \<and> path_exists identity w
                        then sbind (recover_replacement se identity ''complete'') (\<lambda>r. lift (Inr (Some r)))
                        else lift (Inl e)))) (\<lambda>joined.
               case joined of
                 Some r \<Rightarrow> lift (Inr r)
               | None \<Rightarrow>
                   sbind (financial_locks se identity (sees (\<lambda>w.
                       if path_exists identity w
                       then sbind (read_journal se identity) (with_record (recover_locked se False False))
                       else start_replacement se identity rq))) settled)))))))"

text \<open>What the paused sleeve of a record that waits for its preflight is shown as.\<close>

definition inspect_replacement_recovery_target ::
    "saga_env \<Rightarrow> string \<Rightarrow> (replacement_world, preflight_view \<times> string) act" where
  "inspect_replacement_recovery_target se identity =
     sbind (read_journal se identity) (\<lambda>r.
     sbind (lift (require (rp_phase r = PhNeedsPreflight \<and> \<not> rp_abort r) ''replacement_not_waiting_preflight'')) (\<lambda>_.
     sbind (reading (\<lambda>w. load_sleeve (rq_target_sleeve (rp_request r)) (rw_store w))) (\<lambda>s.
     sbind (lift (require (sv_status s = Paused \<and> meta_get (sv_metadata s) marker = VStr identity)
              ''replacement_recovery_marker_changed'')) (\<lambda>_.
     sbind (reading (\<lambda>w. rbind (book_state (load_book w) r) (\<lambda>state.
              require (state = BookBefore) ''replacement_binding_needs_restore''))) (\<lambda>_.
     sbind (load_account se) (\<lambda>account.
     sbind (lift (require (account \<noteq> None) ''replacement_economics_changed'')) (\<lambda>_.
     sbind (reading (\<lambda>w. economics_unchanged se s account (r, w))) (\<lambda>_.
     sbind (reading (\<lambda>w. load_frozen_strategy_config (frozen_reader se) (sc_id (rp_old_config r))
              (Some (sc_version (rp_old_config r))) (rw_store w))) (\<lambda>config.
     sbind (lift (require (same_config config (rp_old_config r)) ''replacement_old_config_changed'')) (\<lambda>_.
     sbind (lift (candidate_definition se True (rp_old_candidate r))) (\<lambda>_.
     sbind (lift (candidate_definition se False (rp_new_candidate r))) (\<lambda>_.
     sbind (lift (old_target_view r)) (\<lambda>view.
       reading (\<lambda>w. Inr (recheck_view r view config (load_book w), rp_digest r)))))))))))))))"

end
