(* ===== verification/ReplacementSafety.thy ===== *)
theory ReplacementSafety
  imports Replacement
begin

text \<open>
  What holds of every run of a replacement or a recovery, whichever writes fail: no money moves. The
  proofs go through one triple for operations that may fail, with a postcondition for the result and one
  for the state an error leaves. At the end, why an abort of a stale strategy can end up unrecoverable.
\<close>

section \<open>Triples\<close>

definition ends :: "('a \<Rightarrow> 's \<Rightarrow> bool) \<Rightarrow> ('s \<Rightarrow> bool) \<Rightarrow> 's \<times> 'a result \<Rightarrow> bool" where
  "ends Q E z \<longleftrightarrow> (case snd z of Inl _ \<Rightarrow> E (fst z) | Inr x \<Rightarrow> Q x (fst z))"

definition triple :: "('s \<Rightarrow> bool) \<Rightarrow> ('s, 'a) act \<Rightarrow> ('a \<Rightarrow> 's \<Rightarrow> bool) \<Rightarrow> ('s \<Rightarrow> bool) \<Rightarrow> bool" where
  "triple P m Q E \<longleftrightarrow> (\<forall>s. P s \<longrightarrow> ends Q E (m s))"

lemma ends_simps [simp]: "ends Q E (s, Inl e) = E s" "ends Q E (s, Inr x) = Q x s"
  by (simp_all add: ends_def)

lemma ends_mono: "ends Q E z \<Longrightarrow> (\<And>x s. Q x s \<Longrightarrow> Q' x s) \<Longrightarrow> (\<And>s. E s \<Longrightarrow> E' s) \<Longrightarrow> ends Q' E' z"
  by (auto simp: ends_def split: sum.splits)

lemma tripleI: "(\<And>s. P s \<Longrightarrow> ends Q E (m s)) \<Longrightarrow> triple P m Q E"
  by (simp add: triple_def)

lemma tripleD: "triple P m Q E \<Longrightarrow> P s \<Longrightarrow> ends Q E (m s)"
  by (simp add: triple_def)

lemma triple_conseq:
  "triple P m Q E \<Longrightarrow> (\<And>s. P' s \<Longrightarrow> P s) \<Longrightarrow> (\<And>x s. Q x s \<Longrightarrow> Q' x s) \<Longrightarrow> (\<And>s. E s \<Longrightarrow> E' s) \<Longrightarrow> triple P' m Q' E'"
  unfolding triple_def by (blast intro: ends_mono)

lemma triple_sbind:
  "triple P m Q E \<Longrightarrow> (\<And>x. triple (Q x) (f x) R E) \<Longrightarrow> triple P (sbind m f) R E"
  by (fastforce simp: triple_def sbind_def ends_def split: prod.splits sum.splits)

lemma triple_on_error:
  "triple P m Q E' \<Longrightarrow> (\<And>e. triple E' (h e) Q E) \<Longrightarrow> triple P (on_error m h) Q E"
  by (fastforce simp: triple_def on_error_def ends_def split: prod.splits sum.splits)

lemma triple_lift: "(\<And>s x. P s \<Longrightarrow> r = Inr x \<Longrightarrow> Q x s) \<Longrightarrow> (\<And>s. P s \<Longrightarrow> E s) \<Longrightarrow> triple P (lift r) Q E"
  by (auto simp: triple_def lift_def ends_def split: sum.splits)

lemma triple_reading:
  "(\<And>s x. P s \<Longrightarrow> f s = Inr x \<Longrightarrow> Q x s) \<Longrightarrow> (\<And>s. P s \<Longrightarrow> E s) \<Longrightarrow> triple P (reading f) Q E"
  by (auto simp: triple_def reading_def ends_def split: sum.splits)

lemma triple_sees: "(\<And>s. P s \<Longrightarrow> triple (\<lambda>s'. s' = s) (g s) Q E) \<Longrightarrow> triple P (sees g) Q E"
  by (simp add: triple_def sees_def)

lemma triple_outside:
  "(\<And>r. triple (\<lambda>w. P (r, w)) m (\<lambda>x w. Q x (r, w)) (\<lambda>w. E (r, w))) \<Longrightarrow> triple P (outside m) Q E"
  by (fastforce simp: triple_def outside_def ends_def split: prod.splits sum.splits)

lemma triple_with_record:
  "triple (\<lambda>(r', w). r' = r \<and> P w) m (\<lambda>x (r, w). Q x w) (\<lambda>(r, w). E w) \<Longrightarrow> triple P (with_record m r) Q E"
  by (fastforce simp: triple_def with_record_def ends_def split: prod.splits sum.splits)

lemma triple_attempt:
  "(\<And>w. P w \<Longrightarrow> Q () (f (w\<lparr>rw_tick := Suc (rw_tick w)\<rparr>))) \<Longrightarrow> (\<And>w. P w \<Longrightarrow> E (w\<lparr>rw_tick := Suc (rw_tick w)\<rparr>))
    \<Longrightarrow> triple P (attempt se f) Q E"
  by (auto simp: triple_def attempt_def Let_def)

lemma triple_edit: "(\<And>r w. P (r, w) \<Longrightarrow> Q () (f r w, w)) \<Longrightarrow> triple P (edit_record f) Q E"
  by (auto simp: triple_def edit_record_def)

lemma triple_swallow:
  "triple P m (\<lambda>_. Q) E \<Longrightarrow> (\<And>s. E s \<Longrightarrow> Q s) \<Longrightarrow> triple P (swallow caught m) (\<lambda>_. Q) E"
  unfolding swallow_def by (rule triple_on_error) (auto intro: triple_lift)

section \<open>No money moves\<close>

text \<open>What a sleeve owns and whose it is: everything but version, status, times and metadata.\<close>

definition funds :: "strategy_sleeve \<Rightarrow> strategy_sleeve" where
  "funds s = s\<lparr>sv_config_version := 1, sv_status := Running, sv_updated_at := [], sv_paused_at := None,
     sv_metadata := []\<rparr>"

definition same_money :: "replacement_world \<Rightarrow> replacement_world \<Rightarrow> bool" where
  "same_money w w' \<longleftrightarrow>
     (rw_files w')\<lparr>as_warning := None\<rparr> = (rw_files w)\<lparr>as_warning := None\<rparr>
     \<and> (rw_store w')\<lparr>ss_configs := [], ss_config_meta := [], ss_sleeves := []\<rparr>
       = (rw_store w)\<lparr>ss_configs := [], ss_config_meta := [], ss_sleeves := []\<rparr>
     \<and> (\<forall>k c. map_of (ss_configs (rw_store w)) k = Some c \<longrightarrow> map_of (ss_configs (rw_store w')) k = Some c)
     \<and> (\<forall>k. map_option funds (map_of (ss_sleeves (rw_store w')) k) = map_option funds (map_of (ss_sleeves (rw_store w)) k))"


lemma same_money_trans: "same_money w w' \<Longrightarrow> same_money w' w'' \<Longrightarrow> same_money w w''"
  by (simp add: same_money_def)

text \<open>A sleeve a record may put on file: one the store has, in other clothes.\<close>

definition fits :: "replacement_world \<Rightarrow> strategy_sleeve \<Rightarrow> bool" where
  "fits w s \<longleftrightarrow> map_option funds (map_of (ss_sleeves (rw_store w)) (sv_id s)) = Some (funds s)"

definition record_fits :: "replacement_world \<Rightarrow> replacement \<Rightarrow> bool" where
  "record_fits w r \<longleftrightarrow> fits w (rp_old_sleeve r) \<and> (\<forall>s. rp_new_sleeve r = Some s \<longrightarrow> fits w s)"


text \<open>Relative to the world a run starts in.\<close>

definition unmoved :: "replacement_world \<Rightarrow> replacement_world \<Rightarrow> bool" where
  "unmoved w0 w \<longleftrightarrow> same_money w0 w
     \<and> (\<forall>k s. map_of (ss_sleeves (rw_store w0)) k = Some s \<longrightarrow> sv_id s = k)
     \<and> (\<forall>k r. map_of (rw_journals w) k = Some (Record r) \<longrightarrow> record_fits w0 r)"

definition unmoved_saga :: "replacement_world \<Rightarrow> saga \<Rightarrow> bool" where
  "unmoved_saga w0 x \<longleftrightarrow> unmoved w0 (snd x) \<and> record_fits w0 (fst x)"

definition keeps :: "('s \<Rightarrow> bool) \<Rightarrow> ('s, 'a) act \<Rightarrow> ('a \<Rightarrow> bool) \<Rightarrow> bool" where
  "keeps P m Q \<longleftrightarrow> triple P m (\<lambda>x s. P s \<and> Q x) P"

named_theorems keeps_rules "what an operation keeps"

lemma keeps_sbind: "keeps P m Q \<Longrightarrow> (\<And>x. Q x \<Longrightarrow> keeps P (f x) R) \<Longrightarrow> keeps P (sbind m f) R"
  unfolding keeps_def by (rule triple_sbind) (auto simp: triple_def)

lemma keeps_then [keeps_rules]: "keeps P m (\<lambda>_. True) \<Longrightarrow> (\<And>x. keeps P (f x) R) \<Longrightarrow> keeps P (sbind m f) R"
  by (rule keeps_sbind)

lemma keeps_on_error [keeps_rules]: "keeps P m Q \<Longrightarrow> (\<And>e. keeps P (h e) Q) \<Longrightarrow> keeps P (on_error m h) Q"
  unfolding keeps_def by (rule triple_on_error)

lemma keeps_lift: "(\<And>x. r = Inr x \<Longrightarrow> Q x) \<Longrightarrow> keeps P (lift r) Q"
  unfolding keeps_def by (auto intro: triple_lift)

lemma keeps_reading: "(\<And>s x. P s \<Longrightarrow> f s = Inr x \<Longrightarrow> Q x) \<Longrightarrow> keeps P (reading f) Q"
  unfolding keeps_def by (auto intro: triple_reading)

lemma keeps_read [keeps_rules]: "keeps P (reading f) (\<lambda>_. True)" "keeps P (lift r) (\<lambda>_. True)" "keeps P (lift (Inl e)) Q"
  by (auto intro: keeps_reading keeps_lift)

lemma keeps_if [keeps_rules]:
  "(c \<Longrightarrow> keeps P m Q) \<Longrightarrow> (\<not> c \<Longrightarrow> keeps P m' Q) \<Longrightarrow> keeps P (if c then m else m') Q"
  by simp

lemma keeps_sees [keeps_rules]: "(\<And>s. P s \<Longrightarrow> keeps P (g s) Q) \<Longrightarrow> keeps P (sees g) Q"
  by (simp add: keeps_def triple_def sees_def)

lemma keeps_swallow [keeps_rules]: "keeps P m (\<lambda>_. True) \<Longrightarrow> keeps P (swallow caught m) (\<lambda>_. True)"
  unfolding swallow_def by (intro keeps_rules)

lemma unmoved_tick [simp]: "unmoved w0 (w\<lparr>rw_tick := n\<rparr>) = unmoved w0 w"
  by (simp add: unmoved_def same_money_def)

lemma keeps_attempt: "(\<And>w. unmoved w0 w \<Longrightarrow> unmoved w0 (f w)) \<Longrightarrow> keeps (unmoved w0) (attempt se f) (\<lambda>_. True)"
  unfolding keeps_def by (rule triple_attempt) auto

lemma keeps_lock [keeps_rules]: "keeps (unmoved w0) (lock_step se) (\<lambda>_. True)"
  unfolding lock_step_def by (rule keeps_attempt) simp

lemma keeps_save_book [keeps_rules]: "keeps (unmoved w0) (save_book se b) (\<lambda>_. True)"
  unfolding save_book_def by (rule keeps_attempt) (simp add: unmoved_def same_money_def)

lemma keeps_save_sleeve: "fits w0 s \<Longrightarrow> keeps (unmoved w0) (save_sleeve_file se s) (\<lambda>_. True)"
  unfolding save_sleeve_file_def
  by (rule keeps_attempt) (auto simp: unmoved_def same_money_def save_sleeve_def fits_def)

lemma keeps_save_config [keeps_rules]: "keeps (unmoved w0) (save_config_files se c) (\<lambda>_. True)"
proof -
  have first: "unmoved w0 (w\<lparr>rw_store := (rw_store w)\<lparr>ss_configs := AList.update k c (ss_configs (rw_store w))\<rparr>\<rparr>)"
    if "unmoved w0 w" "map_of (ss_configs (rw_store w)) k = None" for w k
    using that by (auto simp: unmoved_def same_money_def)
  have second: "unmoved w0 (w\<lparr>rw_store := fst (save_strategy_config c (rw_store w))\<rparr>)" if "unmoved w0 w" for w
    by (cases rule: save_strategy_config_cases [of "rw_store w" c])
      (use that in \<open>auto simp: unmoved_def same_money_def write_config_metadata_def Let_def\<close>)
  have new_file: "keeps (unmoved w0) (sees (\<lambda>w. if map_of (ss_configs (rw_store w)) k = None
      then attempt se (\<lambda>w. w\<lparr>rw_store := (rw_store w)\<lparr>ss_configs := AList.update k c (ss_configs (rw_store w))\<rparr>\<rparr>)
      else lift (Inr ()))) (\<lambda>_. True)" for k
    using first [of "w\<lparr>rw_tick := n\<rparr>" k for w n]
    by (auto simp: keeps_def triple_def sees_def attempt_def lift_def Let_def)
  show ?thesis
    unfolding save_config_files_def by (intro keeps_then keeps_read keeps_attempt second new_file)
qed

lemma keeps_load_account [keeps_rules]: "keeps (unmoved w0) (load_account se) (\<lambda>_. True)"
proof -
  have "(fst (store_load rt now st))\<lparr>as_warning := None\<rparr> = st\<lparr>as_warning := None\<rparr>" for rt now st
    by (auto simp: store_load_def Let_def split: option.splits sum.splits)
  then show ?thesis
    by (auto simp: keeps_def triple_def load_account_def unmoved_def same_money_def split: prod.splits) (metis fst_conv)
qed

lemma keeps_existing_account [keeps_rules]: "keeps (unmoved w0) (existing_account se) (\<lambda>_. True)"
  unfolding existing_account_def by (intro keeps_rules) (auto intro: keeps_lift split: option.splits)

lemma keeps_outside: "keeps (unmoved w0) m Q \<Longrightarrow> keeps (unmoved_saga w0) (outside m) Q"
  unfolding keeps_def
  by (rule triple_outside) (fastforce simp: triple_def unmoved_saga_def ends_def split: sum.splits)

lemma keeps_edit:
  "(\<And>r w. record_fits w0 r \<Longrightarrow> record_fits w0 (f r w)) \<Longrightarrow> keeps (unmoved_saga w0) (edit_record f) (\<lambda>_. True)"
  unfolding keeps_def by (rule triple_edit) (auto simp: unmoved_saga_def)

lemma record_fits_stamped [simp]: "record_fits w0 (stamped se phase r w) = record_fits w0 r"
  by (simp add: stamped_def Let_def record_fits_def)

lemma keeps_save_journal [keeps_rules]: "keeps (unmoved_saga w0) (save_journal se phase) (\<lambda>_. True)"
proof -
  have "unmoved w0 (w\<lparr>rw_journals := AList.update k (Record r) (rw_journals w)\<rparr>)" if "unmoved w0 w" "record_fits w0 r" for w k r
    using that by (auto simp: unmoved_def same_money_def)
  then have "keeps (unmoved_saga w0) (write_record se) (\<lambda>_. True)"
    unfolding write_record_def
    by (intro keeps_sees) (auto simp: unmoved_saga_def intro!: keeps_rules keeps_outside keeps_attempt)
  then show ?thesis
    unfolding save_journal_def by (intro keeps_rules keeps_edit) simp_all
qed

lemma load_sleeve_fits: "unmoved w0 w \<Longrightarrow> load_sleeve k (rw_store w) = Inr s \<Longrightarrow> fits w0 s"
proof -
  assume unmoved: "unmoved w0 w" and "load_sleeve k (rw_store w) = Inr s"
  then have "map_of (ss_sleeves (rw_store w)) k = Some s"
    by (simp add: load_sleeve_def split: option.splits)
  moreover have "map_option funds (map_of (ss_sleeves (rw_store w)) k) = map_option funds (map_of (ss_sleeves (rw_store w0)) k)"
    using unmoved by (simp add: unmoved_def same_money_def)
  ultimately obtain s0 where s0: "map_of (ss_sleeves (rw_store w0)) k = Some s0" "funds s0 = funds s"
    by (cases "map_of (ss_sleeves (rw_store w0)) k") auto
  then have "sv_id s0 = k"
    using unmoved by (simp add: unmoved_def)
  moreover have "sv_id s = sv_id s0"
    using arg_cong [OF s0(2), of sv_id] by (simp add: funds_def)
  ultimately show "fits w0 s"
    using s0 by (simp add: fits_def)
qed

lemma keeps_load_target: "keeps (unmoved_saga w0) load_target (fits w0)"
  unfolding load_target_def by (rule keeps_reading) (auto simp: unmoved_saga_def dest: load_sleeve_fits)

lemma fits_dressed [simp]:
  "fits w0 (s\<lparr>sv_status := a\<rparr>) = fits w0 s" "fits w0 (s\<lparr>sv_metadata := b\<rparr>) = fits w0 s"
  "fits w0 (s\<lparr>sv_paused_at := c\<rparr>) = fits w0 s" "fits w0 (s\<lparr>sv_updated_at := d\<rparr>) = fits w0 s"
  "fits w0 (s\<lparr>sv_config_version := e\<rparr>) = fits w0 s"
  by (simp_all add: fits_def funds_def)

lemma keeps_hold_sleeve [keeps_rules]: "keeps (unmoved_saga w0) (hold_sleeve se) (\<lambda>_. True)"
  unfolding hold_sleeve_def
  by (intro keeps_rules keeps_sbind [OF keeps_load_target] keeps_outside keeps_save_sleeve) (simp add: held_sleeve_def)

lemma keeps_hold_failed [keeps_rules]: "keeps (unmoved_saga w0) (hold_failed se e) (\<lambda>_. True)"
  unfolding hold_failed_def by (intro keeps_rules keeps_edit) (simp add: record_fits_def)

lemma keeps_held: "keeps (unmoved_saga w0) m Q \<Longrightarrow> keeps (unmoved_saga w0) (held se m) Q"
  unfolding held_def by (intro keeps_rules)

lemma keeps_answer [keeps_rules]: "keeps P answer (\<lambda>_. True)"
  unfolding answer_def by (rule keeps_rules)

lemma keeps_bind_book [keeps_rules]: "keeps (unmoved_saga w0) (bind_book se) (\<lambda>_. True)"
  unfolding bind_book_def by (auto intro!: keeps_rules keeps_outside)

lemma keeps_resume: "fits w0 s \<Longrightarrow> keeps (unmoved_saga w0) (resume se c s) (\<lambda>_. True)"
  unfolding resume_def
  by (auto simp: Let_def resumed_sleeve_def record_fits_def
      intro!: keeps_rules keeps_outside keeps_save_sleeve keeps_edit)

lemma keeps_complete [keeps_rules]: "keeps (unmoved_saga w0) (complete_locked se) (\<lambda>_. True)"
  unfolding complete_locked_def
  by (intro keeps_sbind [OF keeps_load_target])
    (auto simp: Let_def marked_sleeve_def intro!: keeps_rules keeps_outside keeps_save_sleeve keeps_resume)

lemma keeps_old_sleeve:
  "keeps (unmoved_saga w0) (reading (\<lambda>(r, w). checked_sleeve (rp_old_sleeve r))) (fits w0)"
  "keeps (unmoved_saga w0) (reading (\<lambda>(r, w). old_target_view r)) (fits w0)"
  by (rule keeps_reading; auto simp: unmoved_saga_def record_fits_def checked_sleeve_def old_target_view_def
      marked_sleeve_def split: if_splits)+

lemma fits_restored [simp]: "fits w0 (restored_sleeve r blocker now s) = fits w0 s"
  by (simp add: restored_sleeve_def Let_def split: option.split)

lemma keeps_abort [keeps_rules]: "keeps (unmoved_saga w0) (abort_locked se s old book) (\<lambda>_. True)"
  unfolding abort_locked_def
  by (intro keeps_rules keeps_sbind [OF keeps_old_sleeve(1)])
    (auto simp: Let_def record_fits_def intro!: keeps_rules keeps_outside keeps_save_sleeve keeps_edit)

lemma keeps_restart [keeps_rules]: "keeps (unmoved_saga w0) (restart_locked se only state c df book) (\<lambda>_. True)"
  unfolding restart_locked_def
  by (intro keeps_rules keeps_sbind [OF keeps_old_sleeve(2)] keeps_outside)
    (auto simp: Let_def intro!: keeps_rules keeps_outside keeps_save_sleeve)

lemma keeps_recover_open [keeps_rules]: "keeps (unmoved_saga w0) (recover_open se aborting only s state book) (\<lambda>_. True)"
  unfolding recover_open_def by (auto simp: Let_def intro!: keeps_rules keeps_outside)

lemma keeps_recover [keeps_rules]: "keeps (unmoved_saga w0) (recover_locked se aborting only) (\<lambda>_. True)"
  unfolding recover_locked_def close_record_def
  by (intro keeps_sbind [OF keeps_load_target]) (auto intro!: keeps_rules keeps_held)

lemma keeps_with_record: "keeps (unmoved_saga w0) m Q \<Longrightarrow> record_fits w0 r \<Longrightarrow> keeps (unmoved w0) (with_record m r) Q"
  unfolding keeps_def
  by (rule triple_with_record) (fastforce simp: triple_def unmoved_saga_def ends_def split: sum.splits)

lemma load_journal_stored: "load_journal re k files = Inr r \<Longrightarrow> map_of files k = Some (Record r)"
  by (auto simp: load_journal_def rbind_Inr split: if_splits option.splits journal_file.splits)

lemma keeps_read_journal: "keeps (unmoved w0) (read_journal se identity) (record_fits w0)"
  unfolding read_journal_def by (rule keeps_reading) (auto simp: unmoved_def dest: load_journal_stored)

lemma keeps_any_journal [keeps_rules]: "keeps P (read_journal se identity) (\<lambda>_. True)"
  unfolding read_journal_def by (rule keeps_rules)

lemma keeps_freeze [keeps_rules]: "keeps (unmoved w0) (freeze se identity before e) (\<lambda>_. True)"
  unfolding freeze_def
  by (intro keeps_rules keeps_sbind [OF keeps_read_journal] keeps_with_record)

lemma keeps_locks [keeps_rules]: "keeps (unmoved w0) body (\<lambda>_. True) \<Longrightarrow> keeps (unmoved w0) (financial_locks se identity body) (\<lambda>_. True)"
  unfolding financial_locks_def released_def by (intro keeps_rules)


lemma keeps_note [keeps_rules]: "keeps (unmoved w0) (note_preflight_failure se identity e) (\<lambda>_. True)"
  unfolding note_preflight_failure_def
  by (intro keeps_locks keeps_sbind [OF keeps_read_journal] keeps_if keeps_read keeps_with_record keeps_then keeps_edit
      keeps_save_journal) (simp_all add: record_fits_def)

lemma keeps_settled [keeps_rules]: "keeps P (settled a) (\<lambda>_. True)"
  by (cases a) (simp_all add: settled_def keeps_read)




lemma prepare_record_fits:
  "unmoved w0 w \<Longrightarrow> prepare_record se identity rq a w = Inr r \<Longrightarrow> record_fits w0 r"
  by (auto simp: prepare_record_def record_fits_def rbind_Inr Let_def dest: load_sleeve_fits)

lemma keeps_start [keeps_rules]: "keeps (unmoved w0) (start_replacement se identity rq) (\<lambda>_. True)"
proof -
  have "keeps (unmoved w0) (reading (prepare_record se identity rq a)) (record_fits w0)" for a
    by (rule keeps_reading) (rule prepare_record_fits)
  then show ?thesis
    unfolding start_replacement_def
    by (intro keeps_then [OF keeps_existing_account] keeps_sbind [where Q = "record_fits w0"] keeps_with_record)
      (auto intro!: keeps_rules keeps_held)
qed








section \<open>A stale abort\<close>

text \<open>
  The abort of a replacement whose old definition no longer validates puts
  \<open>replacement_restore_blocker\<close> on the sleeve it restores. When the write of the final record fails
  after that, the sleeve is held under the marker again, and no recovery, neither to complete nor to
  abort, gets past its checks any more: the comparison with the recorded sleeve takes out the marker and
  the abort's own id, but not the blocker. The sleeve stays paused.
\<close>

definition restore_blocker :: string where
  "restore_blocker = ''replacement_restore_blocker''"

lemma py_eq_dict_get:
  assumes "py_eq (VDict d) (VDict e)" and "map_of d k = Some v"
  shows "\<exists>u. map_of e k = Some u \<and> py_eq v u"
  using assms map_of_SomeD [OF assms(2)] by (auto split: option.splits)

lemma comparable_blocker:
  "map_of (sv_metadata (comparable r s)) restore_blocker = map_of (sv_metadata s) restore_blocker"
  by (simp add: comparable_def Let_def delete_conv' update_conv' restore_blocker_def marker_def split: pyval.split)

lemma blocked_sleeve_fails_checks:
  assumes "map_of (sv_metadata s) restore_blocker = Some v" and "map_of (sv_metadata (rp_old_sleeve (fst x))) restore_blocker = None"
    and "sv_config_version s \<noteq> sc_version (rp_new_config (fst x))"
  shows "recovery_checks se aborting s account x \<noteq> Inr z"
proof
  assume "recovery_checks se aborting s account x = Inr z"
  then have "sleeve_same (comparable (fst x) s) (comparable (fst x) (expected_sleeve (fst x) s))"
    by (auto simp: recovery_checks_def rbind_Inr Let_def)
  then have "py_eq (VDict (sv_metadata (comparable (fst x) s))) (VDict (sv_metadata (comparable (fst x) (rp_old_sleeve (fst x)))))"
    using assms(3) by (simp add: sleeve_same_def same_document_def expected_sleeve_def)
  from py_eq_dict_get [OF this, of restore_blocker v] assms(1,2) show False
    by (simp add: comparable_blocker)
qed

lemma stale_abort_strands_sleeve:
  assumes "map_of (sv_metadata (rp_old_sleeve r)) restore_blocker = None"
    and "sv_config_version (rp_old_sleeve r) \<noteq> sc_version (rp_new_config r)"
    and "rp_old_sleeve (fst y) = rp_old_sleeve r" and "rp_new_config (fst y) = rp_new_config r"
  shows "recovery_checks se' aborting (held_sleeve se x (restored_sleeve r (Some b) now (rp_old_sleeve r))) account y
    \<noteq> Inr z"
proof (rule blocked_sleeve_fails_checks)
  show "map_of (sv_metadata (held_sleeve se x (restored_sleeve r (Some b) now (rp_old_sleeve r)))) restore_blocker
      = Some (VStr b)"
    by (simp add: held_sleeve_def restored_sleeve_def restore_blocker_def marker_def update_conv' Let_def)
qed (use assms in \<open>simp_all add: held_sleeve_def restored_sleeve_def Let_def\<close>)

section \<open>Witness\<close>









end
