(* ===== verification/Spec2Isabelle.thy ===== *)
theory Spec2Isabelle
  imports Prelude Kernel Risk Broker OrderManager Account AccountService Policy Definition Sleeves
    LotBook SleeveStore SleeveService Execution Commit AccountDocument AccountStore AccountView
    AccountRequests Operations Recovery
    ReplacementJournal Replacement ReplacementSafety
begin

text \<open>
  The paper-trading core of the quant platform (\<open>src/src/quant_system/\<close>).

  \<^bold>\<open>The program.\<close> Strategies turn target weights into orders with a pure planner and pure fill
  arithmetic (\<open>trading_kernel/\<close>). Orders pass the risk engine (\<open>risk/\<close>) and an order manager and
  are filled by a simulated broker (\<open>execution/\<close>). A persistent paper account books the fills under
  sources, the manual book and one per strategy sleeve; an account service places manual orders,
  works limit orders and rebalances. Sleeves are isolated cash segments with lots of their own: a
  sleeve service manages their life cycle, cash and plans, and an execution service prepares a plan
  against price evidence without locks and commits it under the caller's locks, with a journal from
  which a crash is recovered. The account lives in a JSON file with a backup, or in that file mirrored
  to a database; the request handlers load it under a lock, run one service operation, save it and
  answer with a priced view of it. A batch job prepares the due plans, and under the locks loads and
  recovers the account, expires overdue plans, decides the prepared ones against the safety switches,
  saves the account and closes the journals. A replacement puts another version of a strategy under a
  running sleeve: a saga over account, sleeve files and the book of candidates with a write-ahead record,
  which is completed or aborted after a failure and read back as the version history of the sleeve.

  \<^bold>\<open>Theories and code.\<close>
  \<^item> \<open>Prelude\<close>: Python values, exceptions as \<open>py_error\<close>, dictionaries as association lists, floats
    that may be infinite, strings, the machine locales (\<open>invariant_machine\<close>, \<open>decreasing_machine\<close>,
    \<open>simulation\<close>).
  \<^item> \<open>Kernel\<close>: \<open>trading_kernel/models.py\<close>, \<open>accounting.py\<close>, \<open>weights.py\<close>: \<open>plan_rebalance\<close>, the weight
    caps, \<open>roll_position_on_fill\<close>, \<open>apply_fill_to_portfolio\<close>.
  \<^item> \<open>Risk\<close>: \<open>execution/models.py\<close>, \<open>risk/models.py\<close>, \<open>risk/engine.py\<close>: orders and fills as checked
    records, \<open>check_order\<close>, \<open>check_portfolio\<close>.
  \<^item> \<open>Broker\<close>: \<open>execution/portfolio.py\<close>, \<open>execution/paper_broker.py\<close>; managed orders live in a heap,
    as the broker and the manager share them.
  \<^item> \<open>OrderManager\<close>: \<open>execution/order_manager.py\<close>, \<open>execution/broker.py\<close>, over any broker adapter
    (a locale, interpreted on the paper broker).
  \<^item> \<open>Account\<close>: \<open>execution/account.py\<close>: \<open>PaperAccount\<close> with positions, sources, sleeve cash, pending
    orders and ledger.
  \<^item> \<open>AccountService\<close>: \<open>execution/account_service.py\<close>; price feed, clock and ids are arguments.
  \<^item> \<open>Policy\<close>: \<open>execution/paper_execution_policy.py\<close>.
  \<^item> \<open>Definition\<close>: \<open>research/definition_paper.py\<close> and the fields it reads of
    \<open>research/strategy_definition.py\<close>; the recipe validation is the argument \<open>validate\<close>.
  \<^item> \<open>Sleeves\<close>, \<open>LotBook\<close>, \<open>SleeveService\<close>: \<open>execution/paper_strategy_sleeves.py\<close>, its models with their
    JSON documents, \<open>SleeveLotBook\<close>, \<open>PaperStrategySleeveService\<close>.
  \<^item> \<open>SleeveStore\<close>: \<open>execution/paper_strategy_sleeve_storage.py\<close>; the directory tree is the record
    \<open>sleeve_store\<close> of maps from paths to the models in the files.
  \<^item> \<open>Execution\<close>, \<open>Commit\<close>: \<open>execution/paper_strategy_execution_service.py\<close>, preparation and commit.
  \<^item> \<open>AccountDocument\<close>: the JSON documents of the account (\<open>execution/account.py\<close>) and the inspection of
    a raw document, \<open>inspect_persisted_paper_account_allocation\<close> (\<open>execution/account_repository.py\<close>).
  \<^item> \<open>AccountStore\<close>: \<open>execution/account_storage.py\<close> (primary, backup, archive and corrupt copies are the
    record \<open>file_store\<close>; which renames and writes the disk denies is the record \<open>disk\<close>) and
    \<open>execution/account_dual_write_repository.py\<close> over any mirror; the locale \<open>account_repository\<close> is the
    contract of \<open>PaperAccountRepository\<close>, interpreted on both.
  \<^item> \<open>AccountView\<close>: \<open>execution/account_snapshot.py\<close> and the equity curve and activity of
    \<open>api/routes/paper.py\<close>.
  \<^item> \<open>AccountRequests\<close>: the handlers of \<open>api/routes/paper.py\<close> that change the account or create a sleeve,
    over any repository (the record \<open>repository\<close>; the locale \<open>served_repository\<close> extends
    \<open>account_repository\<close>).
  \<^item> \<open>Operations\<close>: \<open>execution/paper_strategy_operations.py\<close> with \<open>paper_observation.py\<close> and
    \<open>paper_observation_safety.py\<close>: \<open>process_pending_executions_once\<close>, \<open>recover_pending_once\<close>,
    \<open>create_execution_once\<close>, the observer; \<open>Recovery\<close>: the journals a batch leaves and their replay.
  \<^item> \<open>ReplacementJournal\<close>, \<open>Replacement\<close>, \<open>ReplacementSafety\<close>: \<open>execution/strategy_replacement.py\<close>, with
    \<open>load_book\<close>, \<open>save_book\<close> and \<open>_require_clean_persisted_account_allocation\<close> of
    \<open>execution/assistant_remote.py\<close> and \<open>frozen_definition_identity\<close> of
    \<open>research/fingerprint_grading.py\<close>. The first holds the records, the guard that freezes a sleeve and the
    audits of the finished records, the second the operations, the third what holds of every run. The
    record \<open>replacement_world\<close> is everything on disk; \<open>replacement_env\<close> and \<open>saga_env\<close> hold digests, model
    validation, clock, safety switches, which writes fail and the admission checks that run without locks.
    A killed process is a run in which every write from some moment on fails.

  \<^bold>\<open>What the lemmas show.\<close> The planner reaches its targets, caps hold. The broker keeps cash and
  positions in its bounds, fills honour their orders, a session creates no value, and the risk gate
  decides. A fill keeps the account's book value and the sleeve cash book, a sell of one source
  leaves the others alone, the ledger replays to the account. A rebalance is all or nothing. The
  policy is equivalent to a declarative limit check. The lot book implements a map of holdings; the
  account's documents read back; config versions never change; the sleeve life cycle follows a step
  relation. Preparation ends within its retries and binds its evidence; a commit is all or nothing,
  executes a plan at most once, moves account and sleeve cash together, and recovery after a crash
  gives the result of the uninterrupted run. A request on a stored account refines the operation on the
  account itself, also through the dual-write repository; a corrupt file costs at most one save; an
  order request either changes nothing or stores the account it answers with; the replayed equity curve
  ends at the account's own equity. A batch fills on the target date only and only what the switches
  and the policy allow; whatever it raises, the next recovery makes account and sleeve files agree.
  A replacement or its recovery moves no money, whichever of its writes fail; the bridge between two
  observations of a sleeve decides reachability over audited changes; only evidence naming a sleeve
  freezes it; a verified version timeline is one chain.
  Theorems that show a defect of the code are closed
  statements on concrete states; the manifest lists them as findings.

  \<^bold>\<open>Bounds and fuel.\<close> No definition uses fuel: loops over data are structural recursion, the retry loop
  terminates by the measure of the retries left, \<open>py_eq\<close> by the size of the values, the search
  over identity changes by the nodes not yet visited, the chains of replacement records by the records
  not yet seen. Waiting for the
  account lock is a \<open>partial_function\<close>, since its clock is an argument: it ends once the clock passes
  the deadline (\<open>lock_wait_ends\<close>). The rename loop runs the code's ten attempts. Floats are exact
  rationals (\<open>pyfloat\<close> where the code tests \<open>isfinite\<close>), so rounding and overflow are not modelled and
  the tolerances of the code (\<open>1e-9\<close>) are kept as they are. Strings are ASCII. One call reads the
  clock once. Uuids, clock, price feeds, exchange calendar, digests and the text of foreign
  exceptions are arguments.

  \<^bold>\<open>Not modelled.\<close> The bytes of the files (a sleeve store holds models and an account file holds its
  JSON value or is undecodable, as \<open>validate_sleeve_document\<close>, \<open>validate_plan_document\<close> and \<open>account_reads_back\<close> justify), operating
  system locks beyond the wait for one (a handler is one step), the Postgres repository, the UI
  catalogue of configs, performance and observation reports, the replay pipeline on pandas frames,
  signal generation, research and backtests, prediction markets, options, the agent runtime, the rest
  of the API and the jobs: I/O, numeric code on data frames, or subsystems outside the trading core.

  Where a modelled operation leaves a failure out: \<open>keep_previous\<close> moves a corrupt primary away and
  writes the backup without failing (the denied renames of \<open>disk\<close> are those of the files being saved);
  \<open>commit_execution\<close> raises before its journal is written or not at all, the writes of sleeve, lots and
  plan after it go through unless the process dies between two of them (\<open>recovery_completes_commit\<close>);
  the context provider of a batch is a total function read once per plan, so an invalid workspace
  directory does not abort the batch; \<open>with_account\<close> answers with a view that can always be built once
  the account is saved; the readers of stored documents (\<open>read_rat\<close>) refuse infinite amounts and NaN,
  which pydantic lets through. Whether a replacement is pending for a sleeve is an argument of the sleeve
  operations; \<open>sleeve_replacement_pending\<close> computes it from the records.
\<close>

end
